(* ===== verification/Prelude.thy ===== *)
theory Prelude
  imports Main "HOL-Library.Word"
begin

text \<open>
  The shared vocabulary of the development: the Go values that every component reads
  (times, durations, maps with their zero default, strings and decimal numbers) and the
  generic lemmas on them. Nothing here models a file of the repository; it models the
  parts of the Go language and of its standard library (\<open>time\<close>, \<open>strings\<close>,
  \<open>strconv\<close>) that the modelled files use.
\<close>

section \<open>Collections of the development\<close>

named_theorems go_simps \<open>unfolding rules of the Go library functions\<close>
named_theorems zero_defs \<open>the Go zero values of the structs\<close>
named_theorems status_simps \<open>unfolding rules of the status deriver\<close>
named_theorems netip_simps \<open>unfolding rules of the address library\<close>
named_theorems netpol_simps \<open>unfolding rules of the policy generator\<close>
named_theorems gate_simps \<open>unfolding rules of the invariant gate\<close>
named_theorems coord_simps \<open>unfolding rules of the snapshot coordinator\<close>

section \<open>Integers\<close>

text \<open>
  Go's fixed-width integers are kept at their width where the code adds them up. Where the
  code only compares them or counts one by one, they are \<open>int\<close>.
\<close>

type_synonym int64 = "64 word"

section \<open>Time\<close>

text \<open>
  A \<open>time.Time\<close> is the number of nanoseconds since the zero time of Go (the first of
  January of the year 1, UTC), so \<open>IsZero\<close> is equality with 0. A \<open>time.Duration\<close> is a
  number of nanoseconds. \<open>Sub\<close> saturates at the ends of the \<open>int64\<close> range, as the
  standard library documents.
\<close>

type_synonym gotime = int
type_synonym duration = int

abbreviation (input) second :: duration where "second \<equiv> 1000000000"
abbreviation (input) minute :: duration where "minute \<equiv> 60 * second"
abbreviation (input) hour :: duration where "hour \<equiv> 60 * minute"

definition minDuration :: duration where "minDuration = - (2 ^ 63)"
definition maxDuration :: duration where "maxDuration = 2 ^ 63 - 1"

definition time_Sub :: "gotime \<Rightarrow> gotime \<Rightarrow> duration" where
  "time_Sub t u = max minDuration (min maxDuration (t - u))"

definition time_Add :: "gotime \<Rightarrow> duration \<Rightarrow> gotime" where
  [go_simps]: "time_Add t d = t + d"

definition time_Before :: "gotime \<Rightarrow> gotime \<Rightarrow> bool" where
  [go_simps]: "time_Before t u \<longleftrightarrow> t < u"

definition time_After :: "gotime \<Rightarrow> gotime \<Rightarrow> bool" where
  [go_simps]: "time_After t u \<longleftrightarrow> u < t"

definition time_IsZero :: "gotime \<Rightarrow> bool" where
  [go_simps]: "time_IsZero t \<longleftrightarrow> t = 0"

text \<open>Comparing a saturated difference with a duration in range is comparing the times.\<close>

lemma time_Sub_ge_iff:
  assumes "d \<le> maxDuration" "minDuration < d"
  shows "d \<le> time_Sub t u \<longleftrightarrow> d \<le> t - u"
  using assms by (auto simp: time_Sub_def minDuration_def maxDuration_def)

lemma time_Sub_gt_iff:
  assumes "d < maxDuration" "minDuration \<le> d"
  shows "d < time_Sub t u \<longleftrightarrow> d < t - u"
  using assms by (auto simp: time_Sub_def minDuration_def maxDuration_def)

lemma time_Sub_mono: "t \<le> t' \<Longrightarrow> time_Sub t u \<le> time_Sub t' u"
  by (auto simp: time_Sub_def)

section \<open>Maps\<close>

text \<open>
  A Go \<open>map[string]string\<close> is a partial map. Reading a missing key gives the empty
  string.
\<close>

type_synonym strmap = "string \<Rightarrow> string option"

definition map_get :: "strmap \<Rightarrow> string \<Rightarrow> string" where
  "map_get m k = (case m k of None \<Rightarrow> '''' | Some v \<Rightarrow> v)"

lemma map_get_update [simp]: "map_get (m(k \<mapsto> v)) k = v"
  by (simp add: map_get_def)

lemma map_get_update_other [simp]: "k \<noteq> k' \<Longrightarrow> map_get (m(k \<mapsto> v)) k' = map_get m k'"
  by (simp add: map_get_def)

lemma map_get_empty [simp]: "map_get Map.empty k = ''''"
  by (simp add: map_get_def)

section \<open>Strings\<close>

definition str_HasPrefix :: "string \<Rightarrow> string \<Rightarrow> bool" where
  "str_HasPrefix s p \<longleftrightarrow> take (length p) s = p"

definition str_HasSuffix :: "string \<Rightarrow> string \<Rightarrow> bool" where
  "str_HasSuffix s p \<longleftrightarrow> length p \<le> length s \<and> drop (length s - length p) s = p"

definition str_TrimSuffix :: "string \<Rightarrow> string \<Rightarrow> string" where
  "str_TrimSuffix s p = (if str_HasSuffix s p then take (length s - length p) s else s)"

fun str_Contains :: "string \<Rightarrow> string \<Rightarrow> bool" where
  "str_Contains [] sub = (sub = [])"
| "str_Contains (c # s) sub = (str_HasPrefix (c # s) sub \<or> str_Contains s sub)"

fun str_Join :: "string list \<Rightarrow> string \<Rightarrow> string" where
  "str_Join [] sep = []"
| "str_Join [s] sep = s"
| "str_Join (s # t # ss) sep = s @ sep @ str_Join (t # ss) sep"

lemma str_HasPrefix_append [simp]: "str_HasPrefix (p @ s) p"
  by (simp add: str_HasPrefix_def)

lemma str_HasPrefix_iff: "str_HasPrefix s p \<longleftrightarrow> (\<exists>r. s = p @ r)"
proof
  assume "str_HasPrefix s p"
  then have "s = p @ drop (length p) s"
    unfolding str_HasPrefix_def by (metis append_take_drop_id)
  then show "\<exists>r. s = p @ r" ..
qed auto

lemma str_Contains_iff: "str_Contains s sub \<longleftrightarrow> (\<exists>a b. s = a @ sub @ b)"
proof (induction s)
  case (Cons c s)
  show ?case
  proof
    assume "str_Contains (c # s) sub"
    then consider "str_HasPrefix (c # s) sub" | "str_Contains s sub" by auto
    then show "\<exists>a b. c # s = a @ sub @ b"
    proof cases
      case 1
      then show ?thesis unfolding str_HasPrefix_iff by (metis append_Nil)
    next
      case 2
      then show ?thesis using Cons.IH by (metis append_Cons)
    qed
  next
    assume "\<exists>a b. c # s = a @ sub @ b"
    then obtain a b where "c # s = a @ sub @ b" by blast
    then show "str_Contains (c # s) sub"
    proof (cases a)
      case Nil
      with \<open>c # s = a @ sub @ b\<close> have "str_HasPrefix (c # s) sub"
        by (simp add: str_HasPrefix_def)
      then show ?thesis by simp
    next
      case ac: (Cons d a')
      with \<open>c # s = a @ sub @ b\<close> have "s = a' @ sub @ b" by simp
      then have "str_Contains s sub" using Cons.IH by blast
      then show ?thesis by simp
    qed
  qed
qed auto

section \<open>Decimal numbers\<close>

text \<open>\<open>strconv.Itoa\<close> on the naturals and on the integers.\<close>

definition digit_char :: "nat \<Rightarrow> char" where
  "digit_char d = char_of (48 + d)"

fun nat_itoa :: "nat \<Rightarrow> string" where
  "nat_itoa n = (if n < 10 then [digit_char n] else nat_itoa (n div 10) @ [digit_char (n mod 10)])"

declare nat_itoa.simps [simp del]

definition itoa :: "int \<Rightarrow> string" where
  "itoa i = (if i < 0 then ''-'' @ nat_itoa (nat (- i)) else nat_itoa (nat i))"

definition is_digit :: "char \<Rightarrow> bool" where
  "is_digit c \<longleftrightarrow> 48 \<le> (of_char c :: nat) \<and> (of_char c :: nat) \<le> 57"

definition digit_val :: "char \<Rightarrow> nat" where
  "digit_val c = of_char c - 48"

lemma of_char_digit_char [simp]: "d < 10 \<Longrightarrow> (of_char (digit_char d) :: nat) = 48 + d"
  by (simp add: digit_char_def)

lemma is_digit_digit_char [simp]: "d < 10 \<Longrightarrow> is_digit (digit_char d)"
  by (simp add: is_digit_def)

lemma digit_val_digit_char [simp]: "d < 10 \<Longrightarrow> digit_val (digit_char d) = d"
  by (simp add: digit_val_def)

lemma nat_itoa_nonempty [simp]: "nat_itoa n \<noteq> []"
  by (subst nat_itoa.simps) simp

lemma nat_itoa_digits: "c \<in> set (nat_itoa n) \<Longrightarrow> is_digit c"
proof (induction n rule: nat_itoa.induct)
  case (1 n)
  then show ?case by (cases "n < 10") (auto simp: nat_itoa.simps [of n])
qed

end
