(* ===== verification/Api_Types.thy ===== *)
theory Api_Types
  imports Prelude
begin

text \<open>
  The custom resources of setec (\<open>src/api/v1alpha1\<close>): Sandbox, SandboxClass and
  Snapshot, with the methods the types carry. A struct is a record with one field per field
  of the source, prefixed with a short name of the struct; a pointer field is an option, a
  slice a list and a map a partial map. A string-typed enumeration is a datatype with the
  constants of the source and a constructor for every other string, since the code has
  branches for values outside the enumeration (the empty string among them).

  A \<open>resource.Quantity\<close> of Kubernetes is its exact amount in nano units, the finest
  scale of that type, so \<open>Cmp\<close>, \<open>Sign\<close> and \<open>Add\<close> are the comparison, the sign
  and the sum of integers.
\<close>

section \<open>Shared Kubernetes data\<close>

type_synonym quantity = int

abbreviation (input) whole :: "int \<Rightarrow> quantity" where "whole n \<equiv> n * 1000000000"
abbreviation (input) gibibyte :: quantity where "gibibyte \<equiv> whole 1073741824"

record ObjectMeta =
  om_Name :: string
  om_Namespace :: string
  om_UID :: string
  om_Labels :: strmap
  om_Annotations :: strmap
  om_CreationTimestamp :: gotime
  om_DeletionTimestamp :: "gotime option"
  om_Finalizers :: "string list"
  om_Controller :: string \<comment> \<open>the UID of the controlling owner, or the empty string\<close>

record EnvVar =
  ev_Name :: string
  ev_Value :: string
  ev_ValueFrom :: bool \<comment> \<open>whether the variable names a source instead of a value\<close>

record LabelSelector =
  ls_MatchLabels :: "(string \<times> string) list"
  ls_MatchExpressions :: "(string \<times> string \<times> string list) list"

datatype IntOrString = IntPort int | StrPort string

record Toleration =
  tol_Key :: string
  tol_Operator :: string
  tol_Value :: string
  tol_Effect :: string

record Condition =
  co_Type :: string
  co_Status :: string
  co_Reason :: string
  co_Message :: string

section \<open>Sandbox\<close>

abbreviation AnnotationLastActivity :: string where
  "AnnotationLastActivity \<equiv> ''setec.zeroroot.ai/last-activity''"

datatype NetworkMode =
    NetworkModeExternalOnly
  | NetworkModeEgressAllowList
  | NetworkModeNone
  | NetworkModeOther string

datatype SandboxPhase =
    SandboxPhasePending
  | SandboxPhaseRunning
  | SandboxPhaseCompleted
  | SandboxPhaseFailed
  | SandboxPhasePaused
  | SandboxPhaseSnapshotting
  | SandboxPhaseRestoring
  | SandboxPhaseSuspended
  | SandboxPhaseOther string

datatype SandboxDesiredState =
    SandboxDesiredStateRunning
  | SandboxDesiredStatePaused
  | SandboxDesiredStateSuspended
  | SandboxDesiredStateOther string

datatype SessionRecoveryKind =
    SessionRecoveryResumedFromCheckpoint
  | SessionRecoveryRestartedFromWorkspace
  | SessionRecoveryOther string

datatype SandboxSnapshotAfterCreate =
    SandboxSnapshotAfterCreateRunning
  | SandboxSnapshotAfterCreatePaused
  | SandboxSnapshotAfterCreateTerminated
  | SandboxSnapshotAfterCreateOther string

record SandboxSnapshotSpec =
  sss_Create :: bool
  sss_Name :: string
  sss_AfterCreate :: SandboxSnapshotAfterCreate
  sss_TTL :: "duration option"
  sss_Kept :: bool
  sss_Forkable :: bool
  sss_Parent :: string

record SandboxSnapshotRef =
  ssr_Name :: string

record Resources =
  res_VCPU :: int
  res_Memory :: quantity
  res_Scratch :: "quantity option"

record NetworkAllowPort =
  nap_Protocol :: string
  nap_Port :: int
  nap_EndPort :: "int option"

record NetworkAllow =
  na_Host :: string
  na_Port :: int
  na_Ports :: "NetworkAllowPort list"
  na_CIDR :: string

record Network =
  nw_Mode :: NetworkMode
  nw_Allow :: "NetworkAllow list"

datatype LifecycleMode =
    LifecycleModeEphemeral
  | LifecycleModeSession
  | LifecycleModeOther string

record WorkspaceSpec =
  ws_Size :: "quantity option"
  ws_StorageClassName :: "string option"

record Lifecycle =
  lc_Mode :: LifecycleMode
  lc_Workspace :: "WorkspaceSpec option"
  lc_Timeout :: "duration option"

record SandboxSpec =
  sp_SandboxClassName :: string
  sp_Image :: string
  sp_Command :: "string list"
  sp_Env :: "EnvVar list"
  sp_Resources :: Resources
  sp_Network :: "Network option"
  sp_Lifecycle :: "Lifecycle option"
  sp_DesiredState :: SandboxDesiredState
  sp_Snapshot :: "SandboxSnapshotSpec option"
  sp_SnapshotRef :: "SandboxSnapshotRef option"
  sp_Review :: bool

definition EffectiveLifecycleMode :: "SandboxSpec \<Rightarrow> LifecycleMode" where
  "EffectiveLifecycleMode s =
     (case sp_Lifecycle s of
        None \<Rightarrow> LifecycleModeEphemeral
      | Some l \<Rightarrow> (if lc_Mode l = LifecycleModeOther '''' then LifecycleModeEphemeral else lc_Mode l))"

definition IsSession :: "SandboxSpec \<Rightarrow> bool" where
  "IsSession s \<longleftrightarrow> EffectiveLifecycleMode s = LifecycleModeSession"

definition IsEphemeral :: "SandboxSpec \<Rightarrow> bool" where
  "IsEphemeral s \<longleftrightarrow> EffectiveLifecycleMode s = LifecycleModeEphemeral"

record SandboxRuntimeStatus =
  srt_Chosen :: string

record SandboxCheckpointStatus =
  ck_Ref :: string
  ck_Backend :: string
  ck_Sequence :: int
  ck_TakenAt :: "gotime option"
  ck_SizeBytes :: int
  ck_PendingRestore :: bool
  ck_LastRecovery :: SessionRecoveryKind
  ck_LastRecoveryAt :: "gotime option"
  ck_LastRecoveryStateTakenAt :: "gotime option"
  ck_Recoveries :: int
  ck_PodUID :: string
  ck_Parents :: "string list"

datatype SandboxWarmStartOutcome =
    SandboxWarmStartPoolRestored
  | SandboxWarmStartColdBoot
  | SandboxWarmStartRejected

record SandboxWarmStartStatus =
  wst_Outcome :: SandboxWarmStartOutcome
  wst_EntryID :: string
  wst_Reason :: string

record SandboxIdentityStatus =
  sid_PublicKey :: string
  sid_Generation :: int

record SandboxStatus =
  st_Phase :: SandboxPhase
  st_Reason :: string
  st_ExitCode :: "int option"
  st_PodName :: string
  st_StartedAt :: "gotime option"
  st_LastTransitionTime :: "gotime option"
  st_PausedAt :: "gotime option"
  st_Runtime :: "SandboxRuntimeStatus option"
  st_Checkpoint :: "SandboxCheckpointStatus option"
  st_WarmStart :: "SandboxWarmStartStatus option"
  st_Identity :: "SandboxIdentityStatus option"

record Sandbox =
  sb_Meta :: ObjectMeta
  sb_Spec :: SandboxSpec
  sb_Status :: SandboxStatus

text \<open>
  \<open>RecordRecovery\<close> and \<open>CopyRecovery\<close> write through the receiver; the model
  returns the updated record. \<open>DeepCopy\<close> of an immutable value is the value.
\<close>

definition RecordRecovery ::
  "SandboxCheckpointStatus \<Rightarrow> SessionRecoveryKind \<Rightarrow> gotime \<Rightarrow> gotime option
   \<Rightarrow> SandboxCheckpointStatus" where
  "RecordRecovery s kind at stateTakenAt =
     s\<lparr>ck_LastRecovery := kind,
       ck_LastRecoveryAt := Some at,
       ck_LastRecoveryStateTakenAt :=
         (if stateTakenAt \<noteq> None \<and> kind = SessionRecoveryResumedFromCheckpoint
          then stateTakenAt else None),
       ck_Recoveries := ck_Recoveries s + 1\<rparr>"

definition CopyRecovery ::
  "SandboxCheckpointStatus \<Rightarrow> SandboxCheckpointStatus option \<Rightarrow> SandboxCheckpointStatus" where
  "CopyRecovery s prev =
     (case prev of
        None \<Rightarrow> s
      | Some p \<Rightarrow>
          s\<lparr>ck_LastRecovery := ck_LastRecovery p,
            ck_LastRecoveryAt := ck_LastRecoveryAt p,
            ck_LastRecoveryStateTakenAt := ck_LastRecoveryStateTakenAt p,
            ck_Recoveries := ck_Recoveries p\<rparr>)"

section \<open>SandboxClass\<close>

record SandboxClassRuntime =
  scr_Backend :: string

record EgressAllowPort =
  eap_Protocol :: string
  eap_Port :: IntOrString

record EgressAllowSelector =
  eas_NamespaceSelector :: "LabelSelector option"
  eas_PodSelector :: "LabelSelector option"
  eas_Ports :: "EgressAllowPort list"

record SessionCheckpointSpec =
  scs_Interval :: "duration option"
  scs_Backend :: string
  scs_Durable :: bool
  scs_SuspendedTTL :: "duration option"

record ResourceRequests =
  rr_CPU :: "quantity option"
  rr_Memory :: "quantity option"

record ImageSignature =
  is_Issuer :: string
  is_Identity :: string
  is_PublicKey :: string

record SandboxClassSpec =
  cs_Runtime :: "SandboxClassRuntime option"
  cs_DefaultResources :: "Resources option"
  cs_MaxResources :: "Resources option"
  cs_Requests :: "ResourceRequests option"
  cs_AllowedNetworkModes :: "NetworkMode list"
  cs_DefaultNetworkMode :: NetworkMode
  cs_EgressExemptCIDRs :: "string list"
  cs_EgressAllowSelectors :: "EgressAllowSelector list"
  cs_DefaultEgressAllow :: "NetworkAllow list"
  cs_NodeSelector :: "(string \<times> string) list"
  cs_Tolerations :: "Toleration list"
  cs_Default :: bool
  cs_PreWarmPoolSize :: int
  cs_PreWarmImage :: string
  cs_PreWarmImageSignature :: "ImageSignature option"
  cs_CPUTemplate :: string
  cs_MaxPauseDuration :: "duration option"
  cs_SessionIdleTimeout :: "duration option"
  cs_SessionCheckpoint :: "SessionCheckpointSpec option"

record SandboxClassWarmPoolImage =
  wpi_Image :: string
  wpi_LastUsed :: gotime
  wpi_Key :: string
  wpi_Ready :: int

record SandboxClassWarmPoolStatus =
  wps_Images :: "SandboxClassWarmPoolImage list"

record SandboxClassStatus =
  cst_Conditions :: "Condition list"
  cst_WarmPool :: "SandboxClassWarmPoolStatus option"

record SandboxClass =
  cl_Meta :: ObjectMeta
  cl_Spec :: SandboxClassSpec
  cl_Status :: SandboxClassStatus

abbreviation DefaultSuspendedTTL :: duration where
  "DefaultSuspendedTTL \<equiv> 7 * 24 * hour"

abbreviation DefaultSessionIdleTimeout :: duration where
  "DefaultSessionIdleTimeout \<equiv> 10 * minute"

abbreviation DefaultDurableInterval :: duration where
  "DefaultDurableInterval \<equiv> 15 * minute"

definition EffectiveInterval :: "SessionCheckpointSpec option \<Rightarrow> duration" where
  "EffectiveInterval sc =
     (case sc of
        None \<Rightarrow> 0
      | Some s \<Rightarrow>
          (case scs_Interval s of
             Some d \<Rightarrow> d
           | None \<Rightarrow> (if scs_Durable s then DefaultDurableInterval else 0)))"

definition RecycleAfter :: "SessionCheckpointSpec option \<Rightarrow> duration" where
  "RecycleAfter sc =
     (case sc of
        None \<Rightarrow> DefaultSuspendedTTL
      | Some s \<Rightarrow>
          (case scs_SuspendedTTL s of
             None \<Rightarrow> DefaultSuspendedTTL
           | Some d \<Rightarrow> (if d \<le> 0 then DefaultSuspendedTTL else d)))"

definition CheckpointBackend :: "SessionCheckpointSpec option \<Rightarrow> string" where
  "CheckpointBackend sc =
     (case sc of
        None \<Rightarrow> ''s3''
      | Some s \<Rightarrow> (if scs_Backend s = '''' then ''s3'' else scs_Backend s))"

section \<open>Snapshot\<close>

abbreviation SnapshotInUseFinalizer :: string where
  "SnapshotInUseFinalizer \<equiv> ''setec.zeroroot.ai/snapshot-in-use''"

abbreviation SnapshotSourcePodUIDAnnotation :: string where
  "SnapshotSourcePodUIDAnnotation \<equiv> ''setec.zeroroot.ai/source-pod-uid''"

abbreviation SnapshotVCPUAnnotation :: string where
  "SnapshotVCPUAnnotation \<equiv> ''setec.zeroroot.ai/vcpu''"

abbreviation SnapshotMemoryAnnotation :: string where
  "SnapshotMemoryAnnotation \<equiv> ''setec.zeroroot.ai/memory''"

datatype SnapshotPhase =
    SnapshotPhaseCreating
  | SnapshotPhaseReady
  | SnapshotPhaseFailed
  | SnapshotPhaseTerminating
  | SnapshotPhaseOther string

record SnapshotSpec =
  ns_Kept :: bool
  ns_Pinned :: bool
  ns_Forkable :: bool
  ns_Parent :: string
  ns_SourceSandbox :: string
  ns_SandboxClass :: string
  ns_ImageRef :: string
  ns_TTL :: "duration option"
  ns_StorageBackend :: string
  ns_StorageRef :: string
  ns_Size :: int64
  ns_CPUTemplate :: string
  ns_InstanceType :: string
  ns_Node :: string

record SnapshotStatus =
  nst_Phase :: SnapshotPhase
  nst_Reason :: string
  nst_LastTransitionTime :: "gotime option"
  nst_ReferenceCount :: int

record Snapshot =
  sn_Meta :: ObjectMeta
  sn_Spec :: SnapshotSpec
  sn_Status :: SnapshotStatus

abbreviation sb_Name :: "Sandbox \<Rightarrow> string" where "sb_Name sb \<equiv> om_Name (sb_Meta sb)"
abbreviation sb_Namespace :: "Sandbox \<Rightarrow> string" where "sb_Namespace sb \<equiv> om_Namespace (sb_Meta sb)"
abbreviation cl_Name :: "SandboxClass \<Rightarrow> string" where "cl_Name c \<equiv> om_Name (cl_Meta c)"
abbreviation sn_Name :: "Snapshot \<Rightarrow> string" where "sn_Name s \<equiv> om_Name (sn_Meta s)"
abbreviation sn_Namespace :: "Snapshot \<Rightarrow> string" where "sn_Namespace s \<equiv> om_Namespace (sn_Meta s)"

section \<open>Facts about the types\<close>

lemma session_not_ephemeral: "IsSession s \<Longrightarrow> \<not> IsEphemeral s"
  by (simp add: IsSession_def IsEphemeral_def)

lemma CheckpointBackend_nonempty [simp]: "CheckpointBackend sc \<noteq> ''''"
  by (simp add: CheckpointBackend_def split: option.splits)

lemma RecycleAfter_pos: "0 < RecycleAfter sc"
  by (simp add: RecycleAfter_def split: option.splits)

lemma RecordRecovery_counts [simp]: "ck_Recoveries (RecordRecovery s k at t) = ck_Recoveries s + 1"
  by (simp add: RecordRecovery_def)

lemma CopyRecovery_keeps_recoveries [simp]:
  "ck_Recoveries (CopyRecovery s (Some p)) = ck_Recoveries p"
  by (simp add: CopyRecovery_def)

lemma CopyRecovery_frame [simp]:
  "ck_Ref (CopyRecovery s p) = ck_Ref s"
  "ck_Sequence (CopyRecovery s p) = ck_Sequence s"
  "ck_PendingRestore (CopyRecovery s p) = ck_PendingRestore s"
  "ck_Backend (CopyRecovery s p) = ck_Backend s"
  "ck_PodUID (CopyRecovery s p) = ck_PodUID s"
  "ck_Parents (CopyRecovery s p) = ck_Parents s"
  "ck_TakenAt (CopyRecovery s p) = ck_TakenAt s"
  by (simp_all add: CopyRecovery_def split: option.splits)

lemma RecordRecovery_frame [simp]:
  "ck_Ref (RecordRecovery s k at t) = ck_Ref s"
  "ck_Sequence (RecordRecovery s k at t) = ck_Sequence s"
  "ck_PendingRestore (RecordRecovery s k at t) = ck_PendingRestore s"
  "ck_Parents (RecordRecovery s k at t) = ck_Parents s"
  by (simp_all add: RecordRecovery_def)

section \<open>Zero values\<close>

text \<open>
  The Go zero value of each struct: what a composite literal leaves in the fields that it
  does not name.
\<close>

definition zero_ObjectMeta :: ObjectMeta where [zero_defs]:
  "zero_ObjectMeta = \<lparr>om_Name = '''', om_Namespace = '''', om_UID = '''', om_Labels = Map.empty,
     om_Annotations = Map.empty, om_CreationTimestamp = 0, om_DeletionTimestamp = None, om_Finalizers = [],
     om_Controller = ''''\<rparr>"

definition zero_Resources :: Resources where [zero_defs]:
  "zero_Resources = \<lparr>res_VCPU = 0, res_Memory = 0, res_Scratch = None\<rparr>"

definition zero_Lifecycle :: Lifecycle where [zero_defs]:
  "zero_Lifecycle = \<lparr>lc_Mode = LifecycleModeOther '''', lc_Workspace = None, lc_Timeout = None\<rparr>"

definition zero_SandboxSpec :: SandboxSpec where [zero_defs]:
  "zero_SandboxSpec = \<lparr>sp_SandboxClassName = '''', sp_Image = '''', sp_Command = [], sp_Env = [],
     sp_Resources = zero_Resources, sp_Network = None, sp_Lifecycle = None,
     sp_DesiredState = SandboxDesiredStateOther '''', sp_Snapshot = None, sp_SnapshotRef = None,
     sp_Review = False\<rparr>"

definition zero_SandboxCheckpointStatus :: SandboxCheckpointStatus where [zero_defs]:
  "zero_SandboxCheckpointStatus = \<lparr>ck_Ref = '''', ck_Backend = '''', ck_Sequence = 0,
     ck_TakenAt = None, ck_SizeBytes = 0, ck_PendingRestore = False,
     ck_LastRecovery = SessionRecoveryOther '''', ck_LastRecoveryAt = None,
     ck_LastRecoveryStateTakenAt = None, ck_Recoveries = 0, ck_PodUID = '''', ck_Parents = []\<rparr>"

definition zero_SandboxStatus :: SandboxStatus where [zero_defs]:
  "zero_SandboxStatus = \<lparr>st_Phase = SandboxPhaseOther '''', st_Reason = '''', st_ExitCode = None,
     st_PodName = '''', st_StartedAt = None, st_LastTransitionTime = None, st_PausedAt = None,
     st_Runtime = None, st_Checkpoint = None, st_WarmStart = None, st_Identity = None\<rparr>"

definition zero_Sandbox :: Sandbox where [zero_defs]:
  "zero_Sandbox = \<lparr>sb_Meta = zero_ObjectMeta, sb_Spec = zero_SandboxSpec, sb_Status = zero_SandboxStatus\<rparr>"

definition zero_SessionCheckpointSpec :: SessionCheckpointSpec where [zero_defs]:
  "zero_SessionCheckpointSpec = \<lparr>scs_Interval = None, scs_Backend = '''', scs_Durable = False,
     scs_SuspendedTTL = None\<rparr>"

definition zero_SandboxClassSpec :: SandboxClassSpec where [zero_defs]:
  "zero_SandboxClassSpec = \<lparr>cs_Runtime = None, cs_DefaultResources = None, cs_MaxResources = None,
     cs_Requests = None, cs_AllowedNetworkModes = [], cs_DefaultNetworkMode = NetworkModeOther '''',
     cs_EgressExemptCIDRs = [], cs_EgressAllowSelectors = [], cs_DefaultEgressAllow = [],
     cs_NodeSelector = [], cs_Tolerations = [], cs_Default = False, cs_PreWarmPoolSize = 0,
     cs_PreWarmImage = '''', cs_PreWarmImageSignature = None, cs_CPUTemplate = '''',
     cs_MaxPauseDuration = None, cs_SessionIdleTimeout = None, cs_SessionCheckpoint = None\<rparr>"

definition zero_SandboxClass :: SandboxClass where [zero_defs]:
  "zero_SandboxClass = \<lparr>cl_Meta = zero_ObjectMeta, cl_Spec = zero_SandboxClassSpec,
     cl_Status = \<lparr>cst_Conditions = [], cst_WarmPool = None\<rparr>\<rparr>"

definition zero_SnapshotSpec :: SnapshotSpec where [zero_defs]:
  "zero_SnapshotSpec = \<lparr>ns_Kept = False, ns_Pinned = False, ns_Forkable = False, ns_Parent = '''',
     ns_SourceSandbox = '''', ns_SandboxClass = '''', ns_ImageRef = '''', ns_TTL = None,
     ns_StorageBackend = '''', ns_StorageRef = '''', ns_Size = 0, ns_CPUTemplate = '''',
     ns_InstanceType = '''', ns_Node = ''''\<rparr>"

definition zero_SnapshotStatus :: SnapshotStatus where [zero_defs]:
  "zero_SnapshotStatus = \<lparr>nst_Phase = SnapshotPhaseOther '''', nst_Reason = '''',
     nst_LastTransitionTime = None, nst_ReferenceCount = 0\<rparr>"

definition zero_Snapshot :: Snapshot where [zero_defs]:
  "zero_Snapshot = \<lparr>sn_Meta = zero_ObjectMeta, sn_Spec = zero_SnapshotSpec,
     sn_Status = zero_SnapshotStatus\<rparr>"

end
