(* ===== verification/Kube_Types.thy ===== *)
theory Kube_Types
  imports Api_Types
begin

text \<open>
  The parts of the Kubernetes objects that the modelled code reads: Pods with their
  container statuses and conditions, Nodes, and the errors of the Kubernetes client. These
  types belong to Kubernetes; each record keeps the fields that setec reads and no others.
\<close>

section \<open>Pods\<close>

datatype PodPhase = PodPending | PodRunning | PodSucceeded | PodFailed | PodUnknown | PodPhaseOther string

record ContainerStateTerminated =
  term_ExitCode :: int
  term_Reason :: string
  term_FinishedAt :: gotime
  term_Message :: string

record ContainerStatus =
  cst_Name :: string
  cst_Waiting :: "string option" \<comment> \<open>the reason of the waiting state\<close>
  cst_Terminated :: "ContainerStateTerminated option"
  cst_LastTerminated :: "ContainerStateTerminated option"

record PodCondition =
  pc_Type :: string
  pc_Status :: string

record PodContainer =
  con_ReadinessProbe :: bool \<comment> \<open>whether the container declares a readiness probe\<close>

record Pod =
  pod_Meta :: ObjectMeta
  pod_NodeName :: string
  pod_Containers :: "PodContainer list"
  pod_Phase :: PodPhase
  pod_StartTime :: "gotime option"
  pod_PodIP :: string
  pod_ContainerStatuses :: "ContainerStatus list"
  pod_InitContainerStatuses :: "ContainerStatus list"
  pod_Conditions :: "PodCondition list"

section \<open>Nodes\<close>

record NodeCondition =
  nc_Type :: string
  nc_Status :: string
  nc_LastTransitionTime :: gotime

record Node =
  node_Meta :: ObjectMeta
  node_Unschedulable :: bool
  node_Conditions :: "NodeCondition list"

section \<open>Secrets, claims and jobs\<close>

record Secret =
  sec_Meta :: ObjectMeta
  sec_Data :: "string \<rightharpoonup> 8 word list"

record PersistentVolumeClaim =
  pvc_Meta :: ObjectMeta
  pvc_AccessModes :: "string list"
  pvc_Storage :: quantity
  pvc_StorageClassName :: "string option"
  pvc_VolumeMode :: string

record JobCondition =
  jc_Type :: string
  jc_Status :: string
  jc_Message :: string

record Job =
  job_Meta :: ObjectMeta
  job_Conditions :: "JobCondition list"

section \<open>Errors of the Kubernetes client\<close>

datatype ApiError = NotFound | AlreadyExists | Conflict | ApiOther string

section \<open>Zero values\<close>

definition zero_Pod :: Pod where [zero_defs]:
  "zero_Pod = \<lparr>pod_Meta = zero_ObjectMeta, pod_NodeName = '''', pod_Containers = [],
     pod_Phase = PodPhaseOther '''', pod_StartTime = None, pod_PodIP = '''',
     pod_ContainerStatuses = [], pod_InitContainerStatuses = [], pod_Conditions = []\<rparr>"

definition zero_Node :: Node where [zero_defs]:
  "zero_Node = \<lparr>node_Meta = zero_ObjectMeta, node_Unschedulable = False, node_Conditions = []\<rparr>"

end
