(* ===== verification/Status.thy ===== *)
theory Status
  imports Kube_Types
begin

text \<open>
  The status deriver (\<open>src/internal/status\<close>): the pure functions that map the observed
  Pod of a Sandbox, the clock and the policies of the class onto the phase of the Sandbox.
  \<open>Derive\<close> is the core; \<open>ApplySessionIdlePolicy\<close> and \<open>ApplyPausePolicy\<close> are
  layered on its result. The lemmas show that terminal phases are sticky along any sequence
  of observations, that a session never ends because its workload exits, that the transition
  time moves exactly with the phase, that deriving twice is deriving once, and when each of
  the timeouts fires.
\<close>

section \<open>Reasons\<close>

abbreviation ImagePullGracePeriod :: duration where
  "ImagePullGracePeriod \<equiv> 5 * minute"

abbreviation ReasonTimeout :: string where "ReasonTimeout \<equiv> ''Timeout''"
abbreviation ReasonImagePullFailure :: string where "ReasonImagePullFailure \<equiv> ''ImagePullFailure''"
abbreviation ReasonContainerExitedNonZero :: string where
  "ReasonContainerExitedNonZero \<equiv> ''ContainerExitedNonZero''"
abbreviation ReasonInvariantGateViolation :: string where
  "ReasonInvariantGateViolation \<equiv> ''InvariantGateViolation''"
abbreviation ReasonSessionVMRestarting :: string where
  "ReasonSessionVMRestarting \<equiv> ''SessionVMRestarting''"
abbreviation ReasonIdleTimeout :: string where "ReasonIdleTimeout \<equiv> ''IdleTimeout''"
abbreviation ReasonPauseTimeout :: string where "ReasonPauseTimeout \<equiv> ''PauseTimeoutExceeded''"

section \<open>Phases\<close>

definition isTerminal :: "SandboxPhase \<Rightarrow> bool" where
  [status_simps]: "isTerminal p \<longleftrightarrow> p = SandboxPhaseCompleted \<or> p = SandboxPhaseFailed"

fun isCoordinatorPhase :: "SandboxPhase \<Rightarrow> bool" where
  "isCoordinatorPhase SandboxPhasePaused = True"
| "isCoordinatorPhase SandboxPhaseSnapshotting = True"
| "isCoordinatorPhase SandboxPhaseRestoring = True"
| "isCoordinatorPhase _ = False"

definition setPhase :: "SandboxStatus \<Rightarrow> SandboxPhase \<Rightarrow> string \<Rightarrow> gotime \<Rightarrow> SandboxStatus" where
  "setPhase st phase reason now =
     (let out = (if st_Phase st \<noteq> phase
                 then st\<lparr>st_Phase := phase, st_LastTransitionTime := Some now\<rparr> else st)
      in out\<lparr>st_Reason := reason\<rparr>)"

section \<open>Reading the Pod\<close>

fun firstTerminated :: "ContainerStatus list \<Rightarrow> (int \<times> string) option" where
  "firstTerminated [] = None"
| "firstTerminated (cs # css) =
     (case cst_Terminated cs of
        Some t \<Rightarrow> Some (term_ExitCode t, term_Reason t)
      | None \<Rightarrow> firstTerminated css)"

definition terminatedExitAndReason :: "Pod \<Rightarrow> int \<times> string" where
  "terminatedExitAndReason pod =
     (case firstTerminated (pod_ContainerStatuses pod) of
        Some r \<Rightarrow> r
      | None \<Rightarrow>
          (case firstTerminated (pod_InitContainerStatuses pod) of
             Some r \<Rightarrow> r
           | None \<Rightarrow> (0, '''')))"

text \<open>The start of an image-pull wait: the last termination, else the creation of the Pod, else now.\<close>

definition pullWaitSince :: "Pod \<Rightarrow> gotime \<Rightarrow> ContainerStatus \<Rightarrow> gotime" where
  "pullWaitSince pod now cs =
     (case cst_LastTerminated cs of
        Some t \<Rightarrow>
          (if \<not> time_IsZero (term_FinishedAt t) then term_FinishedAt t
           else if \<not> time_IsZero (om_CreationTimestamp (pod_Meta pod))
                then om_CreationTimestamp (pod_Meta pod) else now)
      | None \<Rightarrow>
          (if \<not> time_IsZero (om_CreationTimestamp (pod_Meta pod))
           then om_CreationTimestamp (pod_Meta pod) else now))"

definition containerPullStuck :: "Pod \<Rightarrow> gotime \<Rightarrow> ContainerStatus \<Rightarrow> bool" where
  "containerPullStuck pod now cs \<longleftrightarrow>
     (case cst_Waiting cs of
        None \<Rightarrow> False
      | Some reason \<Rightarrow>
          (reason = ''ImagePullBackOff'' \<or> reason = ''ErrImagePull'') \<and>
          ImagePullGracePeriod \<le> time_Sub now (pullWaitSince pod now cs))"

definition imagePullStuck :: "Pod \<Rightarrow> gotime \<Rightarrow> bool" where
  "imagePullStuck pod now \<longleftrightarrow>
     list_ex (containerPullStuck pod now) (pod_ContainerStatuses pod) \<or>
     list_ex (containerPullStuck pod now) (pod_InitContainerStatuses pod)"

definition declaresReadiness :: "Pod \<Rightarrow> bool" where
  "declaresReadiness pod \<longleftrightarrow> list_ex con_ReadinessProbe (pod_Containers pod)"

fun readyCondition :: "PodCondition list \<Rightarrow> bool" where
  "readyCondition [] = False"
| "readyCondition (c # cs) = (if pc_Type c = ''Ready'' then pc_Status c = ''True'' else readyCondition cs)"

definition podReady :: "Pod \<Rightarrow> bool" where
  "podReady pod \<longleftrightarrow> readyCondition (pod_Conditions pod)"

definition timedOut :: "Sandbox \<Rightarrow> gotime option \<Rightarrow> gotime \<Rightarrow> bool" where
  "timedOut sb startedAt now \<longleftrightarrow>
     (case sp_Lifecycle (sb_Spec sb) of
        None \<Rightarrow> False
      | Some lc \<Rightarrow>
          (case lc_Timeout lc of
             None \<Rightarrow> False
           | Some d \<Rightarrow>
               (if d \<le> 0 then False
                else
                  let start = (case startedAt of
                                 None \<Rightarrow> om_CreationTimestamp (sb_Meta sb)
                               | Some t \<Rightarrow> t)
                  in if time_IsZero start then False else d < time_Sub now start)))"

section \<open>Derive\<close>

definition derivedRunning :: "Sandbox \<Rightarrow> SandboxStatus \<Rightarrow> Pod \<Rightarrow> gotime \<Rightarrow> SandboxStatus" where
  "derivedRunning sb out pod now =
     (if declaresReadiness pod \<and> \<not> podReady pod
      then setPhase out SandboxPhasePending '''' now
      else
        let out = (if st_StartedAt out = None
                   then out\<lparr>st_StartedAt :=
                          Some (case pod_StartTime pod of Some t \<Rightarrow> t | None \<Rightarrow> now)\<rparr>
                   else out)
        in if timedOut sb (st_StartedAt out) now
           then setPhase out SandboxPhaseFailed ReasonTimeout now
           else setPhase out SandboxPhaseRunning '''' now)"

definition fromPodPhase :: "SandboxStatus \<Rightarrow> Pod \<Rightarrow> gotime \<Rightarrow> Sandbox \<Rightarrow> SandboxStatus" where
  "fromPodPhase out pod now sb =
     (case pod_Phase pod of
        PodSucceeded \<Rightarrow>
          (let out = (setPhase out SandboxPhaseCompleted '''' now)\<lparr>st_ExitCode := Some 0\<rparr>
           in if st_StartedAt out = None \<and> pod_StartTime pod \<noteq> None
              then out\<lparr>st_StartedAt := pod_StartTime pod\<rparr> else out)
      | PodFailed \<Rightarrow>
          (let (exit, reason) = terminatedExitAndReason pod;
               reason = (if reason = '''' then ReasonContainerExitedNonZero else reason);
               out = (setPhase out SandboxPhaseFailed reason now)\<lparr>st_ExitCode := Some exit\<rparr>
           in if st_StartedAt out = None \<and> pod_StartTime pod \<noteq> None
              then out\<lparr>st_StartedAt := pod_StartTime pod\<rparr> else out)
      | PodRunning \<Rightarrow> derivedRunning sb out pod now
      | _ \<Rightarrow>
          (if imagePullStuck pod now
           then setPhase out SandboxPhaseFailed ReasonImagePullFailure now
           else setPhase out SandboxPhasePending '''' now))"

definition withPodName :: "SandboxStatus \<Rightarrow> Pod \<Rightarrow> SandboxStatus" where
  "withPodName out pod =
     (if om_Name (pod_Meta pod) \<noteq> [] then out\<lparr>st_PodName := om_Name (pod_Meta pod)\<rparr> else out)"

definition deriveLive :: "Sandbox \<Rightarrow> SandboxStatus \<Rightarrow> Pod \<Rightarrow> gotime \<Rightarrow> SandboxStatus" where
  "deriveLive sb out pod now =
     (if isCoordinatorPhase (st_Phase out) \<and> pod_Phase pod = PodRunning then out
      else if IsSession (sb_Spec sb) \<and> (pod_Phase pod = PodSucceeded \<or> pod_Phase pod = PodFailed)
           then setPhase out SandboxPhasePending ReasonSessionVMRestarting now
      else
        let out = fromPodPhase out pod now sb
        in if st_Phase out = SandboxPhasePending \<and> timedOut sb (st_StartedAt out) now
           then setPhase out SandboxPhaseFailed ReasonTimeout now
           else out)"

definition Derive :: "Sandbox \<Rightarrow> Pod option \<Rightarrow> gotime \<Rightarrow> SandboxStatus" where
  "Derive sb podOpt now =
     (let out = sb_Status sb
      in if isTerminal (st_Phase out) then out
         else
           (case podOpt of
              None \<Rightarrow> setPhase out SandboxPhasePending '''' now
            | Some pod \<Rightarrow> deriveLive sb (withPodName out pod) pod now))"

section \<open>The idle policy of sessions\<close>

text \<open>
  \<open>time.Parse\<close> with the RFC 3339 layout is the parameter \<open>parse\<close>: every partial
  function from strings to times is allowed.
\<close>

definition LastSessionActivity :: "(string \<Rightarrow> gotime option) \<Rightarrow> Sandbox \<Rightarrow> gotime" where
  "LastSessionActivity parse sb =
     (let last = om_CreationTimestamp (sb_Meta sb);
          last = (case st_StartedAt (sb_Status sb) of
                    Some t \<Rightarrow> (if time_After t last then t else last)
                  | None \<Rightarrow> last)
      in case om_Annotations (sb_Meta sb) AnnotationLastActivity of
           None \<Rightarrow> last
         | Some raw \<Rightarrow>
             (case parse raw of
                Some t \<Rightarrow> (if time_After t last then t else last)
              | None \<Rightarrow> last))"

definition SessionIdleDeadline ::
  "(string \<Rightarrow> gotime option) \<Rightarrow> Sandbox \<Rightarrow> SandboxClass option \<Rightarrow> gotime option" where
  "SessionIdleDeadline parse sb cls =
     (if \<not> IsSession (sb_Spec sb) then None
      else
        case cls of
          None \<Rightarrow> None
        | Some c \<Rightarrow>
            (case cs_SessionIdleTimeout (cl_Spec c) of
               None \<Rightarrow>
                 (if cs_SessionCheckpoint (cl_Spec c) \<noteq> None
                  then Some (time_Add (LastSessionActivity parse sb) DefaultSessionIdleTimeout)
                  else None)
             | Some d \<Rightarrow>
                 (if d \<le> 0 then None
                  else Some (time_Add (LastSessionActivity parse sb) d))))"

definition ApplySessionIdlePolicy ::
  "(string \<Rightarrow> gotime option) \<Rightarrow> Sandbox \<Rightarrow> SandboxClass option \<Rightarrow> SandboxStatus \<Rightarrow> gotime
   \<Rightarrow> SandboxStatus" where
  "ApplySessionIdlePolicy parse sb cls st now =
     (if st_Phase st \<noteq> SandboxPhaseRunning then st
      else if (case cls of None \<Rightarrow> False | Some c \<Rightarrow> cs_SessionCheckpoint (cl_Spec c) \<noteq> None) then st
      else
        case SessionIdleDeadline parse sb cls of
          None \<Rightarrow> st
        | Some deadline \<Rightarrow>
            (if time_Before now deadline then st
             else setPhase st SandboxPhaseFailed ReasonIdleTimeout now))"

section \<open>The pause policy\<close>

definition PauseDeadline :: "SandboxStatus \<Rightarrow> SandboxClass option \<Rightarrow> gotime option" where
  "PauseDeadline st cls =
     (case st_PausedAt st of
        None \<Rightarrow> None
      | Some t \<Rightarrow>
          (case cls of
             None \<Rightarrow> None
           | Some c \<Rightarrow>
               (case cs_MaxPauseDuration (cl_Spec c) of
                  None \<Rightarrow> None
                | Some d \<Rightarrow> (if d \<le> 0 then None else Some (time_Add t d)))))"

definition ApplyPausePolicy ::
  "Sandbox \<Rightarrow> SandboxClass option \<Rightarrow> SandboxStatus \<Rightarrow> gotime \<Rightarrow> SandboxStatus" where
  "ApplyPausePolicy sb cls st now =
     (if st_Phase st \<noteq> SandboxPhasePaused then st
      else if IsSession (sb_Spec sb) \<and>
              (case cls of None \<Rightarrow> False | Some c \<Rightarrow> cs_SessionCheckpoint (cl_Spec c) \<noteq> None) then st
      else
        case PauseDeadline st cls of
          None \<Rightarrow> st
        | Some deadline \<Rightarrow>
            (if time_Before now deadline then st
             else setPhase st SandboxPhaseFailed ReasonPauseTimeout now))"

section \<open>Frame facts\<close>

lemma setPhase_fields [simp]:
  "st_Phase (setPhase st p r now) = p"
  "st_Reason (setPhase st p r now) = r"
  "st_ExitCode (setPhase st p r now) = st_ExitCode st"
  "st_PodName (setPhase st p r now) = st_PodName st"
  "st_StartedAt (setPhase st p r now) = st_StartedAt st"
  "st_PausedAt (setPhase st p r now) = st_PausedAt st"
  "st_Checkpoint (setPhase st p r now) = st_Checkpoint st"
  "st_Identity (setPhase st p r now) = st_Identity st"
  "st_Runtime (setPhase st p r now) = st_Runtime st"
  "st_WarmStart (setPhase st p r now) = st_WarmStart st"
  by (simp_all add: setPhase_def Let_def)

lemma setPhase_LastTransitionTime:
  "st_LastTransitionTime (setPhase st p r now) =
     (if st_Phase st = p then st_LastTransitionTime st else Some now)"
  by (simp add: setPhase_def Let_def)

lemma setPhase_same: "st_Phase st = p \<Longrightarrow> st_Reason st = r \<Longrightarrow> setPhase st p r now = st"
  by (simp add: setPhase_def)

lemma setPhase_setPhase [simp]: "setPhase (setPhase st p r now) p r now' = setPhase st p r now"
  by (rule setPhase_same) simp_all

lemma isTerminal_simps [simp]:
  "isTerminal SandboxPhaseCompleted"
  "isTerminal SandboxPhaseFailed"
  "\<not> isTerminal SandboxPhasePending"
  "\<not> isTerminal SandboxPhaseRunning"
  "\<not> isTerminal SandboxPhasePaused"
  "\<not> isTerminal SandboxPhaseSuspended"
  "\<not> isTerminal SandboxPhaseSnapshotting"
  "\<not> isTerminal SandboxPhaseRestoring"
  by (simp_all add: isTerminal_def)

lemma isCoordinatorPhase_iff:
  "isCoordinatorPhase p \<longleftrightarrow>
     p = SandboxPhasePaused \<or> p = SandboxPhaseSnapshotting \<or> p = SandboxPhaseRestoring"
  by (cases p) simp_all

lemma Derive_terminal: "isTerminal (st_Phase (sb_Status sb)) \<Longrightarrow> Derive sb p now = sb_Status sb"
  by (simp add: Derive_def Let_def)

lemma Derive_no_pod:
  "\<not> isTerminal (st_Phase (sb_Status sb)) \<Longrightarrow>
   Derive sb None now = setPhase (sb_Status sb) SandboxPhasePending '''' now"
  by (simp add: Derive_def Let_def)

lemma ApplySessionIdlePolicy_not_running:
  "st_Phase st \<noteq> SandboxPhaseRunning \<Longrightarrow> ApplySessionIdlePolicy parse sb cls st now = st"
  by (simp add: ApplySessionIdlePolicy_def)

lemma ApplyPausePolicy_not_paused:
  "st_Phase st \<noteq> SandboxPhasePaused \<Longrightarrow> ApplyPausePolicy sb cls st now = st"
  by (simp add: ApplyPausePolicy_def)

lemma timedOut_startedAt:
  assumes "sp_Lifecycle (sb_Spec sb) = Some lc" "lc_Timeout lc = Some d" "0 < d" "d < maxDuration"
    and "start \<noteq> 0"
  shows "timedOut sb (Some start) now \<longleftrightarrow> start + d < now"
proof -
  have "d < time_Sub now start \<longleftrightarrow> d < now - start"
    using assms by (intro time_Sub_gt_iff) (auto simp: minDuration_def)
  then show ?thesis using assms by (auto simp: timedOut_def time_IsZero_def Let_def)
qed

section \<open>The transition time moves exactly with the phase\<close>

definition transition_exact :: "SandboxStatus \<Rightarrow> SandboxStatus \<Rightarrow> gotime \<Rightarrow> bool" where
  "transition_exact before after now \<longleftrightarrow>
     st_LastTransitionTime after =
       (if st_Phase after = st_Phase before then st_LastTransitionTime before else Some now)"

lemma transition_exact_refl [simp]: "transition_exact st st now"
  by (simp add: transition_exact_def)

lemma transition_exact_setPhase [simp]: "transition_exact st (setPhase st p r now) now"
  by (simp add: transition_exact_def setPhase_LastTransitionTime)

lemma fromPodPhase_transition: "transition_exact out (fromPodPhase out pod now sb) now"
  by (auto simp: fromPodPhase_def derivedRunning_def transition_exact_def
      setPhase_LastTransitionTime Let_def split: PodPhase.splits prod.splits)

lemma fromPodPhase_StartedAt_Some:
  "st_StartedAt out = Some t \<Longrightarrow> st_StartedAt (fromPodPhase out pod now sb) = Some t"
  by (auto simp: fromPodPhase_def derivedRunning_def Let_def
      split: PodPhase.splits prod.splits)

lemma fromPodPhase_phases:
  "st_Phase (fromPodPhase out pod now sb) \<in>
     {SandboxPhasePending, SandboxPhaseRunning, SandboxPhaseCompleted, SandboxPhaseFailed}"
  by (auto simp: fromPodPhase_def derivedRunning_def Let_def split: PodPhase.splits prod.splits)

section \<open>Runs of the deriver\<close>

text \<open>
  One step of the status of a Sandbox: a derivation from some observation of the Pod at some
  time, or one of the two policies with some class at some time. A run is any sequence of
  steps, so it covers every order of observations, stale or missing Pods included.
\<close>

inductive status_step :: "Sandbox \<Rightarrow> Sandbox \<Rightarrow> bool" where
  derive: "status_step sb (sb\<lparr>sb_Status := Derive sb pod now\<rparr>)"
| idle: "status_step sb (sb\<lparr>sb_Status := ApplySessionIdlePolicy parse sb cls (sb_Status sb) now\<rparr>)"
| pause: "status_step sb (sb\<lparr>sb_Status := ApplyPausePolicy sb cls (sb_Status sb) now\<rparr>)"

inductive_cases status_stepE: "status_step sb sb'"

inductive status_run :: "Sandbox \<Rightarrow> Sandbox \<Rightarrow> bool" where
  refl: "status_run sb sb"
| step: "status_run sb sb' \<Longrightarrow> status_step sb' sb'' \<Longrightarrow> status_run sb sb''"

lemma status_step_frame: "status_step sb sb' \<Longrightarrow> sb_Spec sb' = sb_Spec sb \<and> sb_Meta sb' = sb_Meta sb"
  by (auto elim: status_stepE)

lemma status_step_terminal:
  assumes "status_step sb sb'" "isTerminal (st_Phase (sb_Status sb))"
  shows "sb_Status sb' = sb_Status sb"
  using assms
  by (auto elim!: status_stepE simp: Derive_terminal ApplySessionIdlePolicy_not_running
      ApplyPausePolicy_not_paused isTerminal_def)

definition session_end_reasons :: "string set" where
  "session_end_reasons = {ReasonTimeout, ReasonImagePullFailure, ReasonIdleTimeout, ReasonPauseTimeout}"

definition session_live_or_bounded :: "SandboxStatus \<Rightarrow> bool" where
  "session_live_or_bounded st \<longleftrightarrow>
     isTerminal (st_Phase st) \<longrightarrow>
       st_Phase st = SandboxPhaseFailed \<and> st_Reason st \<in> session_end_reasons"

lemma fromPodPhase_alive:
  assumes "pod_Phase pod \<noteq> PodSucceeded" "pod_Phase pod \<noteq> PodFailed"
  shows "session_live_or_bounded (fromPodPhase out pod now sb)"
  using assms
  by (cases "pod_Phase pod")
    (simp_all add: fromPodPhase_def derivedRunning_def Let_def session_live_or_bounded_def
      session_end_reasons_def)

lemma Derive_session_end:
  assumes "IsSession (sb_Spec sb)" "\<not> isTerminal (st_Phase (sb_Status sb))"
  shows "session_live_or_bounded (Derive sb pod now)"
proof (cases pod)
  case None
  then show ?thesis using assms by (simp add: Derive_no_pod session_live_or_bounded_def)
next
  case (Some p)
  then show ?thesis
    using assms fromPodPhase_alive [of p]
    by (simp add: Derive_def deriveLive_def withPodName_def Let_def session_live_or_bounded_def session_end_reasons_def)
qed

lemma policies_session_end:
  assumes "session_live_or_bounded st"
  shows "session_live_or_bounded (ApplySessionIdlePolicy parse sb cls st now)"
    and "session_live_or_bounded (ApplyPausePolicy sb cls st now)"
  using assms
  by (auto simp: ApplySessionIdlePolicy_def ApplyPausePolicy_def session_live_or_bounded_def
      session_end_reasons_def split: option.splits)

lemma status_step_session_end:
  assumes "status_step sb sb'" "IsSession (sb_Spec sb)" "session_live_or_bounded (sb_Status sb)"
  shows "session_live_or_bounded (sb_Status sb')"
proof (cases "isTerminal (st_Phase (sb_Status sb))")
  case True
  then show ?thesis using assms status_step_terminal by metis
next
  case False
  then show ?thesis
    using assms by (auto elim!: status_stepE simp: Derive_session_end policies_session_end)
qed

section \<open>Properties\<close>

text \<open>
  C1. Terminal phases are sticky. Once a Sandbox is Completed or Failed, no sequence of
  derivations and policy applications changes any field of its status, whatever Pods the
  observations show (missing, pending or running again) and whatever the clock and the class
  are.
\<close>

theorem terminal_status_is_sticky:
  assumes "status_run sb sb'" and "isTerminal (st_Phase (sb_Status sb))"
  shows "sb_Status sb' = sb_Status sb"
  using assms
proof (induction rule: status_run.induct)
  case (step sb sb' sb'')
  then show ?case using status_step_terminal [of sb' sb''] by simp
qed simp

theorem terminal_status_is_sticky_witness:
  "let sb = zero_Sandbox\<lparr>sb_Status := zero_SandboxStatus\<lparr>st_Phase := SandboxPhaseCompleted\<rparr>\<rparr>;
       sb' = sb\<lparr>sb_Status := Derive sb (Some (zero_Pod\<lparr>pod_Phase := PodRunning\<rparr>)) 5\<rparr>
   in status_run sb sb' \<and> isTerminal (st_Phase (sb_Status sb)) \<and> sb_Status sb' = sb_Status sb"
proof -
  let ?sb = "zero_Sandbox\<lparr>sb_Status := zero_SandboxStatus\<lparr>st_Phase := SandboxPhaseCompleted\<rparr>\<rparr>"
  let ?sb' = "?sb\<lparr>sb_Status := Derive ?sb (Some (zero_Pod\<lparr>pod_Phase := PodRunning\<rparr>)) 5\<rparr>"
  have run: "status_run ?sb ?sb'"
    by (rule status_run.step [OF status_run.refl], rule status_step.derive)
  have tm: "isTerminal (st_Phase (sb_Status ?sb))" by simp
  show ?thesis using run tm terminal_status_is_sticky [OF run tm] by (simp add: Let_def)
qed

text \<open>
  C2. A session does not end because its workload exits. Along every run of a session from a
  live status, the session is never Completed, and when it is Failed the reason is one of the
  wall-clock policies or a stuck image pull; no exit of a container is among them.
\<close>

theorem session_ends_only_by_policy:
  assumes "status_run sb sb'" and "IsSession (sb_Spec sb)"
    and "\<not> isTerminal (st_Phase (sb_Status sb))" and "isTerminal (st_Phase (sb_Status sb'))"
  shows "st_Phase (sb_Status sb') = SandboxPhaseFailed \<and>
         st_Reason (sb_Status sb') \<in> {''Timeout'', ''ImagePullFailure'', ''IdleTimeout'', ''PauseTimeoutExceeded''}"
proof -
  have "IsSession (sb_Spec sb') \<and> session_live_or_bounded (sb_Status sb')"
    using assms(1-3)
  proof (induction rule: status_run.induct)
    case (refl sb)
    then show ?case by (simp add: session_live_or_bounded_def)
  next
    case (step sb sb' sb'')
    then show ?case using status_step_session_end [of sb' sb''] status_step_frame [of sb' sb''] by simp
  qed
  then show ?thesis
    using assms(4) by (simp add: session_live_or_bounded_def session_end_reasons_def)
qed

definition ex_session_spec :: SandboxSpec where
  "ex_session_spec = zero_SandboxSpec\<lparr>sp_Lifecycle :=
     Some (zero_Lifecycle\<lparr>lc_Mode := LifecycleModeSession, lc_Timeout := Some (30 * minute)\<rparr>)\<rparr>"

definition ex_session :: Sandbox where
  "ex_session = zero_Sandbox\<lparr>sb_Meta := zero_ObjectMeta\<lparr>om_Name := ''s'', om_CreationTimestamp := 1\<rparr>,
     sb_Spec := ex_session_spec\<rparr>"

lemma ex_session_IsSession [simp]: "IsSession (sb_Spec ex_session)"
  by (simp add: IsSession_def EffectiveLifecycleMode_def ex_session_def ex_session_spec_def zero_defs)

theorem session_ends_only_by_policy_witness:
  "let sb' = ex_session\<lparr>sb_Status := Derive ex_session (Some (zero_Pod\<lparr>pod_Phase := PodPending\<rparr>)) (hour)\<rparr>
   in status_run ex_session sb' \<and> st_Phase (sb_Status sb') = SandboxPhaseFailed \<and>
      st_Reason (sb_Status sb') \<in> {''Timeout'', ''ImagePullFailure'', ''IdleTimeout'', ''PauseTimeoutExceeded''}"
proof -
  let ?sb' = "ex_session\<lparr>sb_Status := Derive ex_session (Some (zero_Pod\<lparr>pod_Phase := PodPending\<rparr>)) (hour)\<rparr>"
  have run: "status_run ex_session ?sb'"
    by (rule status_run.step [OF status_run.refl], rule status_step.derive)
  have live: "\<not> isTerminal (st_Phase (sb_Status ex_session))"
    by (simp add: ex_session_def zero_defs isTerminal_def)
  have dead: "isTerminal (st_Phase (sb_Status ?sb'))"
    by (simp add: ex_session_def ex_session_spec_def zero_defs Derive_def deriveLive_def withPodName_def fromPodPhase_def timedOut_def
        imagePullStuck_def time_IsZero_def time_Sub_def minDuration_def maxDuration_def Let_def isTerminal_def)
  show ?thesis
    using run session_ends_only_by_policy [OF run ex_session_IsSession live dead] by (simp add: Let_def)
qed

section \<open>Deriving twice\<close>

lemma withPodName_fields [simp]:
  "st_Phase (withPodName out pod) = st_Phase out"
  "st_StartedAt (withPodName out pod) = st_StartedAt out"
  "st_LastTransitionTime (withPodName out pod) = st_LastTransitionTime out"
  "st_Reason (withPodName out pod) = st_Reason out"
  "st_ExitCode (withPodName out pod) = st_ExitCode out"
  by (simp_all add: withPodName_def)

lemma withPodName_id:
  "st_PodName st = st_PodName (withPodName out pod) \<Longrightarrow> withPodName st pod = st"
  by (cases st) (auto simp: withPodName_def split: if_splits)

lemma timedOut_status [simp]: "timedOut (sb\<lparr>sb_Status := st\<rparr>) s now = timedOut sb s now"
  by (auto simp: timedOut_def split: option.splits)

lemma fromPodPhase_status [simp]:
  "fromPodPhase out pod now (sb\<lparr>sb_Status := st\<rparr>) = fromPodPhase out pod now sb"
  by (cases "pod_Phase pod") (simp_all add: fromPodPhase_def derivedRunning_def)

lemma deriveLive_status [simp]:
  "deriveLive (sb\<lparr>sb_Status := st\<rparr>) out pod now = deriveLive sb out pod now"
  by (auto simp: deriveLive_def Let_def)

lemma fromPodPhase_PodName [simp]: "st_PodName (fromPodPhase out pod now sb) = st_PodName out"
  by (auto simp: fromPodPhase_def derivedRunning_def Let_def split: PodPhase.splits prod.splits)

lemma fromPodPhase_idem:
  assumes "\<not> isTerminal (st_Phase (fromPodPhase out pod now sb))"
  shows "fromPodPhase (fromPodPhase out pod now sb) pod now sb = fromPodPhase out pod now sb"
  using assms
  by (cases "pod_Phase pod")
    (auto simp: fromPodPhase_def derivedRunning_def Let_def split: prod.splits if_splits)

lemma fromPodPhase_live_phases:
  "\<not> isTerminal (st_Phase (fromPodPhase out pod now sb)) \<Longrightarrow>
   st_Phase (fromPodPhase out pod now sb) = SandboxPhasePending \<or>
   st_Phase (fromPodPhase out pod now sb) = SandboxPhaseRunning"
  using fromPodPhase_phases [of out pod now sb] by auto

lemma deriveLive_PodName [simp]: "st_PodName (deriveLive sb out pod now) = st_PodName out"
  by (simp add: deriveLive_def Let_def)

lemma deriveLive_idem:
  assumes "\<not> isTerminal (st_Phase (deriveLive sb out pod now))"
  shows "deriveLive sb (deriveLive sb out pod now) pod now = deriveLive sb out pod now"
proof -
  let ?res = "fromPodPhase out pod now sb"
  have "\<not> isCoordinatorPhase (st_Phase ?res)" if "\<not> isTerminal (st_Phase ?res)"
    using fromPodPhase_live_phases [OF that] by auto
  then show ?thesis
    using assms fromPodPhase_idem [of out pod now sb]
    by (auto simp: deriveLive_def Let_def split: if_splits)
qed

lemma Derive_live:
  "\<not> isTerminal (st_Phase (sb_Status sb)) \<Longrightarrow>
   Derive sb (Some pod) now = deriveLive sb (withPodName (sb_Status sb) pod) pod now"
  by (simp add: Derive_def)

text \<open>
  Deriving is idempotent: a second derivation from the same Pod at the same time, on the
  status that the first one produced, changes nothing, so a reconcile that repeats does not
  patch again.
\<close>

lemma Derive_idempotent:
  "Derive (sb\<lparr>sb_Status := Derive sb pod now\<rparr>) pod now = Derive sb pod now"
proof (cases "isTerminal (st_Phase (Derive sb pod now))")
  case True
  then show ?thesis by (simp add: Derive_terminal)
next
  case False
  then have "\<not> isTerminal (st_Phase (sb_Status sb))" by (auto simp: Derive_terminal)
  then show ?thesis
    using False deriveLive_idem
    by (cases pod) (simp_all add: Derive_no_pod Derive_live withPodName_id)
qed

section \<open>Transition times and start times\<close>

lemma deriveLive_transition:
  "\<not> isTerminal (st_Phase out) \<Longrightarrow> transition_exact out (deriveLive sb out pod now) now"
  using fromPodPhase_transition [of out pod now sb]
  by (auto simp: deriveLive_def Let_def transition_exact_def setPhase_LastTransitionTime)

text \<open>
  C3. The transition time is honest. Every derivation, and each policy on any status, sets the
  last transition time to the current time when the phase changes and keeps it when the phase
  does not change.
\<close>

theorem transition_time_moves_with_phase:
  "transition_exact (sb_Status sb) (Derive sb pod now) now \<and>
   transition_exact st (ApplySessionIdlePolicy parse sb cls st now) now \<and>
   transition_exact st (ApplyPausePolicy sb cls st now) now"
proof -
  have "transition_exact (sb_Status sb) (Derive sb pod now) now"
    using deriveLive_transition [of "withPodName (sb_Status sb) (the pod)" sb "the pod" now]
    by (cases pod) (simp_all add: Derive_def Let_def transition_exact_def setPhase_LastTransitionTime)
  then show ?thesis
    by (simp add: ApplySessionIdlePolicy_def ApplyPausePolicy_def split: option.split)
qed

lemma deriveLive_StartedAt_Some:
  "st_StartedAt out = Some t \<Longrightarrow> st_StartedAt (deriveLive sb out pod now) = Some t"
  by (simp add: deriveLive_def fromPodPhase_StartedAt_Some Let_def)

lemma status_step_StartedAt:
  assumes "status_step sb sb'" "st_StartedAt (sb_Status sb) = Some t"
  shows "st_StartedAt (sb_Status sb') = Some t"
  using assms
proof (cases rule: status_step.cases)
  case (derive pod now)
  then show ?thesis using assms(2)
    by (cases pod) (simp_all add: Derive_def Let_def deriveLive_StartedAt_Some)
qed (auto simp: ApplySessionIdlePolicy_def ApplyPausePolicy_def split: option.splits)

text \<open>
  The start time is recorded once. Along every run, a recorded start time is never moved or
  cleared, so restarts, stale Pods and pauses cannot extend the lifecycle timeout.
\<close>

lemma started_at_is_write_once:
  assumes "status_run sb sb'" and "st_StartedAt (sb_Status sb) = Some t"
  shows "st_StartedAt (sb_Status sb') = Some t"
  using assms
  by (induction rule: status_run.induct) (auto intro: status_step_StartedAt)

section \<open>Which phase is derived\<close>

definition startOf :: "SandboxStatus \<Rightarrow> Pod \<Rightarrow> gotime \<Rightarrow> gotime" where
  "startOf st pod now =
     (case st_StartedAt st of
        Some t \<Rightarrow> t
      | None \<Rightarrow> (case pod_StartTime pod of Some t \<Rightarrow> t | None \<Rightarrow> now))"

lemma derivedRunning_phase:
  "st_Phase (derivedRunning sb out pod now) =
     (if declaresReadiness pod \<and> \<not> podReady pod then SandboxPhasePending
      else if timedOut sb (Some (startOf out pod now)) now then SandboxPhaseFailed
      else SandboxPhaseRunning)"
  by (auto simp: derivedRunning_def startOf_def Let_def split: option.splits)

lemma derivedRunning_Pending_StartedAt:
  "st_Phase (derivedRunning sb out pod now) = SandboxPhasePending \<Longrightarrow>
   st_StartedAt (derivedRunning sb out pod now) = st_StartedAt out"
  by (auto simp: derivedRunning_def Let_def split: if_splits)

text \<open>
  When a Sandbox is served. A Sandbox whose Pod runs and that the coordinator does not hold
  is Running exactly when the Pod is ready, if it declares readiness, and the lifecycle timeout
  has not passed since the recorded start, which is the start of the Pod or the current time
  when none was recorded; it is never Completed, and it is Failed only with the reason Timeout.
\<close>

lemma running_pod_phase:
  assumes "\<not> isTerminal (st_Phase (sb_Status sb))"
    and "\<not> isCoordinatorPhase (st_Phase (sb_Status sb))" and "pod_Phase pod = PodRunning"
  shows "(st_Phase (Derive sb (Some pod) now) = SandboxPhaseRunning \<longleftrightarrow>
            (declaresReadiness pod \<longrightarrow> podReady pod) \<and>
            \<not> timedOut sb (Some (startOf (sb_Status sb) pod now)) now) \<and>
         st_Phase (Derive sb (Some pod) now) \<noteq> SandboxPhaseCompleted \<and>
         (st_Phase (Derive sb (Some pod) now) = SandboxPhaseFailed \<longrightarrow>
            st_Reason (Derive sb (Some pod) now) = ReasonTimeout)"
proof -
  let ?out = "withPodName (sb_Status sb) pod"
  have [simp]: "startOf ?out pod now = startOf (sb_Status sb) pod now" by (simp add: startOf_def)
  have reason: "st_Reason (derivedRunning sb ?out pod now) = ReasonTimeout"
    if "st_Phase (derivedRunning sb ?out pod now) = SandboxPhaseFailed"
    using that by (auto simp: derivedRunning_def Let_def split: if_splits)
  have "Derive sb (Some pod) now =
    (let out = derivedRunning sb ?out pod now
     in if st_Phase out = SandboxPhasePending \<and> timedOut sb (st_StartedAt out) now
        then setPhase out SandboxPhaseFailed ReasonTimeout now else out)"
    using assms by (simp add: Derive_live deriveLive_def fromPodPhase_def)
  then show ?thesis
    using reason by (auto simp: Let_def derivedRunning_phase split: if_splits)
qed

text \<open>
  C4. The lifecycle timeout is enforced. When a Sandbox states a positive timeout and more than that
  has passed since its start (the start that the derived status records, or the creation while there
  is none), the derived phase is terminal, with three exceptions, and no others: there is no Pod (the
  status is Pending until the Pod is created again); the coordinator holds the Sandbox in one of its
  phases over a running Pod (the status is left alone); the Sandbox is a session and its Pod has ended
  (it is Pending with the reason SessionVMRestarting until its new Pod is seen). So it is never left
  or put in Running.
\<close>

theorem lifecycle_timeout_enforced:
  assumes limit: "sp_Lifecycle (sb_Spec sb) = Some lc" "lc_Timeout lc = Some d" "0 < d"
    and start: "start = (case st_StartedAt (Derive sb podOpt now) of
                           None \<Rightarrow> om_CreationTimestamp (sb_Meta sb) | Some t \<Rightarrow> t)"
    and late: "\<not> time_IsZero start" "d < time_Sub now start"
  shows "isTerminal (st_Phase (Derive sb podOpt now)) \<or>
    (case podOpt of
       None \<Rightarrow> st_Phase (Derive sb podOpt now) = SandboxPhasePending
     | Some pod \<Rightarrow>
         isCoordinatorPhase (st_Phase (sb_Status sb)) \<and> pod_Phase pod = PodRunning \<and>
           st_Phase (Derive sb podOpt now) = st_Phase (sb_Status sb) \<or>
         IsSession (sb_Spec sb) \<and> pod_Phase pod \<in> {PodSucceeded, PodFailed} \<and>
           st_Phase (Derive sb podOpt now) = SandboxPhasePending \<and>
           st_Reason (Derive sb podOpt now) = ReasonSessionVMRestarting)"
proof (cases "isTerminal (st_Phase (sb_Status sb))")
  case False
  have out: "timedOut sb (st_StartedAt (Derive sb podOpt now)) now"
    using limit start late by (simp add: timedOut_def Let_def)
  show ?thesis
  proof (cases podOpt)
    case None
    then show ?thesis using False by (simp add: Derive_def)
  next
    case (Some pod)
    let ?res = "fromPodPhase (withPodName (sb_Status sb) pod) pod now sb"
    have "isTerminal (st_Phase ?res) \<or> st_Phase ?res = SandboxPhasePending"
      if "timedOut sb (st_StartedAt ?res) now"
      using that fromPodPhase_phases [of "withPodName (sb_Status sb) pod" pod now sb]
      by (auto simp: fromPodPhase_def derivedRunning_def Let_def split: PodPhase.splits prod.splits if_splits)
    then show ?thesis
      using out Some False by (auto simp: Derive_live deriveLive_def Let_def split: if_splits)
  qed
qed (simp add: Derive_def)

theorem lifecycle_timeout_enforced_witness:
  "let sb = ex_session\<lparr>sb_Status := zero_SandboxStatus\<lparr>st_StartedAt := Some 1\<rparr>\<rparr>;
       st = Derive sb (Some (zero_Pod\<lparr>pod_Phase := PodRunning\<rparr>)) (2 * hour)
   in isTerminal (st_Phase st)"
proof -
  let ?sb = "ex_session\<lparr>sb_Status := zero_SandboxStatus\<lparr>st_StartedAt := Some 1\<rparr>\<rparr>"
  let ?pod = "zero_Pod\<lparr>pod_Phase := PodRunning\<rparr>"
  have at: "st_StartedAt (Derive ?sb (Some ?pod) (2 * hour)) = Some 1"
    by (simp add: Derive_def deriveLive_def fromPodPhase_def derivedRunning_def withPodName_def zero_defs
        ex_session_def isTerminal_def Let_def)
  show ?thesis
    using lifecycle_timeout_enforced [of ?sb _ _ 1 "Some ?pod" "2 * hour"] at
    by (simp add: ex_session_def ex_session_spec_def zero_defs isTerminal_def time_IsZero_def time_Sub_def
        minDuration_def maxDuration_def Let_def)
qed

section \<open>When the policies fire\<close>

lemma LastSessionActivity_latest:
  "LastSessionActivity parse sb =
     Max ({om_CreationTimestamp (sb_Meta sb)} \<union> set_option (st_StartedAt (sb_Status sb)) \<union>
          set_option (Option.bind (om_Annotations (sb_Meta sb) AnnotationLastActivity) parse))"
  by (auto simp: LastSessionActivity_def Let_def time_After_def split: option.splits)

text \<open>
  Idle eviction is exact. The idle policy changes a status exactly when the Sandbox is a
  Running session of a class that sets a positive idle timeout and has no session checkpoints,
  and the timeout has passed since the last activity, which is the latest of the creation, the
  recorded start and the last heartbeat; the result is then Failed with the reason
  IdleTimeout. So a session with a heartbeat newer than the timeout is never evicted.
\<close>

lemma idle_eviction_exact:
  "(ApplySessionIdlePolicy parse sb cls st now \<noteq> st \<longleftrightarrow>
      (\<exists>c d. cls = Some c \<and> cs_SessionIdleTimeout (cl_Spec c) = Some d \<and> 0 < d \<and>
         cs_SessionCheckpoint (cl_Spec c) = None \<and> IsSession (sb_Spec sb) \<and>
         st_Phase st = SandboxPhaseRunning \<and> LastSessionActivity parse sb + d \<le> now)) \<and>
   (ApplySessionIdlePolicy parse sb cls st now \<noteq> st \<longrightarrow>
      ApplySessionIdlePolicy parse sb cls st now = setPhase st SandboxPhaseFailed ReasonIdleTimeout now) \<and>
   LastSessionActivity parse sb =
     Max ({om_CreationTimestamp (sb_Meta sb)} \<union> set_option (st_StartedAt (sb_Status sb)) \<union>
          set_option (Option.bind (om_Annotations (sb_Meta sb) AnnotationLastActivity) parse))"
proof (cases "st_Phase st = SandboxPhaseRunning \<and> (\<exists>c. cls = Some c \<and> cs_SessionCheckpoint (cl_Spec c) = None)")
  case False
  then have "ApplySessionIdlePolicy parse sb cls st now = st"
    by (cases cls) (auto simp: ApplySessionIdlePolicy_def SessionIdleDeadline_def)
  then show ?thesis using False LastSessionActivity_latest by auto
next
  case True
  then obtain c where c: "cls = Some c" "cs_SessionCheckpoint (cl_Spec c) = None"
    and r: "st_Phase st = SandboxPhaseRunning" by blast
  have eq: "ApplySessionIdlePolicy parse sb cls st now =
    (case SessionIdleDeadline parse sb cls of None \<Rightarrow> st
     | Some t \<Rightarrow> if now < t then st else setPhase st SandboxPhaseFailed ReasonIdleTimeout now)"
    using c r by (simp add: ApplySessionIdlePolicy_def time_Before_def split: option.split)
  have ne: "setPhase st SandboxPhaseFailed ReasonIdleTimeout now \<noteq> st"
    using r by (metis SandboxPhase.distinct setPhase_fields(1))
  show ?thesis
    unfolding eq LastSessionActivity_latest [symmetric] using ne c r
    by (auto simp: SessionIdleDeadline_def time_Add_def split: option.splits if_splits)
qed

text \<open>
  The pause cap is exact. The pause policy changes a status exactly when it is Paused since
  a recorded time, its class sets a positive maximum pause, that time has passed, and the
  Sandbox is not a session with checkpoints (which is suspended instead); the result is then
  Failed with the reason PauseTimeoutExceeded.
\<close>

lemma pause_cap_exact:
  "(ApplyPausePolicy sb cls st now \<noteq> st \<longleftrightarrow>
      (\<exists>c d t. cls = Some c \<and> cs_MaxPauseDuration (cl_Spec c) = Some d \<and> 0 < d \<and>
         \<not> (IsSession (sb_Spec sb) \<and> cs_SessionCheckpoint (cl_Spec c) \<noteq> None) \<and>
         st_Phase st = SandboxPhasePaused \<and> st_PausedAt st = Some t \<and> t + d \<le> now)) \<and>
   (ApplyPausePolicy sb cls st now \<noteq> st \<longrightarrow>
      ApplyPausePolicy sb cls st now = setPhase st SandboxPhaseFailed ReasonPauseTimeout now)"
proof -
  have ne: "setPhase st SandboxPhaseFailed ReasonPauseTimeout now \<noteq> st" if "st_Phase st = SandboxPhasePaused"
    using that by (metis SandboxPhase.distinct setPhase_fields(1))
  show ?thesis
    using ne
    by (auto simp: ApplyPausePolicy_def PauseDeadline_def time_Before_def time_Add_def
        split: option.splits if_splits)
qed

end
