(* ===== verification/Netip.thy ===== *)
theory Netip
  imports Prelude
begin

unbundle bit_operations_syntax

text \<open>
  The values of Go's \<open>net/netip\<close> that the network policy generator computes with. An
  address holds 128 bits and a tag: no address, IPv4 (stored in the mapped range
  \<open>::ffff:0:0/96\<close>), or IPv6 with a zone. A prefix is an address with a length. The
  lemmas give prefixes their meaning as sets of addresses: masking keeps the set, two prefixes
  overlap exactly when their sets meet, and overlapping prefixes are nested.
\<close>

section \<open>Addresses\<close>

datatype zkind = Z0 | Z4 | Z6 string

record Addr =
  ad_addr :: "128 word"
  ad_z :: zkind

definition zero_Addr :: Addr where
  "zero_Addr = \<lparr>ad_addr = 0, ad_z = Z0\<rparr>"

definition Is4 :: "Addr \<Rightarrow> bool" where
  "Is4 a \<longleftrightarrow> ad_z a = Z4"

definition Is6 :: "Addr \<Rightarrow> bool" where
  "Is6 a \<longleftrightarrow> ad_z a \<noteq> Z0 \<and> ad_z a \<noteq> Z4"

definition Is4In6 :: "Addr \<Rightarrow> bool" where
  "Is4In6 a \<longleftrightarrow> Is6 a \<and> drop_bit 32 (ad_addr a) = 0xffff"

definition Unmap :: "Addr \<Rightarrow> Addr" where
  "Unmap a = (if Is4In6 a then a\<lparr>ad_z := Z4\<rparr> else a)"

fun zBitLen :: "zkind \<Rightarrow> nat" where
  "zBitLen Z0 = 0"
| "zBitLen Z4 = 32"
| "zBitLen (Z6 _) = 128"

definition BitLen :: "Addr \<Rightarrow> nat" where
  "BitLen a = zBitLen (ad_z a)"

definition hasZone :: "Addr \<Rightarrow> bool" where
  "hasZone a \<longleftrightarrow> ad_z a \<noteq> Z0 \<and> ad_z a \<noteq> Z4 \<and> ad_z a \<noteq> Z6 ''''"

definition withoutZone :: "Addr \<Rightarrow> Addr" where
  "withoutZone a = (if Is6 a then a\<lparr>ad_z := Z6 ''''\<rparr> else a)"

definition AddrFrom4 :: "32 word \<Rightarrow> Addr" where
  "AddrFrom4 v = \<lparr>ad_addr = push_bit 32 0xffff OR ucast v, ad_z = Z4\<rparr>"

definition AddrFrom16 :: "128 word \<Rightarrow> Addr" where
  "AddrFrom16 v = \<lparr>ad_addr = v, ad_z = Z6 ''''\<rparr>"

text \<open>Every operation of the package builds well-formed addresses: an IPv4 address is in the mapped range.\<close>

definition addr_ok :: "Addr \<Rightarrow> bool" where
  "addr_ok a \<longleftrightarrow> (ad_z a = Z0 \<longrightarrow> ad_addr a = 0) \<and> (ad_z a = Z4 \<longrightarrow> drop_bit 32 (ad_addr a) = 0xffff)"

section \<open>Byte slices of an address\<close>

definition bytesOf :: "nat \<Rightarrow> 128 word \<Rightarrow> 8 word list" where
  "bytesOf n v = map (\<lambda>i. ucast (drop_bit (8 * (n - 1 - i)) v)) [0..<n]"

definition ofBytes :: "8 word list \<Rightarrow> 128 word" where
  "ofBytes bs = foldl (\<lambda>acc b. push_bit 8 acc OR ucast b) 0 bs"

definition AsSlice :: "Addr \<Rightarrow> 8 word list" where
  "AsSlice a =
     (case ad_z a of Z0 \<Rightarrow> [] | Z4 \<Rightarrow> bytesOf 4 (ad_addr a) | Z6 _ \<Rightarrow> bytesOf 16 (ad_addr a))"

definition AddrFromSlice :: "8 word list \<Rightarrow> Addr option" where
  "AddrFromSlice bs =
     (if length bs = 4 then Some (AddrFrom4 (ucast (ofBytes bs)))
      else if length bs = 16 then Some (AddrFrom16 (ofBytes bs))
      else None)"

section \<open>Prefixes\<close>

text \<open>The length is stored plus one, so that the zero value is invalid.\<close>

record Prefix =
  pf_ip :: Addr
  pf_bitsPlusOne :: nat

definition Bits :: "Prefix \<Rightarrow> int" where
  "Bits p = int (pf_bitsPlusOne p) - 1"

definition IsValid :: "Prefix \<Rightarrow> bool" where
  "IsValid p \<longleftrightarrow> 0 < pf_bitsPlusOne p"

definition PrefixFrom :: "Addr \<Rightarrow> int \<Rightarrow> Prefix" where
  "PrefixFrom ip bits =
     \<lparr>pf_ip = withoutZone ip,
      pf_bitsPlusOne =
        (if ad_z ip \<noteq> Z0 \<and> 0 \<le> bits \<and> bits \<le> int (BitLen ip) then nat bits + 1 else 0)\<rparr>"

definition zero_Prefix :: Prefix where
  "zero_Prefix = \<lparr>pf_ip = zero_Addr, pf_bitsPlusOne = 0\<rparr>"

definition mask6 :: "nat \<Rightarrow> 128 word" where
  "mask6 n = push_bit (128 - n) (mask n)"

definition effectiveBits :: "Addr \<Rightarrow> nat \<Rightarrow> nat" where
  "effectiveBits ip b = (if Is4 ip then b + 96 else b)"

text \<open>\<open>Addr.Prefix\<close>; \<open>None\<close> is the error of a length out of range.\<close>

definition AddrPrefix :: "Addr \<Rightarrow> int \<Rightarrow> Prefix option" where
  "AddrPrefix ip b =
     (let ip = withoutZone ip
      in if b < 0 then None
         else if ad_z ip = Z0 then Some zero_Prefix
         else if int (BitLen ip) < b then None
         else Some (PrefixFrom (ip\<lparr>ad_addr := ad_addr ip AND mask6 (effectiveBits ip (nat b))\<rparr>) b))"

definition Masked :: "Prefix \<Rightarrow> Prefix" where
  "Masked p = (case AddrPrefix (pf_ip p) (Bits p) of None \<Rightarrow> zero_Prefix | Some q \<Rightarrow> q)"

definition Contains :: "Prefix \<Rightarrow> Addr \<Rightarrow> bool" where
  "Contains p ip \<longleftrightarrow>
     IsValid p \<and> \<not> hasZone ip \<and>
     BitLen (pf_ip p) \<noteq> 0 \<and> BitLen ip \<noteq> 0 \<and> BitLen (pf_ip p) = BitLen ip \<and>
     (if Is4 ip
      then take_bit 32 (drop_bit (nat (32 - Bits p)) (ad_addr ip XOR ad_addr (pf_ip p))) = 0
      else (ad_addr ip XOR ad_addr (pf_ip p)) AND mask6 (nat (Bits p)) = 0)"

definition Overlaps :: "Prefix \<Rightarrow> Prefix \<Rightarrow> bool" where
  "Overlaps p q \<longleftrightarrow>
     (if \<not> IsValid p \<or> \<not> IsValid q then False
      else if p = q then True
      else if Is4 (pf_ip p) \<noteq> Is4 (pf_ip q) then False
      else
        let minBits = min (Bits p) (Bits q)
        in if minBits = 0 then True
           else
             (case AddrPrefix (pf_ip p) minBits of
                None \<Rightarrow> False
              | Some p' \<Rightarrow>
                  (case AddrPrefix (pf_ip q) minBits of
                     None \<Rightarrow> False
                   | Some q' \<Rightarrow> pf_ip p' = pf_ip q')))"

section \<open>Agreement on leading bits\<close>

definition agree :: "nat \<Rightarrow> 128 word \<Rightarrow> 128 word \<Rightarrow> bool" where
  "agree e a b \<longleftrightarrow> (\<forall>i<128. 128 - e \<le> i \<longrightarrow> bit a i = bit b i)"

lemma agree_refl [simp]: "agree e a a"
  by (simp add: agree_def)

lemma agree_sym: "agree e a b \<Longrightarrow> agree e b a"
  by (simp add: agree_def)

lemma agree_trans: "agree e a b \<Longrightarrow> agree e b c \<Longrightarrow> agree e a c"
  by (simp add: agree_def)

lemma agree_mono: "agree e a b \<Longrightarrow> e' \<le> e \<Longrightarrow> agree e' a b"
  by (simp add: agree_def)

lemma agree_0 [simp]: "agree 0 a b"
  by (simp add: agree_def)

lemma bit128_le: "bit (a :: 128 word) i \<Longrightarrow> i < 128"
  using bit_imp_le_length [of a i] by simp

lemma agree_drop_bit: "agree e a b \<longleftrightarrow> drop_bit (128 - e) a = drop_bit (128 - e) b"
proof
  assume eq: "drop_bit (128 - e) a = drop_bit (128 - e) b"
  show "agree e a b"
    unfolding agree_def
  proof safe
    fix i :: nat assume "i < 128" "128 - e \<le> i"
    then show "bit a i \<Longrightarrow> bit b i" "bit b i \<Longrightarrow> bit a i"
      using arg_cong [OF eq, of "\<lambda>w. bit w (i - (128 - e))"] by (simp_all add: bit_drop_bit_eq)
  qed
qed (auto simp: agree_def bit_eq_iff bit_drop_bit_eq dest: bit128_le)

lemma bit_mask6: "e \<le> 128 \<Longrightarrow> bit (mask6 e) i \<longleftrightarrow> 128 - e \<le> i \<and> i < 128"
  by (auto simp: mask6_def bit_push_bit_iff bit_mask_iff)

lemma and_mask6_eq: "e \<le> 128 \<Longrightarrow> a AND mask6 e = b AND mask6 e \<longleftrightarrow> agree e a b"
  by (auto simp: bit_eq_iff bit_and_iff bit_mask6 agree_def)

lemma xor_and_mask6_eq: "e \<le> 128 \<Longrightarrow> (a XOR b) AND mask6 e = 0 \<longleftrightarrow> agree e a b"
  by (auto simp: bit_eq_iff bit_and_iff bit_xor_iff bit_mask6 agree_def)

lemma agree_and_mask6: "e \<le> 128 \<Longrightarrow> e' \<le> e \<Longrightarrow> agree e' (a AND mask6 e) a"
  by (auto simp: agree_def bit_and_iff bit_mask6)

lemma v4_agree_96:
  assumes "drop_bit 32 a = (0xffff :: 128 word)" "drop_bit 32 b = 0xffff"
  shows "agree 96 a b"
  using assms by (simp add: agree_drop_bit)

lemma take_drop_bit_0:
  "take_bit 32 (drop_bit k w) = (0 :: 128 word) \<longleftrightarrow> (\<forall>j<32. \<not> bit w (k + j))"
proof
  assume eq: "take_bit 32 (drop_bit k w) = 0"
  show "\<forall>j<32. \<not> bit w (k + j)"
  proof safe
    fix j :: nat assume "j < 32" "bit w (k + j)"
    then show False
      using arg_cong [OF eq, of "\<lambda>w. bit w j"] by (simp add: bit_take_bit_iff bit_drop_bit_eq)
  qed
qed (auto simp: bit_eq_iff bit_take_bit_iff bit_drop_bit_eq)

lemma v4_xor_agree:
  assumes "drop_bit 32 a = (0xffff :: 128 word)" "drop_bit 32 b = 0xffff" "n \<le> 32"
  shows "take_bit 32 (drop_bit (32 - n) (a XOR b)) = 0 \<longleftrightarrow> agree (n + 96) a b"
proof -
  have hi: "bit a i = bit b i" if "32 \<le> i" for i
    using v4_agree_96 [OF assms(1,2)] that by (auto simp: agree_def dest: bit128_le)
  have low: "(\<forall>j<32. bit a (32 - n + j) = bit b (32 - n + j)) \<longleftrightarrow> (\<forall>i<128. 32 - n \<le> i \<longrightarrow> bit a i = bit b i)"
  proof (rule iffI, intro allI impI)
    fix i :: nat assume "\<forall>j<32. bit a (32 - n + j) = bit b (32 - n + j)" "32 - n \<le> i"
    then show "bit a i = bit b i"
      using hi [of i] by (cases "32 \<le> i") (auto dest: spec [of _ "i - (32 - n)"])
  qed (use assms(3) in auto)
  have "take_bit 32 (drop_bit (32 - n) (a XOR b)) = 0 \<longleftrightarrow>
        (\<forall>j<32. bit a (32 - n + j) = bit b (32 - n + j))"
    unfolding take_drop_bit_0 by (auto simp: bit_xor_iff)
  then show ?thesis using low assms(3) by (simp add: agree_def)
qed

section \<open>Prefixes as sets of addresses\<close>

text \<open>The prefixes that parsing and the operations build: well formed, without a zone, of a valid length.\<close>

definition prefix_ok :: "Prefix \<Rightarrow> bool" where
  "prefix_ok p \<longleftrightarrow>
     addr_ok (pf_ip p) \<and> (ad_z (pf_ip p) = Z4 \<or> ad_z (pf_ip p) = Z6 '''') \<and>
     0 < pf_bitsPlusOne p \<and> pf_bitsPlusOne p \<le> BitLen (pf_ip p) + 1"

definition plen :: "Prefix \<Rightarrow> nat" where
  "plen p = effectiveBits (pf_ip p) (nat (Bits p))"

lemma prefix_ok_simps:
  assumes "prefix_ok p"
  shows "IsValid p" "0 \<le> Bits p" "Bits p \<le> int (BitLen (pf_ip p))" "plen p \<le> 128"
    "BitLen (pf_ip p) = (if Is4 (pf_ip p) then 32 else 128)" "withoutZone (pf_ip p) = pf_ip p"
    "ad_z (pf_ip p) \<noteq> Z0" "Is4 (pf_ip p) \<longleftrightarrow> ad_z (pf_ip p) \<noteq> Z6 ''''"
    "Is4 (pf_ip p) \<Longrightarrow> drop_bit 32 (ad_addr (pf_ip p)) = 0xffff"
  using assms
  by (auto simp: prefix_ok_def IsValid_def Bits_def BitLen_def plen_def effectiveBits_def Is4_def
      withoutZone_def Is6_def addr_ok_def)

lemma plen_eq: "prefix_ok p \<Longrightarrow> int (plen p) = (if Is4 (pf_ip p) then Bits p + 96 else Bits p)"
  by (simp add: plen_def effectiveBits_def prefix_ok_simps)

text \<open>Membership: same family, no zone, agreement on the leading bits.\<close>

lemma Contains_iff:
  assumes p: "prefix_ok p" and x: "addr_ok x"
  shows "Contains p x \<longleftrightarrow> ad_z x = ad_z (pf_ip p) \<and> agree (plen p) (ad_addr x) (ad_addr (pf_ip p))"
proof (cases "ad_z x")
  case Z0
  then show ?thesis using prefix_ok_simps [OF p] by (auto simp: Contains_def BitLen_def)
next
  case Z4
  show ?thesis
  proof (cases "Is4 (pf_ip p)")
    case True
    have b: "nat (32 - Bits p) = 32 - nat (Bits p)" "nat (Bits p) \<le> 32"
      using prefix_ok_simps [OF p] True by auto
    have "drop_bit 32 (ad_addr x) = 0xffff" using x Z4 by (simp add: addr_ok_def)
    then show ?thesis
      using prefix_ok_simps [OF p] True Z4 v4_xor_agree [OF _ _ b(2)] b(1)
      by (auto simp: Contains_def BitLen_def hasZone_def Is4_def plen_def effectiveBits_def)
  next
    case False
    then show ?thesis
      using prefix_ok_simps [OF p] Z4 by (auto simp: Contains_def BitLen_def Is4_def)
  qed
next
  case (Z6 zone)
  show ?thesis
  proof (cases "Is4 (pf_ip p)")
    case True
    then show ?thesis using prefix_ok_simps [OF p] Z6 by (auto simp: Contains_def BitLen_def Is4_def)
  next
    case False
    have "nat (Bits p) \<le> 128" using prefix_ok_simps [OF p] False by auto
    then show ?thesis
      using prefix_ok_simps [OF p] False Z6 xor_and_mask6_eq [of "nat (Bits p)"]
      by (auto simp: Contains_def BitLen_def hasZone_def Is4_def plen_def effectiveBits_def)
  qed
qed

lemma withoutZone_id: "ad_z a = Z4 \<or> ad_z a = Z6 '''' \<Longrightarrow> withoutZone a = a"
  by (cases a) (auto simp: withoutZone_def Is6_def)

lemma Addr_update_eq:
  fixes a b :: Addr
  assumes "ad_z a = ad_z b"
  shows "a\<lparr>ad_addr := x\<rparr> = b\<lparr>ad_addr := y\<rparr> \<longleftrightarrow> x = y"
  using assms by (cases a; cases b) auto

lemma AddrPrefix_ok:
  assumes "prefix_ok p" "0 \<le> b" "b \<le> int (BitLen (pf_ip p))"
  shows "AddrPrefix (pf_ip p) b =
    Some \<lparr>pf_ip = (pf_ip p)\<lparr>ad_addr := ad_addr (pf_ip p) AND mask6 (effectiveBits (pf_ip p) (nat b))\<rparr>,
          pf_bitsPlusOne = nat b + 1\<rparr>"
proof -
  have z: "ad_z (pf_ip p) = Z4 \<or> ad_z (pf_ip p) = Z6 ''''" using assms(1) by (simp add: prefix_ok_def)
  show ?thesis
    using assms(2,3) z
    by (auto simp: AddrPrefix_def Let_def PrefixFrom_def BitLen_def withoutZone_id)
qed

lemma Masked_ok_eq:
  assumes "prefix_ok p"
  shows "Masked p = p\<lparr>pf_ip := (pf_ip p)\<lparr>ad_addr := ad_addr (pf_ip p) AND mask6 (plen p)\<rparr>\<rparr>"
proof -
  have "nat (Bits p) + 1 = pf_bitsPlusOne p"
    using assms by (cases "pf_bitsPlusOne p") (auto simp: prefix_ok_def Bits_def)
  then show ?thesis
    using AddrPrefix_ok [OF assms, of "Bits p"] prefix_ok_simps [OF assms] by (simp add: Masked_def plen_def)
qed

lemma v4_and_mask6:
  assumes "drop_bit 32 a = (0xffff :: 128 word)" "96 \<le> e" "e \<le> 128"
  shows "drop_bit 32 (a AND mask6 e) = 0xffff"
proof -
  have "agree 96 (a AND mask6 e) a" using assms by (simp add: agree_and_mask6)
  then show ?thesis using assms(1) by (simp add: agree_drop_bit)
qed

lemma Masked_prefix_ok [simp]:
  assumes "prefix_ok p"
  shows "prefix_ok (Masked p)"
proof -
  have "drop_bit 32 (ad_addr (pf_ip (Masked p))) = 0xffff" if "Is4 (pf_ip p)"
    using v4_and_mask6 [of "ad_addr (pf_ip p)" "plen p"] prefix_ok_simps [OF assms] that
    unfolding Masked_ok_eq [OF assms] by (simp add: plen_def effectiveBits_def)
  then show ?thesis
    using assms by (auto simp: Masked_ok_eq prefix_ok_def addr_ok_def BitLen_def Is4_def simp del: drop_bit_and)
qed

lemma Masked_fields [simp]:
  assumes "prefix_ok p"
  shows "Bits (Masked p) = Bits p" "Is4 (pf_ip (Masked p)) = Is4 (pf_ip p)"
    "ad_z (pf_ip (Masked p)) = ad_z (pf_ip p)" "plen (Masked p) = plen p"
    "BitLen (pf_ip (Masked p)) = BitLen (pf_ip p)"
  using assms by (simp_all add: Masked_ok_eq Bits_def Is4_def plen_def effectiveBits_def BitLen_def)

lemma Masked_agree: "prefix_ok p \<Longrightarrow> agree (plen p) (ad_addr (pf_ip (Masked p))) (ad_addr (pf_ip p))"
  using prefix_ok_simps [of p] by (simp add: Masked_ok_eq agree_and_mask6)

lemma Masked_Contains [simp]:
  assumes "prefix_ok p" "addr_ok x"
  shows "Contains (Masked p) x = Contains p x"
  using assms Masked_agree [OF assms(1)]
  by (auto simp: Contains_iff dest: agree_sym intro: agree_trans)

lemma Contains_self: "prefix_ok p \<Longrightarrow> Contains p (pf_ip p)"
  by (simp add: Contains_iff prefix_ok_def)

text \<open>Overlap is agreement on the shorter length, so overlapping prefixes are nested.\<close>

lemma Overlaps_iff:
  assumes p: "prefix_ok p" and q: "prefix_ok q"
  shows "Overlaps p q \<longleftrightarrow>
    Is4 (pf_ip p) = Is4 (pf_ip q) \<and>
    agree (min (plen p) (plen q)) (ad_addr (pf_ip p)) (ad_addr (pf_ip q))"
proof (cases "p = q \<or> Is4 (pf_ip p) \<noteq> Is4 (pf_ip q)")
  case True
  then show ?thesis using prefix_ok_simps [OF p] prefix_ok_simps [OF q] by (auto simp: Overlaps_def)
next
  case False
  then have fam: "Is4 (pf_ip p) = Is4 (pf_ip q)" and ne: "p \<noteq> q" by auto
  have z: "ad_z (pf_ip p) = ad_z (pf_ip q)"
    using fam p q by (auto simp: prefix_ok_def Is4_def)
  then have bl: "BitLen (pf_ip p) = BitLen (pf_ip q)" by (simp add: BitLen_def)
  define m where "m = min (Bits p) (Bits q)"
  have m: "0 \<le> m" "m \<le> int (BitLen (pf_ip p))" "m \<le> int (BitLen (pf_ip q))"
    using prefix_ok_simps [OF p] prefix_ok_simps [OF q] bl by (auto simp: m_def)
  define e where "e = effectiveBits (pf_ip p) (nat m)"
  have e: "e = min (plen p) (plen q)" "e \<le> 128" "e = effectiveBits (pf_ip q) (nat m)"
    using prefix_ok_simps [OF p] prefix_ok_simps [OF q] fam
    by (auto simp: e_def m_def plen_def effectiveBits_def min_def split: if_splits)
  have zero: "agree e (ad_addr (pf_ip p)) (ad_addr (pf_ip q))" if "m = 0"
  proof (cases "Is4 (pf_ip p)")
    case True
    then show ?thesis
      using that fam prefix_ok_simps(9) [OF p] prefix_ok_simps(9) [OF q] v4_agree_96
      by (simp add: e_def effectiveBits_def)
  qed (use that in \<open>simp add: e_def effectiveBits_def\<close>)
  have "Overlaps p q \<longleftrightarrow> m = 0 \<or> agree e (ad_addr (pf_ip p)) (ad_addr (pf_ip q))"
    using prefix_ok_simps(1) [OF p] prefix_ok_simps(1) [OF q] fam ne z
      AddrPrefix_ok [OF p m(1,2)] AddrPrefix_ok [OF q m(1,3)] and_mask6_eq [OF e(2)]
    unfolding e(3) [symmetric] e_def [symmetric]
    by (simp add: Overlaps_def m_def [symmetric] Let_def Addr_update_eq)
  then show ?thesis using zero fam e(1) by auto
qed

lemma Overlaps_sym: "prefix_ok p \<Longrightarrow> prefix_ok q \<Longrightarrow> Overlaps p q = Overlaps q p"
  by (auto simp: Overlaps_iff min.commute dest: agree_sym)

lemma ok_same_family:
  "prefix_ok p \<Longrightarrow> prefix_ok q \<Longrightarrow> Is4 (pf_ip p) = Is4 (pf_ip q) \<longleftrightarrow> ad_z (pf_ip p) = ad_z (pf_ip q)"
  by (auto simp: prefix_ok_def Is4_def)

lemma Overlaps_nested:
  assumes "prefix_ok p" "prefix_ok q" "Overlaps p q" "Bits p \<le> Bits q" "addr_ok x" "Contains q x"
  shows "Contains p x"
proof -
  have "plen p \<le> plen q"
    using assms plen_eq [of p] plen_eq [of q] by (auto simp: Overlaps_iff split: if_splits)
  then show ?thesis
    using assms ok_same_family [of p q]
    by (auto simp: Overlaps_iff Contains_iff min_absorb1 dest: agree_sym agree_mono intro: agree_trans)
qed

lemma common_member_Overlaps:
  assumes "prefix_ok p" "prefix_ok q" "addr_ok x" "Contains p x" "Contains q x"
  shows "Overlaps p q"
proof -
  let ?m = "min (plen p) (plen q)"
  have "agree ?m (ad_addr (pf_ip p)) (ad_addr x)" "agree ?m (ad_addr x) (ad_addr (pf_ip q))"
    using assms by (auto simp: Contains_iff intro: agree_mono agree_sym)
  then have "agree ?m (ad_addr (pf_ip p)) (ad_addr (pf_ip q))" by (rule agree_trans)
  then show ?thesis using assms ok_same_family [of p q] by (simp add: Overlaps_iff Contains_iff)
qed

theorem Overlaps_sets:
  assumes "prefix_ok p" "prefix_ok q"
  shows "Overlaps p q \<longleftrightarrow> (\<exists>x. addr_ok x \<and> Contains p x \<and> Contains q x)"
proof
  assume o: "Overlaps p q"
  show "\<exists>x. addr_ok x \<and> Contains p x \<and> Contains q x"
  proof (cases "Bits p \<le> Bits q")
    case True
    then show ?thesis
      using assms o Overlaps_nested [of p q "pf_ip q"] Contains_self [of q] by (auto simp: prefix_ok_def)
  next
    case False
    then show ?thesis
      using assms o Overlaps_sym [of p q] Overlaps_nested [of q p "pf_ip p"] Contains_self [of p]
      by (auto simp: prefix_ok_def)
  qed
qed (use assms common_member_Overlaps in blast)

end
