(* ===== verification/Netip_Text.thy ===== *)
theory Netip_Text
  imports Netip
begin

unbundle bit_operations_syntax

text \<open>
  The textual forms of \<open>net/netip\<close>: parsing of addresses and prefixes with Go's rules
  (no leading zeros in IPv4, at most four hexadecimal digits in a group, one ellipsis, an
  embedded IPv4 tail, no zone in a prefix) and the canonical printing (lower case, the first
  longest run of two or more zero groups compressed, mapped addresses with a dotted tail). The
  main result is the round trip: printing a valid prefix and parsing it gives the prefix back.
\<close>

section \<open>IPv4\<close>

text \<open>
  \<open>parseIPv4Fields\<close>: the value of the current field, its number of digits and the
  fields before it. A dot is refused at the start, at the end and after a dot, which is when no
  digit was read or nothing follows.
\<close>

fun parse4 :: "string \<Rightarrow> nat \<Rightarrow> nat \<Rightarrow> nat list \<Rightarrow> nat list option" where
  "parse4 [] val digLen fs = (if length fs < 3 then None else Some (fs @ [val]))"
| "parse4 (c # s) val digLen fs =
     (if is_digit c then
        (if digLen = 1 \<and> val = 0 then None
         else if 255 < val * 10 + digit_val c then None
         else parse4 s (val * 10 + digit_val c) (digLen + 1) fs)
      else if c = CHR ''.'' then
        (if digLen = 0 \<or> s = [] then None
         else if length fs = 3 then None
         else parse4 s 0 0 (fs @ [val]))
      else None)"

definition parseIPv4Fields :: "string \<Rightarrow> nat list option" where
  "parseIPv4Fields s = parse4 s 0 0 []"

definition of_octets :: "nat list \<Rightarrow> 32 word" where
  "of_octets fs = of_nat (foldl (\<lambda>acc f. acc * 256 + f) 0 fs)"

definition octets :: "32 word \<Rightarrow> nat list" where
  "octets v = [unat v div 2 ^ 24, unat v div 2 ^ 16 mod 256, unat v div 2 ^ 8 mod 256, unat v mod 256]"

definition parseIPv4 :: "string \<Rightarrow> Addr option" where
  "parseIPv4 s = map_option (\<lambda>fs. AddrFrom4 (of_octets fs)) (parseIPv4Fields s)"

definition string4 :: "32 word \<Rightarrow> string" where
  "string4 v = str_Join (map nat_itoa (octets v)) ''.''"

section \<open>IPv6\<close>

definition is_hex :: "char \<Rightarrow> bool" where
  "is_hex c \<longleftrightarrow> is_digit c \<or> (97 \<le> (of_char c :: nat) \<and> (of_char c :: nat) \<le> 102) \<or>
     (65 \<le> (of_char c :: nat) \<and> (of_char c :: nat) \<le> 70)"

definition hex_val :: "char \<Rightarrow> nat" where
  "hex_val c =
     (let n = of_char c in if n \<le> 57 then n - 48 else if 97 \<le> n then n - 97 + 10 else n - 65 + 10)"

definition hex_number :: "string \<Rightarrow> nat" where
  "hex_number s = foldl (\<lambda>acc c. acc * 16 + hex_val c) 0 s"

definition hex_char :: "nat \<Rightarrow> char" where
  "hex_char d = (if d < 10 then char_of (48 + d) else char_of (87 + d))"

fun nat_hex :: "nat \<Rightarrow> string" where
  "nat_hex n = (if n < 16 then [hex_char n] else nat_hex (n div 16) @ [hex_char (n mod 16)])"

declare nat_hex.simps [simp del]

lemma length_dropWhile_less:
  assumes "dropWhile P s \<noteq> []"
  shows "length (dropWhile P s) - Suc 0 < length s" "length (dropWhile P s) - Suc (Suc 0) < length s"
  using assms length_dropWhile_le [of P s] by (cases "dropWhile P s"; auto)+

text \<open>
  The loop of \<open>parseIPv6\<close>: the rest of the text, the groups read so far and the position of
  the ellipsis. The result is the groups and the position of the ellipsis once the whole text is
  used.
\<close>

function parse6 :: "string \<Rightarrow> nat list \<Rightarrow> nat option \<Rightarrow> (nat list \<times> nat option) option" where
  "parse6 s gs ell =
     (if 8 \<le> length gs then (if s = [] then Some (gs, ell) else None)
      else
        let ds = takeWhile is_hex s; rest = dropWhile is_hex s
        in if ds = [] \<or> 4 < length ds then None
           else if rest \<noteq> [] \<and> hd rest = CHR ''.'' then
             (if ell = None \<and> length gs \<noteq> 6 then None
              else if 8 < length gs + 2 then None
              else
                case parseIPv4Fields s of
                  Some [a, b, c, d] \<Rightarrow> Some (gs @ [a * 256 + b, c * 256 + d], ell)
                | _ \<Rightarrow> None)
           else if rest = [] then Some (gs @ [hex_number ds], ell)
           else if hd rest \<noteq> CHR '':'' \<or> tl rest = [] then None
           else if hd (tl rest) = CHR '':'' then
             (if ell \<noteq> None then None
              else if tl (tl rest) = [] then Some (gs @ [hex_number ds], Some (length gs + 1))
              else parse6 (tl (tl rest)) (gs @ [hex_number ds]) (Some (length gs + 1)))
           else parse6 (tl rest) (gs @ [hex_number ds]) ell)"
  by pat_completeness auto
termination
  by (relation "measure (\<lambda>(s, gs, ell). length s)") (auto simp: length_dropWhile_less)

declare parse6.simps [simp del]

text \<open>The expansion of the ellipsis at the end; an ellipsis that stands for nothing is refused.\<close>

definition expand6 :: "nat list \<times> nat option \<Rightarrow> nat list option" where
  "expand6 r =
     (case r of
        (gs, None) \<Rightarrow> (if length gs < 8 then None else Some gs)
      | (gs, Some k) \<Rightarrow>
          (if length gs < 8 then Some (take k gs @ replicate (8 - length gs) 0 @ drop k gs) else None))"

definition of_groups :: "nat list \<Rightarrow> 128 word" where
  "of_groups gs = of_nat (foldl (\<lambda>acc g. acc * 65536 + g) 0 gs)"

definition groups :: "128 word \<Rightarrow> nat list" where
  "groups v = map (\<lambda>i. unat v div 65536 ^ (7 - i) mod 65536) [0..<8]"

definition parseIPv6 :: "string \<Rightarrow> Addr option" where
  "parseIPv6 s =
     (let body = takeWhile (\<lambda>c. c \<noteq> CHR ''%'') s; tail = dropWhile (\<lambda>c. c \<noteq> CHR ''%'') s;
          zone = tl tail
      in if tail \<noteq> [] \<and> zone = [] then None
         else
           let addr = (\<lambda>gs. \<lparr>ad_addr = of_groups gs, ad_z = Z6 zone\<rparr>)
           in if str_HasPrefix body ''::''
              then (if drop 2 body = [] then Some (addr (replicate 8 0))
                    else map_option addr (Option.bind (parse6 (drop 2 body) [] (Some 0)) expand6))
              else map_option addr (Option.bind (parse6 body [] None) expand6))"

text \<open>The run of zero groups that is compressed: the first longest one, of at least two groups.\<close>

definition zero_run :: "nat list \<Rightarrow> nat \<Rightarrow> nat" where
  "zero_run gs i = length (takeWhile (\<lambda>g. g = 0) (drop i gs))"

definition longest_zero_run :: "nat list \<Rightarrow> (nat \<times> nat) option" where
  "longest_zero_run gs =
     foldl (\<lambda>best i.
        let l = zero_run gs i
        in if 2 \<le> l \<and> (case best of None \<Rightarrow> True | Some (a, b) \<Rightarrow> b - a < l)
           then Some (i, i + l) else best) None [0..<length gs]"

definition hex_groups :: "nat list \<Rightarrow> string" where
  "hex_groups gs = str_Join (map nat_hex gs) '':''"

definition string6 :: "128 word \<Rightarrow> string" where
  "string6 v =
     (let gs = groups v
      in case longest_zero_run gs of
           None \<Rightarrow> hex_groups gs
         | Some (a, b) \<Rightarrow> hex_groups (take a gs) @ ''::'' @ hex_groups (drop b gs))"

section \<open>Addresses and prefixes\<close>

text \<open>\<open>ParseAddr\<close> chooses by the first dot, colon or percent sign.\<close>

definition ParseAddr :: "string \<Rightarrow> Addr option" where
  "ParseAddr s =
     (case dropWhile (\<lambda>c. c \<noteq> CHR ''.'' \<and> c \<noteq> CHR '':'' \<and> c \<noteq> CHR ''%'') s of
        [] \<Rightarrow> None
      | c # _ \<Rightarrow> (if c = CHR ''.'' then parseIPv4 s else if c = CHR '':'' then parseIPv6 s else None))"

definition AddrString :: "Addr \<Rightarrow> string" where
  "AddrString a =
     (case ad_z a of
        Z0 \<Rightarrow> ''invalid IP''
      | Z4 \<Rightarrow> string4 (ucast (ad_addr a))
      | Z6 zone \<Rightarrow>
          (if Is4In6 a then ''::ffff:'' @ string4 (ucast (ad_addr a)) else string6 (ad_addr a)) @
          (if zone = [] then [] else CHR ''%'' # zone))"

definition parse_bits :: "string \<Rightarrow> nat option" where
  "parse_bits s =
     (if s = [] \<or> \<not> list_all is_digit s \<or> (1 < length s \<and> hd s = CHR ''0'') then None
      else Some (foldl (\<lambda>acc c. acc * 10 + digit_val c) 0 s))"

definition ParsePrefix :: "string \<Rightarrow> Prefix option" where
  "ParsePrefix s =
     (if CHR ''/'' \<notin> set s then None
      else
        let bitsStr = rev (takeWhile (\<lambda>c. c \<noteq> CHR ''/'') (rev s));
            ipStr = take (length s - length bitsStr - 1) s
        in case ParseAddr ipStr of
             None \<Rightarrow> None
           | Some ip \<Rightarrow>
               (if hasZone ip then None
                else
                  case parse_bits bitsStr of
                    None \<Rightarrow> None
                  | Some n \<Rightarrow> (if BitLen ip < n then None else Some (PrefixFrom ip (int n)))))"

definition PrefixString :: "Prefix \<Rightarrow> string" where
  "PrefixString p =
     (if \<not> IsValid p then ''invalid Prefix'' else AddrString (pf_ip p) @ ''/'' @ itoa (Bits p))"

section \<open>Decimal and hexadecimal digits\<close>

lemma digit_char_not_special [simp]:
  "\<not> is_digit CHR ''.''" "\<not> is_digit CHR '':''" "\<not> is_digit CHR ''/''" "\<not> is_digit CHR ''%''"
  by (simp_all add: is_digit_def)

lemma nat_itoa_number: "foldl (\<lambda>acc c. acc * 10 + digit_val c) 0 (nat_itoa n) = n"
proof (induction n rule: nat_itoa.induct)
  case (1 n)
  then show ?case by (cases "n < 10") (simp_all add: nat_itoa.simps [of n])
qed

lemma hd_nat_itoa: "0 < n \<Longrightarrow> hd (nat_itoa n) \<noteq> CHR ''0''"
proof (induction n rule: nat_itoa.induct)
  case (1 n)
  show ?case
  proof (cases "n < 10")
    case True
    then have "(of_char (digit_char n) :: nat) \<noteq> of_char CHR ''0''" using 1 by simp
    then have "digit_char n \<noteq> CHR ''0''" by metis
    then show ?thesis using True by (simp add: nat_itoa.simps [of n])
  next
    case False
    then show ?thesis using 1 by (simp add: nat_itoa.simps [of n])
  qed
qed

lemma parse_bits_itoa [simp]: "parse_bits (nat_itoa n) = Some n"
proof -
  have "\<not> (1 < length (nat_itoa n) \<and> hd (nat_itoa n) = CHR ''0'')"
    using hd_nat_itoa [of n] by (cases "n = 0") (auto simp: nat_itoa.simps [of 0])
  then show ?thesis
    by (auto simp: parse_bits_def nat_itoa_number list_all_iff nat_itoa_digits)
qed

lemma nat_itoa_1: "n < 10 \<Longrightarrow> nat_itoa n = [digit_char n]"
  by (simp add: nat_itoa.simps [of n])

lemma nat_itoa_step: "10 \<le> n \<Longrightarrow> nat_itoa n = nat_itoa (n div 10) @ [digit_char (n mod 10)]"
  by (simp add: nat_itoa.simps [of n])

lemma nat_itoa_2: "10 \<le> n \<Longrightarrow> n < 100 \<Longrightarrow> nat_itoa n = [digit_char (n div 10), digit_char (n mod 10)]"
  by (simp add: nat_itoa_step nat_itoa_1 less_mult_imp_div_less)

lemma nat_itoa_3:
  assumes "100 \<le> n" "n < 1000"
  shows "nat_itoa n = [digit_char (n div 10 div 10), digit_char (n div 10 mod 10), digit_char (n mod 10)]"
proof -
  have "10 \<le> n div 10" "n div 10 < 100" using assms by linarith+
  then show ?thesis using assms nat_itoa_2 [of "n div 10"] by (simp add: nat_itoa_step [of n])
qed

lemma length_nat_itoa: "n < 256 \<Longrightarrow> length (nat_itoa n) \<le> 3"
  using nat_itoa_1 [of n] nat_itoa_2 [of n] nat_itoa_3 [of n] by (cases "n < 10"; cases "n < 100") auto

lemma parse4_field:
  assumes "n < 256"
  shows "parse4 (nat_itoa n @ s) 0 0 fs = parse4 s n (length (nat_itoa n)) fs"
proof -
  consider "n < 10" | "10 \<le> n" "n < 100" | "100 \<le> n" "n < 1000" using assms by linarith
  then show ?thesis
  proof cases
    case 2
    then have "n div 10 * 10 + n mod 10 = n" "0 < n div 10" "n div 10 < 10" "n mod 10 < 10" "\<not> 255 < n" by auto
    then show ?thesis using 2 by (simp add: nat_itoa_2)
  next
    case 3
    define m where "m = n div 10"
    have n: "m * 10 + n mod 10 = n" "n mod 10 < 10" "\<not> 255 < n" "\<not> 255 < m" "10 \<le> m" "m < 100"
      using 3 assms by (auto simp: m_def)
    have m: "m div 10 * 10 + m mod 10 = m" "0 < m div 10" "m div 10 < 10" "m mod 10 < 10"
      using n by auto
    show ?thesis using 3 n m nat_itoa_3 [of n] by (simp add: m_def [symmetric])
  qed (simp add: nat_itoa_1)
qed

lemma string4_parts:
  "string4 v = nat_itoa (unat v div 2 ^ 24) @ CHR ''.'' # nat_itoa (unat v div 2 ^ 16 mod 256) @
     CHR ''.'' # nat_itoa (unat v div 2 ^ 8 mod 256) @ CHR ''.'' # nat_itoa (unat v mod 256)"
  by (simp add: string4_def octets_def)

lemma octets_bound: "f \<in> set (octets v) \<Longrightarrow> f < 256"
proof -
  have "unat v < 2 ^ 32" using unsigned_less [of v] by simp
  then show "f \<in> set (octets v) \<Longrightarrow> f < 256" by (auto simp: octets_def less_mult_imp_div_less)
qed

lemma parse4_string4: "parseIPv4Fields (string4 v) = Some (octets v)"
proof -
  let ?a = "unat v div 2 ^ 24" and ?b = "unat v div 2 ^ 16 mod 256"
  let ?c = "unat v div 2 ^ 8 mod 256" and ?d = "unat v mod 256"
  have a: "?a < 256" using octets_bound [of ?a v] by (simp add: octets_def)
  have last: "parse4 (nat_itoa n) 0 0 fs = Some (fs @ [n])" if "n < 256" "length fs = 3" for n fs
    using parse4_field [OF that(1), of "[]" fs] that(2) by simp
  have dot: "parse4 (nat_itoa n @ CHR ''.'' # s) 0 0 fs = parse4 s 0 0 (fs @ [n])"
    if "n < 256" "s \<noteq> []" "length fs < 3" for n s fs
    using parse4_field [OF that(1), of "CHR ''.'' # s" fs] that(2,3) by simp
  show ?thesis
    unfolding parseIPv4Fields_def string4_parts using a
    by (simp add: dot last octets_def)
qed

lemma div_digit: "n div (m * b) * b + n div m mod b = n div (m :: nat)"
  by (simp add: div_mult2_eq)

lemma of_octets_octets [simp]: "of_octets (octets v) = v"
proof -
  define n where "n = unat v"
  have "n div 2 ^ 24 * 256 + n div 2 ^ 16 mod 256 = n div 2 ^ 16"
    "n div 2 ^ 16 * 256 + n div 2 ^ 8 mod 256 = n div 2 ^ 8" "n div 2 ^ 8 * 256 + n mod 256 = n"
    using div_digit [of n "2 ^ 16" 256] div_digit [of n "2 ^ 8" 256] div_digit [of n 1 256] by simp_all
  then show ?thesis unfolding of_octets_def octets_def n_def [symmetric] by (simp add: n_def)
qed

lemma parseIPv4_string4: "parseIPv4 (string4 v) = Some (AddrFrom4 v)"
  by (simp add: parseIPv4_def parse4_string4)

lemma of_char_hex_char: "d < 16 \<Longrightarrow> (of_char (hex_char d) :: nat) = (if d < 10 then 48 + d else 87 + d)"
  by (simp add: hex_char_def)

lemma is_hex_hex_char [simp]: "d < 16 \<Longrightarrow> is_hex (hex_char d)"
  by (simp add: is_hex_def is_digit_def of_char_hex_char)

lemma hex_val_hex_char [simp]: "d < 16 \<Longrightarrow> hex_val (hex_char d) = d"
  by (simp add: hex_val_def of_char_hex_char Let_def)

lemma is_hex_not_special [simp]:
  "\<not> is_hex CHR ''.''" "\<not> is_hex CHR '':''" "\<not> is_hex CHR ''/''" "\<not> is_hex CHR ''%''"
  by (simp_all add: is_hex_def is_digit_def)

lemma is_digit_is_hex: "is_digit c \<Longrightarrow> is_hex c"
  by (simp add: is_hex_def)

lemma nat_hex_nonempty [simp]: "nat_hex n \<noteq> []"
  by (subst nat_hex.simps) simp

lemma nat_hex_digits: "c \<in> set (nat_hex n) \<Longrightarrow> is_hex c"
proof (induction n rule: nat_hex.induct)
  case (1 n)
  then show ?case by (cases "n < 16") (auto simp: nat_hex.simps [of n])
qed

lemma hex_number_nat_hex [simp]: "hex_number (nat_hex n) = n"
  unfolding hex_number_def
proof (induction n rule: nat_hex.induct)
  case (1 n)
  then show ?case by (cases "n < 16") (simp_all add: nat_hex.simps [of n])
qed

lemma length_nat_hex_step: "n < 16 ^ Suc k \<Longrightarrow> length (nat_hex n) \<le> Suc k"
proof (induction k arbitrary: n)
  case 0
  then show ?case by (simp add: nat_hex.simps [of n])
next
  case (Suc k)
  have "n div 16 < 16 ^ Suc k" using Suc.prems by (simp add: less_mult_imp_div_less mult.commute)
  then show ?case using Suc.IH [of "n div 16"] by (simp add: nat_hex.simps [of n])
qed

lemma length_nat_hex: "n < 65536 \<Longrightarrow> length (nat_hex n) \<le> 4"
  using length_nat_hex_step [of n 3] by simp

lemma takeWhile_hex [simp]:
  "takeWhile is_hex (nat_hex n) = nat_hex n" "dropWhile is_hex (nat_hex n) = []"
  "\<not> is_hex c \<Longrightarrow> takeWhile is_hex (nat_hex n @ c # s) = nat_hex n"
  "\<not> is_hex c \<Longrightarrow> dropWhile is_hex (nat_hex n @ c # s) = c # s"
  by (simp_all add: takeWhile_append dropWhile_append nat_hex_digits takeWhile_eq_all_conv
      dropWhile_eq_Nil_conv)

section \<open>The loop on printed groups\<close>

lemma parse6_end:
  assumes "n < 65536" "length gs < 8"
  shows "parse6 (nat_hex n) gs ell = Some (gs @ [n], ell)"
  using assms length_nat_hex [of n] by (simp add: parse6.simps [of "nat_hex n"] Let_def)

lemma parse6_colon:
  assumes "n < 65536" "length gs < 8" "c \<noteq> CHR '':''"
  shows "parse6 (nat_hex n @ CHR '':'' # c # s) gs ell = parse6 (c # s) (gs @ [n]) ell"
  using assms length_nat_hex [of n] by (subst parse6.simps) (simp add: Let_def)

lemma parse6_ellipsis:
  assumes "n < 65536" "length gs < 8"
  shows "parse6 (nat_hex n @ CHR '':'' # CHR '':'' # s) gs None =
    (if s = [] then Some (gs @ [n], Some (length gs + 1)) else parse6 s (gs @ [n]) (Some (length gs + 1)))"
  using assms length_nat_hex [of n] by (subst parse6.simps) (simp add: Let_def)

lemma hex_groups_Cons:
  "hex_groups (x # y # xs) = nat_hex x @ CHR '':'' # hex_groups (y # xs)"
  by (simp add: hex_groups_def)

lemma hex_groups_single [simp]: "hex_groups [x] = nat_hex x" "hex_groups [] = []"
  by (simp_all add: hex_groups_def)

lemma nat_hex_head: "\<exists>c s. nat_hex n = c # s \<and> c \<noteq> CHR '':'' \<and> is_hex c"
proof -
  obtain c s where cs: "nat_hex n = c # s" by (cases "nat_hex n") auto
  then have "is_hex c" using nat_hex_digits [of c n] by simp
  then show ?thesis using cs by auto
qed

lemma hex_groups_head: "xs \<noteq> [] \<Longrightarrow> \<exists>c s. hex_groups xs = c # s \<and> c \<noteq> CHR '':'' \<and> is_hex c"
  by (cases xs rule: remdups_adj.cases) (use nat_hex_head in \<open>auto simp: hex_groups_Cons, metis append_Cons\<close>)

lemma parse6_groups:
  assumes "xs \<noteq> []" "\<forall>x\<in>set xs. x < 65536" "length gs + length xs \<le> 8"
  shows "parse6 (hex_groups xs) gs ell = Some (gs @ xs, ell)"
  using assms
proof (induction xs arbitrary: gs rule: induct_list012)
  case (2 x)
  then show ?case by (simp add: parse6_end)
next
  case (3 x y zs)
  obtain c s where cs: "hex_groups (y # zs) = c # s" "c \<noteq> CHR '':''" using hex_groups_head by blast
  have "parse6 (hex_groups (x # y # zs)) gs ell = parse6 (hex_groups (y # zs)) (gs @ [x]) ell"
    using 3 cs by (simp add: hex_groups_Cons parse6_colon)
  then show ?case using 3 by simp
qed simp

lemma parse6_groups_ellipsis:
  assumes "xs \<noteq> []" "\<forall>x\<in>set (xs @ ys). x < 65536" "length gs + length xs + length ys < 8"
  shows "parse6 (hex_groups xs @ ''::'' @ hex_groups ys) gs None =
    Some (gs @ xs @ ys, Some (length gs + length xs))"
  using assms
proof (induction xs arbitrary: gs rule: induct_list012)
  case (2 x)
  show ?case
  proof (cases "ys = []")
    case True
    then show ?thesis using 2 parse6_ellipsis [of x gs "[]"] by simp
  next
    case False
    then have "hex_groups ys \<noteq> []" using hex_groups_head by fastforce
    then show ?thesis using 2 False parse6_ellipsis [of x gs "hex_groups ys"] parse6_groups [of ys] by simp
  qed
next
  case (3 x y zs)
  obtain c s where cs: "hex_groups (y # zs) = c # s" "c \<noteq> CHR '':''" using hex_groups_head by blast
  have "parse6 (hex_groups (x # y # zs) @ ''::'' @ hex_groups ys) gs None =
      parse6 (hex_groups (y # zs) @ ''::'' @ hex_groups ys) (gs @ [x]) None"
    using 3 cs by (simp add: hex_groups_Cons parse6_colon)
  then show ?case using 3 by simp
qed simp

section \<open>The compressed run\<close>

definition zero_span :: "nat list \<Rightarrow> nat \<times> nat \<Rightarrow> bool" where
  "zero_span gs r \<longleftrightarrow> fst r + 2 \<le> snd r \<and> snd r \<le> length gs \<and>
     gs = take (fst r) gs @ replicate (snd r - fst r) 0 @ drop (snd r) gs"

lemma zero_span_run:
  assumes "2 \<le> zero_run gs i" "i < length gs"
  shows "zero_span gs (i, i + zero_run gs i)"
proof -
  define l where "l = zero_run gs i"
  have tw: "takeWhile (\<lambda>g. g = 0) (drop i gs) = replicate l 0"
    unfolding l_def zero_run_def
    by (rule replicate_length_same [symmetric]) (use set_takeWhileD in fastforce)
  have len: "l \<le> length gs - i"
    unfolding l_def zero_run_def using length_takeWhile_le [of "\<lambda>g. g = 0" "drop i gs"] by simp
  have "drop i gs = replicate l 0 @ drop (i + l) gs"
    using takeWhile_eq_take [of "\<lambda>g. g = 0" "drop i gs"] tw
    by (metis add.commute append_take_drop_id drop_drop length_replicate)
  then have "gs = take i gs @ replicate l 0 @ drop (i + l) gs" by (metis append_take_drop_id)
  then show ?thesis using assms len by (simp add: zero_span_def l_def [symmetric])
qed

lemma longest_zero_run_span:
  assumes "longest_zero_run gs = Some r"
  shows "zero_span gs r"
proof -
  let ?f = "\<lambda>best i. let l = zero_run gs i
    in if 2 \<le> l \<and> (case best of None \<Rightarrow> True | Some (a, b) \<Rightarrow> b - a < l) then Some (i, i + l) else best"
  have "foldl ?f best js = Some r \<Longrightarrow> (\<forall>q. best = Some q \<longrightarrow> zero_span gs q) \<Longrightarrow>
      \<forall>i\<in>set js. i < length gs \<Longrightarrow> zero_span gs r" for best js
  proof (induction js arbitrary: best)
    case (Cons i js)
    then show ?case using zero_span_run [of gs i] by (auto simp: Let_def split: if_splits)
  qed simp
  then show ?thesis using assms unfolding longest_zero_run_def by fastforce
qed

section \<open>Groups and words\<close>

lemma length_groups [simp]: "length (groups v) = 8"
  by (simp add: groups_def)

lemma groups_bound: "g \<in> set (groups v) \<Longrightarrow> g < 65536"
  by (auto simp: groups_def)

lemma foldl_digits:
  assumes "n < B ^ m" "0 < (B :: nat)" "j \<le> m"
  shows "foldl (\<lambda>acc g. acc * B + g) 0 (map (\<lambda>i. n div B ^ (m - 1 - i) mod B) [0..<j]) = n div B ^ (m - j)"
  using assms(3)
proof (induction j)
  case 0
  then show ?case using assms by simp
next
  case (Suc j)
  have e: "B ^ (m - j) = B ^ (m - Suc j) * B"
    using Suc.prems by (metis Suc_diff_Suc Suc_le_lessD mult.commute power_Suc)
  have "n div B ^ (m - j) * B + n div B ^ (m - Suc j) mod B = n div B ^ (m - Suc j)"
    unfolding e by (rule div_digit)
  then show ?case using Suc by simp
qed

lemma of_groups_groups [simp]: "of_groups (groups v) = v"
proof -
  have b: "unat v < 65536 ^ 8" using unsigned_less [of v] by simp
  have g: "groups v = map (\<lambda>i. unat v div 65536 ^ (8 - 1 - i) mod 65536) [0..<8]"
    by (simp add: groups_def)
  have "foldl (\<lambda>acc g. acc * 65536 + g) 0 (groups v) = unat v div 65536 ^ (8 - 8)"
    unfolding g by (rule foldl_digits [OF b]) simp_all
  then show ?thesis by (simp add: of_groups_def)
qed

lemma hex_groups_chars: "c \<in> set (hex_groups xs) \<Longrightarrow> is_hex c \<or> c = CHR '':''"
proof (induction xs rule: induct_list012)
  case (3 x y zs)
  then show ?case using nat_hex_digits by (auto simp: hex_groups_Cons)
qed (auto simp: nat_hex_digits)

lemma string6_chars: "c \<in> set (string6 v) \<Longrightarrow> is_hex c \<or> c = CHR '':''"
  by (auto simp: string6_def Let_def dest!: hex_groups_chars split: option.splits)

lemma parseIPv6_no_zone:
  assumes "CHR ''%'' \<notin> set s"
  shows "parseIPv6 s = map_option (\<lambda>gs. AddrFrom16 (of_groups gs))
    (if str_HasPrefix s ''::''
     then (if drop 2 s = [] then Some (replicate 8 0) else Option.bind (parse6 (drop 2 s) [] (Some 0)) expand6)
     else Option.bind (parse6 s [] None) expand6)"
proof -
  have split: "takeWhile (\<lambda>c. c \<noteq> CHR ''%'') s = s" "dropWhile (\<lambda>c. c \<noteq> CHR ''%'') s = []"
    using assms by (auto simp: takeWhile_eq_all_conv dropWhile_eq_Nil_conv)
  show ?thesis unfolding parseIPv6_def split Let_def by (simp add: AddrFrom16_def)
qed

lemma parseIPv6_string6: "parseIPv6 (string6 v) = Some (AddrFrom16 v)"
proof -
  define gs where "gs = groups v"
  have gb: "\<forall>g\<in>set gs. g < 65536" and len: "length gs = 8" and og: "of_groups gs = v"
    using groups_bound by (simp_all add: gs_def)
  have nz: "CHR ''%'' \<notin> set (string6 v)" using string6_chars by force
  have colon: "\<not> str_HasPrefix (c # s) ''::''" if "c \<noteq> CHR '':''" for c s
    using that by (simp add: str_HasPrefix_def)
  show ?thesis
  proof (cases "longest_zero_run gs")
    case None
    have s: "string6 v = hex_groups gs" using None by (simp add: string6_def gs_def [symmetric])
    obtain c r where cr: "hex_groups gs = c # r" "c \<noteq> CHR '':''"
      using hex_groups_head [of gs] len by fastforce
    have "parse6 (hex_groups gs) [] None = Some (gs, None)"
      using parse6_groups [of gs "[]" None] gb len by fastforce
    then show ?thesis
      unfolding parseIPv6_no_zone [OF nz] using s colon [OF cr(2)] cr(1) len og
      by (simp add: parseIPv6_no_zone expand6_def)
  next
    case (Some r)
    obtain a b where r: "r = (a, b)" by (cases r)
    have s: "string6 v = hex_groups (take a gs) @ ''::'' @ hex_groups (drop b gs)"
      using Some r by (simp add: string6_def gs_def [symmetric])
    have sp: "a + 2 \<le> b" "b \<le> 8" "gs = take a gs @ replicate (b - a) 0 @ drop b gs"
      using longest_zero_run_span [OF Some] r len by (simp_all add: zero_span_def)
    have bd: "\<forall>x\<in>set (take a gs @ drop b gs). x < 65536"
      using gb by (auto dest: in_set_takeD in_set_dropD)
    have ab: "a \<le> 8" "8 - (a + (8 - b)) = b - a" using sp by linarith+
    show ?thesis
    proof (cases "a = 0")
      case True
      have pre: "str_HasPrefix (string6 v) ''::''" "drop 2 (string6 v) = hex_groups (drop b gs)"
        using True s by (simp_all add: str_HasPrefix_def)
      show ?thesis
      proof (cases "drop b gs = []")
        case d: True
        then have "replicate 8 0 = gs" using sp True len by simp
        then show ?thesis
          using nz pre d og by (simp add: parseIPv6_no_zone)
      next
        case d: False
        have "hex_groups (drop b gs) \<noteq> []" using hex_groups_head [OF d] by auto
        moreover have "parse6 (hex_groups (drop b gs)) [] (Some 0) = Some (drop b gs, Some 0)"
          using parse6_groups [OF d, of "[]" "Some 0"] bd sp len by simp
        moreover have "replicate b 0 @ drop b gs = gs" using sp True by simp
        ultimately show ?thesis
          using nz pre og len sp True
          by (simp add: parseIPv6_no_zone expand6_def)
      qed
    next
      case False
      then have ta: "take a gs \<noteq> []" using len by auto
      obtain c q where cr: "hex_groups (take a gs) = c # q" "c \<noteq> CHR '':''" using hex_groups_head [OF ta] by blast
      have np: "\<not> str_HasPrefix (string6 v) ''::''" using s cr colon by simp
      have "parse6 (string6 v) [] None = Some (take a gs @ drop b gs, Some a)"
        using parse6_groups_ellipsis [OF ta bd, of "[]"] len sp s by simp
      then show ?thesis
        using nz np og len sp ab
        by (simp add: parseIPv6_no_zone expand6_def)
    qed
  qed
qed

section \<open>Addresses\<close>

lemma unat_v4_split:
  assumes "drop_bit 32 a = (0xffff :: 128 word)"
  shows "unat a = 65535 * 2 ^ 32 + unat (ucast a :: 32 word)"
proof -
  have "drop_bit 32 (unat a) = 65535" using arg_cong [OF assms, of unat] unfolding unat_drop_bit_eq by simp
  then have "unat a div 2 ^ 32 = 65535" by (simp only: drop_bit_eq_div)
  moreover have "unat (ucast a :: 32 word) = unat a mod 2 ^ 32"
    by (simp add: unsigned_ucast_eq take_bit_eq_mod)
  ultimately show ?thesis using div_mult_mod_eq [of "unat a" "2 ^ 32"] by metis
qed

lemma AddrFrom4_ucast:
  assumes "ad_z a = Z4" "addr_ok a"
  shows "AddrFrom4 (ucast (ad_addr a)) = (a :: Addr)"
proof -
  let ?w = "ad_addr a"
  have d: "drop_bit 32 ?w = 0xffff" using assms by (simp add: addr_ok_def)
  have "push_bit 32 0xffff OR ucast (ucast ?w :: 32 word) = ?w"
    unfolding d [symmetric]
    by (auto simp: bit_eq_iff bit_or_iff bit_push_bit_iff bit_drop_bit_eq bit_unsigned_iff)
  then show ?thesis using assms(1) by (cases a) (simp add: AddrFrom4_def)
qed

lemma horner4:
  "p * 256 + q = B \<Longrightarrow> B * 256 + r = C \<Longrightarrow> C * 256 + s = n \<Longrightarrow>
   (p * 256 + q) * 65536 + (r * 256 + s) = (n :: nat)"
  by simp

lemma octets_groups:
  assumes "octets v = [p, q, r, s]"
  shows "((p * 256 + q) * 65536 + (r * 256 + s)) = unat v"
proof -
  define n where "n = unat v"
  have "n div 2 ^ 24 * 256 + n div 2 ^ 16 mod 256 = n div 2 ^ 16"
    "n div 2 ^ 16 * 256 + n div 2 ^ 8 mod 256 = n div 2 ^ 8" "n div 2 ^ 8 * 256 + n mod 256 = n"
    using div_digit [of n "2 ^ 16" 256] div_digit [of n "2 ^ 8" 256] div_digit [of n 1 256] by simp_all
  from horner4 [OF this] show ?thesis using assms unfolding octets_def n_def [symmetric] by auto
qed

lemma of_groups_mapped:
  assumes "drop_bit 32 w = (0xffff :: 128 word)" "octets (ucast w) = [p, q, r, s]"
  shows "of_groups [0, 0, 0, 0, 0, 65535, p * 256 + q, r * 256 + s] = w"
proof -
  have "foldl (\<lambda>acc g. acc * 65536 + g) 0 [0, 0, 0, 0, 0, 65535, p * 256 + q, r * 256 + s] = unat w"
    using unat_v4_split [OF assms(1)] octets_groups [OF assms(2)] by simp
  then show ?thesis unfolding of_groups_def by simp
qed

lemma string4_head:
  "\<exists>n rest. n < 256 \<and> string4 v = nat_itoa n @ CHR ''.'' # rest"
proof -
  have "unat v div 2 ^ 24 < 256" using octets_bound [of "unat v div 2 ^ 24" v] by (simp add: octets_def)
  then show ?thesis unfolding string4_parts by blast
qed

lemma string4_chars: "c \<in> set (string4 v) \<Longrightarrow> is_digit c \<or> c = CHR ''.''"
  by (auto simp: string4_parts dest: nat_itoa_digits)

lemma parse6_embedded:
  assumes "octets v = [p, q, r, s]" "length gs \<le> 6"
  shows "parse6 (string4 v) gs (Some k) = Some (gs @ [p * 256 + q, r * 256 + s], Some k)"
proof -
  obtain n rest where n: "n < 256" "string4 v = nat_itoa n @ CHR ''.'' # rest" using string4_head by blast
  have hex: "takeWhile is_hex (string4 v) = nat_itoa n" "dropWhile is_hex (string4 v) = CHR ''.'' # rest"
    using n(2) nat_itoa_digits [THEN is_digit_is_hex]
    by (simp_all add: takeWhile_append dropWhile_append takeWhile_eq_all_conv dropWhile_eq_Nil_conv)
  have "length (nat_itoa n) \<le> 4" using length_nat_itoa [OF n(1)] by simp
  then show ?thesis
    using assms unfolding parse6.simps [of "string4 v"] hex Let_def
    by (simp add: parse4_string4)
qed

lemma parseIPv6_mapped:
  assumes "drop_bit 32 w = (0xffff :: 128 word)"
  shows "parseIPv6 (''::ffff:'' @ string4 (ucast w)) = Some (AddrFrom16 w)"
proof -
  obtain p q r s where o4: "octets (ucast w) = [p, q, r, s]" by (simp add: octets_def)
  let ?t = "string4 (ucast w)"
  obtain c t where ct: "?t = c # t" "c \<noteq> CHR '':''"
    using string4_chars [of "hd ?t" "ucast w"] string4_head [of "ucast w"] digit_char_not_special(2)
    by (cases ?t) force+
  have ffff: "nat_hex 65535 = ''ffff''"
    by (simp add: nat_hex.simps [of 65535] nat_hex.simps [of 4095] nat_hex.simps [of 255]
        nat_hex.simps [of 15] hex_char_def) code_simp
  have nz: "CHR ''%'' \<notin> set (''::ffff:'' @ ?t)" using string4_chars [of "CHR ''%''" "ucast w"] by auto
  have "parse6 (''ffff:'' @ ?t) [] (Some 0) = parse6 ?t [65535] (Some 0)"
    using parse6_colon [of 65535 "[]" c t "Some 0"] ffff ct by simp
  also have "\<dots> = Some ([65535, p * 256 + q, r * 256 + s], Some 0)"
    using parse6_embedded [OF o4, of "[65535]"] by simp
  finally have "parse6 (''ffff:'' @ ?t) [] (Some 0) = Some ([65535, p * 256 + q, r * 256 + s], Some 0)" .
  moreover have "replicate 5 0 = [0, 0, 0, 0, 0 :: nat]" by (simp add: eval_nat_numeral)
  ultimately show ?thesis
    using of_groups_mapped [OF assms o4]
    unfolding parseIPv6_no_zone [OF nz] by (simp add: str_HasPrefix_def expand6_def)
qed

definition special :: "char \<Rightarrow> bool" where
  "special c \<longleftrightarrow> c = CHR ''.'' \<or> c = CHR '':'' \<or> c = CHR ''%''"

lemma ParseAddr_dispatch:
  assumes "\<forall>c\<in>set s. is_hex c" "special c"
  shows "ParseAddr (s @ c # t) =
    (if c = CHR ''.'' then parseIPv4 (s @ c # t) else if c = CHR '':'' then parseIPv6 (s @ c # t) else None)"
proof -
  have "\<forall>d\<in>set s. d \<noteq> CHR ''.'' \<and> d \<noteq> CHR '':'' \<and> d \<noteq> CHR ''%''"
    using assms(1) is_hex_not_special by metis
  then have "dropWhile (\<lambda>c. c \<noteq> CHR ''.'' \<and> c \<noteq> CHR '':'' \<and> c \<noteq> CHR ''%'') (s @ c # t) = c # t"
    using assms(2) by (subst dropWhile_append2) (auto simp: special_def)
  then show ?thesis unfolding ParseAddr_def by simp
qed

lemma string6_head: "\<exists>s t. string6 v = s @ CHR '':'' # t \<and> (\<forall>c\<in>set s. is_hex c)"
proof -
  have hg: "\<exists>s t. hex_groups xs = s @ CHR '':'' # t \<and> (\<forall>c\<in>set s. is_hex c)" if two: "2 \<le> length xs" for xs
  proof -
    obtain x y zs where "xs = x # y # zs" using two by (cases xs rule: remdups_adj.cases) auto
    then have "hex_groups xs = nat_hex x @ CHR '':'' # hex_groups (y # zs)" by (simp add: hex_groups_Cons)
    then show ?thesis using nat_hex_digits by blast
  qed
  show ?thesis
  proof (cases "longest_zero_run (groups v)")
    case None
    then show ?thesis using hg [of "groups v"] by (simp add: string6_def Let_def)
  next
    case (Some r)
    obtain a b where ab: "r = (a, b)" by (cases r)
    have s: "string6 v = hex_groups (take a (groups v)) @ ''::'' @ hex_groups (drop b (groups v))"
      using Some ab by (simp add: string6_def Let_def)
    show ?thesis
    proof (cases "2 \<le> length (take a (groups v))")
      case True
      from hg [OF True] obtain p q where "hex_groups (take a (groups v)) = p @ CHR '':'' # q"
        "\<forall>c\<in>set p. is_hex c" by blast
      then show ?thesis unfolding s by (metis append.assoc append_Cons)
    next
      case False
      then consider (nil) "take a (groups v) = []" | (one) x where "take a (groups v) = [x]"
        by (cases "take a (groups v)" rule: remdups_adj.cases) auto
      then show ?thesis
      proof cases
        case nil
        then have "string6 v = [] @ CHR '':'' # CHR '':'' # hex_groups (drop b (groups v))"
          unfolding s nil by simp
        then show ?thesis by (metis empty_iff empty_set)
      next
        case one
        then have "string6 v = nat_hex x @ CHR '':'' # CHR '':'' # hex_groups (drop b (groups v))"
          using s by simp
        then show ?thesis using nat_hex_digits by blast
      qed
    qed
  qed
qed

text \<open>Printing a well-formed address without a zone and parsing it gives the address back.\<close>

lemma ParseAddr_AddrString:
  assumes "addr_ok a" "ad_z a = Z4 \<or> ad_z a = Z6 ''''"
  shows "ParseAddr (AddrString a) = Some a"
proof (cases "ad_z a = Z4")
  case True
  obtain n rest where n: "string4 (ucast (ad_addr a)) = nat_itoa n @ CHR ''.'' # rest" using string4_head by blast
  have "ParseAddr (string4 (ucast (ad_addr a))) = parseIPv4 (string4 (ucast (ad_addr a)))"
    unfolding n by (subst ParseAddr_dispatch) (auto simp: special_def dest: nat_itoa_digits is_digit_is_hex)
  then show ?thesis using True assms by (simp add: AddrString_def parseIPv4_string4 AddrFrom4_ucast)
next
  case False
  then have z: "ad_z a = Z6 ''''" using assms by simp
  have bk: "AddrFrom16 (ad_addr a) = a" using z by (cases a) (simp add: AddrFrom16_def)
  show ?thesis
  proof (cases "Is4In6 a")
    case True
    have "ParseAddr (''::ffff:'' @ t) = parseIPv6 (''::ffff:'' @ t)" for t
      by (simp add: ParseAddr_def)
    then show ?thesis
      using True z bk parseIPv6_mapped [of "ad_addr a"] by (simp add: AddrString_def Is4In6_def)
  next
    case nm: False
    obtain s t where st: "string6 (ad_addr a) = s @ CHR '':'' # t" "\<forall>c\<in>set s. is_hex c"
      using string6_head by blast
    have "ParseAddr (string6 (ad_addr a)) = parseIPv6 (string6 (ad_addr a))"
      unfolding st(1) by (subst ParseAddr_dispatch [OF st(2)]) (auto simp: special_def)
    then show ?thesis using nm z bk parseIPv6_string6 by (simp add: AddrString_def)
  qed
qed

section \<open>Prefixes\<close>

lemma parse4_length: "parse4 s val digLen fs = Some r \<Longrightarrow> length fs \<le> 3 \<Longrightarrow> length r = 4"
  by (induction s val digLen fs rule: parse4.induct) (auto split: if_splits)

lemma parseIPv4_ok:
  assumes "parseIPv4 s = Some a"
  shows "addr_ok a" "ad_z a = Z4"
proof -
  obtain v where a: "a = AddrFrom4 v" using assms by (auto simp: parseIPv4_def)
  have "bit (drop_bit 32 (push_bit 32 0xffff OR (ucast v :: 128 word))) i = bit (0xffff :: 128 word) i"
    if "i < 128" for i
  proof -
    have "\<not> bit (ucast v :: 128 word) (32 + i)" using bit_imp_le_length [of v "32 + i"] by (auto simp: bit_unsigned_iff)
    moreover have "bit (push_bit 32 (0xffff :: 128 word)) (32 + i) = bit (0xffff :: 128 word) i"
    proof (cases "i < 96")
      case False
      then have "\<not> bit (0xffff :: 128 word) i"
        using that mask_eq_exp_minus_1 [of 16, where 'a = "128 word"] bit_mask_iff [of 16 i, where 'a = "128 word"]
        by simp
      then show ?thesis using False unfolding bit_push_bit_iff by simp
    next
      case True
      then show ?thesis unfolding bit_push_bit_iff by simp
    qed
    ultimately show ?thesis by (simp only: bit_drop_bit_eq comp_def bit_or_iff) auto
  qed
  then have "drop_bit 32 (push_bit 32 0xffff OR (ucast v :: 128 word)) = 0xffff"
    by (intro bit_word_eqI) simp
  then show "addr_ok a" "ad_z a = Z4" by (simp_all only: a AddrFrom4_def addr_ok_def) simp_all
qed

lemma parseIPv6_ok:
  assumes "parseIPv6 s = Some a"
  shows "addr_ok a" "\<exists>zone. ad_z a = Z6 zone"
  using assms
  by (auto simp: parseIPv6_def Let_def addr_ok_def split: if_splits)

lemma ParseAddr_ok: "ParseAddr s = Some a \<Longrightarrow> addr_ok a \<and> ad_z a \<noteq> Z0"
  using parseIPv4_ok [of s a] parseIPv6_ok [of s a]
  by (auto simp: ParseAddr_def split: list.splits if_splits)

lemma ParsePrefix_ok: "ParsePrefix s = Some p \<Longrightarrow> prefix_ok p"
proof -
  assume "ParsePrefix s = Some p"
  then obtain t ip n where parsed: "ParseAddr t = Some ip" and zone: "\<not> hasZone ip" "n \<le> BitLen ip"
    and p: "p = PrefixFrom ip (int n)"
    by (auto simp: ParsePrefix_def Let_def not_less split: if_splits option.splits)
  then have ip: "addr_ok ip" "ad_z ip \<noteq> Z0" "\<not> hasZone ip" "n \<le> BitLen ip"
    using ParseAddr_ok by auto
  have "ad_z ip = Z4 \<or> ad_z ip = Z6 ''''" using ip by (auto simp: hasZone_def)
  then show "prefix_ok p"
    using ip by (auto simp: p PrefixFrom_def prefix_ok_def withoutZone_id BitLen_def)
qed

lemma AddrString_no_slash:
  assumes "ad_z a = Z4 \<or> ad_z a = Z6 ''''"
  shows "CHR ''/'' \<notin> set (AddrString a)"
proof -
  have "CHR ''/'' \<notin> set (string4 v)" "CHR ''/'' \<notin> set (string6 w)" for v w
    using string4_chars [of "CHR ''/''" v] string6_chars [of "CHR ''/''" w] by auto
  then show ?thesis using assms by (auto simp: AddrString_def)
qed

lemma ParsePrefix_PrefixString:
  assumes "prefix_ok p"
  shows "ParsePrefix (PrefixString p) = Some p"
proof -
  let ?a = "AddrString (pf_ip p)" and ?b = "nat_itoa (nat (Bits p))"
  have z: "ad_z (pf_ip p) = Z4 \<or> ad_z (pf_ip p) = Z6 ''''" and ok: "addr_ok (pf_ip p)"
    using assms by (simp_all add: prefix_ok_def)
  have s: "PrefixString p = ?a @ CHR ''/'' # ?b"
    using prefix_ok_simps [OF assms] by (simp add: PrefixString_def itoa_def)
  have nd: "\<forall>c\<in>set ?b. c \<noteq> CHR ''/''" using nat_itoa_digits [of "CHR ''/''" "nat (Bits p)"] by auto
  have bits: "rev (takeWhile (\<lambda>c. c \<noteq> CHR ''/'') (rev (PrefixString p))) = ?b"
    using nd unfolding s by (simp add: takeWhile_append2 takeWhile_append)
  have ip: "take (length (PrefixString p) - length ?b - 1) (PrefixString p) = ?a"
    unfolding s by simp
  have "\<not> hasZone (pf_ip p)" using z by (auto simp: hasZone_def)
  moreover have "PrefixFrom (pf_ip p) (int (nat (Bits p))) = p"
    using assms prefix_ok_simps [OF assms]
    by (cases p) (auto simp: PrefixFrom_def prefix_ok_def withoutZone_id Bits_def)
  ultimately show ?thesis
    using prefix_ok_simps [OF assms] ParseAddr_AddrString [OF ok z]
    unfolding ParsePrefix_def Let_def bits ip by (simp add: s)
qed

section \<open>The interface of the textual form\<close>

text \<open>
  What the policy generator relies on when it writes a prefix into a list of strings and reads
  it back later: parsing accepts only good values and inverts printing.
\<close>

locale text_codec =
  fixes parse :: "string \<Rightarrow> 'p option" and print :: "'p \<Rightarrow> string" and good :: "'p \<Rightarrow> bool"
  assumes parse_good: "parse s = Some p \<Longrightarrow> good p"
    and parse_print: "good p \<Longrightarrow> parse (print p) = Some p"
begin

lemma print_inj: "good p \<Longrightarrow> good q \<Longrightarrow> print p = print q \<longleftrightarrow> p = q"
  using parse_print by (metis option.inject)

lemma parse_map_print: "(\<And>p. p \<in> set ps \<Longrightarrow> good p) \<Longrightarrow> map parse (map print ps) = map Some ps"
  by (simp add: parse_print)

lemma reparse: "parse s = Some p \<Longrightarrow> parse (print p) = Some p"
  by (rule parse_print, erule parse_good)

end

interpretation pfx: text_codec ParsePrefix PrefixString prefix_ok
  by unfold_locales (auto intro: ParsePrefix_ok ParsePrefix_PrefixString)

end
