(* ===== verification/Netpol.thy ===== *)
theory Netpol
  imports Api_Types Netip_Text "HOL-Library.While_Combinator" "HOL-Library.List_Lexorder"
    "HOL-Library.Char_ord"
begin

unbundle bit_operations_syntax

text \<open>
  The network policy generator (\<open>src/internal/netpol\<close>): the effective posture of a Sandbox,
  the reserved ranges less the exemptions of its class, the split of the resolvers, the rules of
  the allow list, and the namespace baseline. The lemmas read the generated policy as a packet
  filter: no \<open>ipBlock\<close> of it reaches a reserved address that is not exempt, no rule is
  empty of peers, and an allow-list rule reaches only declared destinations on declared ports.
\<close>

section \<open>Policies\<close>

datatype PolicyType = PolicyTypeIngress | PolicyTypeEgress | PolicyTypeOther string

record IPBlock =
  ib_CIDR :: string
  ib_Except :: "string list"

record NetworkPolicyPort =
  npp_Protocol :: "string option"
  npp_Port :: "IntOrString option"
  npp_EndPort :: "int option"

record NetworkPolicyPeer =
  peer_PodSelector :: "LabelSelector option"
  peer_NamespaceSelector :: "LabelSelector option"
  peer_IPBlock :: "IPBlock option"

record NetworkPolicyEgressRule =
  er_To :: "NetworkPolicyPeer list"
  er_Ports :: "NetworkPolicyPort list"

record NetworkPolicyIngressRule =
  ir_From :: "NetworkPolicyPeer list"
  ir_Ports :: "NetworkPolicyPort list"

record NetworkPolicy =
  np_Name :: string
  np_Namespace :: string
  np_Labels :: "(string \<times> string) list"
  np_Annotations :: strmap
  np_PodSelector :: LabelSelector
  np_PolicyTypes :: "PolicyType list"
  np_Ingress :: "NetworkPolicyIngressRule list"
  np_Egress :: "NetworkPolicyEgressRule list"

datatype NetpolError =
    ErrUnknownMode NetworkMode
  | ErrNoReservedCIDRs
  | ErrNoReservedIPv4
  | ErrNoReservedIPv6
  | ErrNoResolvers
  | ErrInvalidCIDR string
  | ErrInvalidPorts string
  | ErrInvalidResolver string
  | ErrNoReachableResolver
  | ErrResolveFailed string

abbreviation NetworkPolicySuffix :: string where "NetworkPolicySuffix \<equiv> ''-netpol''"
abbreviation AllCIDR :: string where "AllCIDR \<equiv> ''0.0.0.0/0''"
abbreviation annotationPrefixAllow :: string where "annotationPrefixAllow \<equiv> ''setec.zeroroot.ai/allow-''"
abbreviation AnnotationSuppressed :: string where "AnnotationSuppressed \<equiv> ''setec.zeroroot.ai/suppressed-allow''"
abbreviation AnnotationUnresolved :: string where "AnnotationUnresolved \<equiv> ''setec.zeroroot.ai/unresolved-allow''"
abbreviation SandboxLabelKey :: string where "SandboxLabelKey \<equiv> ''setec.zeroroot.ai/sandbox''"

section \<open>The configuration\<close>

text \<open>
  A resolver answers a host with prefixes, or with \<open>None\<close> when the lookup fails; it is
  the interface \<open>HostResolver\<close>. No resolver is the nil interface.
\<close>

type_synonym HostResolver = "string \<Rightarrow> string list option"

record Config =
  cfg_ReservedCIDRs :: "string list"
  cfg_ResolverIPs :: "string list"
  cfg_Resolver :: "HostResolver option"
  cfg_RefreshInterval :: duration

abbreviation DefaultResolveTTL :: duration where "DefaultResolveTTL \<equiv> 60 * second"

abbreviation DefaultRefreshInterval :: duration where "DefaultRefreshInterval \<equiv> DefaultResolveTTL"

definition EffectiveRefreshInterval :: "Config \<Rightarrow> duration" where
  "EffectiveRefreshInterval c =
     (if 0 < cfg_RefreshInterval c then cfg_RefreshInterval c else DefaultRefreshInterval)"

fun validateReserved :: "string list \<Rightarrow> bool \<Rightarrow> bool \<Rightarrow> NetpolError + bool \<times> bool" where
  "validateReserved [] has4 has6 = Inr (has4, has6)"
| "validateReserved (cidr # rs) has4 has6 =
     (case ParsePrefix cidr of
        None \<Rightarrow> Inl (ErrInvalidCIDR cidr)
      | Some p \<Rightarrow>
          (if Is4 (Unmap (pf_ip p)) then validateReserved rs True has6
           else validateReserved rs has4 True))"

fun validateResolvers :: "string list \<Rightarrow> NetpolError option" where
  "validateResolvers [] = None"
| "validateResolvers (ip # ips) =
     (case ParseAddr ip of None \<Rightarrow> Some (ErrInvalidResolver ip) | Some _ \<Rightarrow> validateResolvers ips)"

text \<open>\<open>Config.Validate\<close>; \<open>None\<close> is the nil error.\<close>

definition ValidateConfig :: "Config \<Rightarrow> NetpolError option" where
  "ValidateConfig c =
     (if cfg_ReservedCIDRs c = [] then Some ErrNoReservedCIDRs
      else
        case validateReserved (cfg_ReservedCIDRs c) False False of
          Inl e \<Rightarrow> Some e
        | Inr (has4, has6) \<Rightarrow>
            (if \<not> has4 then Some ErrNoReservedIPv4
             else if \<not> has6 then Some ErrNoReservedIPv6
             else if cfg_ResolverIPs c = [] then Some ErrNoResolvers
             else validateResolvers (cfg_ResolverIPs c)))"

section \<open>Posture\<close>

definition effectivePosture ::
  "Sandbox \<Rightarrow> SandboxClass option \<Rightarrow> NetworkMode \<times> NetworkAllow list" where
  "effectivePosture sb cls =
     (case sp_Network (sb_Spec sb) of
        Some nw \<Rightarrow> (nw_Mode nw, nw_Allow nw)
      | None \<Rightarrow>
          (case cls of
             Some c \<Rightarrow>
               (if cs_DefaultNetworkMode (cl_Spec c) \<noteq> NetworkModeOther ''''
                then (cs_DefaultNetworkMode (cl_Spec c), cs_DefaultEgressAllow (cl_Spec c))
                else (NetworkModeNone, []))
           | None \<Rightarrow> (NetworkModeNone, [])))"

definition EffectiveMode :: "Sandbox \<Rightarrow> SandboxClass option \<Rightarrow> NetworkMode" where
  "EffectiveMode sb cls = fst (effectivePosture sb cls)"

definition DependsOnDNS :: "Sandbox \<Rightarrow> SandboxClass option \<Rightarrow> bool" where
  "DependsOnDNS sb cls =
     (let (mode, allow) = effectivePosture sb cls
      in if mode \<noteq> NetworkModeEgressAllowList then False
         else list_ex (\<lambda>a. na_CIDR a = '''' \<and> ParseAddr (na_Host a) = None) allow)"

section \<open>Prefix arithmetic\<close>

text \<open>The two halves of a prefix; the bit after the prefix is set in the byte slice of the address.\<close>

definition splitPrefix :: "Prefix \<Rightarrow> Prefix \<times> Prefix" where
  "splitPrefix p =
     (let bits = Bits p + 1;
          lo = Masked (PrefixFrom (pf_ip p) bits);
          b = AsSlice (pf_ip p);
          i = nat (Bits p div 8);
          b = b[i := b ! i OR drop_bit (nat (Bits p mod 8)) 0x80];
          addr = (case AddrFromSlice b of None \<Rightarrow> zero_Addr | Some a \<Rightarrow> a);
          hi = Masked (PrefixFrom addr bits)
      in (lo, hi))"

text \<open>The walk from a prefix down to the hole inside it, keeping the sibling at each level.\<close>

definition cutWalk :: "Prefix \<Rightarrow> Prefix \<Rightarrow> Prefix list" where
  "cutWalk p hole =
     snd (while (\<lambda>(cur, out). Bits cur < Bits hole)
       (\<lambda>(cur, out).
          let (lo, hi) = splitPrefix cur
          in if Overlaps lo hole then (lo, out @ [hi]) else (hi, out @ [lo]))
       (p, []))"

definition cutPrefix :: "Prefix list \<Rightarrow> Prefix \<Rightarrow> Prefix list" where
  "cutPrefix ps hole =
     concat (map (\<lambda>p.
       if \<not> Overlaps p hole then [p]
       else if Bits hole \<le> Bits p then []
       else cutWalk p hole) ps)"

fun parseExempt :: "string list \<Rightarrow> NetpolError + Prefix list" where
  "parseExempt [] = Inr []"
| "parseExempt (e # es) =
     (case ParsePrefix e of
        None \<Rightarrow> Inl (ErrInvalidCIDR e)
      | Some p \<Rightarrow> (case parseExempt es of Inl x \<Rightarrow> Inl x | Inr ps \<Rightarrow> Inr (Masked p # ps)))"

fun subtractFrom :: "string list \<Rightarrow> Prefix list \<Rightarrow> NetpolError + string list" where
  "subtractFrom [] es = Inr []"
| "subtractFrom (r # rs) es =
     (case ParsePrefix r of
        None \<Rightarrow> Inl (ErrInvalidCIDR r)
      | Some p \<Rightarrow>
          (let rp = Masked p;
               pieces = foldl cutPrefix [rp] es;
               here = (if pieces = [rp] then [r] else map PrefixString pieces)
           in case subtractFrom rs es of Inl x \<Rightarrow> Inl x | Inr out \<Rightarrow> Inr (here @ out)))"

definition subtractExempt :: "string list \<Rightarrow> string list \<Rightarrow> NetpolError + string list" where
  "subtractExempt reserved exempt =
     (if exempt = [] then Inr reserved
      else case parseExempt exempt of Inl x \<Rightarrow> Inl x | Inr es \<Rightarrow> subtractFrom reserved es)"

fun exceptLoop ::
  "Prefix \<Rightarrow> bool \<Rightarrow> string list \<Rightarrow> string list \<Rightarrow> bool \<Rightarrow> NetpolError + string list \<times> bool" where
  "exceptLoop bp baseIs4 [] except sameFamily =
     Inr (if \<not> sameFamily then ([], True) else (except, False))"
| "exceptLoop bp baseIs4 (r # rs) except sameFamily =
     (case ParsePrefix r of
        None \<Rightarrow> Inl (ErrInvalidCIDR r)
      | Some p \<Rightarrow>
          (let rp = Masked p;
               sameFamily = (sameFamily \<or> Is4 (Unmap (pf_ip rp)) = baseIs4)
           in if Overlaps rp bp \<and> Bits rp \<le> Bits bp then Inr ([], True)
              else if Overlaps bp rp
                   then exceptLoop bp baseIs4 rs (except @ [PrefixString rp]) sameFamily
              else exceptLoop bp baseIs4 rs except sameFamily))"

text \<open>The except list of a base block, and whether the block is covered, in which case it is omitted.\<close>

definition exceptFor :: "string \<Rightarrow> string list \<Rightarrow> NetpolError + string list \<times> bool" where
  "exceptFor base reserved =
     (case ParsePrefix base of
        None \<Rightarrow> Inl (ErrInvalidCIDR base)
      | Some p \<Rightarrow>
          (let bp = Masked p in exceptLoop bp (Is4 (Unmap (pf_ip bp))) reserved [] False))"

section \<open>Selectors and resolvers\<close>

definition selectorAllowances :: "SandboxClass option \<Rightarrow> EgressAllowSelector list" where
  "selectorAllowances cls = (case cls of None \<Rightarrow> [] | Some c \<Rightarrow> cs_EgressAllowSelectors (cl_Spec c))"

definition classGrantsDNS :: "SandboxClass option \<Rightarrow> bool" where
  "classGrantsDNS cls =
     list_ex (\<lambda>a. list_ex (\<lambda>p. eap_Port p = IntPort 53) (eas_Ports a)) (selectorAllowances cls)"

definition selectorPort :: "EgressAllowPort \<Rightarrow> NetworkPolicyPort" where
  "selectorPort p =
     \<lparr>npp_Protocol = Some (if eap_Protocol p = '''' then ''TCP'' else eap_Protocol p),
      npp_Port = Some (eap_Port p), npp_EndPort = None\<rparr>"

definition selectorRules :: "SandboxClass option \<Rightarrow> NetworkPolicyEgressRule list" where
  "selectorRules cls =
     map (\<lambda>a. \<lparr>er_To = [\<lparr>peer_PodSelector = eas_PodSelector a,
                        peer_NamespaceSelector = eas_NamespaceSelector a, peer_IPBlock = None\<rparr>],
               er_Ports = map selectorPort (eas_Ports a)\<rparr>) (selectorAllowances cls)"

record resolverSet =
  rs_ipBlock :: "string list"
  rs_pod :: "string list"

fun parseReserved :: "string list \<Rightarrow> NetpolError + Prefix list" where
  "parseReserved [] = Inr []"
| "parseReserved (r # rs) =
     (case ParsePrefix r of
        None \<Rightarrow> Inl (ErrInvalidCIDR r)
      | Some p \<Rightarrow> (case parseReserved rs of Inl x \<Rightarrow> Inl x | Inr ps \<Rightarrow> Inr (Masked p # ps)))"

fun splitResolvers ::
  "Prefix list \<Rightarrow> bool \<Rightarrow> string list \<Rightarrow> resolverSet \<Rightarrow> NetpolError + resolverSet" where
  "splitResolvers ps dnsAllowed [] out = Inr out"
| "splitResolvers ps dnsAllowed (ip # ips) out =
     (case ParseAddr ip of
        None \<Rightarrow> Inl (ErrInvalidResolver ip)
      | Some a \<Rightarrow>
          (let inReserved = list_ex (\<lambda>p. Contains p (Unmap a)) ps
           in if \<not> inReserved
              then splitResolvers ps dnsAllowed ips
                     \<lparr>rs_ipBlock = rs_ipBlock out @ [ip], rs_pod = rs_pod out @ [ip]\<rparr>
              else if dnsAllowed
              then splitResolvers ps dnsAllowed ips (out\<lparr>rs_pod := rs_pod out @ [ip]\<rparr>)
              else splitResolvers ps dnsAllowed ips out))"

definition resolverSplit ::
  "Config \<Rightarrow> SandboxClass option \<Rightarrow> string list \<Rightarrow> NetpolError + resolverSet" where
  "resolverSplit c cls reserved =
     (case parseReserved reserved of
        Inl x \<Rightarrow> Inl x
      | Inr ps \<Rightarrow>
          (case splitResolvers ps (classGrantsDNS cls) (cfg_ResolverIPs c) \<lparr>rs_ipBlock = [], rs_pod = []\<rparr> of
             Inl x \<Rightarrow> Inl x
           | Inr out \<Rightarrow>
               (if cfg_ResolverIPs c \<noteq> [] \<and> rs_pod out = [] then Inl ErrNoReachableResolver
                else Inr out)))"

definition exemptOf :: "SandboxClass option \<Rightarrow> string list" where
  "exemptOf cls = (case cls of None \<Rightarrow> [] | Some c \<Rightarrow> cs_EgressExemptCIDRs (cl_Spec c))"

definition ResolversFor :: "Config \<Rightarrow> SandboxClass option \<Rightarrow> NetpolError + string list" where
  "ResolversFor c cls =
     (case subtractExempt (cfg_ReservedCIDRs c) (exemptOf cls) of
        Inl x \<Rightarrow> Inl x
      | Inr reserved \<Rightarrow>
          (case resolverSplit c cls reserved of Inl x \<Rightarrow> Inl x | Inr s \<Rightarrow> Inr (rs_pod s)))"

definition hostCIDR :: "string \<Rightarrow> string" where
  "hostCIDR ip =
     (case ParseAddr ip of
        None \<Rightarrow> ip
      | Some a \<Rightarrow> PrefixString (PrefixFrom a (int (BitLen a))))"

definition blockPeer :: "string \<Rightarrow> string list \<Rightarrow> NetworkPolicyPeer" where
  "blockPeer cidr except =
     \<lparr>peer_PodSelector = None, peer_NamespaceSelector = None,
      peer_IPBlock = Some \<lparr>ib_CIDR = cidr, ib_Except = except\<rparr>\<rparr>"

definition dnsRule :: "string list \<Rightarrow> NetworkPolicyEgressRule" where
  "dnsRule resolvers =
     \<lparr>er_To = map (\<lambda>ip. blockPeer (hostCIDR ip) []) resolvers,
      er_Ports = [\<lparr>npp_Protocol = Some ''UDP'', npp_Port = Some (IntPort 53), npp_EndPort = None\<rparr>,
                  \<lparr>npp_Protocol = Some ''TCP'', npp_Port = Some (IntPort 53), npp_EndPort = None\<rparr>]\<rparr>"

section \<open>Ports\<close>

record allowPort =
  ap_protocol :: string
  ap_port :: int
  ap_endPort :: int

definition allowPortString :: "allowPort \<Rightarrow> string" where
  "allowPortString p =
     (let s = (if ap_endPort p \<noteq> 0 then itoa (ap_port p) @ ''-'' @ itoa (ap_endPort p) else itoa (ap_port p))
      in if ap_protocol p = ''UDP'' then ''udp/'' @ s else s)"

definition policyPort :: "allowPort \<Rightarrow> NetworkPolicyPort" where
  "policyPort p =
     \<lparr>npp_Protocol = Some (ap_protocol p), npp_Port = Some (IntPort (ap_port p)),
      npp_EndPort = (if ap_endPort p \<noteq> 0 then Some (ap_endPort p) else None)\<rparr>"

definition validPort :: "int \<Rightarrow> bool" where
  "validPort p \<longleftrightarrow> 1 \<le> p \<and> p \<le> 65535"

fun portList :: "string \<Rightarrow> NetworkAllowPort list \<Rightarrow> NetpolError + allowPort list" where
  "portList host [] = Inr []"
| "portList host (p # ps) =
     (let proto = (if nap_Protocol p = '''' then ''TCP'' else nap_Protocol p)
      in if proto \<noteq> ''TCP'' \<and> proto \<noteq> ''UDP'' then Inl (ErrInvalidPorts host)
         else if \<not> validPort (nap_Port p) then Inl (ErrInvalidPorts host)
         else
           case (case nap_EndPort p of
                   Some e \<Rightarrow>
                     (if e \<noteq> nap_Port p
                      then (if \<not> validPort e \<or> e < nap_Port p then None else Some e)
                      else Some 0)
                 | None \<Rightarrow> Some 0) of
             None \<Rightarrow> Inl (ErrInvalidPorts host)
           | Some e \<Rightarrow>
               (case portList host ps of
                  Inl x \<Rightarrow> Inl x
                | Inr out \<Rightarrow> Inr (\<lparr>ap_protocol = proto, ap_port = nap_Port p, ap_endPort = e\<rparr> # out)))"

definition portsFor :: "NetworkAllow \<Rightarrow> NetpolError + allowPort list" where
  "portsFor a =
     (if (na_Port a \<noteq> 0) = (na_Ports a \<noteq> []) then Inl (ErrInvalidPorts (na_Host a))
      else if na_Port a \<noteq> 0 then
        (if \<not> validPort (na_Port a) then Inl (ErrInvalidPorts (na_Host a))
         else Inr [\<lparr>ap_protocol = ''TCP'', ap_port = na_Port a, ap_endPort = 0\<rparr>])
      else portList (na_Host a) (na_Ports a))"

definition droppedEntries :: "string \<Rightarrow> allowPort list \<Rightarrow> string list" where
  "droppedEntries host ports = map (\<lambda>p. host @ '':'' @ allowPortString p) ports"

section \<open>Rules\<close>

definition basesFor :: "Config \<Rightarrow> NetworkAllow \<Rightarrow> NetpolError + string list" where
  "basesFor c a =
     (if na_CIDR a \<noteq> '''' then
        (case ParsePrefix (na_CIDR a) of
           None \<Rightarrow> Inl (ErrInvalidCIDR (na_CIDR a))
         | Some _ \<Rightarrow> Inr [na_CIDR a])
      else
        case ParseAddr (na_Host a) of
          Some addr \<Rightarrow>
            (let addr = Unmap addr in Inr [PrefixString (PrefixFrom addr (int (BitLen addr)))])
        | None \<Rightarrow>
            (case cfg_Resolver c of
               None \<Rightarrow> Inl (ErrResolveFailed (na_Host a))
             | Some Resolve \<Rightarrow>
                 (case Resolve (na_Host a) of
                    None \<Rightarrow> Inl (ErrResolveFailed (na_Host a))
                  | Some prefixes \<Rightarrow> Inr (sort prefixes))))"

definition policyFor :: "Sandbox \<Rightarrow> PolicyType list \<Rightarrow> NetworkPolicy" where
  "policyFor sb types =
     \<lparr>np_Name = sb_Name sb @ NetworkPolicySuffix, np_Namespace = sb_Namespace sb,
      np_Labels = [(SandboxLabelKey, sb_Name sb)], np_Annotations = Map.empty,
      np_PodSelector = \<lparr>ls_MatchLabels = [(SandboxLabelKey, sb_Name sb)], ls_MatchExpressions = []\<rparr>,
      np_PolicyTypes = types, np_Ingress = [], np_Egress = []\<rparr>"

abbreviation bothDirections :: "PolicyType list" where
  "bothDirections \<equiv> [PolicyTypeIngress, PolicyTypeEgress]"

definition denyAll :: "Sandbox \<Rightarrow> NetworkPolicy" where
  "denyAll sb = policyFor sb bothDirections"

definition externalOnly ::
  "Sandbox \<Rightarrow> string list \<Rightarrow> NetworkPolicyEgressRule list \<Rightarrow> NetpolError + NetworkPolicy" where
  "externalOnly sb reserved hd_rules =
     (case exceptFor AllCIDR reserved of
        Inl x \<Rightarrow> Inl x
      | Inr (except, covered) \<Rightarrow>
          (let np = policyFor sb bothDirections;
               egress = hd_rules @
                 (if \<not> covered then [\<lparr>er_To = [blockPeer AllCIDR except], er_Ports = []\<rparr>] else [])
           in Inr (np\<lparr>np_Egress := egress\<rparr>)))"

fun peersFor :: "string list \<Rightarrow> string list \<Rightarrow> NetpolError + NetworkPolicyPeer list" where
  "peersFor [] reserved = Inr []"
| "peersFor (base # bases) reserved =
     (case exceptFor base reserved of
        Inl x \<Rightarrow> Inl x
      | Inr (except, covered) \<Rightarrow>
          (case peersFor bases reserved of
             Inl x \<Rightarrow> Inl x
           | Inr peers \<Rightarrow> Inr (if covered then peers else blockPeer base except # peers)))"

fun isResolveFailed :: "NetpolError \<Rightarrow> bool" where
  "isResolveFailed (ErrResolveFailed _) = True"
| "isResolveFailed _ = False"

record allowState =
  as_annotations :: strmap
  as_egress :: "NetworkPolicyEgressRule list"
  as_suppressed :: "string list"
  as_unresolved :: "string list"

definition slashToDash :: "string \<Rightarrow> string" where
  "slashToDash s = map (\<lambda>c. if c = CHR ''/'' then CHR ''-'' else c) s"

text \<open>One iteration of the loop of \<open>egressAllowList\<close>.\<close>

definition allowEntry ::
  "Config \<Rightarrow> string list \<Rightarrow> NetworkAllow \<Rightarrow> allowState \<Rightarrow> NetpolError + allowState" where
  "allowEntry c reserved a st =
     (case portsFor a of
        Inl x \<Rightarrow> Inl x
      | Inr ports \<Rightarrow>
          (let st = st\<lparr>as_annotations := foldl (\<lambda>m p.
                 m(annotationPrefixAllow @ slashToDash (allowPortString p) \<mapsto> na_Host a))
                 (as_annotations st) ports\<rparr>
           in case basesFor c a of
                Inl x \<Rightarrow>
                  (if \<not> isResolveFailed x then Inl x
                   else Inr (st\<lparr>as_unresolved := as_unresolved st @ droppedEntries (na_Host a) ports\<rparr>))
              | Inr bases \<Rightarrow>
                  (if bases = []
                   then Inr (st\<lparr>as_unresolved := as_unresolved st @ droppedEntries (na_Host a) ports\<rparr>)
                   else
                     case peersFor bases reserved of
                       Inl x \<Rightarrow> Inl x
                     | Inr peers \<Rightarrow>
                         (if peers = []
                          then Inr (st\<lparr>as_suppressed := as_suppressed st @ droppedEntries (na_Host a) ports\<rparr>)
                          else Inr (st\<lparr>as_egress := as_egress st @
                                 [\<lparr>er_To = peers, er_Ports = map policyPort ports\<rparr>]\<rparr>)))))"

fun allowEntries ::
  "Config \<Rightarrow> string list \<Rightarrow> NetworkAllow list \<Rightarrow> allowState \<Rightarrow> NetpolError + allowState" where
  "allowEntries c reserved [] st = Inr st"
| "allowEntries c reserved (a # as) st =
     (case allowEntry c reserved a st of Inl x \<Rightarrow> Inl x | Inr st' \<Rightarrow> allowEntries c reserved as st')"

definition egressAllowList ::
  "Config \<Rightarrow> Sandbox \<Rightarrow> NetworkAllow list \<Rightarrow> string list \<Rightarrow> NetworkPolicyEgressRule list
   \<Rightarrow> NetpolError + NetworkPolicy" where
  "egressAllowList c sb allow reserved hd_rules =
     (case allowEntries c reserved allow
             \<lparr>as_annotations = Map.empty, as_egress = hd_rules, as_suppressed = [], as_unresolved = []\<rparr> of
        Inl x \<Rightarrow> Inl x
      | Inr st \<Rightarrow>
          (let ann = as_annotations st;
               ann = (if as_suppressed st \<noteq> []
                      then ann(AnnotationSuppressed \<mapsto> str_Join (as_suppressed st) '', '') else ann);
               ann = (if as_unresolved st \<noteq> []
                      then ann(AnnotationUnresolved \<mapsto> str_Join (as_unresolved st) '', '') else ann)
           in Inr ((policyFor sb bothDirections)\<lparr>np_Annotations := ann, np_Egress := as_egress st\<rparr>)))"

text \<open>The rules that every permissive posture starts with.\<close>

definition headRules :: "resolverSet \<Rightarrow> SandboxClass option \<Rightarrow> NetworkPolicyEgressRule list" where
  "headRules resolvers cls =
     (if rs_ipBlock resolvers \<noteq> [] then [dnsRule (rs_ipBlock resolvers)] else []) @ selectorRules cls"

definition generate ::
  "Config \<Rightarrow> Sandbox \<Rightarrow> SandboxClass option \<Rightarrow> NetpolError + NetworkPolicy" where
  "generate c sb cls =
     (let (mode, allow) = effectivePosture sb cls
      in case subtractExempt (cfg_ReservedCIDRs c) (exemptOf cls) of
           Inl x \<Rightarrow> Inl x
         | Inr reserved \<Rightarrow>
             (if mode = NetworkModeNone then Inr (denyAll sb)
              else
                case resolverSplit c cls reserved of
                  Inl x \<Rightarrow> Inl x
                | Inr resolvers \<Rightarrow>
                    (let hd_rules = headRules resolvers cls
                     in case mode of
                          NetworkModeExternalOnly \<Rightarrow> externalOnly sb reserved hd_rules
                        | NetworkModeEgressAllowList \<Rightarrow> egressAllowList c sb allow reserved hd_rules
                        | _ \<Rightarrow> Inl (ErrUnknownMode mode))))"

section \<open>The namespace baseline\<close>

abbreviation BaselineName :: string where "BaselineName \<equiv> ''setec-sandbox-baseline-deny''"
abbreviation BaselineManagedByLabel :: string where "BaselineManagedByLabel \<equiv> ''setec.zeroroot.ai/managed-by''"
abbreviation BaselineManagedByValue :: string where "BaselineManagedByValue \<equiv> ''setec-operator''"

definition NamespaceBaseline :: "string \<Rightarrow> NetworkPolicy" where
  "NamespaceBaseline namespace =
     \<lparr>np_Name = BaselineName, np_Namespace = namespace,
      np_Labels = [(BaselineManagedByLabel, BaselineManagedByValue)], np_Annotations = Map.empty,
      np_PodSelector = \<lparr>ls_MatchLabels = [], ls_MatchExpressions = []\<rparr>,
      np_PolicyTypes = bothDirections, np_Ingress = [], np_Egress = []\<rparr>"

definition BaselineIsIntact :: "NetworkPolicy option \<Rightarrow> bool" where
  "BaselineIsIntact npOpt =
     (case npOpt of
        None \<Rightarrow> False
      | Some np \<Rightarrow>
          (if ls_MatchLabels (np_PodSelector np) \<noteq> [] \<or> ls_MatchExpressions (np_PodSelector np) \<noteq> [] then False
           else if np_Ingress np \<noteq> [] \<or> np_Egress np \<noteq> [] then False
           else list_ex (\<lambda>t. t = PolicyTypeIngress) (np_PolicyTypes np) \<and>
                list_ex (\<lambda>t. t = PolicyTypeEgress) (np_PolicyTypes np)))"

section \<open>Halving a prefix\<close>

lemma length_bytesOf [simp]: "length (bytesOf n v) = n"
  by (simp add: bytesOf_def)

lemma bit_bytesOf: "i < n \<Longrightarrow> k < 8 \<Longrightarrow> bit (bytesOf n v ! i) k \<longleftrightarrow> bit v (8 * (n - 1 - i) + k)"
  by (simp add: bytesOf_def bit_unsigned_iff bit_drop_bit_eq)

lemma bit_ofBytes:
  assumes "length bs \<le> 16" "j < 8 * length bs"
  shows "bit (ofBytes bs) j \<longleftrightarrow> bit (bs ! (length bs - 1 - j div 8)) (j mod 8)"
  using assms
proof (induction bs arbitrary: j rule: rev_induct)
  case (snoc b bs)
  have eq: "ofBytes (bs @ [b]) = push_bit 8 (ofBytes bs) OR ucast b" by (simp add: ofBytes_def)
  show ?case
  proof (cases "j < 8")
    case True
    then show ?thesis
      by (simp add: eq bit_or_iff bit_push_bit_iff bit_unsigned_iff nth_append)
  next
    case False
    then have j: "j - 8 < 8 * length bs" "(j - 8) div 8 = j div 8 - 1" "(j - 8) mod 8 = j mod 8"
      "0 < j div 8" "j < 128"
      using snoc.prems by (auto simp: le_mod_geq div_greater_zero_iff)
    have "\<not> bit (ucast b :: 128 word) j"
      using False bit_imp_le_length [of b j] by (auto simp: bit_unsigned_iff)
    then have "bit (ofBytes (bs @ [b])) j \<longleftrightarrow> bit (ofBytes bs) (j - 8)"
      using False j(5) by (simp add: eq bit_or_iff bit_push_bit_iff)
    also have "\<dots> \<longleftrightarrow> bit (bs ! (length bs - 1 - (j div 8 - 1))) (j mod 8)"
      using snoc.IH [OF _ j(1)] snoc.prems j by simp
    also have "length bs - 1 - (j div 8 - 1) = length bs - j div 8" using j(4) by simp
    also have "bs ! (length bs - j div 8) = (bs @ [b]) ! (length (bs @ [b]) - 1 - j div 8)"
    proof -
      have "length bs - j div 8 < length bs" using j(1,4) by (cases bs) auto
      then show ?thesis by (simp add: nth_append)
    qed
    finally show ?thesis .
  qed
qed simp

lemma bit_0x80: "m < 8 \<Longrightarrow> bit (drop_bit m (0x80 :: 8 word)) k \<longleftrightarrow> k = 7 - m"
proof -
  assume m: "m < 8"
  have "(0x80 :: 8 word) = push_bit 7 1" by simp
  then have "bit (drop_bit m (0x80 :: 8 word)) k \<longleftrightarrow> m + k = 7"
    by (auto simp only: bit_drop_bit_eq comp_def bit_push_bit_iff bit_1_iff) auto
  then show ?thesis using m by auto
qed

lemma byte_position:
  assumes "n < 8 * k" "j < 8 * (k :: nat)"
  shows "k - 1 - j div 8 = n div 8 \<and> j mod 8 = 7 - n mod 8 \<longleftrightarrow> j = 8 * k - 1 - n"
proof -
  obtain q r where n: "n = 8 * q + r" "r < 8" by (metis mod_less_divisor mult_div_mod_eq zero_less_numeral)
  obtain q' r' where j: "j = 8 * q' + r'" "r' < 8" by (metis mod_less_divisor mult_div_mod_eq zero_less_numeral)
  have dm: "n div 8 = q" "n mod 8 = r" "j div 8 = q'" "j mod 8 = r'" using n j by simp_all
  have lt: "q < k" "q' < k" using assms unfolding n(1) j(1) by linarith+
  have "q + q' + 1 = k \<and> r + r' = 7" if "8 * q' + r' + 1 + (8 * q + r) = 8 * k"
  proof -
    have "q + q' < k" "k < q + q' + 2" using that n(2) j(2) by linarith+
    then show ?thesis using that by linarith
  qed
  then have "k - 1 - q' = q \<and> r' = 7 - r \<longleftrightarrow> 8 * q' + r' = 8 * k - 1 - (8 * q + r)"
    using assms(1) n(2) j(2) lt unfolding n(1) by (safe; linarith)
  then show ?thesis unfolding dm unfolding n(1) j(1) .
qed

text \<open>Setting the bit of index \<open>n\<close> from the front in the byte slice.\<close>

lemma bit_set_in_slice:
  assumes "k = 4 \<or> k = 16" "n < 8 * k" "j < 8 * k"
  shows "bit (ofBytes ((bytesOf k v)[n div 8 := bytesOf k v ! (n div 8) OR drop_bit (n mod 8) 0x80])) j
    \<longleftrightarrow> bit v j \<or> j = 8 * k - 1 - n"
proof -
  let ?i = "k - 1 - j div 8"
  have i: "?i < k" "j div 8 < k" "n div 8 < k" using assms by (auto simp: less_mult_imp_div_less mult.commute)
  have bk: "8 * (k - 1 - ?i) + j mod 8 = j" using i by simp
  have pos: "?i = n div 8 \<and> j mod 8 = 7 - n mod 8 \<longleftrightarrow> j = 8 * k - 1 - n"
    by (rule byte_position [OF assms(2,3)])
  let ?b = "(bytesOf k v)[n div 8 := bytesOf k v ! (n div 8) OR drop_bit (n mod 8) 0x80]"
  have nth: "?b ! ?i = (if ?i = n div 8 then bytesOf k v ! ?i OR drop_bit (n mod 8) 0x80 else bytesOf k v ! ?i)"
    using i by (simp add: nth_list_update)
  have "bit (ofBytes ?b) j \<longleftrightarrow> bit (?b ! ?i) (j mod 8)"
    using bit_ofBytes [of ?b j] assms by auto
  also have "\<dots> \<longleftrightarrow> bit v j \<or> (?i = n div 8 \<and> j mod 8 = 7 - n mod 8)"
    using bit_bytesOf [OF i(1), of "j mod 8" v] bk bit_0x80 [of "n mod 8" "j mod 8"]
    unfolding nth by (auto simp: bit_or_iff)
  finally show ?thesis unfolding pos .
qed

lemma prefix_cases:
  assumes "prefix_ok p"
  obtains (v4) "ad_z (pf_ip p) = Z4" "0 \<le> Bits p" "Bits p \<le> 32" "int (plen p) = Bits p + 96"
    | (v6) "ad_z (pf_ip p) = Z6 ''''" "0 \<le> Bits p" "Bits p \<le> 128" "int (plen p) = Bits p"
  using assms prefix_ok_simps [OF assms] plen_eq [OF assms]
  by (cases "Is4 (pf_ip p)") (auto simp: Is4_def BitLen_def)

lemma drop_bit_32_agree: "drop_bit 32 a = drop_bit 32 (b :: 128 word) \<longleftrightarrow> agree 96 a b"
  by (simp add: agree_drop_bit)

lemma AddrFrom4_bits:
  assumes "j < 128"
  shows "bit (ad_addr (AddrFrom4 w)) j \<longleftrightarrow> (if j < 32 then bit w j else bit (0xffff :: 128 word) (j - 32))"
proof -
  have "\<not> bit w j" if "\<not> j < 32" using that bit_imp_le_length [of w j] by auto
  then show ?thesis using assms
    unfolding AddrFrom4_def Addr.simps bit_or_iff bit_push_bit_iff bit_unsigned_iff
    by (cases "j < 32") auto
qed

lemma bit_v4_high:
  assumes "drop_bit 32 a = (0xffff :: 128 word)" "32 \<le> j"
  shows "bit a j \<longleftrightarrow> bit (0xffff :: 128 word) (j - 32)"
  unfolding assms(1) [symmetric] using assms(2) by (simp only: bit_drop_bit_eq comp_def) simp

text \<open>The address of the upper half: the first bit after the prefix is set.\<close>

definition upperAddr :: "Prefix \<Rightarrow> Addr" where
  "upperAddr p =
     (let b = AsSlice (pf_ip p); i = nat (Bits p div 8)
      in case AddrFromSlice (b[i := b ! i OR drop_bit (nat (Bits p mod 8)) 0x80]) of
           None \<Rightarrow> zero_Addr | Some a \<Rightarrow> a)"

lemma upperAddr_bits:
  assumes p: "prefix_ok p" and lt: "Bits p < int (BitLen (pf_ip p))"
  shows "ad_z (upperAddr p) = ad_z (pf_ip p)" "addr_ok (upperAddr p)"
    "j < 128 \<Longrightarrow> bit (ad_addr (upperAddr p)) j \<longleftrightarrow> bit (ad_addr (pf_ip p)) j \<or> j = 127 - plen p"
proof -
  define n where "n = nat (Bits p)"
  have n: "nat (Bits p div 8) = n div 8" "nat (Bits p mod 8) = n mod 8"
    using prefix_ok_simps(2) [OF p] by (simp_all add: n_def nat_div_distrib nat_mod_distrib)
  have "ad_z (upperAddr p) = ad_z (pf_ip p) \<and> addr_ok (upperAddr p) \<and>
    (j < 128 \<longrightarrow> (bit (ad_addr (upperAddr p)) j \<longleftrightarrow> bit (ad_addr (pf_ip p)) j \<or> j = 127 - plen p))" for j
    using p
  proof (cases rule: prefix_cases)
    case v4
    let ?v = "ad_addr (pf_ip p)"
    let ?w = "ucast (ofBytes ((bytesOf 4 ?v)[n div 8 := bytesOf 4 ?v ! (n div 8) OR drop_bit (n mod 8) 0x80])) :: 32 word"
    have hi: "drop_bit 32 ?v = 0xffff" using p v4 by (simp add: prefix_ok_def addr_ok_def)
    have u: "upperAddr p = AddrFrom4 ?w"
      using v4 by (simp add: upperAddr_def AsSlice_def AddrFromSlice_def n Let_def)
    have n32: "n < 32" "127 - plen p = 31 - n" using lt v4 by (auto simp: n_def BitLen_def)
    have low: "bit ?w j \<longleftrightarrow> bit ?v j \<or> j = 31 - n" if "j < 32" for j
      using bit_set_in_slice [of 4 n j ?v] n32 that by (simp add: bit_unsigned_iff)
    have bits: "bit (ad_addr (AddrFrom4 ?w)) j \<longleftrightarrow> bit ?v j \<or> j = 31 - n" if "j < 128" for j
      using AddrFrom4_bits [OF that] low [of j] bit_v4_high [OF hi, of j] n32 by auto
    have "agree 96 (ad_addr (AddrFrom4 ?w)) ?v"
      using bits n32 by (auto simp: agree_def)
    then have "drop_bit 32 (ad_addr (AddrFrom4 ?w)) = 0xffff"
      using drop_bit_32_agree hi by metis
    then show ?thesis
      using bits n32 v4 unfolding u by (auto simp: addr_ok_def AddrFrom4_def simp del: drop_bit_or)
  next
    case v6
    let ?v = "ad_addr (pf_ip p)"
    have u: "upperAddr p =
      AddrFrom16 (ofBytes ((bytesOf 16 ?v)[n div 8 := bytesOf 16 ?v ! (n div 8) OR drop_bit (n mod 8) 0x80]))"
      using v6 by (simp add: upperAddr_def AsSlice_def AddrFromSlice_def n Let_def)
    have n128: "n < 128" "plen p = n" using lt v6 by (auto simp: n_def BitLen_def)
    show ?thesis
      using bit_set_in_slice [of 16 n j ?v] n128 v6 by (simp add: u AddrFrom16_def addr_ok_def)
  qed
  then show "ad_z (upperAddr p) = ad_z (pf_ip p)" "addr_ok (upperAddr p)"
    "j < 128 \<Longrightarrow> bit (ad_addr (upperAddr p)) j \<longleftrightarrow> bit (ad_addr (pf_ip p)) j \<or> j = 127 - plen p"
    by blast+
qed

lemma splitPrefix_eq:
  "splitPrefix p = (Masked (PrefixFrom (pf_ip p) (Bits p + 1)), Masked (PrefixFrom (upperAddr p) (Bits p + 1)))"
  by (simp add: splitPrefix_def upperAddr_def Let_def)

definition masked :: "Prefix \<Rightarrow> bool" where
  "masked p \<longleftrightarrow> Masked p = p"

lemma PrefixFrom_next:
  assumes "prefix_ok p" "Bits p < int (BitLen (pf_ip p))" "ad_z a = ad_z (pf_ip p)" "addr_ok a"
  shows "prefix_ok (PrefixFrom a (Bits p + 1))" "Bits (PrefixFrom a (Bits p + 1)) = Bits p + 1"
    "plen (PrefixFrom a (Bits p + 1)) = plen p + 1" "pf_ip (PrefixFrom a (Bits p + 1)) = a"
proof -
  have "withoutZone a = a" using assms by (intro withoutZone_id) (auto simp: prefix_ok_def)
  then show "prefix_ok (PrefixFrom a (Bits p + 1))" "Bits (PrefixFrom a (Bits p + 1)) = Bits p + 1"
    "plen (PrefixFrom a (Bits p + 1)) = plen p + 1" "pf_ip (PrefixFrom a (Bits p + 1)) = a"
    using assms prefix_ok_simps [OF assms(1)]
    by (auto simp: prefix_ok_def PrefixFrom_def BitLen_def Bits_def plen_def effectiveBits_def Is4_def nat_add_distrib)
qed

lemma Masked_masked [simp]:
  assumes "prefix_ok p"
  shows "masked (Masked p)"
  using Masked_ok_eq [OF Masked_prefix_ok [OF assms]] Masked_fields [OF assms] assms
  by (cases p) (simp add: masked_def Masked_ok_eq and.assoc)

lemma masked_bit_0:
  assumes "prefix_ok p" "masked p" "j < 128 - plen p"
  shows "\<not> bit (ad_addr (pf_ip p)) j"
proof -
  have "ad_addr (pf_ip p) = ad_addr (pf_ip p) AND mask6 (plen p)"
    using assms(1,2) Masked_ok_eq [OF assms(1)] by (metis masked_def Addr.select_convs(1) Addr.surjective Addr.update_convs(1) Prefix.select_convs(1) Prefix.surjective Prefix.update_convs(1))
  then show ?thesis
    using assms(3) bit_mask6 [of "plen p" j] prefix_ok_simps(4) [OF assms(1)] by (metis bit_and_iff linorder_not_less)
qed

lemma agree_Suc:
  "e < 128 \<Longrightarrow> agree (e + 1) a b \<longleftrightarrow> agree e a b \<and> bit a (127 - e) = bit b (127 - e)"
proof -
  assume e: "e < 128"
  have i: "128 - (e + 1) \<le> i \<longleftrightarrow> 128 - e \<le> i \<or> i = 127 - e" for i using e by auto
  have "127 - e < 128" by simp
  then show ?thesis unfolding agree_def i by blast
qed

text \<open>The halves of a masked prefix split its set by the first bit after the prefix.\<close>

lemma splitPrefix_halves:
  assumes p: "prefix_ok p" and m: "masked p" and lt: "Bits p < int (BitLen (pf_ip p))"
    and s: "splitPrefix p = (lo, hi)"
  shows "prefix_ok lo" "masked lo" "prefix_ok hi" "masked hi" "Bits lo = Bits p + 1" "Bits hi = Bits p + 1"
    "addr_ok x \<Longrightarrow> Contains lo x \<longleftrightarrow> Contains p x \<and> \<not> bit (ad_addr x) (127 - plen p)"
    "addr_ok x \<Longrightarrow> Contains hi x \<longleftrightarrow> Contains p x \<and> bit (ad_addr x) (127 - plen p)"
    "BitLen (pf_ip lo) = BitLen (pf_ip p)" "BitLen (pf_ip hi) = BitLen (pf_ip p)"
proof -
  have self: "addr_ok (pf_ip p)" using p by (simp add: prefix_ok_def)
  note L = PrefixFrom_next [OF p lt refl self]
  note H = PrefixFrom_next [OF p lt upperAddr_bits(1,2) [OF p lt]]
  have lo: "lo = Masked (PrefixFrom (pf_ip p) (Bits p + 1))"
    and hi: "hi = Masked (PrefixFrom (upperAddr p) (Bits p + 1))"
    using s by (simp_all add: splitPrefix_eq)
  have pl: "plen p < 128" using prefix_ok_simps [OF p] lt plen_eq [OF p] by (auto split: if_splits)
  have zero: "\<not> bit (ad_addr (pf_ip p)) (127 - plen p)" using masked_bit_0 [OF p m] pl by simp
  have up: "agree (plen p) (ad_addr (upperAddr p)) (ad_addr (pf_ip p))"
    using upperAddr_bits(3) [OF p lt] pl by (auto simp: agree_def)
  have one: "bit (ad_addr (upperAddr p)) (127 - plen p)" using upperAddr_bits(3) [OF p lt] by simp
  show "prefix_ok lo" "masked lo" "prefix_ok hi" "masked hi" "Bits lo = Bits p + 1" "Bits hi = Bits p + 1"
    using L H by (simp_all add: lo hi)
  show "BitLen (pf_ip lo) = BitLen (pf_ip p)" "BitLen (pf_ip hi) = BitLen (pf_ip p)"
    using L H upperAddr_bits(1) [OF p lt] by (simp_all add: lo hi BitLen_def)
  show "Contains lo x \<longleftrightarrow> Contains p x \<and> \<not> bit (ad_addr x) (127 - plen p)" if "addr_ok x"
  proof -
    have "Contains lo x \<longleftrightarrow> Contains (PrefixFrom (pf_ip p) (Bits p + 1)) x" using that L by (simp add: lo)
    then show ?thesis
      using that L p zero agree_Suc [OF pl, of "ad_addr x" "ad_addr (pf_ip p)"] by (auto simp: Contains_iff)
  qed
  show "Contains hi x \<longleftrightarrow> Contains p x \<and> bit (ad_addr x) (127 - plen p)" if "addr_ok x"
  proof -
    have "Contains hi x \<longleftrightarrow> Contains (PrefixFrom (upperAddr p) (Bits p + 1)) x" using that H by (simp add: hi)
    then show ?thesis
      using that H p one up upperAddr_bits(1) [OF p lt] agree_Suc [OF pl, of "ad_addr x" "ad_addr (upperAddr p)"]
      by (auto simp: Contains_iff intro: agree_trans agree_sym)
  qed
qed

section \<open>Cutting a hole\<close>

definition good_prefixes :: "Prefix list \<Rightarrow> bool" where
  "good_prefixes ps \<longleftrightarrow> (\<forall>p\<in>set ps. prefix_ok p \<and> masked p)"

definition covers :: "Prefix list \<Rightarrow> Addr \<Rightarrow> bool" where
  "covers ps x \<longleftrightarrow> (\<exists>p\<in>set ps. Contains p x)"

lemma good_prefixes_simps [simp]:
  "good_prefixes []" "good_prefixes (p # ps) \<longleftrightarrow> prefix_ok p \<and> masked p \<and> good_prefixes ps"
  "good_prefixes (ps @ qs) \<longleftrightarrow> good_prefixes ps \<and> good_prefixes qs"
  by (auto simp: good_prefixes_def)

lemma covers_simps [simp]:
  "\<not> covers [] x" "covers (p # ps) x \<longleftrightarrow> Contains p x \<or> covers ps x"
  "covers (ps @ qs) x \<longleftrightarrow> covers ps x \<or> covers qs x"
  by (auto simp: covers_def)

definition cutStep :: "Prefix \<Rightarrow> Prefix \<times> Prefix list \<Rightarrow> Prefix \<times> Prefix list" where
  "cutStep hole = (\<lambda>(cur, out).
     let (lo, hi) = splitPrefix cur
     in if Overlaps lo hole then (lo, out @ [hi]) else (hi, out @ [lo]))"

definition cutInv :: "Prefix \<Rightarrow> Prefix \<Rightarrow> Prefix \<times> Prefix list \<Rightarrow> bool" where
  "cutInv p hole s \<longleftrightarrow>
     prefix_ok (fst s) \<and> masked (fst s) \<and> Overlaps (fst s) hole \<and> Bits (fst s) \<le> Bits hole \<and>
     good_prefixes (snd s) \<and>
     (\<forall>x. addr_ok x \<longrightarrow> Contains p x = (Contains (fst s) x \<or> covers (snd s) x)) \<and>
     (\<forall>x. addr_ok x \<longrightarrow> covers (snd s) x \<longrightarrow> \<not> Contains hole x)"

lemma cutInv_advance:
  assumes "cutInv p hole (cur, out)" "prefix_ok a" "masked a" "prefix_ok b" "masked b"
    "Overlaps a hole" "Bits a \<le> Bits hole"
    "\<And>x. addr_ok x \<Longrightarrow> Contains cur x = (Contains a x \<or> Contains b x)"
    "\<And>x. addr_ok x \<Longrightarrow> Contains b x \<Longrightarrow> \<not> Contains hole x"
  shows "cutInv p hole (a, out @ [b])"
  using assms by (auto simp: cutInv_def)

lemma Overlaps_bitlen: "prefix_ok p \<Longrightarrow> prefix_ok q \<Longrightarrow> Overlaps p q \<Longrightarrow> BitLen (pf_ip p) = BitLen (pf_ip q)"
  by (simp add: Overlaps_iff prefix_ok_simps(5))

lemma cutStep_inv:
  assumes hole: "prefix_ok hole" and inv: "cutInv p hole s" and lt: "Bits (fst s) < Bits hole"
  shows "cutInv p hole (cutStep hole s)" "Bits (fst (cutStep hole s)) = Bits (fst s) + 1"
proof -
  obtain cur out where s: "s = (cur, out)" by (cases s)
  obtain lo hi where sp: "splitPrefix cur = (lo, hi)" by (cases "splitPrefix cur")
  have cur: "prefix_ok cur" "masked cur" "Overlaps cur hole" using inv by (simp_all add: cutInv_def s)
  have room: "Bits cur < int (BitLen (pf_ip cur))"
    using Overlaps_bitlen [OF cur(1) hole cur(3)] lt prefix_ok_simps(3) [OF hole] by (simp add: s)
  note H = splitPrefix_halves [OF cur(1,2) room sp]
  have inside: "Contains cur x" if "addr_ok x" "Contains hole x" for x
    using Overlaps_nested [OF cur(1) hole cur(3) _ that] lt s by simp
  have le: "Bits lo \<le> Bits hole" "Bits hi \<le> Bits hole" using H lt s by simp_all
  show "Bits (fst (cutStep hole s)) = Bits (fst s) + 1"
    using H by (simp add: cutStep_def s sp)
  show "cutInv p hole (cutStep hole s)"
  proof (cases "Overlaps lo hole")
    case True
    have out_hi: "\<not> Contains hole x" if "addr_ok x" "Contains hi x" for x
      using Overlaps_nested [OF H(1) hole True le(1) that(1)] that H(7) [OF that(1)] H(8) [OF that(1)] by blast
    have st: "cutStep hole s = (lo, out @ [hi])" using True by (simp add: cutStep_def s sp)
    show ?thesis
      unfolding st using inv H out_hi True le
      by (intro cutInv_advance [where cur = cur]) (auto simp: s H(7,8))
  next
    case False
    have h: "addr_ok (pf_ip hole)" using hole by (simp add: prefix_ok_def)
    have nlo: "\<not> Contains lo x" if "addr_ok x" "Contains hole x" for x
      using common_member_Overlaps [OF H(1) hole that(1) _ that(2)] False by blast
    have "Contains hi (pf_ip hole)"
      using inside [OF h Contains_self [OF hole]] nlo [OF h Contains_self [OF hole]] H(7,8) [OF h] by blast
    then have o: "Overlaps hi hole"
      using common_member_Overlaps [OF H(3) hole h] Contains_self [OF hole] by blast
    have st: "cutStep hole s = (hi, out @ [lo])" using False by (simp add: cutStep_def s sp)
    show ?thesis
      unfolding st using inv H nlo o le
      by (intro cutInv_advance [where cur = cur]) (auto simp: s H(7,8))
  qed
qed

lemma cutWalk_while:
  "cutWalk p hole = snd (while (\<lambda>s. Bits (fst s) < Bits hole) (cutStep hole) (p, []))"
proof -
  have "(\<lambda>(cur, out). Bits cur < Bits hole) = (\<lambda>s :: Prefix \<times> Prefix list. Bits (fst s) < Bits hole)"
    by auto
  then show ?thesis by (simp add: cutWalk_def cutStep_def)
qed

lemma cutWalk_exact:
  assumes "prefix_ok p" "masked p" "prefix_ok hole" "Overlaps p hole" "Bits p < Bits hole"
  shows "good_prefixes (cutWalk p hole) \<and>
    (\<forall>x. addr_ok x \<longrightarrow> covers (cutWalk p hole) x = (Contains p x \<and> \<not> Contains hole x))"
  unfolding cutWalk_while
proof (rule while_rule [where P = "cutInv p hole" and r = "measure (\<lambda>s. nat (Bits hole - Bits (fst s)))"])
  show "cutInv p hole (p, [])" using assms by (simp add: cutInv_def)
next
  fix s assume "cutInv p hole s" "Bits (fst s) < Bits hole"
  then show "cutInv p hole (cutStep hole s)" using cutStep_inv [OF assms(3)] by blast
next
  fix s assume inv: "cutInv p hole s" and stop: "\<not> Bits (fst s) < Bits hole"
  then have f: "prefix_ok (fst s)" "Overlaps (fst s) hole" "Bits (fst s) = Bits hole"
    by (auto simp: cutInv_def)
  have "Contains (fst s) x = Contains hole x" if "addr_ok x" for x
    using Overlaps_nested [OF f(1) assms(3) f(2) _ that]
      Overlaps_nested [OF assms(3) f(1) _ _ that] Overlaps_sym [OF f(1) assms(3)] f by auto
  then show "good_prefixes (snd s) \<and>
      (\<forall>x. addr_ok x \<longrightarrow> covers (snd s) x = (Contains p x \<and> \<not> Contains hole x))"
    using inv by (auto simp: cutInv_def)
next
  fix s assume "cutInv p hole s" "Bits (fst s) < Bits hole"
  then show "(cutStep hole s, s) \<in> measure (\<lambda>s. nat (Bits hole - Bits (fst s)))"
    using cutStep_inv(2) [OF assms(3)] by simp
qed simp

text \<open>The walk ends: its loop reaches the length of the hole.\<close>

lemma cutWalk_terminates:
  assumes "prefix_ok p" "masked p" "prefix_ok hole" "Overlaps p hole" "Bits p \<le> Bits hole"
  shows "\<exists>s. while_option (\<lambda>s. Bits (fst s) < Bits hole) (cutStep hole) (p, []) = Some s"
proof (rule measure_while_option_Some [where P = "cutInv p hole" and f = "\<lambda>s. nat (Bits hole - Bits (fst s))", THEN exE])
  show "cutInv p hole (cutStep hole s) \<and> nat (Bits hole - Bits (fst (cutStep hole s))) < nat (Bits hole - Bits (fst s))"
    if "cutInv p hole s" "Bits (fst s) < Bits hole" for s
    using cutStep_inv [OF assms(3) that] that by simp
  show "cutInv p hole (p, [])" using assms by (simp add: cutInv_def)
qed blast

section \<open>Subtracting exemptions\<close>

lemma cutPrefix_Cons:
  "cutPrefix (p # ps) hole =
     (if \<not> Overlaps p hole then [p] else if Bits hole \<le> Bits p then [] else cutWalk p hole) @ cutPrefix ps hole"
  by (simp add: cutPrefix_def)

lemma cutOne_exact:
  assumes "prefix_ok p" "masked p" "prefix_ok hole"
  defines "l \<equiv> if \<not> Overlaps p hole then [p] else if Bits hole \<le> Bits p then [] else cutWalk p hole"
  shows "good_prefixes l \<and> (\<forall>x. addr_ok x \<longrightarrow> covers l x = (Contains p x \<and> \<not> Contains hole x))"
proof -
  consider (out) "\<not> Overlaps p hole" | (gone) "Overlaps p hole" "Bits hole \<le> Bits p"
    | (walk) "Overlaps p hole" "Bits p < Bits hole" by linarith
  then show ?thesis
  proof cases
    case out
    then show ?thesis using assms common_member_Overlaps [OF assms(1,3)] by (auto simp: l_def)
  next
    case gone
    then show ?thesis
      using Overlaps_nested [OF assms(3,1)] Overlaps_sym [OF assms(1,3)] by (auto simp: l_def)
  next
    case walk
    then show ?thesis using cutWalk_exact [OF assms(1-3) walk] by (simp add: l_def)
  qed
qed

lemma cutPrefix_exact:
  assumes "good_prefixes ps" "prefix_ok hole"
  shows "good_prefixes (cutPrefix ps hole) \<and>
    (\<forall>x. addr_ok x \<longrightarrow> covers (cutPrefix ps hole) x = (covers ps x \<and> \<not> Contains hole x))"
  using assms(1)
proof (induction ps)
  case Nil
  then show ?case by (simp add: cutPrefix_def)
next
  case (Cons p ps)
  then show ?case
    using cutOne_exact [of p hole] assms(2) unfolding cutPrefix_Cons good_prefixes_simps covers_simps by blast
qed

lemma cut_all_exact:
  assumes "good_prefixes ps" "good_prefixes holes"
  shows "good_prefixes (foldl cutPrefix ps holes) \<and>
    (\<forall>x. addr_ok x \<longrightarrow> covers (foldl cutPrefix ps holes) x = (covers ps x \<and> \<not> covers holes x))"
  using assms
proof (induction holes arbitrary: ps)
  case (Cons h hs)
  then show ?case using Cons.IH [of "cutPrefix ps h"] cutPrefix_exact [of ps h] by auto
qed simp

section \<open>Lists of address blocks as sets\<close>

definition inCIDR :: "string \<Rightarrow> Addr \<Rightarrow> bool" where
  "inCIDR s x = (case ParsePrefix s of None \<Rightarrow> False | Some p \<Rightarrow> Contains p x)"

definition inAny :: "string list \<Rightarrow> Addr \<Rightarrow> bool" where
  "inAny ss x = list_ex (\<lambda>s. inCIDR s x) ss"

lemma inAny_simps [simp]:
  "\<not> inAny [] x" "inAny (s # ss) x \<longleftrightarrow> inCIDR s x \<or> inAny ss x"
  "inAny (ss @ ts) x \<longleftrightarrow> inAny ss x \<or> inAny ts x"
  by (auto simp: inAny_def)

lemma inCIDR_PrefixString: "prefix_ok p \<Longrightarrow> inCIDR (PrefixString p) x = Contains p x"
  by (simp add: inCIDR_def pfx.parse_print)

lemma inAny_print: "good_prefixes ps \<Longrightarrow> inAny (map PrefixString ps) x = covers ps x"
  by (induction ps) (simp_all add: inCIDR_PrefixString)

lemma parseExempt_exact:
  "parseExempt es = Inr ps \<Longrightarrow> good_prefixes ps \<and> (\<forall>x. addr_ok x \<longrightarrow> covers ps x = inAny es x)"
proof (induction es arbitrary: ps)
  case (Cons e es)
  then obtain p qs where p: "ParsePrefix e = Some p" "parseExempt es = Inr qs" "ps = Masked p # qs"
    by (auto split: option.splits sum.splits)
  have "prefix_ok p" using p(1) by (rule pfx.parse_good)
  then show ?case using Cons.IH [OF p(2)] p by (simp add: inCIDR_def)
qed simp

lemma subtractFrom_exact:
  assumes "good_prefixes es"
  shows "subtractFrom rs es = Inr out \<Longrightarrow>
    addr_ok x \<Longrightarrow> inAny out x \<longleftrightarrow> inAny rs x \<and> \<not> covers es x"
proof (induction rs arbitrary: out)
  case (Cons r rs)
  then obtain p out' where p: "ParsePrefix r = Some p" and rest: "subtractFrom rs es = Inr out'"
    and out: "out = (if foldl cutPrefix [Masked p] es = [Masked p] then [r]
        else map PrefixString (foldl cutPrefix [Masked p] es)) @ out'"
    by (auto simp: Let_def split: option.splits sum.splits)
  have ok: "prefix_ok p" using p by (rule pfx.parse_good)
  have cut: "good_prefixes (foldl cutPrefix [Masked p] es)"
    "covers (foldl cutPrefix [Masked p] es) x = (Contains p x \<and> \<not> covers es x)"
    using cut_all_exact [of "[Masked p]" es] assms ok Cons.prems(2) by simp_all
  have here: "inCIDR r x = Contains p x" using p by (simp add: inCIDR_def)
  show ?case
  proof (cases "foldl cutPrefix [Masked p] es = [Masked p]")
    case True
    then have "Contains p x \<longleftrightarrow> Contains p x \<and> \<not> covers es x" using cut(2) ok Cons.prems(2) by simp
    then show ?thesis using True out here Cons.IH [OF rest Cons.prems(2)] by auto
  next
    case False
    then show ?thesis using out here cut inAny_print [OF cut(1)] Cons.IH [OF rest Cons.prems(2)] by auto
  qed
qed simp

lemma subtractExempt_sets:
  assumes "subtractExempt reserved exempt = Inr out" "addr_ok x"
  shows "inAny out x \<longleftrightarrow> inAny reserved x \<and> \<not> inAny exempt x"
proof (cases "exempt = []")
  case False
  then obtain es where es: "parseExempt exempt = Inr es" "subtractFrom reserved es = Inr out"
    using assms(1) by (auto simp: subtractExempt_def split: sum.splits)
  then show ?thesis
    using subtractFrom_exact [OF _ es(2) assms(2)] parseExempt_exact [OF es(1)] assms(2) by simp
qed (use assms in \<open>simp add: subtractExempt_def\<close>)

section \<open>The except list\<close>

lemma exceptLoop_sets:
  assumes "prefix_ok bp" "addr_ok x" "Contains bp x"
  shows "exceptLoop bp b4 rs except same = Inr (except', False) \<Longrightarrow>
    inAny except' x \<longleftrightarrow> inAny except x \<or> inAny rs x"
proof (induction rs arbitrary: except same)
  case (Cons r rs)
  then obtain p where p: "ParsePrefix r = Some p" by (auto split: option.splits)
  have ok: "prefix_ok p" using p by (rule pfx.parse_good)
  have r: "inCIDR r x = Contains (Masked p) x" using p ok assms(2) by (simp add: inCIDR_def)
  consider "Overlaps (Masked p) bp" "\<not> Bits (Masked p) \<le> Bits bp" "Overlaps bp (Masked p)"
    | "\<not> Overlaps bp (Masked p)"
    using Cons.prems p Overlaps_sym [OF assms(1) Masked_prefix_ok [OF ok]]
    by (auto simp: Let_def split: if_splits)
  then show ?case
  proof cases
    case 1
    then obtain same' where "exceptLoop bp b4 rs (except @ [PrefixString (Masked p)]) same' = Inr (except', False)"
      using Cons.prems p by (auto simp: Let_def split: if_splits)
    from Cons.IH [OF this] show ?thesis using r ok by (auto simp: inCIDR_PrefixString)
  next
    case 2
    then have "\<not> Overlaps (Masked p) bp" using Overlaps_sym [OF assms(1) Masked_prefix_ok [OF ok]] by simp
    then obtain same' where "exceptLoop bp b4 rs except same' = Inr (except', False)"
      using Cons.prems p 2 by (auto simp: Let_def split: if_splits)
    moreover have "\<not> Contains (Masked p) x"
      using common_member_Overlaps [OF assms(1) Masked_prefix_ok [OF ok] assms(2,3)] 2 by blast
    ultimately show ?thesis using Cons.IH r by simp
  qed
qed (auto split: if_splits)

text \<open>What an \<open>ipBlock\<close> permits: the addresses of its block outside every exception.\<close>

definition block_permits :: "IPBlock \<Rightarrow> Addr \<Rightarrow> bool" where
  "block_permits b x \<longleftrightarrow> inCIDR (ib_CIDR b) x \<and> \<not> inAny (ib_Except b) x"

lemma exceptFor_permits:
  assumes "exceptFor base reserved = Inr (except, False)" "addr_ok x"
  shows "block_permits \<lparr>ib_CIDR = base, ib_Except = except\<rparr> x \<longleftrightarrow> inCIDR base x \<and> \<not> inAny reserved x"
proof -
  obtain p where p: "ParsePrefix base = Some p" using assms(1) by (auto simp: exceptFor_def split: option.splits)
  have ok: "prefix_ok p" using p by (rule pfx.parse_good)
  have base: "inCIDR base x = Contains (Masked p) x" using p ok assms(2) by (simp add: inCIDR_def)
  show ?thesis
    using exceptLoop_sets [OF Masked_prefix_ok [OF ok] assms(2)] assms(1) p base
    by (auto simp: exceptFor_def block_permits_def Let_def)
qed

section \<open>What a policy permits\<close>

text \<open>
  The meaning of an egress rule in Kubernetes, for the part that names addresses: an empty list
  of peers is every destination, an empty list of ports is every port.
\<close>

definition rule_reaches :: "NetworkPolicyEgressRule \<Rightarrow> Addr \<Rightarrow> bool" where
  "rule_reaches r x \<longleftrightarrow>
     er_To r = [] \<or>
     list_ex (\<lambda>peer. case peer_IPBlock peer of None \<Rightarrow> False | Some b \<Rightarrow> block_permits b x) (er_To r)"

definition port_matches :: "string \<Rightarrow> int \<Rightarrow> NetworkPolicyPort \<Rightarrow> bool" where
  "port_matches proto port p \<longleftrightarrow>
     (case npp_Protocol p of None \<Rightarrow> proto = ''TCP'' | Some q \<Rightarrow> proto = q) \<and>
     (case npp_Port p of
        None \<Rightarrow> True
      | Some (StrPort _) \<Rightarrow> False
      | Some (IntPort n) \<Rightarrow> (case npp_EndPort p of None \<Rightarrow> port = n | Some e \<Rightarrow> n \<le> port \<and> port \<le> e))"

definition rule_ports :: "NetworkPolicyEgressRule \<Rightarrow> string \<Rightarrow> int \<Rightarrow> bool" where
  "rule_ports r proto port \<longleftrightarrow> er_Ports r = [] \<or> list_ex (port_matches proto port) (er_Ports r)"

definition policy_permits :: "NetworkPolicy \<Rightarrow> Addr \<Rightarrow> string \<Rightarrow> int \<Rightarrow> bool" where
  "policy_permits np x proto port \<longleftrightarrow>
     PolicyTypeEgress \<notin> set (np_PolicyTypes np) \<or>
     list_ex (\<lambda>r. rule_reaches r x \<and> rule_ports r proto port) (np_Egress np)"

section \<open>The resolvers\<close>

lemma parseReserved_exact:
  "parseReserved rs = Inr ps \<Longrightarrow> good_prefixes ps \<and> (\<forall>x. addr_ok x \<longrightarrow> covers ps x = inAny rs x)"
proof (induction rs arbitrary: ps)
  case (Cons r rs)
  then obtain p qs where p: "ParsePrefix r = Some p" "parseReserved rs = Inr qs" "ps = Masked p # qs"
    by (auto split: option.splits sum.splits)
  have "prefix_ok p" using p(1) by (rule pfx.parse_good)
  then show ?case using Cons.IH [OF p(2)] p by (simp add: inCIDR_def)
qed simp

definition resolver_free :: "string list \<Rightarrow> string \<Rightarrow> bool" where
  "resolver_free reserved ip \<longleftrightarrow>
     (case ParseAddr ip of None \<Rightarrow> False | Some a \<Rightarrow> \<not> inAny reserved (Unmap a))"

lemma Unmap_ok: "addr_ok a \<Longrightarrow> addr_ok (Unmap a)"
  by (simp add: addr_ok_def Unmap_def Is4In6_def Is6_def)

lemma splitResolvers_filter:
  assumes "parseReserved reserved = Inr ps"
  shows "splitResolvers ps dns ips out = Inr out' \<Longrightarrow>
    rs_ipBlock out' = rs_ipBlock out @ filter (resolver_free reserved) ips \<and>
    rs_pod out' = rs_pod out @ filter (\<lambda>ip. resolver_free reserved ip \<or> dns) ips"
proof (induction ips arbitrary: out)
  case (Cons ip ips)
  then obtain a where a: "ParseAddr ip = Some a" by (auto split: option.splits)
  have "addr_ok (Unmap a)" using ParseAddr_ok [OF a] Unmap_ok by blast
  then have "resolver_free reserved ip \<longleftrightarrow> \<not> list_ex (\<lambda>p. Contains p (Unmap a)) ps"
    using parseReserved_exact [OF assms] a by (simp add: resolver_free_def covers_def list_ex_iff)
  then show ?case using Cons a by (auto simp: Let_def split: if_splits)
qed simp

lemma resolverSplit_filter:
  assumes "resolverSplit c cls reserved = Inr s"
  shows "rs_ipBlock s = filter (resolver_free reserved) (cfg_ResolverIPs c)"
    "rs_pod s = filter (\<lambda>ip. resolver_free reserved ip \<or> classGrantsDNS cls) (cfg_ResolverIPs c)"
    "cfg_ResolverIPs c \<noteq> [] \<Longrightarrow> rs_pod s \<noteq> []"
proof -
  obtain ps where ps: "parseReserved reserved = Inr ps"
    and s: "splitResolvers ps (classGrantsDNS cls) (cfg_ResolverIPs c) \<lparr>rs_ipBlock = [], rs_pod = []\<rparr> = Inr s"
    and ne: "cfg_ResolverIPs c \<noteq> [] \<Longrightarrow> rs_pod s \<noteq> []"
    using assms by (auto simp: resolverSplit_def split: sum.splits if_splits)
  show "rs_ipBlock s = filter (resolver_free reserved) (cfg_ResolverIPs c)"
    "rs_pod s = filter (\<lambda>ip. resolver_free reserved ip \<or> classGrantsDNS cls) (cfg_ResolverIPs c)"
    "cfg_ResolverIPs c \<noteq> [] \<Longrightarrow> rs_pod s \<noteq> []"
    using splitResolvers_filter [OF ps s] ne by simp_all
qed

text \<open>A single-address prefix contains only its address.\<close>

lemma agree_all: "agree 128 a b \<longleftrightarrow> a = b"
  by (auto simp: agree_def bit_eq_iff)

lemma single_Contains:
  assumes "addr_ok a" "ad_z a = Z4 \<or> ad_z a = Z6 ''''" "addr_ok x"
  shows "prefix_ok (PrefixFrom a (int (BitLen a)))"
    "Contains (PrefixFrom a (int (BitLen a))) x \<longleftrightarrow> x = a"
proof -
  let ?p = "PrefixFrom a (int (BitLen a))"
  show ok: "prefix_ok ?p"
    using assms by (auto simp: PrefixFrom_def prefix_ok_def withoutZone_id BitLen_def)
  have ip: "pf_ip ?p = a" using assms by (simp add: PrefixFrom_def withoutZone_id)
  have "plen ?p = 128"
    using assms by (auto simp: plen_def PrefixFrom_def effectiveBits_def Bits_def BitLen_def Is4_def withoutZone_id)
  then show "Contains ?p x \<longleftrightarrow> x = a"
    using Contains_iff [OF ok assms(3)] ip agree_all by (cases x; cases a) auto
qed

text \<open>
  Plain resolver addresses carry no zone and are not the mapped spelling of an IPv4 address.
\<close>

definition resolvers_plain :: "Config \<Rightarrow> bool" where
  "resolvers_plain c \<longleftrightarrow>
     list_all (\<lambda>ip. case ParseAddr ip of None \<Rightarrow> True | Some a \<Rightarrow> \<not> hasZone a \<and> \<not> Is4In6 a) (cfg_ResolverIPs c)"

text \<open>The block of a resolver holds its address without the zone, and nothing else.\<close>

lemma hostCIDR_single:
  assumes "ParseAddr ip = Some a" "addr_ok x"
  shows "inCIDR (hostCIDR ip) x \<longleftrightarrow> x = withoutZone a"
proof -
  let ?a = "withoutZone a"
  have "addr_ok ?a" "ad_z ?a = Z4 \<or> ad_z ?a = Z6 ''''"
    using ParseAddr_ok [OF assms(1)] by (cases "ad_z a"; auto simp: withoutZone_def Is6_def addr_ok_def)+
  moreover have "PrefixFrom a (int (BitLen a)) = PrefixFrom ?a (int (BitLen ?a))"
    by (cases "ad_z a") (auto simp: PrefixFrom_def withoutZone_def Is6_def BitLen_def)
  ultimately show ?thesis
    using single_Contains [of ?a x] assms by (simp add: hostCIDR_def inCIDR_PrefixString)
qed

text \<open>
  What the DNS rule permits: port 53 on UDP and TCP to the configured resolvers whose address is not
  reserved for the class.
\<close>

definition dns_reach :: "Config \<Rightarrow> SandboxClass option \<Rightarrow> Addr \<Rightarrow> string \<Rightarrow> int \<Rightarrow> bool" where
  "dns_reach c cls x proto port \<longleftrightarrow>
     port = 53 \<and> (proto = ''UDP'' \<or> proto = ''TCP'') \<and>
     (\<exists>ip\<in>set (cfg_ResolverIPs c). \<exists>a. ParseAddr ip = Some a \<and> x = withoutZone a \<and>
        (inAny (cfg_ReservedCIDRs c) (Unmap a) \<longrightarrow> inAny (exemptOf cls) (Unmap a)))"

lemma dnsRule_reach:
  assumes "addr_ok x" "subtractExempt (cfg_ReservedCIDRs c) (exemptOf cls) = Inr reserved"
    and "filter (resolver_free reserved) (cfg_ResolverIPs c) \<noteq> []"
  shows "rule_reaches (dnsRule (filter (resolver_free reserved) (cfg_ResolverIPs c))) x \<and>
    rule_ports (dnsRule (filter (resolver_free reserved) (cfg_ResolverIPs c))) proto port \<longleftrightarrow> dns_reach c cls x proto port"
proof -
  have free: "resolver_free reserved ip \<and> inCIDR (hostCIDR ip) x \<longleftrightarrow>
      (\<exists>a. ParseAddr ip = Some a \<and> x = withoutZone a \<and> (inAny (cfg_ReservedCIDRs c) (Unmap a) \<longrightarrow> inAny (exemptOf cls) (Unmap a)))" for ip
    using subtractExempt_sets [OF assms(2)] ParseAddr_ok Unmap_ok hostCIDR_single [OF _ assms(1)]
    by (auto simp: resolver_free_def split: option.splits)
  have "rule_reaches (dnsRule ips) x \<longleftrightarrow> (\<exists>ip\<in>set ips. inCIDR (hostCIDR ip) x)" if "ips \<noteq> []" for ips
    using that
    by (auto simp: rule_reaches_def dnsRule_def blockPeer_def block_permits_def list_ex_iff)
  moreover have "rule_ports (dnsRule ips) proto port \<longleftrightarrow> port = 53 \<and> (proto = ''UDP'' \<or> proto = ''TCP'')" for ips
    by (auto simp: rule_ports_def dnsRule_def port_matches_def)
  ultimately show ?thesis using free assms(3) by (auto simp: dns_reach_def)
qed

text \<open>Every resolver that the DNS rule reaches inside the reserved ranges is written with a zone or in mapped form.\<close>

lemma dns_reach_reserved:
  assumes "dns_reach c cls x proto port" "inAny (cfg_ReservedCIDRs c) x" "\<not> inAny (exemptOf cls) x"
  shows "port = 53 \<and> (\<exists>ip\<in>set (cfg_ResolverIPs c). \<exists>a. ParseAddr ip = Some a \<and> (hasZone a \<or> Is4In6 a) \<and> x = withoutZone a)"
proof -
  obtain ip a where a: "ip \<in> set (cfg_ResolverIPs c)" "ParseAddr ip = Some a" "x = withoutZone a" "port = 53"
    "inAny (cfg_ReservedCIDRs c) (Unmap a) \<longrightarrow> inAny (exemptOf cls) (Unmap a)"
    using assms(1) by (auto simp: dns_reach_def)
  have "Unmap a = x" if "\<not> hasZone a" "\<not> Is4In6 a"
    using that a(3) ParseAddr_ok [OF a(2)] withoutZone_id [of a] by (auto simp: Unmap_def hasZone_def)
  then have "hasZone a \<or> Is4In6 a" using a(5) assms(2,3) by auto
  then show ?thesis using a(1-4) by auto
qed

lemma selectorRules_no_block: "r \<in> set (selectorRules cls) \<Longrightarrow> \<not> rule_reaches r x"
  by (auto simp: selectorRules_def rule_reaches_def)

section \<open>The rules of the allow list\<close>

lemma peersFor_blocks:
  "peersFor bases reserved = Inr peers \<Longrightarrow> peer \<in> set peers \<Longrightarrow>
   \<exists>base except. base \<in> set bases \<and> exceptFor base reserved = Inr (except, False) \<and> peer = blockPeer base except"
proof (induction bases arbitrary: peers)
  case (Cons b bs)
  then obtain ex cov ps where b: "exceptFor b reserved = Inr (ex, cov)" "peersFor bs reserved = Inr ps"
    "peers = (if cov then ps else blockPeer b ex # ps)"
    by (auto split: sum.splits)
  show ?case
  proof (cases "peer \<in> set ps")
    case True
    then show ?thesis using Cons.IH [OF b(2)] by auto
  next
    case False
    then have "\<not> cov" "peer = blockPeer b ex" using Cons.prems(2) b(3) by (auto split: if_splits)
    then show ?thesis using b(1) by auto
  qed
qed simp

text \<open>What a rule of the allow list is made of.\<close>

definition entry_rule :: "Config \<Rightarrow> string list \<Rightarrow> NetworkAllow \<Rightarrow> NetworkPolicyEgressRule \<Rightarrow> bool" where
  "entry_rule c reserved a r \<longleftrightarrow>
     (\<exists>ports bases. portsFor a = Inr ports \<and> basesFor c a = Inr bases \<and> er_To r \<noteq> [] \<and>
        peersFor bases reserved = Inr (er_To r) \<and> er_Ports r = map policyPort ports)"

lemma allowEntry_egress:
  assumes "allowEntry c reserved a st = Inr st'" "r \<in> set (as_egress st')"
  shows "r \<in> set (as_egress st) \<or> entry_rule c reserved a r"
  using assms by (auto simp: allowEntry_def entry_rule_def Let_def split: sum.splits if_splits)

lemma allowEntries_egress:
  "allowEntries c reserved as st = Inr st' \<Longrightarrow> r \<in> set (as_egress st') \<Longrightarrow>
   r \<in> set (as_egress st) \<or> (\<exists>a\<in>set as. entry_rule c reserved a r)"
proof (induction "as" arbitrary: st)
  case (Cons a as)
  then obtain st1 where st1: "allowEntry c reserved a st = Inr st1" "allowEntries c reserved as st1 = Inr st'"
    by (auto split: sum.splits)
  then show ?case using Cons.IH [OF st1(2) Cons.prems(2)] allowEntry_egress [OF st1(1)] by auto
qed simp

lemma entry_rule_permits:
  assumes "entry_rule c reserved a r" "addr_ok x" "rule_reaches r x"
  shows "\<not> inAny reserved x" "\<exists>bases. basesFor c a = Inr bases \<and> inAny bases x"
proof -
  obtain bases where b: "basesFor c a = Inr bases" "peersFor bases reserved = Inr (er_To r)" "er_To r \<noteq> []"
    using assms(1) by (auto simp: entry_rule_def)
  obtain peer blk where peer: "peer \<in> set (er_To r)" "peer_IPBlock peer = Some blk" "block_permits blk x"
    using assms(3) b(3) by (auto simp: rule_reaches_def list_ex_iff split: option.splits)
  obtain base except where base: "base \<in> set bases" "exceptFor base reserved = Inr (except, False)"
    "peer = blockPeer base except"
    using peersFor_blocks [OF b(2) peer(1)] by blast
  then have "blk = \<lparr>ib_CIDR = base, ib_Except = except\<rparr>" using peer(2) by (simp add: blockPeer_def)
  then have "inCIDR base x \<and> \<not> inAny reserved x"
    using exceptFor_permits [OF base(2) assms(2)] peer(3) by simp
  then show "\<not> inAny reserved x" "\<exists>bases. basesFor c a = Inr bases \<and> inAny bases x"
    using b(1) base(1) by (auto simp: inAny_def list_ex_iff)
qed

section \<open>The rules of a generated policy\<close>

lemma generate_cases:
  assumes "generate c sb cls = Inr np"
  shows "\<exists>reserved. subtractExempt (cfg_ReservedCIDRs c) (exemptOf cls) = Inr reserved \<and>
    (EffectiveMode sb cls = NetworkModeNone \<and> np = denyAll sb \<or>
     (\<exists>s. resolverSplit c cls reserved = Inr s \<and>
        (EffectiveMode sb cls = NetworkModeExternalOnly \<and> externalOnly sb reserved (headRules s cls) = Inr np \<or>
         EffectiveMode sb cls = NetworkModeEgressAllowList \<and>
         egressAllowList c sb (snd (effectivePosture sb cls)) reserved (headRules s cls) = Inr np)))"
proof (cases "subtractExempt (cfg_ReservedCIDRs c) (exemptOf cls)")
  case (Inl x)
  then show ?thesis using assms by (simp add: generate_def split_def)
next
  case (Inr reserved)
  show ?thesis
  proof (cases "EffectiveMode sb cls = NetworkModeNone")
    case True
    then show ?thesis using assms Inr by (simp add: generate_def split_def EffectiveMode_def)
  next
    case False
    then show ?thesis
      using assms Inr
      by (cases "resolverSplit c cls reserved"; cases "EffectiveMode sb cls")
        (simp_all add: generate_def split_def EffectiveMode_def Let_def)
  qed
qed

definition head_rule :: "Config \<Rightarrow> SandboxClass option \<Rightarrow> string list \<Rightarrow> NetworkPolicyEgressRule \<Rightarrow> bool" where
  "head_rule c cls reserved r \<longleftrightarrow>
     r \<in> set (selectorRules cls) \<or>
     (filter (resolver_free reserved) (cfg_ResolverIPs c) \<noteq> [] \<and>
      r = dnsRule (filter (resolver_free reserved) (cfg_ResolverIPs c)))"

definition external_rule :: "string list \<Rightarrow> NetworkPolicyEgressRule \<Rightarrow> bool" where
  "external_rule reserved r \<longleftrightarrow>
     (\<exists>except. exceptFor AllCIDR reserved = Inr (except, False) \<and>
        r = \<lparr>er_To = [blockPeer AllCIDR except], er_Ports = []\<rparr>)"

text \<open>Every rule of a policy is a DNS or selector rule, the rule of external-only, or the rule of an entry.\<close>

lemma generate_rules:
  assumes "generate c sb cls = Inr np" "r \<in> set (np_Egress np)"
    "subtractExempt (cfg_ReservedCIDRs c) (exemptOf cls) = Inr reserved"
  shows "head_rule c cls reserved r \<or>
    (EffectiveMode sb cls = NetworkModeExternalOnly \<and> external_rule reserved r) \<or>
    (EffectiveMode sb cls = NetworkModeEgressAllowList \<and>
     (\<exists>a\<in>set (snd (effectivePosture sb cls)). entry_rule c reserved a r))"
proof -
  have ne: "EffectiveMode sb cls \<noteq> NetworkModeNone \<or> np \<noteq> denyAll sb"
    using assms(2) by (auto simp: denyAll_def policyFor_def)
  then obtain s where s: "resolverSplit c cls reserved = Inr s"
    and np: "EffectiveMode sb cls = NetworkModeExternalOnly \<and> externalOnly sb reserved (headRules s cls) = Inr np \<or>
      EffectiveMode sb cls = NetworkModeEgressAllowList \<and>
      egressAllowList c sb (snd (effectivePosture sb cls)) reserved (headRules s cls) = Inr np"
    using generate_cases [OF assms(1)] assms(3) by auto
  have head: "head_rule c cls reserved r" if "r \<in> set (headRules s cls)"
    using that resolverSplit_filter(1) [OF s] by (auto simp: head_rule_def headRules_def split: if_splits)
  from np show ?thesis
  proof
    assume "EffectiveMode sb cls = NetworkModeExternalOnly \<and> externalOnly sb reserved (headRules s cls) = Inr np"
    then show ?thesis
      using assms(2) head
      by (auto simp: externalOnly_def external_rule_def Let_def split: sum.splits prod.splits if_splits)
  next
    assume a: "EffectiveMode sb cls = NetworkModeEgressAllowList \<and>
      egressAllowList c sb (snd (effectivePosture sb cls)) reserved (headRules s cls) = Inr np"
    then obtain st where st: "allowEntries c reserved (snd (effectivePosture sb cls))
        \<lparr>as_annotations = Map.empty, as_egress = headRules s cls, as_suppressed = [], as_unresolved = []\<rparr> = Inr st"
      "np_Egress np = as_egress st"
      by (auto simp: egressAllowList_def Let_def split: sum.splits)
    then show ?thesis using allowEntries_egress [OF st(1)] assms(2) head a by auto
  qed
qed

lemma head_rule_reach:
  assumes "head_rule c cls reserved r" "rule_reaches r x" "rule_ports r proto port" "addr_ok x"
    and "subtractExempt (cfg_ReservedCIDRs c) (exemptOf cls) = Inr reserved"
  shows "dns_reach c cls x proto port"
  using assms(1-3) selectorRules_no_block dnsRule_reach [OF assms(4,5), of proto port] by (auto simp: head_rule_def)

lemma external_rule_reaches:
  assumes "external_rule reserved r" "addr_ok x"
  shows "rule_reaches r x \<longleftrightarrow> inCIDR AllCIDR x \<and> \<not> inAny reserved x"
  using assms exceptFor_permits [of AllCIDR reserved _ x]
  by (auto simp: external_rule_def rule_reaches_def blockPeer_def)

lemma generate_types:
  assumes "generate c sb cls = Inr np"
  shows "np_PolicyTypes np = bothDirections" "np_Ingress np = []"
    "np_PodSelector np = \<lparr>ls_MatchLabels = [(SandboxLabelKey, sb_Name sb)], ls_MatchExpressions = []\<rparr>"
    "np_Namespace np = sb_Namespace sb"
proof -
  have "\<exists>ann eg. np = (policyFor sb bothDirections)\<lparr>np_Annotations := ann, np_Egress := eg\<rparr>"
  proof -
    have "externalOnly sb res h = Inr np \<Longrightarrow> ?thesis" for res h
      by (auto simp: externalOnly_def Let_def policyFor_def split: sum.splits)
    moreover have "egressAllowList c sb al res h = Inr np \<Longrightarrow> ?thesis" for al res h
      by (auto simp: egressAllowList_def Let_def split: sum.splits)
    moreover have "np = denyAll sb \<Longrightarrow> ?thesis"
      by (simp add: denyAll_def policyFor_def)
    ultimately show ?thesis using generate_cases [OF assms] by blast
  qed
  then show "np_PolicyTypes np = bothDirections" "np_Ingress np = []"
    "np_PodSelector np = \<lparr>ls_MatchLabels = [(SandboxLabelKey, sb_Name sb)], ls_MatchExpressions = []\<rparr>"
    "np_Namespace np = sb_Namespace sb"
    by (auto simp: policyFor_def)
qed

lemma generate_permits:
  assumes "generate c sb cls = Inr np"
  shows "policy_permits np x proto port \<longleftrightarrow>
    (\<exists>r\<in>set (np_Egress np). rule_reaches r x \<and> rule_ports r proto port)"
  using generate_types(1) [OF assms] by (auto simp: policy_permits_def list_ex_iff)

section \<open>Safety of the generated policy\<close>

text \<open>
  C5. No Sandbox reaches a reserved address, but for resolvers in two odd spellings. Whatever the
  mode, the declared destinations and the answers of the resolver are, when the configured resolvers
  carry no zone and are not in mapped form, a generated policy has no \<open>ipBlock\<close> that permits,
  on any protocol and port, an address of the reserved ranges that the class does not exempt. Without
  that condition, which the check of the configuration does not enforce, the only such addresses it
  permits are those of resolvers in these spellings, on port 53.
\<close>

theorem reserved_never_reached:
  assumes "generate c sb cls = Inr np" and "addr_ok x"
    and "inAny (cfg_ReservedCIDRs c) x" and "\<not> inAny (exemptOf cls) x"
  shows "(resolvers_plain c \<longrightarrow> \<not> policy_permits np x proto port) \<and>
    (policy_permits np x proto port \<longrightarrow> port = 53 \<and>
       (\<exists>ip\<in>set (cfg_ResolverIPs c). \<exists>a. ParseAddr ip = Some a \<and> (hasZone a \<or> Is4In6 a) \<and> x = withoutZone a))"
proof -
  obtain reserved where res: "subtractExempt (cfg_ReservedCIDRs c) (exemptOf cls) = Inr reserved"
    using generate_cases [OF assms(1)] by blast
  have in_res: "inAny reserved x" using subtractExempt_sets [OF res assms(2)] assms(3,4) by simp
  have "dns_reach c cls x proto port" if perm: "policy_permits np x proto port"
  proof -
    obtain r where r: "r \<in> set (np_Egress np)" "rule_reaches r x" "rule_ports r proto port"
      using perm generate_permits [OF assms(1)] by blast
    then have "head_rule c cls reserved r"
      using generate_rules [OF assms(1) r(1) res] in_res external_rule_reaches [OF _ assms(2)]
        entry_rule_permits(1) [OF _ assms(2)] by metis
    then show ?thesis using head_rule_reach r(2,3) assms(2) res by blast
  qed
  then have "policy_permits np x proto port \<longrightarrow> port = 53 \<and>
       (\<exists>ip\<in>set (cfg_ResolverIPs c). \<exists>a. ParseAddr ip = Some a \<and> (hasZone a \<or> Is4In6 a) \<and> x = withoutZone a)"
    using dns_reach_reserved assms(3,4) by blast
  then show ?thesis by (auto simp: resolvers_plain_def list_all_iff split: option.splits)
qed

lemmas netip_eval =
  ParsePrefix_def ParseAddr_def parseIPv4_def parseIPv4Fields_def parse_bits_def is_digit_def digit_val_def
  Let_def AddrFrom4_def hasZone_def BitLen_def PrefixFrom_def withoutZone_def Is6_def of_octets_def Masked_def
  AddrPrefix_def Bits_def mask6_def mask_eq_exp_minus_1 effectiveBits_def Is4_def Overlaps_def IsValid_def
  Unmap_def Is4In6_def Contains_def PrefixString_def AddrString_def string4_def octets_def itoa_def
  nat_itoa.simps digit_char_def

definition ex_config :: Config where
  "ex_config = \<lparr>cfg_ReservedCIDRs = [''10.0.0.0/8''], cfg_ResolverIPs = [''1.1.1.1''],
     cfg_Resolver = None, cfg_RefreshInterval = 0\<rparr>"

definition ex_external :: Sandbox where
  "ex_external = zero_Sandbox\<lparr>sb_Spec := zero_SandboxSpec\<lparr>sp_Network :=
     Some \<lparr>nw_Mode = NetworkModeExternalOnly, nw_Allow = []\<rparr>\<rparr>\<rparr>"

definition ex_reserved_addr :: Addr where
  "ex_reserved_addr = \<lparr>ad_addr = 0xffff0a000001, ad_z = Z4\<rparr>"

lemma ex_config_split:
  "resolverSplit ex_config None [''10.0.0.0/8''] = Inr \<lparr>rs_ipBlock = [''1.1.1.1''], rs_pod = [''1.1.1.1'']\<rparr>"
  by (simp add: resolverSplit_def ex_config_def netip_eval)

lemma ex_config_except: "\<exists>e. exceptFor AllCIDR [''10.0.0.0/8''] = Inr (e, False)"
  by (simp add: exceptFor_def netip_eval)

lemma ex_config_plain: "resolvers_plain ex_config"
  by (simp add: resolvers_plain_def ex_config_def netip_eval)

lemma ex_config_reserved: "addr_ok ex_reserved_addr" "inAny (cfg_ReservedCIDRs ex_config) ex_reserved_addr"
  by (simp_all add: ex_reserved_addr_def addr_ok_def inAny_def inCIDR_def ex_config_def netip_eval)

lemma ex_generate: "\<exists>np. generate ex_config ex_external None = Inr np"
proof -
  obtain e where "exceptFor AllCIDR [''10.0.0.0/8''] = Inr (e, False)" using ex_config_except by blast
  then show ?thesis
    using ex_config_split
    by (simp add: generate_def ex_external_def effectivePosture_def exemptOf_def subtractExempt_def
        externalOnly_def Let_def ex_config_def)
qed

theorem reserved_never_reached_witness:
  "\<exists>np. generate ex_config ex_external None = Inr np \<and> resolvers_plain ex_config \<and>
     inAny (cfg_ReservedCIDRs ex_config) ex_reserved_addr \<and>
     \<not> policy_permits np ex_reserved_addr ''TCP'' 443"
proof -
  obtain np where np: "generate ex_config ex_external None = Inr np" using ex_generate by blast
  have "\<not> inAny (exemptOf None) ex_reserved_addr" by (simp add: exemptOf_def)
  from reserved_never_reached [OF np ex_config_reserved this]
  show ?thesis using np ex_config_plain ex_config_reserved by blast
qed

text \<open>
  C6. Exemptions are exact. When the reserved list and the exemptions parse, the list that a
  class is subject to covers exactly the addresses of the reserved ranges that no exemption
  covers: an exemption inside a range opens that exemption and nothing else of the range.
\<close>

theorem subtract_exempt_exact:
  assumes "subtractExempt reserved exempt = Inr out" and "addr_ok x"
  shows "inAny out x \<longleftrightarrow> inAny reserved x \<and> \<not> inAny exempt x"
  using assms by (rule subtractExempt_sets)

theorem subtract_exempt_exact_witness:
  "\<exists>out. subtractExempt [''10.0.0.0/8''] [''10.128.0.0/9''] = Inr out \<and>
     inAny out ex_reserved_addr \<and> \<not> inAny out \<lparr>ad_addr = 0xffff0a800001, ad_z = Z4\<rparr>"
proof -
  let ?y = "\<lparr>ad_addr = 0xffff0a800001, ad_z = Z4\<rparr> :: Addr"
  obtain out where out: "subtractExempt [''10.0.0.0/8''] [''10.128.0.0/9''] = Inr out"
    by (simp add: subtractExempt_def netip_eval)
  have "addr_ok ex_reserved_addr" "addr_ok ?y"
    by (simp_all add: addr_ok_def ex_reserved_addr_def)
  from subtract_exempt_exact [OF out this(1)] subtract_exempt_exact [OF out this(2)]
  show ?thesis
    using out by (simp add: inAny_def inCIDR_def ex_reserved_addr_def netip_eval)
qed

definition port_wf :: "allowPort \<Rightarrow> bool" where
  "port_wf p \<longleftrightarrow> ap_protocol p \<in> {''TCP'', ''UDP''} \<and> 1 \<le> ap_port p \<and> ap_port p \<le> 65535 \<and>
     (ap_endPort p = 0 \<or> ap_port p < ap_endPort p \<and> ap_endPort p \<le> 65535)"

lemma portList_wf: "portList host ps = Inr ports \<Longrightarrow> length ports = length ps \<and> (\<forall>p\<in>set ports. port_wf p)"
proof (induction ps arbitrary: ports)
  case (Cons p ps)
  then show ?case
    by (auto simp: Let_def port_wf_def validPort_def split: if_splits option.splits sum.splits)
qed simp

lemma portsFor_wf: "portsFor a = Inr ports \<Longrightarrow> ports \<noteq> [] \<and> (\<forall>p\<in>set ports. port_wf p)"
  using portList_wf [of "na_Host a" "na_Ports a" ports]
  by (auto simp: portsFor_def port_wf_def validPort_def split: if_splits)

text \<open>
  Ports are never open by omission. An allow-list entry that is accepted names at least one
  port, each is TCP or UDP, and each range lies in 1 to 65535 in order.
\<close>

lemma ports_never_empty:
  assumes "portsFor a = Inr ports"
  shows "ports \<noteq> [] \<and> (\<forall>p\<in>set ports. port_wf p)"
  using assms by (rule portsFor_wf)

end
