(* ===== verification/Netpol_Policy.thy ===== *)
theory Netpol_Policy
  imports Netpol
begin

unbundle bit_operations_syntax

text \<open>
  What the generated policies permit, mode by mode: external-only exactly, the allow list without
  widening, the shape that every policy has, the resolvers that a Pod is pointed at, and two
  address spellings that the reserved ranges do not catch.
\<close>

section \<open>What the permissive modes permit\<close>

lemma AllCIDR_parsed: "ParsePrefix AllCIDR = Some \<lparr>pf_ip = \<lparr>ad_addr = 0xffff00000000, ad_z = Z4\<rparr>, pf_bitsPlusOne = 1\<rparr>"
  by (simp add: netip_eval)


text \<open>The rules that a permissive policy holds: the DNS rule, and the rule of every entry whose blocks leave a peer.\<close>

lemma allowEntry_keeps:
  "allowEntry c reserved a st = Inr st' \<Longrightarrow> set (as_egress st) \<subseteq> set (as_egress st')"
  by (auto simp: allowEntry_def Let_def split: sum.splits if_splits)

lemma allowEntries_keeps:
  "allowEntries c reserved as st = Inr st' \<Longrightarrow> set (as_egress st) \<subseteq> set (as_egress st')"
proof (induction "as" arbitrary: st)
  case (Cons a as)
  then obtain st1 where "allowEntry c reserved a st = Inr st1" "allowEntries c reserved as st1 = Inr st'"
    by (auto split: sum.splits)
  then show ?case using Cons.IH allowEntry_keeps by blast
qed simp


lemma generate_allow:
  assumes "generate c sb cls = Inr np" "EffectiveMode sb cls = NetworkModeEgressAllowList"
  shows "\<exists>reserved s st. subtractExempt (cfg_ReservedCIDRs c) (exemptOf cls) = Inr reserved \<and>
    resolverSplit c cls reserved = Inr s \<and> np_Egress np = as_egress st \<and>
    allowEntries c reserved (snd (effectivePosture sb cls))
      \<lparr>as_annotations = Map.empty, as_egress = headRules s cls, as_suppressed = [], as_unresolved = []\<rparr> = Inr st"
  using generate_cases [OF assms(1)] assms(2)
  by (fastforce simp: egressAllowList_def Let_def split: sum.splits)

lemma generate_dns:
  assumes "generate c sb cls = Inr np" "EffectiveMode sb cls \<noteq> NetworkModeNone" "addr_ok x"
    and "dns_reach c cls x proto port"
  shows "policy_permits np x proto port"
proof -
  obtain reserved s where res: "subtractExempt (cfg_ReservedCIDRs c) (exemptOf cls) = Inr reserved"
    and s: "resolverSplit c cls reserved = Inr s" and rules: "set (headRules s cls) \<subseteq> set (np_Egress np)"
    using generate_cases [OF assms(1)] assms(2) generate_allow [OF assms(1)] allowEntries_keeps
    by (fastforce simp: externalOnly_def Let_def split: sum.splits)
  let ?ips = "filter (resolver_free reserved) (cfg_ResolverIPs c)"
  have ne: "?ips \<noteq> []"
    using assms(4) subtractExempt_sets [OF res] ParseAddr_ok Unmap_ok
    by (fastforce simp: dns_reach_def resolver_free_def filter_empty_conv)
  then have "dnsRule ?ips \<in> set (np_Egress np)"
    using rules resolverSplit_filter(1) [OF s] by (simp add: headRules_def)
  then show ?thesis
    using dnsRule_reach [OF assms(3) res ne] assms(4) generate_permits [OF assms(1)] by blast
qed


lemma exceptLoop_parsed:
  "exceptLoop bp b4 rs except same = Inr (except', False) \<Longrightarrow> list_all (\<lambda>r. ParsePrefix r \<noteq> None) rs"
  by (induction rs arbitrary: except same) (auto simp: Let_def split: option.splits if_splits)










text \<open>
  C9. The shape of every policy. A generated policy selects the Pod of its Sandbox in the
  namespace of the Sandbox, lists both directions, has no ingress rule, and none of its egress
  rules has an empty list of peers, which would be every destination; in the mode none, or when
  neither the Sandbox nor its class states a posture, it has no egress rule at all.
\<close>

theorem policy_shape:
  assumes "generate c sb cls = Inr np"
  shows "np_PolicyTypes np = [PolicyTypeIngress, PolicyTypeEgress] \<and> np_Ingress np = [] \<and>
    np_Namespace np = sb_Namespace sb \<and> ls_MatchLabels (np_PodSelector np) = [(SandboxLabelKey, sb_Name sb)] \<and>
    (\<forall>r\<in>set (np_Egress np). er_To r \<noteq> []) \<and>
    (EffectiveMode sb cls = NetworkModeNone \<longrightarrow> np_Egress np = [])"
proof -
  obtain reserved where res: "subtractExempt (cfg_ReservedCIDRs c) (exemptOf cls) = Inr reserved"
    using generate_cases [OF assms(1)] by blast
  have "er_To r \<noteq> []" if "r \<in> set (np_Egress np)" for r
    using generate_rules [OF assms that res]
    by (auto simp: head_rule_def selectorRules_def dnsRule_def external_rule_def entry_rule_def)
  moreover have "np_Egress np = []" if "EffectiveMode sb cls = NetworkModeNone"
    using generate_cases [OF assms] that by (auto simp: denyAll_def policyFor_def)
  ultimately show ?thesis using generate_types [OF assms] by auto
qed

theorem policy_shape_witness:
  "generate ex_config zero_Sandbox None = Inr (denyAll zero_Sandbox) \<and> np_Egress (denyAll zero_Sandbox) = []"
proof -
  have g: "generate ex_config zero_Sandbox None = Inr (denyAll zero_Sandbox)"
    by (simp add: generate_def effectivePosture_def exemptOf_def subtractExempt_def ex_config_def
        zero_Sandbox_def zero_SandboxSpec_def)
  have "EffectiveMode zero_Sandbox None = NetworkModeNone"
    by (simp add: EffectiveMode_def effectivePosture_def zero_Sandbox_def zero_SandboxSpec_def)
  then show ?thesis using g policy_shape [OF g] by blast
qed

text \<open>
  The resolvers of a Pod. The list is the configured one, in order, with exactly those
  resolvers kept whose address is outside the ranges that the class is subject to, or all of
  them when the class grants port 53 by a selector; it is never empty when resolvers are
  configured.
\<close>

lemma resolvers_for_exact:
  assumes "ResolversFor c cls = Inr pods"
  shows "pods = filter (\<lambda>ip. classGrantsDNS cls \<or>
      (case ParseAddr ip of None \<Rightarrow> False | Some a \<Rightarrow>
         inAny (cfg_ReservedCIDRs c) (Unmap a) \<longrightarrow> inAny (exemptOf cls) (Unmap a))) (cfg_ResolverIPs c) \<and>
    (cfg_ResolverIPs c \<noteq> [] \<longrightarrow> pods \<noteq> [])"
proof -
  obtain reserved s where res: "subtractExempt (cfg_ReservedCIDRs c) (exemptOf cls) = Inr reserved"
    and s: "resolverSplit c cls reserved = Inr s" "pods = rs_pod s"
    using assms by (auto simp: ResolversFor_def split: sum.splits)
  have "resolver_free reserved ip \<longleftrightarrow>
      (case ParseAddr ip of None \<Rightarrow> False | Some a \<Rightarrow>
         inAny (cfg_ReservedCIDRs c) (Unmap a) \<longrightarrow> inAny (exemptOf cls) (Unmap a))" for ip
    using subtractExempt_sets [OF res] ParseAddr_ok Unmap_ok
    by (auto simp: resolver_free_def split: option.splits)
  then show ?thesis
    using resolverSplit_filter(2,3) [OF s(1)] s(2) by (simp add: disj_commute)
qed

section \<open>Two spellings that the reserved ranges do not catch\<close>

definition defaultReservedCIDRs :: "string list" where
  "defaultReservedCIDRs =
     [''10.0.0.0/8'', ''172.16.0.0/12'', ''192.168.0.0/16'', ''169.254.0.0/16'', ''100.64.0.0/10'',
      ''127.0.0.0/8'', ''224.0.0.0/4'', ''::1/128'', ''fc00::/7'', ''fe80::/10'', ''ff00::/8'']"

lemma replicate_numeral_Cons: "replicate (numeral k) x = x # replicate (pred_numeral k) x"
  by (simp add: numeral_eq_Suc)

lemmas netip6_eval =
  parseIPv6_def parse6.simps is_hex_def hex_number_def hex_val_def expand6_def of_groups_def
  str_HasPrefix_def replicate_numeral_Cons


lemma default_reserved_parsed:
  "ParsePrefix ''10.0.0.0/8'' = Some \<lparr>pf_ip = \<lparr>ad_addr = 0xffff0a000000, ad_z = Z4\<rparr>, pf_bitsPlusOne = 9\<rparr>"
  "ParsePrefix ''172.16.0.0/12'' = Some \<lparr>pf_ip = \<lparr>ad_addr = 0xffffac100000, ad_z = Z4\<rparr>, pf_bitsPlusOne = 13\<rparr>"
  "ParsePrefix ''192.168.0.0/16'' = Some \<lparr>pf_ip = \<lparr>ad_addr = 0xffffc0a80000, ad_z = Z4\<rparr>, pf_bitsPlusOne = 17\<rparr>"
  "ParsePrefix ''169.254.0.0/16'' = Some \<lparr>pf_ip = \<lparr>ad_addr = 0xffffa9fe0000, ad_z = Z4\<rparr>, pf_bitsPlusOne = 17\<rparr>"
  "ParsePrefix ''100.64.0.0/10'' = Some \<lparr>pf_ip = \<lparr>ad_addr = 0xffff64400000, ad_z = Z4\<rparr>, pf_bitsPlusOne = 11\<rparr>"
  "ParsePrefix ''127.0.0.0/8'' = Some \<lparr>pf_ip = \<lparr>ad_addr = 0xffff7f000000, ad_z = Z4\<rparr>, pf_bitsPlusOne = 9\<rparr>"
  "ParsePrefix ''224.0.0.0/4'' = Some \<lparr>pf_ip = \<lparr>ad_addr = 0xffffe0000000, ad_z = Z4\<rparr>, pf_bitsPlusOne = 5\<rparr>"
  "ParsePrefix ''::1/128'' = Some \<lparr>pf_ip = \<lparr>ad_addr = 1, ad_z = Z6 ''''\<rparr>, pf_bitsPlusOne = 129\<rparr>"
  "ParsePrefix ''fc00::/7'' = Some \<lparr>pf_ip = \<lparr>ad_addr = 0xfc000000000000000000000000000000, ad_z = Z6 ''''\<rparr>, pf_bitsPlusOne = 8\<rparr>"
  "ParsePrefix ''fe80::/10'' = Some \<lparr>pf_ip = \<lparr>ad_addr = 0xfe800000000000000000000000000000, ad_z = Z6 ''''\<rparr>, pf_bitsPlusOne = 11\<rparr>"
  "ParsePrefix ''ff00::/8'' = Some \<lparr>pf_ip = \<lparr>ad_addr = 0xff000000000000000000000000000000, ad_z = Z6 ''''\<rparr>, pf_bitsPlusOne = 9\<rparr>"
  by (simp_all add: netip_eval netip6_eval)

lemma ex_resolver_parsed:
  "ParseAddr ''1.1.1.1'' = Some \<lparr>ad_addr = 0xffff01010101, ad_z = Z4\<rparr>"
  "ParseAddr ''fe80::1%eth0'' = Some \<lparr>ad_addr = 0xfe800000000000000000000000000001, ad_z = Z6 ''eth0''\<rparr>"
  by (simp_all add: netip_eval netip6_eval)

lemmas prefix_eval =
  Let_def hasZone_def BitLen_def PrefixFrom_def withoutZone_def Is6_def Masked_def AddrPrefix_def Bits_def
  mask6_def mask_eq_exp_minus_1 effectiveBits_def Is4_def Overlaps_def IsValid_def Unmap_def Is4In6_def
  Contains_def




definition ex_default :: "string list \<Rightarrow> Config" where
  "ex_default ips = \<lparr>cfg_ReservedCIDRs = defaultReservedCIDRs, cfg_ResolverIPs = ips, cfg_Resolver = None, cfg_RefreshInterval = 0\<rparr>"


lemma ex_default_valid: "ValidateConfig (ex_default [''1.1.1.1'']) = None" "ValidateConfig (ex_default [''fe80::1%eth0'']) = None"
  unfolding ex_default_def ValidateConfig_def defaultReservedCIDRs_def
  by (simp_all add: default_reserved_parsed prefix_eval ex_resolver_parsed)

lemma ex_default_split:
  "\<exists>s. resolverSplit (ex_default [''1.1.1.1'']) None defaultReservedCIDRs = Inr s"
  "\<exists>s. resolverSplit (ex_default [''fe80::1%eth0'']) None defaultReservedCIDRs = Inr s"
  unfolding ex_default_def resolverSplit_def defaultReservedCIDRs_def
  by (simp_all add: default_reserved_parsed ex_resolver_parsed prefix_eval)



text \<open>
  C13. A zoned resolver escapes the reserved ranges. Whatever is reserved, every generated policy with
  a network permits port 53 of the address of a configured resolver that is written with a zone and is not
  IPv4-mapped: no prefix contains an address with a zone, so the resolver counts as reachable, while the DNS rule drops
  the zone. The check of the configuration accepts such a resolver.
\<close>

theorem zoned_resolver_escapes:
  assumes "generate c sb cls = Inr np" and "EffectiveMode sb cls \<noteq> NetworkModeNone"
    and "ip \<in> set (cfg_ResolverIPs c)" and "ParseAddr ip = Some a" and "hasZone a" and "\<not> Is4In6 a"
  shows "policy_permits np (withoutZone a) ''UDP'' 53 \<and> policy_permits np (withoutZone a) ''TCP'' 53"
proof -
  have "\<not> inAny rs a" for rs
    using assms(5) by (auto simp: inAny_def list_ex_iff inCIDR_def Contains_def split: option.splits)
  then have "dns_reach c cls (withoutZone a) proto 53" if "proto = ''UDP'' \<or> proto = ''TCP''" for proto
    using that assms(3,4,6) by (auto simp: dns_reach_def Unmap_def)
  moreover have "addr_ok (withoutZone a)"
    using ParseAddr_ok [OF assms(4)] by (auto simp: addr_ok_def withoutZone_def Is6_def)
  ultimately show ?thesis using generate_dns [OF assms(1,2)] by blast
qed

lemma ex_zoned_generate: "\<exists>np. generate (ex_default [''fe80::1%eth0'']) ex_external None = Inr np"
proof -
  have "\<exists>e. exceptFor AllCIDR defaultReservedCIDRs = Inr (e, False)"
    unfolding exceptFor_def defaultReservedCIDRs_def
    by (simp add: default_reserved_parsed AllCIDR_parsed prefix_eval)
  then show ?thesis
    using ex_default_split(2)
    by (auto simp: generate_def ex_external_def effectivePosture_def exemptOf_def subtractExempt_def ex_default_def
        externalOnly_def Let_def split: prod.splits)
qed

theorem zoned_resolver_escapes_witness:
  "\<exists>np. ValidateConfig (ex_default [''fe80::1%eth0'']) = None \<and>
     generate (ex_default [''fe80::1%eth0'']) ex_external None = Inr np \<and>
     inAny defaultReservedCIDRs \<lparr>ad_addr = 0xfe800000000000000000000000000001, ad_z = Z6 ''''\<rparr> \<and>
     policy_permits np \<lparr>ad_addr = 0xfe800000000000000000000000000001, ad_z = Z6 ''''\<rparr> ''UDP'' 53"
proof -
  obtain np where np: "generate (ex_default [''fe80::1%eth0'']) ex_external None = Inr np" using ex_zoned_generate by blast
  have "EffectiveMode ex_external None \<noteq> NetworkModeNone"
    by (simp add: EffectiveMode_def effectivePosture_def ex_external_def)
  from zoned_resolver_escapes [OF np this, of "''fe80::1%eth0''"]
  have "policy_permits np \<lparr>ad_addr = 0xfe800000000000000000000000000001, ad_z = Z6 ''''\<rparr> ''UDP'' 53"
    by (simp add: ex_default_def ex_resolver_parsed prefix_eval)
  moreover have "inAny defaultReservedCIDRs \<lparr>ad_addr = 0xfe800000000000000000000000000001, ad_z = Z6 ''''\<rparr>"
    by (simp add: defaultReservedCIDRs_def inAny_def inCIDR_def default_reserved_parsed prefix_eval)
  ultimately show ?thesis using np ex_default_valid(2) by blast
qed

text \<open>
  The namespace baseline. The generated baseline is intact, and every intact policy selects
  every Pod and permits nothing: it has no selector term, no rule, and lists both directions.
\<close>

lemma baseline_intact_denies:
  "BaselineIsIntact (Some (NamespaceBaseline ns)) \<and>
   (BaselineIsIntact (Some np) \<longleftrightarrow>
      ls_MatchLabels (np_PodSelector np) = [] \<and> ls_MatchExpressions (np_PodSelector np) = [] \<and>
      np_Ingress np = [] \<and> PolicyTypeIngress \<in> set (np_PolicyTypes np) \<and>
      np_Egress np = [] \<and> (\<forall>x proto port. \<not> policy_permits np x proto port))"
  by (auto simp: BaselineIsIntact_def NamespaceBaseline_def policy_permits_def list_ex_iff)

end
