(* ===== verification/Netpol_Resolver.thy ===== *)
theory Netpol_Resolver
  imports Netpol_Policy
begin

text \<open>
  The caching resolver (\<open>src/internal/netpol/resolver.go\<close>) behind the interface
  \<open>HostResolver\<close>. Its clock and its DNS lookup are parameters: a call carries the time and
  the outcome of the lookup, and a history of calls drives the cache. The interface is the locale
  \<open>host_resolver\<close>; what the policy generator derives from it is proved there once, and the
  caching resolver after any history is an interpretation.
\<close>

section \<open>The cache\<close>

record resolvedEntry =
  re_prefixes :: "string list"
  re_at :: gotime

record CachingResolver =
  cr_ttl :: duration
  cr_grace :: duration
  cr_timeout :: duration
  cr_entries :: "string \<rightharpoonup> resolvedEntry"

record ResolverOptions =
  ro_TTL :: duration
  ro_Grace :: duration
  ro_Timeout :: duration

abbreviation DefaultResolveGrace :: duration where "DefaultResolveGrace \<equiv> 10 * minute"
abbreviation DefaultResolveTimeout :: duration where "DefaultResolveTimeout \<equiv> 5 * second"

definition NewCachingResolver :: "ResolverOptions \<Rightarrow> CachingResolver" where
  "NewCachingResolver opts =
     \<lparr>cr_ttl = (if ro_TTL opts \<le> 0 then DefaultResolveTTL else ro_TTL opts),
      cr_grace = (if ro_Grace opts \<le> 0 then DefaultResolveGrace else ro_Grace opts),
      cr_timeout = (if ro_Timeout opts \<le> 0 then DefaultResolveTimeout else ro_Timeout opts),
      cr_entries = Map.empty\<rparr>"

definition fresh :: "CachingResolver \<Rightarrow> string \<Rightarrow> gotime \<Rightarrow> string list option" where
  "fresh r host now =
     (case cr_entries r host of
        None \<Rightarrow> None
      | Some e \<Rightarrow> (if cr_ttl r \<le> time_Sub now (re_at e) then None else Some (re_prefixes e)))"

definition stale :: "CachingResolver \<Rightarrow> string \<Rightarrow> gotime \<Rightarrow> string list option" where
  "stale r host now =
     (case cr_entries r host of
        None \<Rightarrow> None
      | Some e \<Rightarrow> (if cr_grace r \<le> time_Sub now (re_at e) then None else Some (re_prefixes e)))"

definition store :: "CachingResolver \<Rightarrow> string \<Rightarrow> string list \<Rightarrow> gotime \<Rightarrow> CachingResolver" where
  "store r host prefixes now =
     r\<lparr>cr_entries := (cr_entries r)(host \<mapsto> \<lparr>re_prefixes = prefixes, re_at = now\<rparr>)\<rparr>"

fun normalizeLoop :: "Addr list \<Rightarrow> string list \<Rightarrow> string list" where
  "normalizeLoop [] out = out"
| "normalizeLoop (a # as) out =
     (let a = Unmap a; p = PrefixString (PrefixFrom a (int (BitLen a)))
      in if p \<in> set out then normalizeLoop as out else normalizeLoop as (out @ [p]))"

definition normalizePrefixes :: "Addr list \<Rightarrow> string list" where
  "normalizePrefixes addrs = sort (normalizeLoop addrs [])"

text \<open>
  \<open>Resolve\<close>: the cached answer while it is fresh, else a lookup, whose failure is covered by
  the stale answer inside the grace window. The outcome of the lookup is an argument; \<open>None\<close>
  is its failure.
\<close>

definition Resolve ::
  "CachingResolver \<Rightarrow> gotime \<Rightarrow> Addr list option \<Rightarrow> string \<Rightarrow> string list option \<times> CachingResolver" where
  "Resolve r now lookup host =
     (case fresh r host now of
        Some cached \<Rightarrow> (Some cached, r)
      | None \<Rightarrow>
          (case lookup of
             None \<Rightarrow> (stale r host now, r)
           | Some addrs \<Rightarrow>
               (let prefixes = normalizePrefixes addrs in (Some prefixes, store r host prefixes now))))"

section \<open>Histories\<close>

type_synonym call = "gotime \<times> string \<times> Addr list option"

fun after_calls :: "CachingResolver \<Rightarrow> call list \<Rightarrow> CachingResolver" where
  "after_calls r [] = r"
| "after_calls r ((now, host, lookup) # cs) = after_calls (snd (Resolve r now lookup host)) cs"

text \<open>A cache holds only answers of successful lookups of the same name in its history.\<close>

definition cache_from :: "call set \<Rightarrow> CachingResolver \<Rightarrow> bool" where
  "cache_from H r \<longleftrightarrow>
     (\<forall>host e. cr_entries r host = Some e \<longrightarrow>
        (\<exists>addrs. (re_at e, host, Some addrs) \<in> H \<and> re_prefixes e = normalizePrefixes addrs))"

lemma cache_from_mono: "cache_from H r \<Longrightarrow> H \<subseteq> H' \<Longrightarrow> cache_from H' r"
  unfolding cache_from_def by blast

lemma Resolve_cache_from:
  assumes "cache_from H r"
  shows "cache_from (insert (now, host, lookup) H) (snd (Resolve r now lookup host))"
  using assms
  by (fastforce simp: Resolve_def cache_from_def store_def Let_def split: option.splits)

lemma Resolve_config [simp]:
  "cr_ttl (snd (Resolve r now lookup host)) = cr_ttl r"
  "cr_grace (snd (Resolve r now lookup host)) = cr_grace r"
  by (auto simp: Resolve_def store_def Let_def split: option.splits)

lemma after_calls_config:
  "cr_ttl (after_calls r cs) = cr_ttl r" "cr_grace (after_calls r cs) = cr_grace r"
  by (induction r cs rule: after_calls.induct) simp_all

lemma after_calls_cache_from:
  "cache_from H r \<Longrightarrow> cache_from (H \<union> set cs) (after_calls r cs)"
proof (induction r cs arbitrary: H rule: after_calls.induct)
  case (2 r now host lookup cs)
  from 2(1) [OF Resolve_cache_from [OF 2(2), of now host lookup]] show ?case by simp
qed simp

lemma normalizeLoop_set:
  "set (normalizeLoop as out) = set out \<union> (\<lambda>a. PrefixString (PrefixFrom (Unmap a) (int (BitLen (Unmap a))))) ` set as"
  by (induction "as" out rule: normalizeLoop.induct) (auto simp: Let_def)

lemma normalizeLoop_distinct: "distinct out \<Longrightarrow> distinct (normalizeLoop as out)"
  by (induction "as" out rule: normalizeLoop.induct) (auto simp: Let_def)

lemma normalizePrefixes_props:
  "sorted (normalizePrefixes as)" "distinct (normalizePrefixes as)"
  "set (normalizePrefixes as) = (\<lambda>a. PrefixString (PrefixFrom (Unmap a) (int (BitLen (Unmap a))))) ` set as"
  by (simp_all add: normalizePrefixes_def normalizeLoop_set normalizeLoop_distinct)

text \<open>
  C10. A cached answer is bounded in age. After any history of calls on a new resolver, an
  answer to a name is the normalised result of this call's lookup, or of a successful lookup of
  the same name in the history that is younger than the time to live, or, only when this call's
  lookup failed, younger than the grace window.
\<close>

theorem resolver_answer_age:
  assumes "fst (Resolve (after_calls (NewCachingResolver opts) H) now lookup host) = Some prefixes"
  shows "(\<exists>addrs. lookup = Some addrs \<and> prefixes = normalizePrefixes addrs) \<or>
    (\<exists>t addrs. (t, host, Some addrs) \<in> set H \<and> prefixes = normalizePrefixes addrs \<and>
       (time_Sub now t < cr_ttl (NewCachingResolver opts) \<or>
        lookup = None \<and> time_Sub now t < cr_grace (NewCachingResolver opts)))"
proof -
  let ?r = "after_calls (NewCachingResolver opts) H"
  have "cache_from {} (NewCachingResolver opts)" by (simp add: cache_from_def NewCachingResolver_def)
  then have from_H: "cache_from (set H) ?r" using after_calls_cache_from [of "{}" _ H] by simp
  have entry: "\<exists>addrs. (re_at e, host, Some addrs) \<in> set H \<and> re_prefixes e = normalizePrefixes addrs"
    if "cr_entries ?r host = Some e" for e using from_H that by (simp add: cache_from_def)
  show ?thesis
  proof (cases "fresh ?r host now")
    case (Some c)
    then obtain e where "cr_entries ?r host = Some e" "c = re_prefixes e" "time_Sub now (re_at e) < cr_ttl ?r"
      by (auto simp: fresh_def split: option.splits if_splits)
    moreover have "prefixes = c" using assms Some by (simp add: Resolve_def)
    ultimately show ?thesis using entry by (fastforce simp: after_calls_config)
  next
    case None
    show ?thesis
    proof (cases lookup)
      case l: None
      then have "stale ?r host now = Some prefixes" using assms None by (simp add: Resolve_def)
      then obtain e where "cr_entries ?r host = Some e" "prefixes = re_prefixes e" "time_Sub now (re_at e) < cr_grace ?r"
        by (auto simp: stale_def split: option.splits if_splits)
      then show ?thesis using entry l by (fastforce simp: after_calls_config)
    next
      case (Some addrs)
      then show ?thesis using assms None by (simp add: Resolve_def Let_def)
    qed
  qed
qed

theorem resolver_answer_age_witness:
  "let H = [(10, ''h'', Some [AddrFrom4 1])]; r = after_calls (NewCachingResolver \<lparr>ro_TTL = 0, ro_Grace = 0, ro_Timeout = 0\<rparr>) H
   in \<exists>prefixes. fst (Resolve r 20 None ''h'') = Some prefixes \<and>
        (\<exists>t addrs. (t, ''h'', Some addrs) \<in> set H \<and> prefixes = normalizePrefixes addrs)"
proof -
  let ?H = "[(10, ''h'', Some [AddrFrom4 1])] :: call list"
  let ?o = "\<lparr>ro_TTL = 0, ro_Grace = 0, ro_Timeout = 0\<rparr>"
  have a: "fst (Resolve (after_calls (NewCachingResolver ?o) ?H) 20 None ''h'') = Some (normalizePrefixes [AddrFrom4 1])"
    by (simp add: Resolve_def fresh_def stale_def NewCachingResolver_def store_def Let_def
        time_Sub_def minDuration_def maxDuration_def)
  show ?thesis using a resolver_answer_age [OF a] by (simp only: Let_def) blast
qed

section \<open>The interface of the policy generator\<close>

definition single_address :: "string \<Rightarrow> bool" where
  "single_address s \<longleftrightarrow> (\<forall>x y. addr_ok x \<longrightarrow> addr_ok y \<longrightarrow> inCIDR s x \<longrightarrow> inCIDR s y \<longrightarrow> x = y)"

lemma single_address_ok:
  assumes "addr_ok a" "ad_z a = Z4 \<or> ad_z a = Z6 ''''"
  shows "single_address (PrefixString (PrefixFrom a (int (BitLen a))))"
  using single_Contains [OF assms] by (auto simp: single_address_def inCIDR_PrefixString)

lemma AddrFrom4_ok: "addr_ok (AddrFrom4 w)" "ad_z (AddrFrom4 w) = Z4"
proof -
  have "parseIPv4 (string4 w) = Some (AddrFrom4 w)" by (rule parseIPv4_string4)
  from parseIPv4_ok [OF this] show "addr_ok (AddrFrom4 w)" "ad_z (AddrFrom4 w) = Z4" .
qed

lemma ucast_AddrFrom4: "ucast (ad_addr (AddrFrom4 w)) = w"
proof (rule bit_word_eqI)
  fix n assume n: "n < LENGTH(32)"
  then show "bit (ucast (ad_addr (AddrFrom4 w)) :: 32 word) n = bit w n"
    using AddrFrom4_bits [of n w] by (simp add: bit_unsigned_iff)
qed

lemma normalized_single:
  "single_address (PrefixString (PrefixFrom a (int (BitLen a))))"
proof (cases "ad_z a")
  case Z0
  then have "PrefixString (PrefixFrom a (int (BitLen a))) = ''invalid Prefix''"
    by (simp add: PrefixFrom_def PrefixString_def IsValid_def)
  then show ?thesis by (simp add: single_address_def inCIDR_def ParsePrefix_def)
next
  case Z4
  let ?b = "AddrFrom4 (ucast (ad_addr a))"
  have "AddrString a = AddrString ?b"
    using Z4 AddrFrom4_ok(2) [of "ucast (ad_addr a)"] by (simp add: AddrString_def ucast_AddrFrom4)
  then have "PrefixString (PrefixFrom a (int (BitLen a))) = PrefixString (PrefixFrom ?b (int (BitLen ?b)))"
    using Z4 AddrFrom4_ok(2) [of "ucast (ad_addr a)"]
    by (simp add: PrefixString_def PrefixFrom_def IsValid_def Bits_def BitLen_def withoutZone_id)
  then show ?thesis using single_address_ok [of ?b] AddrFrom4_ok by simp
next
  case (Z6 zone)
  let ?b = "a\<lparr>ad_z := Z6 ''''\<rparr>"
  have "PrefixFrom a (int (BitLen a)) = PrefixFrom ?b (int (BitLen ?b))"
    using Z6 by (simp add: PrefixFrom_def BitLen_def withoutZone_def Is6_def)
  then show ?thesis using single_address_ok [of ?b] by (simp add: addr_ok_def)
qed

locale host_resolver =
  fixes Res :: HostResolver
  assumes answers_single: "Res host = Some prefixes \<Longrightarrow> s \<in> set prefixes \<Longrightarrow> single_address s"
begin

lemma named_bases_single:
  assumes "cfg_Resolver c = Some Res" "na_CIDR a = ''''" "basesFor c a = Inr bases" "s \<in> set bases"
  shows "single_address s"
  using assms answers_single normalized_single
  by (auto simp: basesFor_def Let_def split: option.splits)

lemma named_rule_addresses:
  assumes "cfg_Resolver c = Some Res" "na_CIDR a = ''''" "basesFor c a = Inr bases" "entry_rule c reserved a r"
  shows "finite {x. addr_ok x \<and> rule_reaches r x} \<and> card {x. addr_ok x \<and> rule_reaches r x} \<le> length bases"
proof -
  let ?X = "{x. addr_ok x \<and> rule_reaches r x}"
  have sub: "?X \<subseteq> (\<Union>s\<in>set bases. {x. addr_ok x \<and> inCIDR s x})"
    using entry_rule_permits(2) [OF assms(4)] assms(3) by (auto simp: inAny_def list_ex_iff)
  have one: "finite {x. addr_ok x \<and> inCIDR s x} \<and> card {x. addr_ok x \<and> inCIDR s x} \<le> 1" if s: "s \<in> set bases" for s
  proof -
    have single: "single_address s" by (rule named_bases_single [OF assms(1-3) s])
    have "\<exists>z. {x. addr_ok x \<and> inCIDR s x} \<subseteq> {z}"
    proof (cases "\<exists>z. addr_ok z \<and> inCIDR s z")
      case True
      then show ?thesis using single unfolding single_address_def by blast
    qed auto
    then obtain z where "{x. addr_ok x \<and> inCIDR s x} \<subseteq> {z}" by blast
    then show ?thesis using card_mono [of "{z}" "{x. addr_ok x \<and> inCIDR s x}"] finite_subset [of _ "{z}"] by simp
  qed
  have fin: "finite (\<Union>s\<in>set bases. {x. addr_ok x \<and> inCIDR s x})" using one by simp
  have "card (\<Union>s\<in>set bases. {x. addr_ok x \<and> inCIDR s x}) \<le> (\<Sum>s\<in>set bases. card {x. addr_ok x \<and> inCIDR s x})"
    by (rule card_UN_le) simp
  also have "\<dots> \<le> (\<Sum>s\<in>set bases. 1)" using one by (intro sum_mono) simp
  also have "\<dots> \<le> length bases" by (simp add: card_length)
  finally show ?thesis using finite_subset [OF sub fin] card_mono [OF fin sub] by simp
qed

end

interpretation cached: host_resolver
  "\<lambda>host. fst (Resolve (after_calls (NewCachingResolver opts) H) now (lookup host) host)"
  for opts H now lookup
proof
  fix host prefixes s
  assume a: "fst (Resolve (after_calls (NewCachingResolver opts) H) now (lookup host) host) = Some prefixes"
    and s: "s \<in> set prefixes"
  have "cache_from {} (NewCachingResolver opts)" by (simp add: cache_from_def NewCachingResolver_def)
  then have "cache_from (set H) (after_calls (NewCachingResolver opts) H)"
    using after_calls_cache_from [of "{}" _ H] by simp
  then have "\<exists>addrs. prefixes = normalizePrefixes addrs"
    using a by (fastforce simp: Resolve_def fresh_def stale_def cache_from_def Let_def split: option.splits if_splits)
  then show "single_address s" using s normalized_single by (auto simp: normalizePrefixes_props(3))
qed

text \<open>
  C11. A name never opens a range. With the caching resolver after any history and for every
  answer of DNS, the rule of an allow-list entry that names a host without a pinned block
  reaches at most as many addresses as the entry resolved to: each answer is one address.
\<close>

theorem named_entry_addresses:
  assumes "cfg_Resolver c = Some (\<lambda>host. fst (Resolve (after_calls (NewCachingResolver opts) H) now (lookup host) host))"
    and "na_CIDR a = ''''" and "basesFor c a = Inr bases" and "entry_rule c reserved a r"
  shows "finite {x. addr_ok x \<and> rule_reaches r x} \<and> card {x. addr_ok x \<and> rule_reaches r x} \<le> length bases"
  using assms by (rule cached.named_rule_addresses)

definition ex_answer :: HostResolver where
  "ex_answer = (\<lambda>host. fst (Resolve (after_calls (NewCachingResolver
     \<lparr>ro_TTL = 0, ro_Grace = 0, ro_Timeout = 0\<rparr>) []) 7 (Some [AddrFrom4 0x08080808]) host))"

definition ex_named :: NetworkAllow where
  "ex_named = \<lparr>na_Host = ''h'', na_Port = 443, na_Ports = [], na_CIDR = []\<rparr>"

definition ex_single :: Prefix where
  "ex_single = PrefixFrom (AddrFrom4 0x08080808) 32"

lemma ex_single_ok: "prefix_ok ex_single"
  using single_Contains(1) [OF AddrFrom4_ok(1) _ AddrFrom4_ok(1), of "0x08080808"] AddrFrom4_ok(2)
  by (simp add: ex_single_def BitLen_def)

lemma ex_named_bases:
  "basesFor (ex_config\<lparr>cfg_Resolver := Some ex_answer\<rparr>) ex_named = Inr [PrefixString ex_single]"
proof -
  have "Unmap (AddrFrom4 0x08080808) = AddrFrom4 0x08080808"
    by (simp add: Unmap_def Is4In6_def Is6_def AddrFrom4_def)
  moreover have "BitLen (AddrFrom4 0x08080808) = 32" by (simp add: BitLen_def AddrFrom4_def)
  ultimately have "ex_answer ''h'' = Some [PrefixString ex_single]"
    by (simp add: ex_answer_def Resolve_def NewCachingResolver_def fresh_def normalizePrefixes_def
        Let_def ex_single_def)
  moreover have "ParseAddr ''h'' = None" by (simp add: ParseAddr_def)
  ultimately show ?thesis by (simp add: basesFor_def ex_named_def)
qed

lemma ex_named_rule:
  "\<exists>r. entry_rule (ex_config\<lparr>cfg_Resolver := Some ex_answer\<rparr>) [''10.0.0.0/8''] ex_named r"
proof -
  have "ParsePrefix (PrefixString ex_single) = Some ex_single" by (rule pfx.parse_print [OF ex_single_ok])
  then have "\<exists>e. exceptFor (PrefixString ex_single) [''10.0.0.0/8''] = Inr (e, False)"
    by (simp add: exceptFor_def ex_single_def netip_eval)
  then obtain e where e: "exceptFor (PrefixString ex_single) [''10.0.0.0/8''] = Inr (e, False)" by blast
  have "portsFor ex_named = Inr [\<lparr>ap_protocol = ''TCP'', ap_port = 443, ap_endPort = 0\<rparr>]"
    by (simp add: portsFor_def ex_named_def validPort_def)
  then show ?thesis
    using e ex_named_bases
    by (intro exI [of _ "\<lparr>er_To = [blockPeer (PrefixString ex_single) e], er_Ports = map policyPort
         [\<lparr>ap_protocol = ''TCP'', ap_port = 443, ap_endPort = 0\<rparr>]\<rparr>"]) (simp add: entry_rule_def)
qed

theorem named_entry_addresses_witness:
  "\<exists>r. entry_rule (ex_config\<lparr>cfg_Resolver := Some ex_answer\<rparr>) [''10.0.0.0/8''] ex_named r \<and>
     card {x. addr_ok x \<and> rule_reaches r x} \<le> 1"
proof -
  let ?c = "ex_config\<lparr>cfg_Resolver := Some ex_answer\<rparr>"
  obtain r where r: "entry_rule ?c [''10.0.0.0/8''] ex_named r" using ex_named_rule by blast
  have c: "cfg_Resolver ?c = Some (\<lambda>host. fst (Resolve (after_calls (NewCachingResolver
     \<lparr>ro_TTL = 0, ro_Grace = 0, ro_Timeout = 0\<rparr>) []) 7 (Some [AddrFrom4 0x08080808]) host))"
    by (simp add: ex_answer_def)
  have n: "na_CIDR ex_named = ''''" by (simp add: ex_named_def)
  show ?thesis using r named_entry_addresses [OF c n ex_named_bases r] by auto
qed

end
