(* ===== verification/Sandbox_Class.thy ===== *)
theory Sandbox_Class
  imports Netpol_Policy Kube_Types
begin

text \<open>
  Classes and tenants: the binding of a Sandbox to its class and the check against the limits
  of that class (\<open>src/internal/class\<close>), the disk limits (\<open>src/internal/limits\<close>), the
  tenant of a Sandbox (\<open>src/internal/tenancy\<close>), the backend names
  (\<open>src/internal/runtime\<close>), the signature policy of an image
  (\<open>src/internal/diskbuilder/policy.go\<close>) and the object names of the chart
  (\<open>src/internal/chartname\<close>). The answers of the Kubernetes client are arguments; the
  label syntax check of Kubernetes (\<open>validation.IsDNS1123Label\<close>) is the parameter
  \<open>isLabel\<close>.
\<close>

section \<open>Disk limits\<close>

abbreviation DefaultScratch :: quantity where "DefaultScratch \<equiv> 10 * gibibyte"
abbreviation EphemeralHeadroom :: quantity where "EphemeralHeadroom \<equiv> gibibyte"

definition ScratchCeiling :: "SandboxClass option \<Rightarrow> quantity" where
  "ScratchCeiling cls =
     (case cls of
        None \<Rightarrow> DefaultScratch
      | Some c \<Rightarrow>
          (case cs_MaxResources (cl_Spec c) of
             None \<Rightarrow> DefaultScratch
           | Some r \<Rightarrow> (case res_Scratch r of None \<Rightarrow> DefaultScratch | Some q \<Rightarrow> q)))"

definition EffectiveScratch :: "Sandbox option \<Rightarrow> SandboxClass option \<Rightarrow> quantity" where
  "EffectiveScratch sb cls =
     (case (case sb of None \<Rightarrow> None | Some s \<Rightarrow> res_Scratch (sp_Resources (sb_Spec s))) of
        Some q \<Rightarrow> q
      | None \<Rightarrow>
          (case cls of
             None \<Rightarrow> DefaultScratch
           | Some c \<Rightarrow>
               (case cs_DefaultResources (cl_Spec c) of
                  None \<Rightarrow> DefaultScratch
                | Some r \<Rightarrow> (case res_Scratch r of None \<Rightarrow> DefaultScratch | Some q \<Rightarrow> q))))"

definition EphemeralLimit :: "quantity \<Rightarrow> quantity" where
  "EphemeralLimit scratch = scratch + EphemeralHeadroom"

section \<open>The limits of a class\<close>

datatype ViolationMessage =
    SandboxIsNil
  | TooManyVCPU int string int
  | TooMuchMemory quantity string quantity
  | TooMuchScratch quantity string quantity
  | ScratchNotPositive quantity
  | ModeNotAllowed NetworkMode string "NetworkMode list"

record ConstraintViolation =
  cv_Field :: string
  cv_Message :: ViolationMessage

definition containsNetworkMode :: "NetworkMode list \<Rightarrow> NetworkMode \<Rightarrow> bool" where
  "containsNetworkMode modes want \<longleftrightarrow> List.member modes want"

definition resourceViolations :: "Sandbox \<Rightarrow> SandboxClass \<Rightarrow> ConstraintViolation list" where
  "resourceViolations sb cls =
     (case cs_MaxResources (cl_Spec cls) of
        None \<Rightarrow> []
      | Some m \<Rightarrow>
          (let r = sp_Resources (sb_Spec sb)
           in (if res_VCPU r > res_VCPU m
               then [\<lparr>cv_Field = ''spec.resources.vcpu'',
                      cv_Message = TooManyVCPU (res_VCPU r) (cl_Name cls) (res_VCPU m)\<rparr>] else [])
            @ (if res_Memory r > res_Memory m
               then [\<lparr>cv_Field = ''spec.resources.memory'',
                      cv_Message = TooMuchMemory (res_Memory r) (cl_Name cls) (res_Memory m)\<rparr>] else [])))"

definition scratchViolations :: "Sandbox \<Rightarrow> SandboxClass \<Rightarrow> ConstraintViolation list" where
  "scratchViolations sb cls =
     (let scratch = EffectiveScratch (Some sb) (Some cls); ceiling = ScratchCeiling (Some cls)
      in if scratch > ceiling
         then [\<lparr>cv_Field = ''spec.resources.scratch'',
                cv_Message = TooMuchScratch scratch (cl_Name cls) ceiling\<rparr>]
         else if scratch \<le> 0
         then [\<lparr>cv_Field = ''spec.resources.scratch'', cv_Message = ScratchNotPositive scratch\<rparr>]
         else [])"

definition networkViolations :: "Sandbox \<Rightarrow> SandboxClass \<Rightarrow> ConstraintViolation list" where
  "networkViolations sb cls =
     (if cs_AllowedNetworkModes (cl_Spec cls) \<noteq> []
      then
        let effective = EffectiveMode sb (Some cls)
        in if \<not> containsNetworkMode (cs_AllowedNetworkModes (cl_Spec cls)) effective
           then [\<lparr>cv_Field = ''spec.network.mode'',
                  cv_Message = ModeNotAllowed effective (cl_Name cls) (cs_AllowedNetworkModes (cl_Spec cls))\<rparr>]
           else []
      else [])"

definition ClassValidate :: "Sandbox option \<Rightarrow> SandboxClass option \<Rightarrow> ConstraintViolation list" where
  "ClassValidate sbOpt clsOpt =
     (case sbOpt of
        None \<Rightarrow> [\<lparr>cv_Field = '''', cv_Message = SandboxIsNil\<rparr>]
      | Some sb \<Rightarrow>
          (case clsOpt of
             None \<Rightarrow> []
           | Some cls \<Rightarrow>
               resourceViolations sb cls @ scratchViolations sb cls @ networkViolations sb cls))"

section \<open>Resolving a class\<close>

datatype ClassError =
    ErrClassNotFound string
  | ErrNoDefaultClass
  | ErrAmbiguousDefault "string list"
  | ClassGetFailed string ApiError
  | ClassListFailed ApiError
  | ResolverNotInitialized
  | ResolveNilSandbox

record ClassClient =
  cc_Get :: "string \<Rightarrow> ApiError + SandboxClass"
  cc_List :: "ApiError + SandboxClass list"

definition resolveByName :: "ClassClient \<Rightarrow> string \<Rightarrow> ClassError + SandboxClass" where
  "resolveByName c name =
     (case cc_Get c name of
        Inl NotFound \<Rightarrow> Inl (ErrClassNotFound name)
      | Inl e \<Rightarrow> Inl (ClassGetFailed name e)
      | Inr cls \<Rightarrow> Inr cls)"

definition resolveDefault :: "ClassClient \<Rightarrow> ClassError + SandboxClass" where
  "resolveDefault c =
     (case cc_List c of
        Inl e \<Rightarrow> Inl (ClassListFailed e)
      | Inr items \<Rightarrow>
          (case filter (\<lambda>cls. cs_Default (cl_Spec cls)) items of
             [] \<Rightarrow> Inl ErrNoDefaultClass
           | [cls] \<Rightarrow> Inr cls
           | defaults \<Rightarrow> Inl (ErrAmbiguousDefault (map cl_Name defaults))))"

definition ResolveClass :: "ClassClient option \<Rightarrow> Sandbox option \<Rightarrow> ClassError + SandboxClass" where
  "ResolveClass r sbOpt =
     (case r of
        None \<Rightarrow> Inl ResolverNotInitialized
      | Some c \<Rightarrow>
          (case sbOpt of
             None \<Rightarrow> Inl ResolveNilSandbox
           | Some sb \<Rightarrow>
               (if sp_SandboxClassName (sb_Spec sb) \<noteq> ''''
                then resolveByName c (sp_SandboxClassName (sb_Spec sb)) else resolveDefault c)))"

section \<open>Backends and image signatures\<close>

abbreviation BackendLauncher :: string where "BackendLauncher \<equiv> ''launcher''"

abbreviation RemovedBackends :: "string list" where
  "RemovedBackends \<equiv> [''kata-fc'', ''kata-qemu'', ''gvisor'', ''runc'']"

datatype BackendError = BackendRemoved string | NotABackend string

definition ValidateBackend :: "string \<Rightarrow> BackendError option" where
  "ValidateBackend name =
     (if name = '''' \<or> name = BackendLauncher then None
      else if List.member RemovedBackends name then Some (BackendRemoved name)
      else Some (NotABackend name))"

record SignaturePolicy =
  sgp_Issuer :: string
  sgp_Identity :: string
  sgp_PublicKey :: string

datatype SignaturePolicyError = PolicyBoth | PolicyHalfKeyless | PolicyEmpty

definition ValidateSignaturePolicy :: "SignaturePolicy \<Rightarrow> SignaturePolicyError option" where
  "ValidateSignaturePolicy p =
     (let keyless = (sgp_Issuer p \<noteq> '''' \<or> sgp_Identity p \<noteq> '''')
      in if keyless \<and> length (sgp_PublicKey p) > 0 then Some PolicyBoth
         else if keyless \<and> (sgp_Issuer p = '''' \<or> sgp_Identity p = '''') then Some PolicyHalfKeyless
         else if \<not> keyless \<and> length (sgp_PublicKey p) = 0 then Some PolicyEmpty
         else None)"

section \<open>Tenants\<close>

datatype TenancyError =
    TenantNamespaceNil
  | TenantKeyEmpty
  | ErrTenantLabelMissing string string
  | ErrTenantInvalid string string
  | PairPartEmpty string
  | PairPartInvalid string string

abbreviation ClientLabelKey :: string where "ClientLabelKey \<equiv> ''setec.zeroroot.ai/client''"
abbreviation TenantLabelKey :: string where "TenantLabelKey \<equiv> ''setec.zeroroot.ai/tenant''"

definition FromNamespace ::
  "(string \<Rightarrow> bool) \<Rightarrow> ObjectMeta option \<Rightarrow> string \<Rightarrow> TenancyError + string" where
  "FromNamespace isLabel nsOpt labelKey =
     (case nsOpt of
        None \<Rightarrow> Inl TenantNamespaceNil
      | Some ns \<Rightarrow>
          (if labelKey = '''' then Inl TenantKeyEmpty
           else
             case om_Labels ns labelKey of
               None \<Rightarrow> Inl (ErrTenantLabelMissing (om_Name ns) labelKey)
             | Some v \<Rightarrow>
                 (if v = '''' then Inl (ErrTenantLabelMissing (om_Name ns) labelKey)
                  else if \<not> isLabel v then Inl (ErrTenantInvalid (om_Name ns) labelKey)
                  else Inr v)))"

record Pair =
  pr_Client :: string
  pr_Tenant :: string

definition checkPart :: "(string \<Rightarrow> bool) \<Rightarrow> string \<Rightarrow> string \<Rightarrow> TenancyError option" where
  "checkPart isLabel name v =
     (if v = '''' then Some (PairPartEmpty name)
      else if \<not> isLabel v then Some (PairPartInvalid name v) else None)"

definition NewPair :: "(string \<Rightarrow> bool) \<Rightarrow> string \<Rightarrow> string \<Rightarrow> TenancyError + Pair" where
  "NewPair isLabel client tenant =
     (case checkPart isLabel ''client'' client of
        Some e \<Rightarrow> Inl e
      | None \<Rightarrow>
          (case checkPart isLabel ''tenant'' tenant of
             Some e \<Rightarrow> Inl e
           | None \<Rightarrow> Inr \<lparr>pr_Client = client, pr_Tenant = tenant\<rparr>))"

definition IsOwnerOf :: "Pair \<Rightarrow> strmap \<Rightarrow> bool" where
  "IsOwnerOf p labels \<longleftrightarrow>
     map_get labels ClientLabelKey = pr_Client p \<and> map_get labels TenantLabelKey = pr_Tenant p"

definition PairLabels :: "Pair \<Rightarrow> strmap" where
  "PairLabels p = [ClientLabelKey \<mapsto> pr_Client p, TenantLabelKey \<mapsto> pr_Tenant p]"

section \<open>Chart names\<close>

abbreviation ChartName :: string where "ChartName \<equiv> ''setec''"
abbreviation maxNameLength :: nat where "maxNameLength \<equiv> 63"

definition Fullname :: "string \<Rightarrow> string" where
  "Fullname release =
     (let name = (if \<not> str_Contains release ChartName then release @ ''-'' @ ChartName else release);
          name = (if length name > maxNameLength then take maxNameLength name else name)
      in str_TrimSuffix name ''-'')"

section \<open>Facts\<close>

lemma containsNetworkMode_iff [simp]: "containsNetworkMode ms m \<longleftrightarrow> m \<in> set ms"
  by (simp add: containsNetworkMode_def)

lemma ClassValidate_None [simp]: "ClassValidate (Some sb) None = []"
  by (simp add: ClassValidate_def)

lemma resourceViolations_Nil_iff:
  "resourceViolations sb cls = [] \<longleftrightarrow>
     (\<forall>m. cs_MaxResources (cl_Spec cls) = Some m \<longrightarrow>
        res_VCPU (sp_Resources (sb_Spec sb)) \<le> res_VCPU m \<and>
        res_Memory (sp_Resources (sb_Spec sb)) \<le> res_Memory m)"
  by (auto simp: resourceViolations_def Let_def not_less split: option.splits if_splits)

lemma scratchViolations_Nil_iff:
  "scratchViolations sb cls = [] \<longleftrightarrow>
     0 < EffectiveScratch (Some sb) (Some cls) \<and>
     EffectiveScratch (Some sb) (Some cls) \<le> ScratchCeiling (Some cls)"
  by (auto simp: scratchViolations_def Let_def)

lemma networkViolations_Nil_iff:
  "networkViolations sb cls = [] \<longleftrightarrow>
     cs_AllowedNetworkModes (cl_Spec cls) = [] \<or>
     EffectiveMode sb (Some cls) \<in> set (cs_AllowedNetworkModes (cl_Spec cls))"
  by (auto simp: networkViolations_def Let_def)

lemma ClassValidate_Nil_iff:
  "ClassValidate (Some sb) (Some cls) = [] \<longleftrightarrow>
     resourceViolations sb cls = [] \<and> scratchViolations sb cls = [] \<and> networkViolations sb cls = []"
  by (simp add: ClassValidate_def)

lemma resolveDefault_unique:
  "resolveDefault c = Inr cls \<longleftrightarrow>
     (\<exists>items. cc_List c = Inr items \<and> filter (\<lambda>k. cs_Default (cl_Spec k)) items = [cls])"
  by (auto simp: resolveDefault_def split: sum.splits list.splits)

lemma ResolveClass_named:
  assumes "ResolveClass (Some c) (Some sb) = Inr cls" and "sp_SandboxClassName (sb_Spec sb) \<noteq> ''''"
  shows "cc_Get c (sp_SandboxClassName (sb_Spec sb)) = Inr cls"
  using assms by (auto simp: ResolveClass_def resolveByName_def split: sum.splits ApiError.splits)

lemma ValidateBackend_None_iff: "ValidateBackend n = None \<longleftrightarrow> n = '''' \<or> n = BackendLauncher"
  by (simp add: ValidateBackend_def)

lemma ValidateSignaturePolicy_None_iff:
  "ValidateSignaturePolicy p = None \<longleftrightarrow>
     (sgp_PublicKey p = '''' \<and> sgp_Issuer p \<noteq> '''' \<and> sgp_Identity p \<noteq> '''') \<or>
     (sgp_PublicKey p \<noteq> '''' \<and> sgp_Issuer p = '''' \<and> sgp_Identity p = '''')"
  by (auto simp: ValidateSignaturePolicy_def Let_def)

lemma NewPair_Inr_iff:
  "NewPair isLabel c t = Inr p \<longleftrightarrow>
     c \<noteq> '''' \<and> t \<noteq> '''' \<and> isLabel c \<and> isLabel t \<and> p = \<lparr>pr_Client = c, pr_Tenant = t\<rparr>"
  by (auto simp: NewPair_def checkPart_def)

lemma label_keys_differ [simp]: "ClientLabelKey \<noteq> TenantLabelKey"
  by simp

lemma IsOwnerOf_PairLabels [simp]: "IsOwnerOf p (PairLabels p)"
  using label_keys_differ by (auto simp: IsOwnerOf_def PairLabels_def map_get_def)

lemma IsOwnerOf_unique: "IsOwnerOf p labels \<Longrightarrow> IsOwnerOf q labels \<Longrightarrow> p = q"
  by (cases p; cases q) (simp add: IsOwnerOf_def)

lemma Fullname_length: "length (Fullname r) \<le> maxNameLength"
  by (auto simp: Fullname_def Let_def str_TrimSuffix_def)

end
