(* ===== verification/Snapshot_Validator.thy ===== *)
theory Snapshot_Validator
  imports Api_Types
begin

text \<open>
  The compatibility check of a Sandbox, the Snapshot that it restores and its class
  (\<open>src/internal/snapshot/validator.go\<close>). The admission webhook and the reconciler call
  it. The texts of the messages are replaced by the values that they show.
\<close>

abbreviation fieldSandboxClassName :: string where "fieldSandboxClassName \<equiv> ''spec.sandboxClassName''"
abbreviation fieldSnapshotRef :: string where "fieldSnapshotRef \<equiv> ''spec.snapshotRef.name''"

datatype SnapshotMessage =
    SnapSandboxNil
  | SnapNil
  | SnapOtherNamespace string string string
  | SnapOtherClass string string string
  | SnapOtherImage string string string
  | SnapKeptNeedsReview string
  | SnapOtherCPUTemplate string string string
  | SnapNotReady string SnapshotPhase
  | SnapNoStorageRef string

record SnapshotViolation =
  sv_Field :: string
  sv_Message :: SnapshotMessage

definition reviewIsolated :: "SandboxSpec \<Rightarrow> bool" where
  "reviewIsolated s \<longleftrightarrow>
     sp_Review s \<and> (case sp_Network s of None \<Rightarrow> False | Some n \<Rightarrow> nw_Mode n = NetworkModeNone)"

definition SnapshotValidate ::
  "Sandbox option \<Rightarrow> Snapshot option \<Rightarrow> SandboxClass option \<Rightarrow> SnapshotViolation list" where
  "SnapshotValidate sbOpt snapOpt cls =
     (case sbOpt of
        None \<Rightarrow> [\<lparr>sv_Field = '''', sv_Message = SnapSandboxNil\<rparr>]
      | Some sb \<Rightarrow>
          (case snapOpt of
             None \<Rightarrow> [\<lparr>sv_Field = fieldSnapshotRef, sv_Message = SnapNil\<rparr>]
           | Some snap \<Rightarrow>
               (if sb_Namespace sb \<noteq> sn_Namespace snap
                then [\<lparr>sv_Field = fieldSnapshotRef,
                       sv_Message = SnapOtherNamespace (sn_Name snap) (sn_Namespace snap) (sb_Namespace sb)\<rparr>]
                else [])
             @ (case cls of
                  None \<Rightarrow> []
                | Some c \<Rightarrow>
                    (if ns_SandboxClass (sn_Spec snap) \<noteq> cl_Name c
                     then [\<lparr>sv_Field = fieldSandboxClassName,
                            sv_Message = SnapOtherClass (sn_Name snap) (ns_SandboxClass (sn_Spec snap)) (cl_Name c)\<rparr>]
                     else []))
             @ (if sp_Image (sb_Spec sb) \<noteq> '''' \<and> sp_Image (sb_Spec sb) \<noteq> ns_ImageRef (sn_Spec snap)
                then [\<lparr>sv_Field = ''spec.image'',
                       sv_Message = SnapOtherImage (sp_Image (sb_Spec sb)) (sn_Name snap) (ns_ImageRef (sn_Spec snap))\<rparr>]
                else [])
             @ (if ns_Kept (sn_Spec snap) \<and> \<not> reviewIsolated (sb_Spec sb)
                then [\<lparr>sv_Field = fieldSnapshotRef, sv_Message = SnapKeptNeedsReview (sn_Name snap)\<rparr>]
                else [])
             @ (case cls of
                  None \<Rightarrow> []
                | Some c \<Rightarrow>
                    (if ns_CPUTemplate (sn_Spec snap) \<noteq> cs_CPUTemplate (cl_Spec c)
                     then [\<lparr>sv_Field = fieldSandboxClassName,
                            sv_Message = SnapOtherCPUTemplate (sn_Name snap) (ns_CPUTemplate (sn_Spec snap))
                                           (cs_CPUTemplate (cl_Spec c))\<rparr>]
                     else []))
             @ (if nst_Phase (sn_Status snap) \<noteq> SnapshotPhaseOther '''' \<and>
                   nst_Phase (sn_Status snap) \<noteq> SnapshotPhaseReady
                then [\<lparr>sv_Field = fieldSnapshotRef,
                       sv_Message = SnapNotReady (sn_Name snap) (nst_Phase (sn_Status snap))\<rparr>]
                else [])
             @ (if ns_StorageRef (sn_Spec snap) = ''''
                then [\<lparr>sv_Field = fieldSnapshotRef, sv_Message = SnapNoStorageRef (sn_Name snap)\<rparr>]
                else [])))"

section \<open>What an accepted restore satisfies\<close>

definition restore_compatible :: "Sandbox \<Rightarrow> Snapshot \<Rightarrow> SandboxClass option \<Rightarrow> bool" where
  "restore_compatible sb snap cls \<longleftrightarrow>
     sb_Namespace sb = sn_Namespace snap \<and>
     (sp_Image (sb_Spec sb) = '''' \<or> sp_Image (sb_Spec sb) = ns_ImageRef (sn_Spec snap)) \<and>
     (ns_Kept (sn_Spec snap) \<longrightarrow> reviewIsolated (sb_Spec sb)) \<and>
     nst_Phase (sn_Status snap) \<in> {SnapshotPhaseOther '''', SnapshotPhaseReady} \<and>
     ns_StorageRef (sn_Spec snap) \<noteq> '''' \<and>
     (\<forall>c. cls = Some c \<longrightarrow> ns_SandboxClass (sn_Spec snap) = cl_Name c \<and>
                            ns_CPUTemplate (sn_Spec snap) = cs_CPUTemplate (cl_Spec c))"

lemma SnapshotValidate_Nil_iff:
  "SnapshotValidate (Some sb) (Some snap) cls = [] \<longleftrightarrow> restore_compatible sb snap cls"
  by (cases cls) (auto simp: SnapshotValidate_def restore_compatible_def)

end
