(* ===== verification/Webhook.thy ===== *)
theory Webhook
  imports Sandbox_Class Snapshot_Validator
begin

text \<open>
  The admission webhooks (\<open>src/internal/webhook\<close>): the validators of Sandbox, SandboxClass
  and Snapshot and the defaulter of SandboxClass. A validator returns the list of errors that
  the code aggregates, so the empty list is the acceptance, or the failure that the code
  returns at once. The reads of the Kubernetes client are arguments. The syntax checks of
  Kubernetes for labels, selectors, port numbers and port names are the fields of a record of
  parameters; each returns its list of messages.
\<close>

record KubeValidation =
  kv_Label :: "string \<Rightarrow> bool"
  kv_Selector :: "LabelSelector \<Rightarrow> string list"
  kv_PortNum :: "int \<Rightarrow> string list"
  kv_PortName :: "string \<Rightarrow> string list"

section \<open>Sandbox\<close>

datatype SandboxAdmissionError =
    WorkspaceNeedsSession LifecycleMode
  | WorkspaceSizeNotPositive quantity
  | CommandRequired LifecycleMode
  | SuspendNeedsSession LifecycleMode
  | NamespaceNotFound string
  | NamespaceGetFailed string ApiError
  | NamespaceGetterNil string
  | TenantLabelRequired string string
  | ClassNotFound string
  | NoDefaultClass
  | AmbiguousDefaultClass
  | ClassViolation ConstraintViolation
  | SuspendNeedsCheckpoint string
  | SnapshotNotFound string string
  | SnapshotRefused SnapshotViolation

datatype SandboxAdmissionFailure =
    NamespaceGetterMissing
  | ResolveClassFailed ClassError
  | ResolveSnapshotFailed ApiError
  | LifecycleModeImmutable LifecycleMode LifecycleMode

type_synonym NamespaceReader = "string \<Rightarrow> ApiError + strmap"

record SandboxValidator =
  val_Resolver :: "ClassClient option"
  val_MultiTenancyEnabled :: bool
  val_TenantLabelKey :: string
  val_NamespaceGetter :: "NamespaceReader option option" \<comment> \<open>the getter, and the client inside it\<close>
  val_Client :: "(string \<Rightarrow> string \<Rightarrow> ApiError + Snapshot) option"

definition structuralErrors :: "Sandbox \<Rightarrow> SandboxAdmissionError list" where
  "structuralErrors sb =
     (let spec = sb_Spec sb; mode = EffectiveLifecycleMode spec
      in (case sp_Lifecycle spec of
            None \<Rightarrow> []
          | Some lc \<Rightarrow>
              (case lc_Workspace lc of
                 None \<Rightarrow> []
               | Some w \<Rightarrow>
                   (if \<not> IsSession spec then [WorkspaceNeedsSession mode] else [])
                 @ (case ws_Size w of
                      None \<Rightarrow> []
                    | Some q \<Rightarrow> (if q \<le> 0 then [WorkspaceSizeNotPositive q] else []))))
       @ (if length (sp_Command spec) = 0 \<and> \<not> IsSession spec then [CommandRequired mode] else [])
       @ (if sp_DesiredState spec = SandboxDesiredStateSuspended \<and> \<not> IsSession spec
          then [SuspendNeedsSession mode] else []))"

definition checkTenantLabel ::
  "KubeValidation \<Rightarrow> SandboxValidator \<Rightarrow> NamespaceReader option \<Rightarrow> Sandbox
   \<Rightarrow> SandboxAdmissionError option" where
  "checkTenantLabel kv v getter sb =
     (case getter of
        None \<Rightarrow> Some (NamespaceGetterNil (sb_Namespace sb))
      | Some get \<Rightarrow>
          (case get (sb_Namespace sb) of
             Inl NotFound \<Rightarrow> Some (NamespaceNotFound (sb_Namespace sb))
           | Inl e \<Rightarrow> Some (NamespaceGetFailed (sb_Namespace sb) e)
           | Inr labels \<Rightarrow>
               (case FromNamespace (kv_Label kv)
                       (Some (zero_ObjectMeta\<lparr>om_Name := sb_Namespace sb, om_Labels := labels\<rparr>))
                       (val_TenantLabelKey v) of
                  Inl _ \<Rightarrow> Some (TenantLabelRequired (val_TenantLabelKey v) (sb_Namespace sb))
                | Inr _ \<Rightarrow> None)))"

definition classErrors ::
  "SandboxValidator \<Rightarrow> Sandbox
   \<Rightarrow> SandboxAdmissionFailure + SandboxClass option \<times> SandboxAdmissionError list" where
  "classErrors v sb =
     (case ResolveClass (val_Resolver v) (Some sb) of
        Inl (ErrClassNotFound _) \<Rightarrow> Inr (None, [ClassNotFound (sp_SandboxClassName (sb_Spec sb))])
      | Inl ErrNoDefaultClass \<Rightarrow>
          Inr (None,
               (if val_MultiTenancyEnabled v \<or> sp_SandboxClassName (sb_Spec sb) \<noteq> ''''
                then [NoDefaultClass] else []))
      | Inl (ErrAmbiguousDefault _) \<Rightarrow> Inr (None, [AmbiguousDefaultClass])
      | Inl e \<Rightarrow> Inl (ResolveClassFailed e)
      | Inr cls \<Rightarrow>
          Inr (Some cls,
               map ClassViolation (ClassValidate (Some sb) (Some cls))
             @ (if sp_DesiredState (sb_Spec sb) = SandboxDesiredStateSuspended \<and>
                   IsSession (sb_Spec sb) \<and> cs_SessionCheckpoint (cl_Spec cls) = None
                then [SuspendNeedsCheckpoint (cl_Name cls)] else [])))"

definition snapshotErrors ::
  "SandboxValidator \<Rightarrow> Sandbox \<Rightarrow> SandboxClass option
   \<Rightarrow> SandboxAdmissionFailure + SandboxAdmissionError list" where
  "snapshotErrors v sb cls =
     (case (sp_SnapshotRef (sb_Spec sb), val_Client v) of
        (Some ref, Some get) \<Rightarrow>
          (if ssr_Name ref = '''' then Inr []
           else
             case get (sb_Namespace sb) (ssr_Name ref) of
               Inl NotFound \<Rightarrow> Inr [SnapshotNotFound (ssr_Name ref) (sb_Namespace sb)]
             | Inl e \<Rightarrow> Inl (ResolveSnapshotFailed e)
             | Inr snap \<Rightarrow> Inr (map SnapshotRefused (SnapshotValidate (Some sb) (Some snap) cls)))
      | _ \<Rightarrow> Inr [])"

definition tenantErrors ::
  "KubeValidation \<Rightarrow> SandboxValidator \<Rightarrow> Sandbox
   \<Rightarrow> SandboxAdmissionFailure + SandboxAdmissionError list" where
  "tenantErrors kv v sb =
     (if val_MultiTenancyEnabled v \<and> val_TenantLabelKey v \<noteq> ''''
      then
        case val_NamespaceGetter v of
          None \<Rightarrow> Inl NamespaceGetterMissing
        | Some getter \<Rightarrow>
            Inr (case checkTenantLabel kv v getter sb of None \<Rightarrow> [] | Some e \<Rightarrow> [e])
      else Inr [])"

definition validateSandbox ::
  "KubeValidation \<Rightarrow> SandboxValidator \<Rightarrow> Sandbox
   \<Rightarrow> SandboxAdmissionFailure + SandboxAdmissionError list" where
  "validateSandbox kv v sb =
     (case tenantErrors kv v sb of
        Inl f \<Rightarrow> Inl f
      | Inr tenantErrs \<Rightarrow>
          (case classErrors v sb of
             Inl f \<Rightarrow> Inl f
           | Inr (cls, classErrs) \<Rightarrow>
               (case snapshotErrors v sb cls of
                  Inl f \<Rightarrow> Inl f
                | Inr snapErrs \<Rightarrow> Inr (structuralErrors sb @ tenantErrs @ classErrs @ snapErrs))))"

definition ValidateSandboxCreate ::
  "KubeValidation \<Rightarrow> SandboxValidator \<Rightarrow> Sandbox
   \<Rightarrow> SandboxAdmissionFailure + SandboxAdmissionError list" where
  "ValidateSandboxCreate kv v sb = validateSandbox kv v sb"

definition ValidateSandboxUpdate ::
  "KubeValidation \<Rightarrow> SandboxValidator \<Rightarrow> Sandbox \<Rightarrow> Sandbox
   \<Rightarrow> SandboxAdmissionFailure + SandboxAdmissionError list" where
  "ValidateSandboxUpdate kv v old new =
     (let oldMode = EffectiveLifecycleMode (sb_Spec old); newMode = EffectiveLifecycleMode (sb_Spec new)
      in if oldMode \<noteq> newMode then Inl (LifecycleModeImmutable oldMode newMode)
         else validateSandbox kv v new)"

section \<open>SandboxClass\<close>

datatype ClassFieldError =
    DefaultModeNotAllowed NetworkMode "NetworkMode list"
  | PreWarmImageNoDigest string
  | DefaultResourcesRequired
  | ImageSignatureRequired
  | ImageSignatureInvalid SignaturePolicyError
  | CheckpointIntervalNotPositive duration
  | CheckpointBackendNotSupported string
  | MaxPauseNotPositive duration
  | RequestCPUNotPositive quantity
  | RequestCPUAboveMax quantity int
  | RequestMemoryNotPositive quantity
  | RequestMemoryAboveMax quantity quantity
  | MaxScratchNotPositive quantity
  | DefaultScratchNotPositive quantity
  | DefaultScratchAboveCeiling quantity quantity
  | ExemptCIDRInvalid nat string
  | SelectorRequired nat
  | NamespaceSelectorInvalid nat string
  | PodSelectorInvalid nat string
  | PortsRequired nat
  | ProtocolNotSupported nat nat string
  | PortInvalid nat nat string
  | BackendInvalid string BackendError

definition DefaultClass :: "SandboxClass \<Rightarrow> SandboxClass" where
  "DefaultClass cls =
     (if cs_Runtime (cl_Spec cls) \<noteq> None then cls
      else cls\<lparr>cl_Spec := (cl_Spec cls)\<lparr>cs_Runtime := Some \<lparr>scr_Backend = BackendLauncher\<rparr>\<rparr>\<rparr>)"

definition validateImageSignature :: "ImageSignature option \<Rightarrow> ClassFieldError list" where
  "validateImageSignature sig =
     (case sig of
        None \<Rightarrow> [ImageSignatureRequired]
      | Some s \<Rightarrow>
          (case ValidateSignaturePolicy \<lparr>sgp_Issuer = is_Issuer s, sgp_Identity = is_Identity s,
                                         sgp_PublicKey = is_PublicKey s\<rparr> of
             Some e \<Rightarrow> [ImageSignatureInvalid e]
           | None \<Rightarrow> []))"

definition validatePreWarm :: "SandboxClass \<Rightarrow> ClassFieldError list" where
  "validatePreWarm cls =
     (let s = cl_Spec cls
      in if cs_PreWarmPoolSize s \<le> 0 then []
         else (if cs_PreWarmImage s \<noteq> '''' \<and> \<not> str_Contains (cs_PreWarmImage s) ''@sha256:''
               then [PreWarmImageNoDigest (cs_PreWarmImage s)] else [])
            @ (if cs_DefaultResources s = None then [DefaultResourcesRequired] else [])
            @ validateImageSignature (cs_PreWarmImageSignature s))"

definition validateRequests :: "SandboxClass \<Rightarrow> ClassFieldError list" where
  "validateRequests cls =
     (case cs_Requests (cl_Spec cls) of
        None \<Rightarrow> []
      | Some req \<Rightarrow>
          (case rr_CPU req of
             None \<Rightarrow> []
           | Some cpu \<Rightarrow>
               (if cpu \<le> 0 then [RequestCPUNotPositive cpu]
                else case cs_MaxResources (cl_Spec cls) of
                       Some m \<Rightarrow> (if cpu > whole (res_VCPU m) then [RequestCPUAboveMax cpu (res_VCPU m)] else [])
                     | None \<Rightarrow> []))
        @ (case rr_Memory req of
             None \<Rightarrow> []
           | Some mem \<Rightarrow>
               (if mem \<le> 0 then [RequestMemoryNotPositive mem]
                else case cs_MaxResources (cl_Spec cls) of
                       Some m \<Rightarrow> (if mem > res_Memory m then [RequestMemoryAboveMax mem (res_Memory m)] else [])
                     | None \<Rightarrow> [])))"

definition validateScratch :: "SandboxClass \<Rightarrow> ClassFieldError list" where
  "validateScratch cls =
     (let ceiling = ScratchCeiling (Some cls)
      in (case cs_MaxResources (cl_Spec cls) of
            None \<Rightarrow> []
          | Some m \<Rightarrow>
              (case res_Scratch m of
                 None \<Rightarrow> []
               | Some q \<Rightarrow> (if q \<le> 0 then [MaxScratchNotPositive q] else [])))
       @ (case cs_DefaultResources (cl_Spec cls) of
            None \<Rightarrow> []
          | Some d \<Rightarrow>
              (case res_Scratch d of
                 None \<Rightarrow> []
               | Some q \<Rightarrow>
                   (if q \<le> 0 then [DefaultScratchNotPositive q]
                    else if q > ceiling then [DefaultScratchAboveCeiling q ceiling] else []))))"

definition validateMaxPauseDuration :: "SandboxClass \<Rightarrow> ClassFieldError list" where
  "validateMaxPauseDuration cls =
     (case cs_MaxPauseDuration (cl_Spec cls) of
        None \<Rightarrow> []
      | Some d \<Rightarrow> (if d \<le> 0 then [MaxPauseNotPositive d] else []))"

definition validateSessionCheckpoint :: "SandboxClass \<Rightarrow> ClassFieldError list" where
  "validateSessionCheckpoint cls =
     (case cs_SessionCheckpoint (cl_Spec cls) of
        None \<Rightarrow> []
      | Some sc \<Rightarrow>
          (case scs_Interval sc of
             None \<Rightarrow> []
           | Some d \<Rightarrow> (if d \<le> 0 then [CheckpointIntervalNotPositive d] else []))
        @ (if scs_Backend sc \<noteq> '''' \<and> scs_Backend sc \<noteq> ''s3''
           then [CheckpointBackendNotSupported (scs_Backend sc)] else []))"

fun exemptErrors :: "nat \<Rightarrow> string list \<Rightarrow> ClassFieldError list" where
  "exemptErrors i [] = []"
| "exemptErrors i (c # cs) =
     (if ParsePrefix c = None then [ExemptCIDRInvalid i c] else []) @ exemptErrors (Suc i) cs"

definition validateEgressExemptCIDRs :: "SandboxClass \<Rightarrow> ClassFieldError list" where
  "validateEgressExemptCIDRs cls = exemptErrors 0 (cs_EgressExemptCIDRs (cl_Spec cls))"

definition egressAllowProtocols :: "string list" where
  "egressAllowProtocols = [''TCP'', ''UDP'', ''SCTP'']"

fun portErrors :: "KubeValidation \<Rightarrow> nat \<Rightarrow> nat \<Rightarrow> EgressAllowPort list \<Rightarrow> ClassFieldError list" where
  "portErrors kv i j [] = []"
| "portErrors kv i j (p # ps) =
     (if eap_Protocol p \<noteq> '''' \<and> \<not> List.member egressAllowProtocols (eap_Protocol p)
      then [ProtocolNotSupported i j (eap_Protocol p)] else [])
   @ (case eap_Port p of
        IntPort n \<Rightarrow> map (PortInvalid i j) (kv_PortNum kv n)
      | StrPort s \<Rightarrow> map (PortInvalid i j) (kv_PortName kv s))
   @ portErrors kv i (Suc j) ps"

definition selectorEntryErrors :: "KubeValidation \<Rightarrow> nat \<Rightarrow> EgressAllowSelector \<Rightarrow> ClassFieldError list" where
  "selectorEntryErrors kv i a =
     (if eas_NamespaceSelector a = None \<and> eas_PodSelector a = None then [SelectorRequired i] else [])
   @ (case eas_NamespaceSelector a of
        None \<Rightarrow> [] | Some s \<Rightarrow> map (NamespaceSelectorInvalid i) (kv_Selector kv s))
   @ (case eas_PodSelector a of
        None \<Rightarrow> [] | Some s \<Rightarrow> map (PodSelectorInvalid i) (kv_Selector kv s))
   @ (if length (eas_Ports a) = 0 then [PortsRequired i] else [])
   @ portErrors kv i 0 (eas_Ports a)"

fun selectorsErrors :: "KubeValidation \<Rightarrow> nat \<Rightarrow> EgressAllowSelector list \<Rightarrow> ClassFieldError list" where
  "selectorsErrors kv i [] = []"
| "selectorsErrors kv i (a # as) = selectorEntryErrors kv i a @ selectorsErrors kv (Suc i) as"

definition validateEgressAllowSelectors :: "KubeValidation \<Rightarrow> SandboxClass \<Rightarrow> ClassFieldError list" where
  "validateEgressAllowSelectors kv cls = selectorsErrors kv 0 (cs_EgressAllowSelectors (cl_Spec cls))"

definition validateClass :: "KubeValidation \<Rightarrow> SandboxClass \<Rightarrow> ClassFieldError list" where
  "validateClass kv cls =
     (let s = cl_Spec cls
      in (if cs_DefaultNetworkMode s \<noteq> NetworkModeOther '''' \<and>
             length (cs_AllowedNetworkModes s) > 0 \<and>
             \<not> List.member (cs_AllowedNetworkModes s) (cs_DefaultNetworkMode s)
          then [DefaultModeNotAllowed (cs_DefaultNetworkMode s) (cs_AllowedNetworkModes s)] else [])
       @ validatePreWarm cls
       @ validateSessionCheckpoint cls
       @ validateMaxPauseDuration cls
       @ validateRequests cls
       @ validateScratch cls
       @ validateEgressExemptCIDRs cls
       @ validateEgressAllowSelectors kv cls
       @ (case cs_Runtime s of
            None \<Rightarrow> []
          | Some r \<Rightarrow>
              (case ValidateBackend (scr_Backend r) of
                 None \<Rightarrow> []
               | Some e \<Rightarrow> [BackendInvalid (scr_Backend r) e])))"

section \<open>Snapshot\<close>

record ResourceQuota =
  rq_Name :: string
  rq_Hard :: "string \<Rightarrow> quantity option"

record SnapshotReader =
  sr_Get :: "string \<Rightarrow> string \<Rightarrow> ApiError + Snapshot"
  sr_List :: "string \<Rightarrow> ApiError + Snapshot list"
  sr_Quotas :: "string \<Rightarrow> ApiError + ResourceQuota list"

record SnapshotValidatorConf =
  snv_Client :: "SnapshotReader option"
  snv_PinnedLimitBytes :: int64

datatype SnapshotAdmissionError =
    TTLBelowMinimum duration
  | SnapshotExists string string
  | QuotaListFailed ApiError
  | SnapshotListFailed ApiError
  | QuotaReached string string quantity int
  | PinNeedsKept
  | PinAboveLimit string int64 int64

abbreviation SnapshotResourceName :: string where
  "SnapshotResourceName \<equiv> ''count/snapshots.setec.zeroroot.ai''"

abbreviation minSnapshotTTL :: duration where "minSnapshotTTL \<equiv> minute"

text \<open>\<open>Quantity.Value\<close> rounds up to a whole number.\<close>

definition quantity_Value :: "quantity \<Rightarrow> int" where
  "quantity_Value q = - ((- q) div 1000000000)"

text \<open>The sum of \<open>int64\<close> sizes wraps around, as Go defines it.\<close>

fun pinnedUsed :: "string \<Rightarrow> int64 \<Rightarrow> Snapshot list \<Rightarrow> int64" where
  "pinnedUsed name used [] = used"
| "pinnedUsed name used (o' # os) =
     pinnedUsed name
       (if sn_Name o' \<noteq> name \<and> ns_Pinned (sn_Spec o') then used + ns_Size (sn_Spec o') else used) os"

definition checkPin :: "SnapshotValidatorConf \<Rightarrow> Snapshot \<Rightarrow> SnapshotAdmissionError option" where
  "checkPin v snap =
     (if \<not> ns_Kept (sn_Spec snap) then Some PinNeedsKept
      else
        case snv_Client v of
          None \<Rightarrow> None
        | Some cl \<Rightarrow>
            (case sr_List cl (sn_Namespace snap) of
               Inl e \<Rightarrow> Some (SnapshotListFailed e)
             | Inr items \<Rightarrow>
                 (let used = pinnedUsed (sn_Name snap) (ns_Size (sn_Spec snap)) items
                  in if sint used > sint (snv_PinnedLimitBytes v)
                     then Some (PinAboveLimit (sn_Namespace snap) used (snv_PinnedLimitBytes v))
                     else None)))"

fun quotaLoop :: "string \<Rightarrow> int \<Rightarrow> ResourceQuota list \<Rightarrow> SnapshotAdmissionError option" where
  "quotaLoop ns current [] = None"
| "quotaLoop ns current (q # qs) =
     (case rq_Hard q SnapshotResourceName of
        None \<Rightarrow> quotaLoop ns current qs
      | Some limit \<Rightarrow>
          (if current + 1 > quantity_Value limit then Some (QuotaReached (rq_Name q) ns limit current)
           else quotaLoop ns current qs))"

definition checkQuota :: "SnapshotReader \<Rightarrow> Snapshot \<Rightarrow> SnapshotAdmissionError option" where
  "checkQuota cl snap =
     (case sr_Quotas cl (sn_Namespace snap) of
        Inl e \<Rightarrow> Some (QuotaListFailed e)
      | Inr quotas \<Rightarrow>
          (if length quotas = 0 then None
           else
             case sr_List cl (sn_Namespace snap) of
               Inl e \<Rightarrow> Some (SnapshotListFailed e)
             | Inr existing \<Rightarrow> quotaLoop (sn_Namespace snap) (int (length existing)) quotas))"

definition createErrors :: "SnapshotValidatorConf \<Rightarrow> Snapshot \<Rightarrow> ApiError + SnapshotAdmissionError list" where
  "createErrors v snap =
     (case snv_Client v of
        None \<Rightarrow> Inr []
      | Some cl \<Rightarrow>
          (case sr_Get cl (sn_Namespace snap) (sn_Name snap) of
             Inr _ \<Rightarrow>
               Inr (SnapshotExists (sn_Name snap) (sn_Namespace snap) #
                    (case checkQuota cl snap of None \<Rightarrow> [] | Some e \<Rightarrow> [e]))
           | Inl NotFound \<Rightarrow> Inr (case checkQuota cl snap of None \<Rightarrow> [] | Some e \<Rightarrow> [e])
           | Inl e \<Rightarrow> Inl e))"

definition validateSnapshot ::
  "SnapshotValidatorConf \<Rightarrow> Snapshot \<Rightarrow> bool \<Rightarrow> ApiError + SnapshotAdmissionError list" where
  "validateSnapshot v snap isCreate =
     (let ttl = (case ns_TTL (sn_Spec snap) of
                   None \<Rightarrow> []
                 | Some d \<Rightarrow> (if d > 0 \<and> d < minSnapshotTTL then [TTLBelowMinimum d] else []))
      in case (if isCreate then createErrors v snap else Inr []) of
           Inl e \<Rightarrow> Inl e
         | Inr cerrs \<Rightarrow>
             Inr (ttl @ cerrs
                @ (if ns_Pinned (sn_Spec snap)
                   then (case checkPin v snap of None \<Rightarrow> [] | Some e \<Rightarrow> [e]) else [])))"

section \<open>Sandbox admission\<close>

definition well_formed_sandbox :: "SandboxSpec \<Rightarrow> bool" where
  "well_formed_sandbox s \<longleftrightarrow>
     (\<forall>lc w. sp_Lifecycle s = Some lc \<and> lc_Workspace lc = Some w \<longrightarrow>
        IsSession s \<and> (\<forall>q. ws_Size w = Some q \<longrightarrow> 0 < q)) \<and>
     (sp_Command s = [] \<longrightarrow> IsSession s) \<and>
     (sp_DesiredState s = SandboxDesiredStateSuspended \<longrightarrow> IsSession s)"

definition tenant_labelled :: "KubeValidation \<Rightarrow> SandboxValidator \<Rightarrow> string \<Rightarrow> bool" where
  "tenant_labelled kv v ns \<longleftrightarrow>
     (\<exists>get labels t. val_NamespaceGetter v = Some (Some get) \<and> get ns = Inr labels \<and>
        labels (val_TenantLabelKey v) = Some t \<and> t \<noteq> '''' \<and> kv_Label kv t)"

definition within_class :: "Sandbox \<Rightarrow> SandboxClass \<Rightarrow> bool" where
  "within_class sb cls \<longleftrightarrow>
     (\<forall>m. cs_MaxResources (cl_Spec cls) = Some m \<longrightarrow>
        res_VCPU (sp_Resources (sb_Spec sb)) \<le> res_VCPU m \<and>
        res_Memory (sp_Resources (sb_Spec sb)) \<le> res_Memory m) \<and>
     0 < EffectiveScratch (Some sb) (Some cls) \<and>
     EffectiveScratch (Some sb) (Some cls) \<le> ScratchCeiling (Some cls) \<and>
     (cs_AllowedNetworkModes (cl_Spec cls) = [] \<or>
      EffectiveMode sb (Some cls) \<in> set (cs_AllowedNetworkModes (cl_Spec cls))) \<and>
     (sp_DesiredState (sb_Spec sb) = SandboxDesiredStateSuspended \<longrightarrow>
        \<not> IsSession (sb_Spec sb) \<or> cs_SessionCheckpoint (cl_Spec cls) \<noteq> None)"

definition snapshot_fits :: "SandboxValidator \<Rightarrow> Sandbox \<Rightarrow> SandboxClass option \<Rightarrow> bool" where
  "snapshot_fits v sb cls \<longleftrightarrow>
     (\<forall>ref get. sp_SnapshotRef (sb_Spec sb) = Some ref \<and> ssr_Name ref \<noteq> '''' \<and> val_Client v = Some get \<longrightarrow>
        (\<exists>snap. get (sb_Namespace sb) (ssr_Name ref) = Inr snap \<and> restore_compatible sb snap cls))"

lemma structuralErrors_Nil_iff: "structuralErrors sb = [] \<longleftrightarrow> well_formed_sandbox (sb_Spec sb)"
  by (auto simp: structuralErrors_def well_formed_sandbox_def Let_def split: option.splits)

lemma tenantErrors_Nil_iff:
  "tenantErrors kv v sb = Inr [] \<longleftrightarrow>
     (val_MultiTenancyEnabled v \<and> val_TenantLabelKey v \<noteq> '''' \<longrightarrow> tenant_labelled kv v (sb_Namespace sb))"
  by (auto simp: tenantErrors_def checkTenantLabel_def tenant_labelled_def FromNamespace_def
      split: option.splits sum.splits ApiError.splits if_splits)

lemma classErrors_Nil_iff:
  "classErrors v sb = Inr (cls, []) \<longleftrightarrow>
     (\<exists>c. ResolveClass (val_Resolver v) (Some sb) = Inr c \<and> cls = Some c \<and> within_class sb c) \<or>
     (ResolveClass (val_Resolver v) (Some sb) = Inl ErrNoDefaultClass \<and> cls = None \<and>
      \<not> val_MultiTenancyEnabled v \<and> sp_SandboxClassName (sb_Spec sb) = '''')"
  by (auto simp: classErrors_def within_class_def ClassValidate_Nil_iff resourceViolations_Nil_iff
      scratchViolations_Nil_iff networkViolations_Nil_iff
      split: sum.splits ClassError.splits if_splits)

lemma snapshotErrors_Nil_iff: "snapshotErrors v sb cls = Inr [] \<longleftrightarrow> snapshot_fits v sb cls"
  by (auto simp: snapshotErrors_def snapshot_fits_def SnapshotValidate_Nil_iff
      split: option.splits sum.splits ApiError.splits)

lemma validateSandbox_Nil:
  "validateSandbox kv v sb = Inr [] \<longleftrightarrow>
     structuralErrors sb = [] \<and> tenantErrors kv v sb = Inr [] \<and>
     (\<exists>cls. classErrors v sb = Inr (cls, []) \<and> snapshotErrors v sb cls = Inr [])"
  by (auto simp: validateSandbox_def split: sum.splits)

text \<open>
  C14. Sandbox admission is exact. The validating webhook accepts a Sandbox exactly when its
  lifecycle, command and desired state fit together, its namespace carries a valid tenant label
  whenever tenants are enforced, it is within the limits of the class that it resolves to (or
  no class exists, tenants are not enforced and it names none), and every snapshot that it
  restores exists, is Ready and fits the Sandbox and the class.
\<close>

theorem sandbox_admission_exact:
  "ValidateSandboxCreate kv v sb = Inr [] \<longleftrightarrow>
     well_formed_sandbox (sb_Spec sb) \<and>
     (val_MultiTenancyEnabled v \<and> val_TenantLabelKey v \<noteq> '''' \<longrightarrow> tenant_labelled kv v (sb_Namespace sb)) \<and>
     ((\<exists>cls. ResolveClass (val_Resolver v) (Some sb) = Inr cls \<and> within_class sb cls \<and>
             snapshot_fits v sb (Some cls)) \<or>
      ResolveClass (val_Resolver v) (Some sb) = Inl ErrNoDefaultClass \<and>
      \<not> val_MultiTenancyEnabled v \<and> sp_SandboxClassName (sb_Spec sb) = '''' \<and> snapshot_fits v sb None)"
  unfolding ValidateSandboxCreate_def validateSandbox_Nil structuralErrors_Nil_iff
    tenantErrors_Nil_iff classErrors_Nil_iff snapshotErrors_Nil_iff
  by blast

definition ex_class :: SandboxClass where
  "ex_class = zero_SandboxClass\<lparr>cl_Meta := zero_ObjectMeta\<lparr>om_Name := ''standard''\<rparr>,
     cl_Spec := zero_SandboxClassSpec\<lparr>cs_Default := True, cs_AllowedNetworkModes := [NetworkModeNone]\<rparr>\<rparr>"

definition ex_kept :: Snapshot where
  "ex_kept = zero_Snapshot\<lparr>sn_Meta := zero_ObjectMeta\<lparr>om_Name := ''kept-1'', om_Namespace := ''team''\<rparr>,
     sn_Spec := zero_SnapshotSpec\<lparr>ns_Kept := True, ns_SandboxClass := ''standard'', ns_StorageRef := ''ref''\<rparr>,
     sn_Status := zero_SnapshotStatus\<lparr>nst_Phase := SnapshotPhaseReady\<rparr>\<rparr>"

definition ex_review :: Sandbox where
  "ex_review = zero_Sandbox\<lparr>sb_Meta := zero_ObjectMeta\<lparr>om_Name := ''review-1'', om_Namespace := ''team''\<rparr>,
     sb_Spec := zero_SandboxSpec\<lparr>sp_Command := [''sh''], sp_Review := True,
       sp_SnapshotRef := Some \<lparr>ssr_Name = ''kept-1''\<rparr>,
       sp_Network := Some \<lparr>nw_Mode = NetworkModeNone, nw_Allow = []\<rparr>\<rparr>\<rparr>"

definition ex_validator :: SandboxValidator where
  "ex_validator = \<lparr>
     val_Resolver = Some \<lparr>cc_Get = (\<lambda>_. Inl NotFound), cc_List = Inr [ex_class]\<rparr>,
     val_MultiTenancyEnabled = True, val_TenantLabelKey = TenantLabelKey,
     val_NamespaceGetter = Some (Some (\<lambda>_. Inr [TenantLabelKey \<mapsto> ''acme''])),
     val_Client = Some (\<lambda>ns n. if ns = ''team'' \<and> n = ''kept-1'' then Inr ex_kept else Inl NotFound)\<rparr>"

definition ex_kube :: KubeValidation where
  "ex_kube = \<lparr>kv_Label = (\<lambda>s. list_all (\<lambda>c. c \<noteq> CHR ''/'') s), kv_Selector = (\<lambda>_. []),
     kv_PortNum = (\<lambda>n. if 1 \<le> n \<and> n \<le> 65535 then [] else [''must be between 1 and 65535'']),
     kv_PortName = (\<lambda>s. if s = [] then [''must not be empty''] else [])\<rparr>"

lemma ex_review_facts:
  "ResolveClass (val_Resolver ex_validator) (Some ex_review) = Inr ex_class"
  "well_formed_sandbox (sb_Spec ex_review)" "within_class ex_review ex_class"
  "tenant_labelled ex_kube ex_validator (sb_Namespace ex_review)"
  "snapshot_fits ex_validator ex_review (Some ex_class)"
  by (simp_all add: ResolveClass_def resolveDefault_def ex_validator_def ex_review_def ex_class_def
      ex_kept_def ex_kube_def zero_defs well_formed_sandbox_def within_class_def tenant_labelled_def
      snapshot_fits_def restore_compatible_def reviewIsolated_def EffectiveScratch_def
      ScratchCeiling_def EffectiveMode_def effectivePosture_def)

theorem sandbox_admission_exact_witness: "ValidateSandboxCreate ex_kube ex_validator ex_review = Inr []"
  unfolding sandbox_admission_exact using ex_review_facts by blast

text \<open>
  C15. A kept snapshot opens only behind a closed network. When the webhook accepts a Sandbox
  that restores a kept snapshot, the Sandbox is a review Sandbox, and every policy that the
  generator writes for it, under any class and configuration, permits nothing.
\<close>

theorem kept_snapshot_is_isolated:
  assumes "ValidateSandboxCreate kv v sb = Inr []" and "val_Client v = Some get"
    and "sp_SnapshotRef (sb_Spec sb) = Some ref" and "ssr_Name ref \<noteq> ''''"
    and "get (sb_Namespace sb) (ssr_Name ref) = Inr snap" and "ns_Kept (sn_Spec snap)"
    and "generate c sb cls = Inr np"
  shows "sp_Review (sb_Spec sb) \<and> np_Egress np = [] \<and> np_Ingress np = [] \<and> \<not> policy_permits np x proto port"
proof -
  obtain cls' where "restore_compatible sb snap cls'"
    using assms(1-5)
    unfolding ValidateSandboxCreate_def validateSandbox_Nil snapshotErrors_Nil_iff
    by (auto simp: snapshot_fits_def)
  then have r: "reviewIsolated (sb_Spec sb)" using assms(6) by (simp add: restore_compatible_def)
  then have "EffectiveMode sb cls = NetworkModeNone"
    by (auto simp: reviewIsolated_def EffectiveMode_def effectivePosture_def split: option.splits)
  then have "np = denyAll sb" using generate_cases [OF assms(7)] by auto
  then show ?thesis using r
    by (simp add: reviewIsolated_def denyAll_def policyFor_def policy_permits_def)
qed

theorem kept_snapshot_is_isolated_witness:
  "\<exists>np. generate ex_config ex_review None = Inr np \<and> np_Egress np = [] \<and> sp_Review (sb_Spec ex_review)"
proof -
  have a: "ValidateSandboxCreate ex_kube ex_validator ex_review = Inr []"
    unfolding ValidateSandboxCreate_def validateSandbox_Nil structuralErrors_Nil_iff
      tenantErrors_Nil_iff classErrors_Nil_iff snapshotErrors_Nil_iff
    using ex_review_facts by blast
  have g: "generate ex_config ex_review None = Inr (denyAll ex_review)"
    by (simp add: generate_def effectivePosture_def ex_review_def zero_defs subtractExempt_def exemptOf_def)
  show ?thesis
    using kept_snapshot_is_isolated [OF a _ _ _ _ _ g, of _ "\<lparr>ssr_Name = ''kept-1''\<rparr>" ex_kept] g
    by (simp add: ex_validator_def ex_review_def ex_kept_def zero_defs)
qed

section \<open>The pin limit\<close>

definition other_pins :: "string \<Rightarrow> Snapshot list \<Rightarrow> int64 list" where
  "other_pins name items =
     map (\<lambda>o'. ns_Size (sn_Spec o')) (filter (\<lambda>o'. sn_Name o' \<noteq> name \<and> ns_Pinned (sn_Spec o')) items)"

lemma pinnedUsed_sum: "pinnedUsed name used items = used + sum_list (other_pins name items)"
  by (induction items arbitrary: used) (simp_all add: other_pins_def add.assoc)

lemma uint_sum_list:
  fixes ws :: "int64 list"
  assumes "uint w + sum_list (map uint ws) < 2 ^ 64"
  shows "uint (w + sum_list ws) = uint w + sum_list (map uint ws)"
  using assms
proof (induction ws arbitrary: w)
  case (Cons a ws)
  have nn: "0 \<le> sum_list (map uint ws)" by (rule sum_list_nonneg) auto
  have "uint w + uint a < 2 ^ 64" using Cons.prems nn by simp
  then have wa: "uint (w + a) = uint w + uint a" by (simp add: uint_add_lem [symmetric])
  then have "uint ((w + a) + sum_list ws) = uint (w + a) + sum_list (map uint ws)"
    using Cons.prems by (intro Cons.IH) (simp add: add.assoc)
  then show ?case using wa by (simp add: add.assoc)
qed simp

lemma sint_uint_small: "uint (w :: int64) < 2 ^ 63 \<Longrightarrow> sint w = uint w"
  by (simp add: sint_uint signed_take_bit_eq_if_positive bit_uint_iff not_le
      bit_iff_odd_drop_bit drop_bit_eq_div take_bit_int_eq_self)

text \<open>
  C16. The pin limit is exact below the overflow. When the webhook can list the snapshots of the
  namespace and the sizes of the other pinned ones and of the new one add up to less than
  \<open>2 ^ 63\<close>, it accepts the pin exactly when the snapshot is kept and that sum is within the limit.
\<close>

theorem pin_limit_exact:
  assumes "snv_Client v = Some cl" and "sr_List cl (sn_Namespace snap) = Inr items"
    and "uint (ns_Size (sn_Spec snap)) + sum_list (map uint (other_pins (sn_Name snap) items)) < 2 ^ 63"
  shows "checkPin v snap = None \<longleftrightarrow>
    ns_Kept (sn_Spec snap) \<and>
    uint (ns_Size (sn_Spec snap)) + sum_list (map uint (other_pins (sn_Name snap) items))
      \<le> sint (snv_PinnedLimitBytes v)"
proof -
  let ?u = "ns_Size (sn_Spec snap) + sum_list (other_pins (sn_Name snap) items)"
  have "uint ?u = uint (ns_Size (sn_Spec snap)) + sum_list (map uint (other_pins (sn_Name snap) items))"
    using assms(3) by (intro uint_sum_list) simp
  moreover from this have "sint ?u = uint ?u" using assms(3) by (intro sint_uint_small) simp
  ultimately show ?thesis using assms(1,2) by (auto simp: checkPin_def pinnedUsed_sum Let_def)
qed

definition ex_pin :: "string \<Rightarrow> int64 \<Rightarrow> Snapshot" where
  "ex_pin name sz = zero_Snapshot\<lparr>sn_Meta := zero_ObjectMeta\<lparr>om_Name := name, om_Namespace := ''team''\<rparr>,
     sn_Spec := zero_SnapshotSpec\<lparr>ns_Kept := True, ns_Pinned := True, ns_Size := sz\<rparr>\<rparr>"

definition ex_pins :: "Snapshot list \<Rightarrow> SnapshotValidatorConf" where
  "ex_pins items = \<lparr>snv_Client = Some \<lparr>sr_Get = (\<lambda>_ _. Inl NotFound), sr_List = (\<lambda>_. Inr items),
     sr_Quotas = (\<lambda>_. Inr [])\<rparr>, snv_PinnedLimitBytes = 100\<rparr>"

theorem pin_limit_exact_witness:
  "checkPin (ex_pins [ex_pin ''a'' 40]) (ex_pin ''b'' 60) = None \<and>
   checkPin (ex_pins [ex_pin ''a'' 40]) (ex_pin ''b'' 61) \<noteq> None"
  using pin_limit_exact [of "ex_pins [ex_pin ''a'' 40]" _ "ex_pin ''b'' 60" "[ex_pin ''a'' 40]"]
    pin_limit_exact [of "ex_pins [ex_pin ''a'' 40]" _ "ex_pin ''b'' 61" "[ex_pin ''a'' 40]"]
  by (simp add: ex_pins_def ex_pin_def zero_defs other_pins_def)

lemma sint_negative: "2 ^ 63 \<le> uint (w :: int64) \<Longrightarrow> sint w < 0"
proof -
  assume w: "2 ^ 63 \<le> uint w"
  have "uint w div 2 ^ 63 = 1"
    using w uint_lt2p [of w] by (intro int_div_pos_eq [where r = "uint w - 2 ^ 63"]) simp_all
  then show ?thesis
    using uint_lt2p [of w]
    by (simp add: sint_uint signed_take_bit_eq_if_negative bit_uint_iff bit_iff_odd_drop_bit drop_bit_eq_div
        take_bit_int_eq_self)
qed

text \<open>
  C17. The pin limit is lost at the overflow. The sum of the sizes is an \<open>int64\<close> that wraps: when
  the list works and the sizes of the other pinned snapshots and of the new one add up to between \<open>2 ^ 63\<close> and
  \<open>2 ^ 64\<close>, the webhook accepts the pin of a kept snapshot, whatever the limit is
  (zero or more).
\<close>

theorem pin_limit_wraps:
  assumes "snv_Client v = Some cl" and "sr_List cl (sn_Namespace snap) = Inr items"
    and "ns_Kept (sn_Spec snap)" and "0 \<le> sint (snv_PinnedLimitBytes v)"
    and "2 ^ 63 \<le> uint (ns_Size (sn_Spec snap)) + sum_list (map uint (other_pins (sn_Name snap) items))"
    and "uint (ns_Size (sn_Spec snap)) + sum_list (map uint (other_pins (sn_Name snap) items)) < 2 ^ 64"
  shows "checkPin v snap = None"
proof -
  let ?u = "ns_Size (sn_Spec snap) + sum_list (other_pins (sn_Name snap) items)"
  have "2 ^ 63 \<le> uint ?u" using assms(5) uint_sum_list [OF assms(6)] by simp
  then show ?thesis using sint_negative [of ?u] assms(1-4) by (simp add: checkPin_def pinnedUsed_sum Let_def)
qed

theorem pin_limit_wraps_witness:
  "checkPin (ex_pins [ex_pin ''a'' (2 ^ 62)]) (ex_pin ''b'' (2 ^ 62)) = None \<and>
   0 < sint (2 ^ 62 :: int64) \<and> sint (snv_PinnedLimitBytes (ex_pins [])) = 100"
  using pin_limit_wraps [of "ex_pins [ex_pin ''a'' (2 ^ 62)]" _ "ex_pin ''b'' (2 ^ 62)" "[ex_pin ''a'' (2 ^ 62)]"]
  by (simp add: ex_pins_def ex_pin_def zero_defs other_pins_def)

section \<open>Class admission\<close>

definition all_parse :: "string list \<Rightarrow> bool" where
  "all_parse ss \<longleftrightarrow> (\<forall>s\<in>set ss. ParsePrefix s \<noteq> None)"

lemma all_parse_simps [simp]:
  "all_parse []" "all_parse (s # ss) \<longleftrightarrow> ParsePrefix s \<noteq> None \<and> all_parse ss"
  "all_parse (ss @ ts) \<longleftrightarrow> all_parse ss \<and> all_parse ts"
  by (auto simp: all_parse_def)

lemma validateReserved_parse: "validateReserved rs a b = Inr p \<Longrightarrow> all_parse rs"
  by (induction rs arbitrary: a b) (auto split: option.splits if_splits)

lemma exemptErrors_Nil: "exemptErrors i cs = [] \<longleftrightarrow> all_parse cs"
  by (induction cs arbitrary: i) auto

lemma parseExempt_total: "all_parse es \<Longrightarrow> \<exists>ps. parseExempt es = Inr ps"
  by (induction es) (auto split: option.splits)

lemma parseReserved_total: "all_parse rs \<Longrightarrow> \<exists>ps. parseReserved rs = Inr ps"
  by (induction rs) (auto split: option.splits)

lemma all_parse_print: "good_prefixes ps \<Longrightarrow> all_parse (map PrefixString ps)"
  by (induction ps) (simp_all add: pfx.parse_print)

lemma subtractFrom_total:
  assumes "good_prefixes es"
  shows "all_parse rs \<Longrightarrow> \<exists>out. subtractFrom rs es = Inr out \<and> all_parse out"
proof (induction rs)
  case (Cons r rs)
  then obtain out where out: "subtractFrom rs es = Inr out" "all_parse out" by auto
  obtain p where p: "ParsePrefix r = Some p" using Cons.prems by auto
  have "prefix_ok p" using p by (rule pfx.parse_good)
  then have "good_prefixes (foldl cutPrefix [Masked p] es)"
    using cut_all_exact [of "[Masked p]" es] assms by simp
  then show ?case using p out all_parse_print by (simp add: Let_def)
qed simp

lemma subtractExempt_total:
  assumes "all_parse rs" "all_parse es"
  shows "\<exists>out. subtractExempt rs es = Inr out \<and> all_parse out"
proof (cases "es = []")
  case True
  then show ?thesis using assms by (simp add: subtractExempt_def)
next
  case False
  obtain ps where "parseExempt es = Inr ps" using parseExempt_total [OF assms(2)] by blast
  moreover from this have "good_prefixes ps" using parseExempt_exact by blast
  ultimately show ?thesis using subtractFrom_total [OF _ assms(1)] False by (simp add: subtractExempt_def)
qed

lemma exceptLoop_total: "all_parse rs \<Longrightarrow> \<exists>r. exceptLoop bp b rs except same = Inr r"
  by (induction rs arbitrary: except same) (auto simp: Let_def)

lemma exceptFor_fails: "all_parse rs \<Longrightarrow> (\<exists>e. exceptFor b rs = Inl e) \<longleftrightarrow> ParsePrefix b = None"
proof (cases "ParsePrefix b")
  case (Some p)
  assume "all_parse rs"
  then have "\<exists>r. exceptFor b rs = Inr r" using Some exceptLoop_total [of rs] by (simp add: exceptFor_def Let_def)
  then show ?thesis using Some by auto
qed (simp add: exceptFor_def)

lemma peersFor_fails: "all_parse rs \<Longrightarrow> (\<exists>e. peersFor bases rs = Inl e) \<longleftrightarrow> \<not> all_parse bases"
proof (induction bases)
  case (Cons b bases)
  then show ?case using exceptFor_fails [of rs b] by (fastforce split: sum.splits)
qed simp

lemma splitResolvers_total: "validateResolvers ips = None \<Longrightarrow> \<exists>r. splitResolvers ps d ips out = Inr r"
  by (induction ips arbitrary: out) (auto simp: Let_def split: option.splits)

lemma resolverSplit_fails:
  assumes "all_parse rs" "validateResolvers (cfg_ResolverIPs c) = None" "cfg_ResolverIPs c \<noteq> []"
  shows "(\<exists>e. resolverSplit c cls rs = Inl e) \<longleftrightarrow>
    (\<forall>ip\<in>set (cfg_ResolverIPs c). \<not> resolver_free rs ip \<and> \<not> classGrantsDNS cls)"
proof -
  obtain ps where ps: "parseReserved rs = Inr ps" using parseReserved_total [OF assms(1)] by blast
  obtain out where out: "splitResolvers ps (classGrantsDNS cls) (cfg_ResolverIPs c) \<lparr>rs_ipBlock = [], rs_pod = []\<rparr> = Inr out"
    using splitResolvers_total [OF assms(2)] by blast
  have "rs_pod out = [] \<longleftrightarrow> (\<forall>ip\<in>set (cfg_ResolverIPs c). \<not> resolver_free rs ip \<and> \<not> classGrantsDNS cls)"
    using splitResolvers_filter [OF ps out] by (auto simp: filter_empty_conv)
  then show ?thesis using ps out assms(3) by (simp add: resolverSplit_def)
qed

text \<open>
  An entry of an allow list that no policy can express: its ports, its pinned block, or a block that
  its name resolved to is malformed. A name without an answer is not an error.
\<close>

definition entry_broken :: "Config \<Rightarrow> NetworkAllow \<Rightarrow> bool" where
  "entry_broken c a \<longleftrightarrow> (\<exists>e. portsFor a = Inl e) \<or> (\<exists>e. basesFor c a = Inl e \<and> \<not> isResolveFailed e) \<or>
     (\<exists>bases. basesFor c a = Inr bases \<and> \<not> all_parse bases)"

lemma allowEntry_fails:
  assumes "all_parse rs"
  shows "(\<exists>e. allowEntry c rs a st = Inl e) \<longleftrightarrow> entry_broken c a"
proof (cases "portsFor a")
  case (Inr ports)
  show ?thesis
  proof (cases "basesFor c a")
    case (Inr bases)
    then show ?thesis
      using \<open>portsFor a = Inr ports\<close> peersFor_fails [OF assms, of bases]
      by (cases "peersFor bases rs"; cases "bases = []") (auto simp: allowEntry_def entry_broken_def Let_def)
  qed (use Inr in \<open>simp add: allowEntry_def entry_broken_def Let_def\<close>)
qed (simp add: allowEntry_def entry_broken_def)

lemma allowEntries_fails:
  assumes "all_parse rs"
  shows "(\<exists>e. allowEntries c rs as st = Inl e) \<longleftrightarrow> (\<exists>a\<in>set as. entry_broken c a)"
proof (induction "as" arbitrary: st)
  case (Cons a as)
  then show ?case using allowEntry_fails [OF assms, of c a st] by (auto split: sum.splits)
qed simp

lemma ValidateConfig_facts:
  assumes "ValidateConfig c = None"
  shows "all_parse (cfg_ReservedCIDRs c)" "validateResolvers (cfg_ResolverIPs c) = None" "cfg_ResolverIPs c \<noteq> []"
  using assms by (auto simp: ValidateConfig_def dest: validateReserved_parse split: if_splits sum.splits)

lemma validateResolvers_parse: "validateResolvers ips = None \<Longrightarrow> ip \<in> set ips \<Longrightarrow> ParseAddr ip \<noteq> None"
  by (induction ips) (auto split: option.splits)

lemma validateClass_exempt: "validateClass kv cls = [] \<Longrightarrow> all_parse (cs_EgressExemptCIDRs (cl_Spec cls))"
  by (simp add: validateClass_def Let_def validateEgressExemptCIDRs_def exemptErrors_Nil)

lemma generate_fails:
  assumes "subtractExempt (cfg_ReservedCIDRs c) (exemptOf cls) = Inr rs" "all_parse rs"
  shows "(\<exists>e. generate c sb cls = Inl e) \<longleftrightarrow>
    EffectiveMode sb cls \<noteq> NetworkModeNone \<and>
    ((\<exists>e. resolverSplit c cls rs = Inl e) \<or>
     EffectiveMode sb cls \<notin> {NetworkModeExternalOnly, NetworkModeEgressAllowList} \<or>
     EffectiveMode sb cls = NetworkModeEgressAllowList \<and> (\<exists>a\<in>set (snd (effectivePosture sb cls)). entry_broken c a))"
proof -
  have "externalOnly sb rs hd_rules \<noteq> Inl e" for hd_rules e
    using exceptFor_fails [OF assms(2), of AllCIDR]
    by (cases "exceptFor AllCIDR rs") (auto simp: externalOnly_def AllCIDR_parsed Let_def)
  moreover have "(\<exists>e. egressAllowList c sb as rs hd_rules = Inl e) \<longleftrightarrow> (\<exists>a\<in>set as. entry_broken c a)" for "as" hd_rules
    using allowEntries_fails [OF assms(2), of c "as" "\<lparr>as_annotations = Map.empty, as_egress = hd_rules, as_suppressed = [], as_unresolved = []\<rparr>"]
    by (auto simp: egressAllowList_def Let_def split: sum.splits)
  ultimately show ?thesis
    using assms(1)
    by (cases "EffectiveMode sb cls"; cases "resolverSplit c cls rs")
       (auto simp: generate_def split_def EffectiveMode_def Let_def)
qed

text \<open>
  C18. When a policy cannot be generated. For a configuration that passes its check and a class that
  passed admission, the policy of a Sandbox fails exactly when its posture has a network and one of
  three things holds: every configured resolver is reserved for the class and the class grants no DNS
  by a selector; the mode is unknown; or, in the allow-list mode, an entry of the list is malformed.
  The mode and the list are those of the Sandbox, or the defaults of the class, which admission does
  not check. The exempt ranges and the selectors of an admitted class never break a policy.
\<close>

theorem policy_refusals_exact:
  assumes "validateClass kv cls = []" and "ValidateConfig c = None"
  shows "(\<exists>e. generate c sb (Some cls) = Inl e) \<longleftrightarrow>
    EffectiveMode sb (Some cls) \<noteq> NetworkModeNone \<and>
    ((\<forall>ip\<in>set (cfg_ResolverIPs c). \<not> classGrantsDNS (Some cls) \<and>
        (\<exists>a. ParseAddr ip = Some a \<and> inAny (cfg_ReservedCIDRs c) (Unmap a) \<and> \<not> inAny (exemptOf (Some cls)) (Unmap a))) \<or>
     EffectiveMode sb (Some cls) \<notin> {NetworkModeExternalOnly, NetworkModeEgressAllowList} \<or>
     EffectiveMode sb (Some cls) = NetworkModeEgressAllowList \<and>
       (\<exists>a\<in>set (snd (effectivePosture sb (Some cls))). entry_broken c a))"
proof -
  obtain rs where rs: "subtractExempt (cfg_ReservedCIDRs c) (exemptOf (Some cls)) = Inr rs" "all_parse rs"
    using subtractExempt_total ValidateConfig_facts(1) [OF assms(2)] validateClass_exempt [OF assms(1)]
    by (auto simp: exemptOf_def)
  have "\<not> resolver_free rs ip \<longleftrightarrow>
      (\<exists>a. ParseAddr ip = Some a \<and> inAny (cfg_ReservedCIDRs c) (Unmap a) \<and> \<not> inAny (exemptOf (Some cls)) (Unmap a))"
    if "ip \<in> set (cfg_ResolverIPs c)" for ip
    using validateResolvers_parse [OF ValidateConfig_facts(2) [OF assms(2)] that]
      subtractExempt_sets [OF rs(1)] ParseAddr_ok Unmap_ok
    by (auto simp: resolver_free_def split: option.splits)
  then show ?thesis
    using generate_fails [OF rs, of sb] resolverSplit_fails [OF rs(2) ValidateConfig_facts(2,3) [OF assms(2)], of "Some cls"]
    by auto
qed

definition ex_dual_config :: Config where
  "ex_dual_config = \<lparr>cfg_ReservedCIDRs = [''10.0.0.0/8'', ''fc00::/7''], cfg_ResolverIPs = [''1.1.1.1''],
     cfg_Resolver = None, cfg_RefreshInterval = 0\<rparr>"

definition ex_portless :: Sandbox where
  "ex_portless = zero_Sandbox\<lparr>sb_Spec := zero_SandboxSpec\<lparr>sp_Network :=
     Some \<lparr>nw_Mode = NetworkModeEgressAllowList,
           nw_Allow = [\<lparr>na_Host = ''example.com'', na_Port = 0, na_Ports = [], na_CIDR = ''''\<rparr>]\<rparr>\<rparr>\<rparr>"

lemma ex_dual_config_valid: "ValidateConfig ex_dual_config = None"
  by (simp add: ValidateConfig_def ex_dual_config_def netip_eval netip6_eval)

lemma ex_class_admitted: "validateClass ex_kube ex_class = []"
  by (simp add: validateClass_def ex_class_def zero_defs validatePreWarm_def validateSessionCheckpoint_def
      validateMaxPauseDuration_def validateRequests_def validateScratch_def validateEgressExemptCIDRs_def
      validateEgressAllowSelectors_def)

theorem policy_refusals_exact_witness:
  "(\<exists>e. generate ex_dual_config ex_portless (Some ex_class) = Inl e) \<and>
   (\<exists>np. generate ex_dual_config ex_external (Some ex_class) = Inr np)"
proof -
  have "ParseAddr ''1.1.1.1'' = Some \<lparr>ad_addr = 0xffff01010101, ad_z = Z4\<rparr>" by (rule ex_resolver_parsed)
  then have free: "\<not> inAny (cfg_ReservedCIDRs ex_dual_config) (Unmap \<lparr>ad_addr = 0xffff01010101, ad_z = Z4\<rparr>)"
    by (simp add: ex_dual_config_def inAny_def inCIDR_def netip_eval netip6_eval)
  note exact = policy_refusals_exact [OF ex_class_admitted ex_dual_config_valid]
  have "\<exists>e. generate ex_dual_config ex_portless (Some ex_class) = Inl e"
    unfolding exact
    by (simp add: ex_portless_def EffectiveMode_def effectivePosture_def entry_broken_def portsFor_def)
  moreover have "\<not> (\<exists>e. generate ex_dual_config ex_external (Some ex_class) = Inl e)"
    unfolding exact using free
    by (simp add: ex_external_def EffectiveMode_def effectivePosture_def ex_dual_config_def ex_resolver_parsed)
  ultimately show ?thesis by (cases "generate ex_dual_config ex_external (Some ex_class)") auto
qed

end
