(* ===== verification/Go_IO.thy ===== *)
theory Go_IO
  imports Prelude
begin

text \<open>
  The parts of Go's \<open>io\<close>, \<open>bufio\<close>, \<open>encoding/binary\<close>, \<open>encoding/hex\<close> and
  \<open>encoding/base64\<close> that the wire protocols, the encrypted artifacts and the identity
  tokens use. A reader is the bytes that it still holds and the error that follows them; a
  writer is the bytes written and the room left before it fails. Nothing here models a file
  of the repository.
\<close>

type_synonym byte = "8 word"
type_synonym bytes = "byte list"

definition bytes_of :: "string \<Rightarrow> bytes" where
  "bytes_of s = map of_char s"

lemma length_bytes_of [simp]: "length (bytes_of s) = length s"
  by (simp add: bytes_of_def)

lemma bytes_of_Nil [simp]: "bytes_of [] = []"
  by (simp add: bytes_of_def)

lemma bytes_of_append: "bytes_of (s @ t) = bytes_of s @ bytes_of t"
  by (simp add: bytes_of_def)

section \<open>Readers\<close>

datatype IoError = EOF | UnexpectedEOF | IoFail string

text \<open>\<open>rd_Err\<close> is the error that ends the stream; \<open>None\<close> is \<open>io.EOF\<close>.\<close>

record Reader =
  rd_Data :: bytes
  rd_Err :: "string option"

definition rd_End :: "Reader \<Rightarrow> IoError" where
  "rd_End r = (case rd_Err r of None \<Rightarrow> EOF | Some e \<Rightarrow> IoFail e)"

text \<open>
  \<open>io.ReadFull\<close> fills a buffer of the given size. A stream that ends inside the buffer gives
  \<open>io.ErrUnexpectedEOF\<close>, one that ends before its first byte \<open>io.EOF\<close>.
\<close>

definition ReadFull :: "Reader \<Rightarrow> nat \<Rightarrow> IoError option \<times> bytes \<times> Reader" where
  "ReadFull r n =
     (if n \<le> length (rd_Data r)
      then (None, take n (rd_Data r), r\<lparr>rd_Data := drop n (rd_Data r)\<rparr>)
      else (Some (if rd_End r = EOF \<and> rd_Data r \<noteq> [] then UnexpectedEOF else rd_End r),
            rd_Data r, r\<lparr>rd_Data := []\<rparr>))"

text \<open>\<open>bufio.Reader.Peek(1)\<close>: the error, if no byte is left.\<close>

definition Peek1 :: "Reader \<Rightarrow> IoError option" where
  "Peek1 r = (if rd_Data r = [] then Some (rd_End r) else None)"

abbreviation mem_reader :: "bytes \<Rightarrow> Reader" where
  "mem_reader bs \<equiv> \<lparr>rd_Data = bs, rd_Err = None\<rparr>"

lemma ReadFull_append [simp]:
  "length xs = n \<Longrightarrow> ReadFull \<lparr>rd_Data = xs @ ys, rd_Err = e\<rparr> n = (None, xs, \<lparr>rd_Data = ys, rd_Err = e\<rparr>)"
  by (simp add: ReadFull_def)

lemma ReadFull_ok_iff:
  "ReadFull r n = (None, xs, r') \<longleftrightarrow>
     rd_Data r = xs @ rd_Data r' \<and> length xs = n \<and> rd_Err r' = rd_Err r \<and> r' = r\<lparr>rd_Data := rd_Data r'\<rparr>"
  by (cases r; cases r') (auto simp: ReadFull_def min_def split: if_splits)

section \<open>Writers\<close>

record Writer =
  wr_Out :: bytes
  wr_Room :: "nat option"

definition WriteBytes :: "Writer \<Rightarrow> bytes \<Rightarrow> nat \<times> bool \<times> Writer" where
  "WriteBytes w b = (case wr_Room w of
      None \<Rightarrow> (length b, True, w\<lparr>wr_Out := wr_Out w @ b\<rparr>)
    | Some k \<Rightarrow>
        if length b \<le> k then (length b, True, w\<lparr>wr_Out := wr_Out w @ b, wr_Room := Some (k - length b)\<rparr>)
        else (k, False, w\<lparr>wr_Out := wr_Out w @ take k b, wr_Room := Some 0\<rparr>))"

lemma WriteBytes_ok:
  "WriteBytes w b = (n, True, w') \<Longrightarrow> wr_Out w' = wr_Out w @ b \<and> n = length b"
  by (auto simp: WriteBytes_def split: option.splits if_splits)

lemma WriteBytes_grows:
  "WriteBytes w b = (n, ok, w') \<Longrightarrow> \<exists>x. wr_Out w' = wr_Out w @ x \<and> length x = n \<and> n \<le> length b"
  by (auto simp: WriteBytes_def split: option.splits if_splits)

lemma WriteBytes_prefix:
  assumes "WriteBytes w b = (n, ok, w')"
  shows "\<exists>k. wr_Out w' = wr_Out w @ take k b"
proof (cases "wr_Room w")
  case None
  with assms have "wr_Out w' = wr_Out w @ take (length b) b" by (auto simp: WriteBytes_def)
  then show ?thesis ..
next
  case (Some j)
  with assms have "wr_Out w' = wr_Out w @ take j b" by (auto simp: WriteBytes_def split: if_splits)
  then show ?thesis ..
qed

lemma prefix_take_full:
  assumes "xs @ r = take k ys" "length xs = length ys"
  shows "xs = ys"
proof -
  have "length xs + length r \<le> length ys" using arg_cong [OF assms(1), of length] by simp
  with assms(2) have "r = []" by simp
  with assms show ?thesis by (metis append_Nil2 length_take min.absorb_iff1 min.commute take_all)
qed

lemma WriteBytes_unbounded:
  "wr_Room w = None \<Longrightarrow> WriteBytes w b = (length b, True, w\<lparr>wr_Out := wr_Out w @ b\<rparr>)"
  by (simp add: WriteBytes_def)

section \<open>Big-endian integers\<close>

primrec to_be :: "nat \<Rightarrow> nat \<Rightarrow> bytes" where
  "to_be 0 n = []"
| "to_be (Suc k) n = to_be k (n div 256) @ [word_of_nat n]"

definition from_be :: "bytes \<Rightarrow> nat" where
  "from_be bs = foldl (\<lambda>a b. a * 256 + unat b) 0 bs"

lemma from_be_Nil [simp]: "from_be [] = 0"
  by (simp add: from_be_def)

lemma from_be_snoc [simp]: "from_be (bs @ [b]) = from_be bs * 256 + unat b"
  by (simp add: from_be_def)

lemma length_to_be [simp]: "length (to_be k n) = k"
  by (induction k arbitrary: n) auto

lemma unat_byte_of_nat: "unat (word_of_nat n :: byte) = n mod 256"
  by (simp add: unat_of_nat)

lemma byte_lt: "unat (b :: byte) < 256"
  using unsigned_less [where w = b] by simp

lemma from_be_to_be: "from_be (to_be k n) = n mod 256 ^ k"
proof (induction k arbitrary: n)
  case (Suc k)
  have "n mod (256 * 256 ^ k) = 256 * (n div 256 mod 256 ^ k) + n mod 256"
    by (rule mod_mult2_eq)
  with Suc show ?case by (simp add: unat_byte_of_nat)
qed simp

lemma from_be_lt: "from_be bs < 256 ^ length bs"
proof (induction bs rule: rev_induct)
  case (snoc b bs)
  then have "from_be bs + 1 \<le> 256 ^ length bs" by simp
  then have "(from_be bs + 1) * 256 \<le> 256 ^ length bs * 256" by (rule mult_le_mono1)
  with byte_lt [of b] show ?case by simp
qed simp

lemma to_be_from_be: "length bs = k \<Longrightarrow> to_be k (from_be bs) = bs"
proof (induction bs arbitrary: k rule: rev_induct)
  case (snoc b bs)
  have "(from_be bs * 256 + unat b) div 256 = from_be bs"
    using byte_lt [of b] by simp
  moreover have "(word_of_nat (from_be bs * 256 + unat b) :: byte) = b"
    unfolding word_unat_eq_iff unat_byte_of_nat using byte_lt [of b] by simp
  ultimately show ?case using snoc by (cases k) auto
qed simp

lemma from_be_inj: "length xs = length ys \<Longrightarrow> from_be xs = from_be ys \<Longrightarrow> xs = ys"
  by (metis to_be_from_be)

lemma from_be_to_be_small: "n < 256 ^ k \<Longrightarrow> from_be (to_be k n) = n"
  by (simp add: from_be_to_be)

lemma to_be_inj: "to_be k m = to_be k n \<Longrightarrow> m < 256 ^ k \<Longrightarrow> n < 256 ^ k \<Longrightarrow> m = n"
  by (metis from_be_to_be_small)

section \<open>Hexadecimal and base64 text\<close>

definition hexDigits :: string where "hexDigits = ''0123456789abcdef''"

definition hex_Encode :: "bytes \<Rightarrow> string" where
  "hex_Encode bs = concat (map (\<lambda>b. [hexDigits ! (unat b div 16), hexDigits ! (unat b mod 16)]) bs)"

lemma length_hex_Encode [simp]: "length (hex_Encode bs) = 2 * length bs"
  by (induction bs) (auto simp: hex_Encode_def)

definition b64_std :: string where
  "b64_std = ''ABCDEFGHIJKLMNOPQRSTUVWXYZabcdefghijklmnopqrstuvwxyz0123456789+/''"

definition b64_url :: string where
  "b64_url = ''ABCDEFGHIJKLMNOPQRSTUVWXYZabcdefghijklmnopqrstuvwxyz0123456789-_''"

text \<open>
  An encoding is its alphabet and whether it pads. \<open>StdEncoding\<close> pads, \<open>RawURLEncoding\<close> does
  not. Three bytes make four digits of six bits; a rest of one byte makes two digits, a rest
  of two bytes three.
\<close>

record Base64 =
  b64_Alphabet :: string
  b64_Pad :: bool

definition StdEncoding :: Base64 where "StdEncoding = \<lparr>b64_Alphabet = b64_std, b64_Pad = True\<rparr>"
definition RawURLEncoding :: Base64 where "RawURLEncoding = \<lparr>b64_Alphabet = b64_url, b64_Pad = False\<rparr>"

definition sextets :: "nat \<Rightarrow> nat list" where
  "sextets n = [n div 64 ^ 3 mod 64, n div 64 ^ 2 mod 64, n div 64 mod 64, n mod 64]"

definition unsextets :: "nat list \<Rightarrow> nat" where
  "unsextets ds = foldl (\<lambda>a d. a * 64 + d) 0 ds"

fun b64_Encode :: "Base64 \<Rightarrow> bytes \<Rightarrow> string" where
  "b64_Encode e [] = []"
| "b64_Encode e [a] = map ((!) (b64_Alphabet e)) (take 2 (sextets (from_be [a, 0, 0]))) @ (if b64_Pad e then ''=='' else [])"
| "b64_Encode e [a, b] = map ((!) (b64_Alphabet e)) (take 3 (sextets (from_be [a, b, 0]))) @ (if b64_Pad e then ''='' else [])"
| "b64_Encode e (a # b # c # bs) = map ((!) (b64_Alphabet e)) (sextets (from_be [a, b, c])) @ b64_Encode e bs"

definition b64_digit :: "Base64 \<Rightarrow> char \<Rightarrow> nat option" where
  "b64_digit e c = map_of (zip (b64_Alphabet e) [0..<length (b64_Alphabet e)]) c"

text \<open>
  Decoding drops carriage returns and line feeds wherever they stand. It does not ask that the
  unused bits of the last digit are zero.
\<close>

fun b64_quanta :: "Base64 \<Rightarrow> string \<Rightarrow> bytes option" where
  "b64_quanta e [] = Some []"
| "b64_quanta e [a] = None"
| "b64_quanta e [a, b] =
     (if b64_Pad e then None else
      case (b64_digit e a, b64_digit e b) of
        (Some x, Some y) \<Rightarrow> Some (take 1 (to_be 3 (unsextets [x, y, 0, 0])))
      | _ \<Rightarrow> None)"
| "b64_quanta e [a, b, c] =
     (if b64_Pad e then None else
      case (b64_digit e a, b64_digit e b, b64_digit e c) of
        (Some x, Some y, Some z) \<Rightarrow> Some (take 2 (to_be 3 (unsextets [x, y, z, 0])))
      | _ \<Rightarrow> None)"
| "b64_quanta e (a # b # c # d # s) =
     (case (b64_digit e a, b64_digit e b, b64_digit e c, b64_digit e d) of
        (Some x, Some y, Some z, Some u) \<Rightarrow>
          map_option (\<lambda>r. to_be 3 (unsextets [x, y, z, u]) @ r) (b64_quanta e s)
      | (Some x, Some y, Some z, None) \<Rightarrow>
          if b64_Pad e \<and> d = CHR ''='' \<and> s = [] then Some (take 2 (to_be 3 (unsextets [x, y, z, 0]))) else None
      | (Some x, Some y, None, None) \<Rightarrow>
          if b64_Pad e \<and> c = CHR ''='' \<and> d = CHR ''='' \<and> s = [] then Some (take 1 (to_be 3 (unsextets [x, y, 0, 0]))) else None
      | _ \<Rightarrow> None)"

definition b64_Decode :: "Base64 \<Rightarrow> string \<Rightarrow> bytes option" where
  "b64_Decode e s = b64_quanta e (filter (\<lambda>c. c \<noteq> CHR 0x0D \<and> c \<noteq> CHR 0x0A) s)"

definition b64_valid :: "Base64 \<Rightarrow> bool" where
  "b64_valid e \<longleftrightarrow> distinct (b64_Alphabet e) \<and> length (b64_Alphabet e) = 64 \<and>
     CHR ''='' \<notin> set (b64_Alphabet e) \<and> CHR 0x0D \<notin> set (b64_Alphabet e) \<and> CHR 0x0A \<notin> set (b64_Alphabet e)"

lemma b64_valid_std [simp]: "b64_valid StdEncoding"
  by (simp add: b64_valid_def StdEncoding_def b64_std_def)

lemma b64_valid_url [simp]: "b64_valid RawURLEncoding"
  by (simp add: b64_valid_def RawURLEncoding_def b64_url_def)

lemma b64_digit_nth: "b64_valid e \<Longrightarrow> i < 64 \<Longrightarrow> b64_digit e (b64_Alphabet e ! i) = Some i"
  by (simp add: b64_digit_def b64_valid_def map_of_zip_nth)

lemma b64_digit_pad: "b64_valid e \<Longrightarrow> b64_digit e CHR ''='' = None"
  by (auto simp: b64_digit_def b64_valid_def map_of_eq_None_iff dest: set_zip_leftD)

lemma unsextets_sextets: "n < 64 ^ 4 \<Longrightarrow> unsextets (sextets n) = n"
proof -
  assume n: "n < 64 ^ 4"
  have "n = n div 64 * 64 + n mod 64" "n div 64 = n div 64 div 64 * 64 + n div 64 mod 64"
    "n div 64 div 64 = n div 64 div 64 div 64 * 64 + n div 64 div 64 mod 64"
    by simp_all
  moreover have "n div 64 div 64 div 64 mod 64 = n div 64 div 64 div 64"
    using n by (simp add: div_mult2_eq [symmetric] less_mult_imp_div_less)
  ultimately show ?thesis
    by (simp add: unsextets_def sextets_def div_mult2_eq [symmetric] power2_eq_square power3_eq_cube)
qed

lemma sextets_lt: "d \<in> set (sextets n) \<Longrightarrow> d < 64"
  by (auto simp: sextets_def)

lemma from_be3_lt: "from_be [a, b, c] < 64 ^ 4"
  using from_be_lt [of "[a, b, c]"] by simp

lemma sextets_one: "sextets (from_be [a, 0, 0]) = [unat a * 65536 div 64 ^ 3 mod 64, unat a * 65536 div 64 ^ 2 mod 64, 0, 0]"
proof -
  have "unat a * 65536 = unat a * 1024 * 64" by simp
  then have "unat a * 65536 div 64 = unat a * 1024" by simp
  moreover have "unat a * 1024 mod 64 = 0" "unat a * 65536 mod 64 = 0"
    by (simp_all add: mod_eq_0_iff_dvd)
  ultimately show ?thesis by (simp add: sextets_def from_be_def)
qed

lemma sextets_two:
  "\<exists>x y z. sextets (from_be [a, b, 0]) = [x, y, z, 0]"
proof -
  have "(unat a * 65536 + unat b * 256) mod 64 = 0"
    by (simp add: mod_eq_0_iff_dvd)
  then show ?thesis by (simp add: sextets_def from_be_def algebra_simps)
qed

lemma sextets_back: "to_be 3 (unsextets (sextets (from_be [a, b, c]))) = [a, b, c]"
  using unsextets_sextets [OF from_be3_lt, of a b c] by (simp only: to_be_from_be length_Cons list.size One_nat_def numeral_3_eq_3)

lemma sextets_cases: obtains x y z u where "sextets n = [x, y, z, u]" "x < 64" "y < 64" "z < 64" "u < 64"
  by (rule that [of "n div 64 ^ 3 mod 64" "n div 64 ^ 2 mod 64" "n div 64 mod 64" "n mod 64"])
    (simp_all add: sextets_def)

text \<open>Decoding gives back what was encoded, in every valid encoding.\<close>

lemma b64_quanta_Encode: "b64_valid e \<Longrightarrow> b64_quanta e (b64_Encode e bs) = Some bs"
proof (induction e bs rule: b64_Encode.induct)
  case (2 e a)
  obtain x y z u where s: "sextets (from_be [a, 0, 0]) = [x, y, z, u]" "x < 64" "y < 64"
    by (rule sextets_cases)
  with sextets_one [of a] have "z = 0" "u = 0" by simp_all
  with s sextets_back [of a 0 0] 2 show ?case
    by (simp add: b64_digit_nth b64_digit_pad)
next
  case (3 e a b)
  obtain x y z u where s: "sextets (from_be [a, b, 0]) = [x, y, z, u]" "x < 64" "y < 64" "z < 64"
    by (rule sextets_cases)
  with sextets_two [of a b] have "u = 0" by simp
  with s sextets_back [of a b 0] 3 show ?case
    by (simp add: b64_digit_nth b64_digit_pad)
next
  case (4 e a b c bs)
  obtain x y z u where s: "sextets (from_be [a, b, c]) = [x, y, z, u]" "x < 64" "y < 64" "z < 64" "u < 64"
    by (rule sextets_cases)
  with sextets_back [of a b c] 4 show ?case
    by (simp add: b64_digit_nth)
qed simp

lemma b64_Encode_no_newline:
  "b64_valid e \<Longrightarrow> c \<in> set (b64_Encode e bs) \<Longrightarrow> c = CHR ''='' \<and> b64_Pad e \<or> c \<in> set (b64_Alphabet e)"
  by (induction e bs rule: b64_Encode.induct)
    (auto simp: b64_valid_def sextets_def split: if_splits)

theorem b64_roundtrip: "b64_valid e \<Longrightarrow> b64_Decode e (b64_Encode e bs) = Some bs"
proof -
  assume e: "b64_valid e"
  have "c \<noteq> CHR 0x0D \<and> c \<noteq> CHR 0x0A" if "c \<in> set (b64_Encode e bs)" for c
    using b64_Encode_no_newline [OF e that] e by (auto simp: b64_valid_def)
  then have "filter (\<lambda>c. c \<noteq> CHR 0x0D \<and> c \<noteq> CHR 0x0A) (b64_Encode e bs) = b64_Encode e bs"
    by (simp add: filter_id_conv)
  with e show ?thesis by (simp add: b64_Decode_def b64_quanta_Encode)
qed

end
