(* ===== verification/Sha256.thy ===== *)
theory Sha256
  imports Go_IO
begin

text \<open>
  SHA-256 of \<open>crypto/sha256\<close>, as FIPS 180-4 defines it: padding, message schedule, 64 rounds
  on eight words of 32 bits. The code uses it for the acknowledgements of the guest channels,
  for key ids and for digests of artifacts. Nothing here models a file of the repository.
\<close>

unbundle bit_operations_syntax

type_synonym w32 = "32 word"

text \<open>
  The constants are the first 32 fractional bits of the cube roots of the first 64 primes and
  of the square roots of the first 8, computed with integer roots.
\<close>

primrec root_bits :: "nat \<Rightarrow> nat \<Rightarrow> nat \<Rightarrow> nat \<Rightarrow> nat" where
  "root_bits k n 0 r = r"
| "root_bits k n (Suc b) r = root_bits k n b (if (r + 2 ^ b) ^ k \<le> n then r + 2 ^ b else r)"

definition small_primes :: "nat list" where
  "small_primes = filter (\<lambda>n. list_all (\<lambda>d. n mod d \<noteq> 0) [2..<n]) [2..<312]"

definition root_fraction :: "nat \<Rightarrow> nat \<Rightarrow> w32" where
  "root_fraction k p = word_of_nat (root_bits k (p * 2 ^ (32 * k)) 37 0)"

definition sha_K :: "w32 list" where
  "sha_K = map (root_fraction 3) small_primes"

record sha_state =
  sha_a :: w32
  sha_b :: w32
  sha_c :: w32
  sha_d :: w32
  sha_e :: w32
  sha_f :: w32
  sha_g :: w32
  sha_h :: w32

definition sha_init :: sha_state where
  "sha_init = \<lparr>sha_a = root_fraction 2 2, sha_b = root_fraction 2 3, sha_c = root_fraction 2 5, sha_d = root_fraction 2 7,
               sha_e = root_fraction 2 11, sha_f = root_fraction 2 13, sha_g = root_fraction 2 17, sha_h = root_fraction 2 19\<rparr>"

definition rotr :: "nat \<Rightarrow> w32 \<Rightarrow> w32" where
  "rotr k w = drop_bit k w OR push_bit (32 - k) w"

definition sha_Ch :: "w32 \<Rightarrow> w32 \<Rightarrow> w32 \<Rightarrow> w32" where
  "sha_Ch x y z = (x AND y) XOR (NOT x AND z)"

definition sha_Maj :: "w32 \<Rightarrow> w32 \<Rightarrow> w32 \<Rightarrow> w32" where
  "sha_Maj x y z = (x AND y) XOR (x AND z) XOR (y AND z)"

definition sha_S0 :: "w32 \<Rightarrow> w32" where "sha_S0 x = rotr 2 x XOR rotr 13 x XOR rotr 22 x"
definition sha_S1 :: "w32 \<Rightarrow> w32" where "sha_S1 x = rotr 6 x XOR rotr 11 x XOR rotr 25 x"
definition sha_s0 :: "w32 \<Rightarrow> w32" where "sha_s0 x = rotr 7 x XOR rotr 18 x XOR drop_bit 3 x"
definition sha_s1 :: "w32 \<Rightarrow> w32" where "sha_s1 x = rotr 17 x XOR rotr 19 x XOR drop_bit 10 x"

text \<open>The schedule is kept newest word first, so the words 2, 7, 15 and 16 back are at 1, 6, 14 and 15.\<close>

primrec sha_extend :: "nat \<Rightarrow> w32 list \<Rightarrow> w32 list" where
  "sha_extend 0 ws = ws"
| "sha_extend (Suc n) ws = sha_extend n ((sha_s1 (ws ! 1) + ws ! 6 + sha_s0 (ws ! 14) + ws ! 15) # ws)"

definition sha_round :: "sha_state \<Rightarrow> w32 \<times> w32 \<Rightarrow> sha_state" where
  "sha_round s kw =
     (let t1 = sha_h s + sha_S1 (sha_e s) + sha_Ch (sha_e s) (sha_f s) (sha_g s) + fst kw + snd kw;
          t2 = sha_S0 (sha_a s) + sha_Maj (sha_a s) (sha_b s) (sha_c s)
      in \<lparr>sha_a = t1 + t2, sha_b = sha_a s, sha_c = sha_b s, sha_d = sha_c s,
          sha_e = sha_d s + t1, sha_f = sha_e s, sha_g = sha_f s, sha_h = sha_g s\<rparr>)"

fun sha_words :: "bytes \<Rightarrow> w32 list" where
  "sha_words (a # b # c # d # bs) = word_of_nat (from_be [a, b, c, d]) # sha_words bs"
| "sha_words _ = []"

definition sha_block :: "sha_state \<Rightarrow> bytes \<Rightarrow> sha_state" where
  "sha_block s block =
     (let t = foldl sha_round s (zip sha_K (rev (sha_extend 48 (rev (sha_words block)))))
      in \<lparr>sha_a = sha_a s + sha_a t, sha_b = sha_b s + sha_b t, sha_c = sha_c s + sha_c t, sha_d = sha_d s + sha_d t,
          sha_e = sha_e s + sha_e t, sha_f = sha_f s + sha_f t, sha_g = sha_g s + sha_g t, sha_h = sha_h s + sha_h t\<rparr>)"

definition sha_pad :: "bytes \<Rightarrow> bytes" where
  "sha_pad bs = bs @ [0x80] @ replicate ((119 - length bs mod 64) mod 64) 0 @ to_be 8 (8 * length bs)"

function sha_blocks :: "sha_state \<Rightarrow> bytes \<Rightarrow> sha_state" where
  "sha_blocks s bs = (if length bs < 64 then s else sha_blocks (sha_block s (take 64 bs)) (drop 64 bs))"
  by auto
termination by (relation "measure (length \<circ> snd)") auto

declare sha_blocks.simps [simp del]

definition sha_digest :: "sha_state \<Rightarrow> bytes" where
  "sha_digest s = concat (map (\<lambda>w. to_be 4 (unat w))
     [sha_a s, sha_b s, sha_c s, sha_d s, sha_e s, sha_f s, sha_g s, sha_h s])"

definition sha256 :: "bytes \<Rightarrow> bytes" where
  "sha256 bs = sha_digest (sha_blocks sha_init (sha_pad bs))"

lemma length_sha256 [simp]: "length (sha256 bs) = 32"
  by (simp add: sha256_def sha_digest_def)

text \<open>The padded message is a whole number of blocks.\<close>

lemma length_sha_pad: "length (sha_pad bs) mod 64 = 0"
proof -
  define q m where "q = length bs div 64" and "m = length bs mod 64"
  have n: "length bs = 64 * q + m" and m: "m < 64" by (simp_all add: q_def m_def)
  have "length (sha_pad bs) = 64 * q + (m + (119 - m) mod 64 + 9)"
    by (simp add: sha_pad_def n m)
  also have "m + (119 - m) mod 64 + 9 = (if m \<le> 55 then 64 else 128)"
  proof (cases "m \<le> 55")
    case True
    then have "119 - m = 55 - m + 64" by simp
    then have "(119 - m) mod 64 = (55 - m) mod 64" by (simp only: mod_add_self2)
    with True show ?thesis by simp
  qed (use m in simp)
  finally show ?thesis by simp
qed

end
