(* ===== verification/Guest_Channel.thy ===== *)
theory Guest_Channel
  imports Sha256
begin

text \<open>
  The two channels that the node agent opens to a restored machine: the entropy reseed
  (\<open>internal/entropy\<close>) and the identity directive (\<open>internal/uniquify\<close>), each with its
  frames, its guest handler and its host side, and the frames and exit codes of the guest
  agent (\<open>internal/guestagent/protocol.go\<close>). A connection is the bytes that the peer sends
  over its life and a writer for the bytes sent to the peer; a deadline that passes is the
  error that ends the incoming bytes. The interface of the frame formats is the locale
  \<open>frame_codec\<close>.
\<close>

record Conn =
  cn_In :: Reader
  cn_Out :: Writer

text \<open>\<open>bufio.Reader.ReadString\<close> and \<open>fmt.Fprintf(conn, "CONNECT %d\n", port)\<close>.\<close>

definition ReadString :: "byte \<Rightarrow> Reader \<Rightarrow> IoError option \<times> bytes \<times> Reader" where
  "ReadString d r =
     (if d \<in> set (rd_Data r)
      then (None, takeWhile (\<lambda>b. b \<noteq> d) (rd_Data r) @ [d], r\<lparr>rd_Data := tl (dropWhile (\<lambda>b. b \<noteq> d) (rd_Data r))\<rparr>)
      else (Some (rd_End r), rd_Data r, r\<lparr>rd_Data := []\<rparr>))"

definition connectLine :: "32 word \<Rightarrow> bytes" where
  "connectLine port = bytes_of (''CONNECT '' @ nat_itoa (unat port)) @ [10]"

lemma ReadString_line:
  "d \<notin> set l \<Longrightarrow> ReadString d \<lparr>rd_Data = l @ d # rest, rd_Err = e\<rparr> = (None, l @ [d], \<lparr>rd_Data = rest, rd_Err = e\<rparr>)"
  by (simp add: ReadString_def takeWhile_append dropWhile_append)

section \<open>Reading frames one after another\<close>

primrec read_many :: "(Reader \<Rightarrow> ('e + 'a) \<times> Reader) \<Rightarrow> nat \<Rightarrow> Reader \<Rightarrow> ('e + 'a list) \<times> Reader" where
  "read_many f 0 r = (Inr [], r)"
| "read_many f (Suc n) r =
     (case f r of
        (Inl e, r') \<Rightarrow> (Inl e, r')
      | (Inr x, r') \<Rightarrow> (case read_many f n r' of
            (Inl e, r'') \<Rightarrow> (Inl e, r'')
          | (Inr xs, r'') \<Rightarrow> (Inr (x # xs), r'')))"

locale frame_codec =
  fixes readf :: "Reader \<Rightarrow> ('e + 'a) \<times> Reader" and enc :: "'a \<Rightarrow> bytes" and ok :: "'a \<Rightarrow> bool"
  assumes read_enc: "ok x \<Longrightarrow> readf \<lparr>rd_Data = enc x @ rest, rd_Err = e\<rparr> = (Inr x, \<lparr>rd_Data = rest, rd_Err = e\<rparr>)"
    and read_only: "readf r = (Inr x, r') \<Longrightarrow> ok x \<and> rd_Data r = enc x @ rd_Data r'"
begin

lemma enc_unique:
  assumes "ok x" "ok y" "enc x @ r = enc y @ s"
  shows "x = y" "r = s"
proof -
  have "(Inr x :: 'e + 'a, \<lparr>rd_Data = r, rd_Err = None\<rparr>) = (Inr y, \<lparr>rd_Data = s, rd_Err = None\<rparr>)"
    unfolding read_enc [OF assms(1), of r None, symmetric] read_enc [OF assms(2), of s None, symmetric]
    by (simp only: assms(3))
  then show "x = y" "r = s" by simp_all
qed

lemma read_stream:
  "\<forall>x\<in>set xs. ok x \<Longrightarrow>
   read_many readf (length xs) \<lparr>rd_Data = concat (map enc xs) @ rest, rd_Err = e\<rparr> = (Inr xs, \<lparr>rd_Data = rest, rd_Err = e\<rparr>)"
  by (induction xs) (auto simp: read_enc)

lemma read_many_only:
  "read_many readf n r = (Inr xs, r') \<Longrightarrow>
   length xs = n \<and> (\<forall>x\<in>set xs. ok x) \<and> rd_Data r = concat (map enc xs) @ rd_Data r'"
proof (induction n arbitrary: r xs)
  case (Suc n)
  then obtain x r1 ys where "readf r = (Inr x, r1)" "read_many readf n r1 = (Inr ys, r')" "xs = x # ys"
    by (auto split: prod.splits sum.splits)
  with Suc.IH [of r1 ys] read_only [of r x r1] show ?case by simp
qed simp

lemma truncated_is_refused:
  assumes "ok x" "length bs < length (enc x)" "take (length bs) (enc x) = bs"
  shows "fst (readf \<lparr>rd_Data = bs, rd_Err = e\<rparr>) \<noteq> Inr y"
proof
  assume "fst (readf \<lparr>rd_Data = bs, rd_Err = e\<rparr>) = Inr y"
  then obtain r' where "readf \<lparr>rd_Data = bs, rd_Err = e\<rparr> = (Inr y, r')" by (metis prod.collapse)
  then have y: "ok y" "bs = enc y @ rd_Data r'" using read_only by fastforce+
  have "enc x = bs @ drop (length bs) (enc x)" using assms(3) by (metis append_take_drop_id)
  with y have "enc x @ [] = enc y @ (rd_Data r' @ drop (length bs) (enc x))" by simp
  from enc_unique(1) [OF assms(1) y(1) this] y(2) assms(2) show False by simp
qed

end

section \<open>Entropy: frames\<close>

abbreviation entropyProtocolVersion :: byte where "entropyProtocolVersion \<equiv> 1"
abbreviation entropyDefaultVsockPort :: "32 word" where "entropyDefaultVsockPort \<equiv> 2600"
abbreviation DefaultPayloadBytes :: int where "DefaultPayloadBytes \<equiv> 256"
definition MaxPayloadBytes :: nat where "MaxPayloadBytes = 4096"
abbreviation StatusOK :: byte where "StatusOK \<equiv> 0"
abbreviation StatusError :: byte where "StatusError \<equiv> 1"
definition reqMagic :: bytes where "reqMagic = bytes_of ''SRSD''"
definition ackMagic :: bytes where "ackMagic = bytes_of ''SRSA''"
abbreviation digestSize :: nat where "digestSize \<equiv> 32"

record Ack =
  ack_Status :: byte
  ack_Digest :: bytes

datatype EntropyError =
    EmptyPayload
  | PayloadTooLarge nat
  | WriteHeaderFailed
  | WritePayloadFailed
  | ReadHeaderFailed IoError
  | BadRequestMagic bytes
  | UnsupportedVersion byte
  | ZeroLengthPayload
  | PayloadLengthExceeds nat
  | ReadPayloadFailed IoError
  | WriteAckFailed
  | ReadAckFailed IoError
  | BadAckMagic bytes
  | UnsupportedAckVersion byte
  | NoPool
  | InjectionFailed
  | GatherEntropyFailed IoError
  | DialFailed string
  | ConnectFailed
  | HandshakeFailed IoError
  | HandshakeRejected bytes
  | NotAcked EntropyError
  | GuestInjectFailed byte
  | DigestMismatch

definition WriteRequest :: "Writer \<Rightarrow> bytes \<Rightarrow> EntropyError option \<times> Writer" where
  "WriteRequest w payload =
     (if length payload = 0 then (Some EmptyPayload, w)
      else if length payload > MaxPayloadBytes then (Some (PayloadTooLarge (length payload)), w)
      else
        let header = reqMagic @ [entropyProtocolVersion] @ to_be 2 (length payload)
        in case WriteBytes w header of
             (_, False, w1) \<Rightarrow> (Some WriteHeaderFailed, w1)
           | (_, True, w1) \<Rightarrow>
               (case WriteBytes w1 payload of
                  (_, False, w2) \<Rightarrow> (Some WritePayloadFailed, w2)
                | (_, True, w2) \<Rightarrow> (None, w2)))"

definition ReadRequest :: "Reader \<Rightarrow> (EntropyError + bytes) \<times> Reader" where
  "ReadRequest r =
     (case ReadFull r (length reqMagic + 1 + 2) of
        (Some e, _, r1) \<Rightarrow> (Inl (ReadHeaderFailed e), r1)
      | (None, header, r1) \<Rightarrow>
          if take 4 header \<noteq> reqMagic then (Inl (BadRequestMagic (take 4 header)), r1)
          else if header ! 4 \<noteq> entropyProtocolVersion then (Inl (UnsupportedVersion (header ! 4)), r1)
          else
            let n = from_be (take 2 (drop 5 header))
            in if n = 0 then (Inl ZeroLengthPayload, r1)
               else if n > MaxPayloadBytes then (Inl (PayloadLengthExceeds n), r1)
               else case ReadFull r1 n of
                      (Some e, _, r2) \<Rightarrow> (Inl (ReadPayloadFailed e), r2)
                    | (None, payload, r2) \<Rightarrow> (Inr payload, r2))"

definition WriteAck :: "Writer \<Rightarrow> byte \<Rightarrow> bytes \<Rightarrow> EntropyError option \<times> Writer" where
  "WriteAck w status digest =
     (case WriteBytes w (ackMagic @ [entropyProtocolVersion, status] @ digest) of
        (_, False, w1) \<Rightarrow> (Some WriteAckFailed, w1)
      | (_, True, w1) \<Rightarrow> (None, w1))"

definition ReadAck :: "Reader \<Rightarrow> (EntropyError + Ack) \<times> Reader" where
  "ReadAck r =
     (case ReadFull r (length ackMagic + 2 + digestSize) of
        (Some e, _, r1) \<Rightarrow> (Inl (ReadAckFailed e), r1)
      | (None, frame, r1) \<Rightarrow>
          if take 4 frame \<noteq> ackMagic then (Inl (BadAckMagic (take 4 frame)), r1)
          else if frame ! 4 \<noteq> entropyProtocolVersion then (Inl (UnsupportedAckVersion (frame ! 4)), r1)
          else (Inr \<lparr>ack_Status = frame ! 5, ack_Digest = drop 6 frame\<rparr>, r1))"

definition requestFrame :: "bytes \<Rightarrow> bytes" where
  "requestFrame p = reqMagic @ [entropyProtocolVersion] @ to_be 2 (length p) @ p"

definition payload_ok :: "bytes \<Rightarrow> bool" where
  "payload_ok p \<longleftrightarrow> p \<noteq> [] \<and> length p \<le> MaxPayloadBytes"

definition ackFrame :: "Ack \<Rightarrow> bytes" where
  "ackFrame a = ackMagic @ [entropyProtocolVersion, ack_Status a] @ ack_Digest a"

lemma length_reqMagic [simp]: "length reqMagic = 4" by (simp add: reqMagic_def)
lemma length_ackMagic [simp]: "length ackMagic = 4" by (simp add: ackMagic_def)

lemma header_split:
  assumes "length h = 4 + 1 + k"
  obtains m v l where "h = m @ [v] @ l" "length m = 4" "length l = k"
    "take 4 h = m" "h ! 4 = v" "drop 5 h = l"
proof -
  have "h = take 4 h @ [h ! 4] @ drop 5 h"
    using assms id_take_nth_drop [of 4 h] by (simp add: numeral_eq_Suc)
  then show thesis using assms by (intro that) auto
qed

lemma ReadRequest_frame:
  assumes "payload_ok p"
  shows "ReadRequest \<lparr>rd_Data = requestFrame p @ rest, rd_Err = e\<rparr> = (Inr p, \<lparr>rd_Data = rest, rd_Err = e\<rparr>)"
proof -
  let ?h = "reqMagic @ [entropyProtocolVersion] @ to_be 2 (length p)"
  have n: "from_be (to_be 2 (length p)) = length p"
    using assms by (simp add: from_be_to_be payload_ok_def MaxPayloadBytes_def)
  have "requestFrame p @ rest = ?h @ (p @ rest)" by (simp add: requestFrame_def)
  then have "ReadFull \<lparr>rd_Data = requestFrame p @ rest, rd_Err = e\<rparr> (length reqMagic + 1 + 2)
      = (None, ?h, \<lparr>rd_Data = p @ rest, rd_Err = e\<rparr>)"
    by (simp only: ReadFull_append length_append list.size length_to_be)
  then show ?thesis
    using assms n by (simp add: ReadRequest_def payload_ok_def nth_append)
qed

lemma ReadRequest_only:
  assumes "ReadRequest r = (Inr p, r')"
  shows "payload_ok p \<and> rd_Data r = requestFrame p @ rd_Data r'"
proof -
  from assms obtain h r1 where h: "ReadFull r (length reqMagic + 1 + 2) = (None, h, r1)"
    "take 4 h = reqMagic" "h ! 4 = entropyProtocolVersion"
    "from_be (take 2 (drop 5 h)) \<noteq> 0" "from_be (take 2 (drop 5 h)) \<le> MaxPayloadBytes"
    "ReadFull r1 (from_be (take 2 (drop 5 h))) = (None, p, r')"
    unfolding ReadRequest_def
    by (auto simp: Let_def split: prod.splits option.splits if_splits)
  from h(1) have l: "length h = 4 + 1 + 2" by (simp add: ReadFull_ok_iff)
  obtain m v k where k: "h = m @ [v] @ k" "length k = 2" "take 4 h = m" "h ! 4 = v" "drop 5 h = k"
    by (rule header_split [OF l]) auto
  with h have "from_be k = length p" "rd_Data r1 = p @ rd_Data r'" by (simp_all add: ReadFull_ok_iff)
  with h k to_be_from_be [OF k(2)] show ?thesis
    by (auto simp: ReadFull_ok_iff requestFrame_def payload_ok_def)
qed

interpretation request: frame_codec ReadRequest requestFrame payload_ok
  by unfold_locales (erule ReadRequest_frame, erule ReadRequest_only)

lemma WriteRequest_ok:
  "WriteRequest w p = (None, w') \<Longrightarrow> payload_ok p \<and> wr_Out w' = wr_Out w @ requestFrame p"
  by (auto simp: WriteRequest_def requestFrame_def payload_ok_def Let_def
      split: if_splits prod.splits bool.splits dest!: WriteBytes_ok)

lemma WriteRequest_unbounded:
  "payload_ok p \<Longrightarrow> WriteRequest \<lparr>wr_Out = out, wr_Room = None\<rparr> p = (None, \<lparr>wr_Out = out @ requestFrame p, wr_Room = None\<rparr>)"
  by (simp add: WriteRequest_def payload_ok_def requestFrame_def WriteBytes_unbounded)

lemma ReadAck_frame:
  assumes "length (ack_Digest a) = digestSize"
  shows "ReadAck \<lparr>rd_Data = ackFrame a @ rest, rd_Err = e\<rparr> = (Inr a, \<lparr>rd_Data = rest, rd_Err = e\<rparr>)"
  using assms by (simp add: ReadAck_def ackFrame_def ReadFull_def nth_append)

lemma ReadAck_only:
  assumes "ReadAck r = (Inr a, r')"
  shows "length (ack_Digest a) = digestSize \<and> rd_Data r = ackFrame a @ rd_Data r'"
proof -
  from assms obtain h where h: "ReadFull r (4 + 1 + (1 + digestSize)) = (None, h, r')"
    "take 4 h = ackMagic" "h ! 4 = entropyProtocolVersion" "a = \<lparr>ack_Status = h ! 5, ack_Digest = drop 6 h\<rparr>"
    unfolding ReadAck_def by (auto split: prod.splits option.splits if_splits)
  then have l: "length h = 4 + 1 + (1 + digestSize)" by (simp add: ReadFull_ok_iff)
  obtain m v k where k: "h = m @ [v] @ k" "length m = 4" "length k = 1 + digestSize" "take 4 h = m" "h ! 4 = v" "drop 5 h = k"
    by (rule header_split [OF l]) auto
  then obtain s d where "k = s # d" by (cases k) auto
  with h k show ?thesis by (auto simp: ReadFull_ok_iff ackFrame_def nth_append)
qed

interpretation ack: frame_codec ReadAck ackFrame "\<lambda>a. length (ack_Digest a) = digestSize"
  by unfold_locales (erule ReadAck_frame, erule ReadAck_only)

lemma WriteAck_ok:
  "WriteAck w s d = (None, w') \<Longrightarrow> wr_Out w' = wr_Out w @ ackFrame \<lparr>ack_Status = s, ack_Digest = d\<rparr>"
  by (auto simp: WriteAck_def ackFrame_def split: prod.splits bool.splits dest!: WriteBytes_ok)

section \<open>Entropy: guest and host\<close>

text \<open>
  The pool is the answer of \<open>AddEntropy\<close>: whether the payload was mixed in and credited. The
  third result is the payload that was handed to the pool.
\<close>

definition EntropyServeConn :: "(bytes \<Rightarrow> bool) option \<Rightarrow> Conn \<Rightarrow> EntropyError option \<times> Conn \<times> bytes option" where
  "EntropyServeConn pool c =
     (case pool of
        None \<Rightarrow> (Some NoPool, c, None)
      | Some add \<Rightarrow>
          (case ReadRequest (cn_In c) of
             (Inl e, r) \<Rightarrow> (Some e, c\<lparr>cn_In := r\<rparr>, None)
           | (Inr payload, r) \<Rightarrow>
               let digest = sha256 payload;
                   status = (if add payload then StatusOK else StatusError)
               in case WriteAck (cn_Out c) status digest of
                    (Some e, w) \<Rightarrow> (Some e, \<lparr>cn_In = r, cn_Out = w\<rparr>, Some payload)
                  | (None, w) \<Rightarrow>
                      (if status \<noteq> StatusOK then Some InjectionFailed else None,
                       \<lparr>cn_In = r, cn_Out = w\<rparr>, Some payload)))"

record VsockReseeder =
  rs_Port :: "32 word"
  rs_PayloadBytes :: int
  rs_Rand :: "Reader option"

definition NewVsockReseeder :: "Reader \<Rightarrow> VsockReseeder" where
  "NewVsockReseeder rnd = \<lparr>rs_Port = entropyDefaultVsockPort, rs_PayloadBytes = DefaultPayloadBytes, rs_Rand = Some rnd\<rparr>"

text \<open>The payload of a reseed, drawn from the source of the reseeder or from the system's.\<close>

definition reseedPayload :: "VsockReseeder \<Rightarrow> Reader \<Rightarrow> EntropyError + bytes" where
  "reseedPayload rs sysrand =
     (let n = (if rs_PayloadBytes rs \<le> 0 then DefaultPayloadBytes else rs_PayloadBytes rs);
          src = (case rs_Rand rs of None \<Rightarrow> sysrand | Some r \<Rightarrow> r)
      in case ReadFull src (nat n) of
           (Some e, _, _) \<Rightarrow> Inl (GatherEntropyFailed e)
         | (None, payload, _) \<Rightarrow> Inr payload)"

text \<open>The handshake of the hybrid vsock: \<open>CONNECT\<close> and a line that starts with \<open>OK\<close>.\<close>

definition vsockHandshake :: "32 word \<Rightarrow> Conn \<Rightarrow> (EntropyError + unit) \<times> Conn" where
  "vsockHandshake port c =
     (case WriteBytes (cn_Out c) (connectLine port) of
        (_, False, w) \<Rightarrow> (Inl ConnectFailed, c\<lparr>cn_Out := w\<rparr>)
      | (_, True, w) \<Rightarrow>
          (case ReadString 10 (cn_In c) of
             (Some e, _, r) \<Rightarrow> (Inl (HandshakeFailed e), \<lparr>cn_In = r, cn_Out = w\<rparr>)
           | (None, line, r) \<Rightarrow>
               if take 3 line \<noteq> bytes_of ''OK '' then (Inl (HandshakeRejected line), \<lparr>cn_In = r, cn_Out = w\<rparr>)
               else (Inr (), \<lparr>cn_In = r, cn_Out = w\<rparr>)))"

definition Reseed :: "VsockReseeder \<Rightarrow> Reader \<Rightarrow> string + Conn \<Rightarrow> EntropyError option \<times> Conn option" where
  "Reseed rs sysrand dial =
     (let port = (if rs_Port rs = 0 then entropyDefaultVsockPort else rs_Port rs) in
      case reseedPayload rs sysrand of
        Inl e \<Rightarrow> (Some e, None)
      | Inr payload \<Rightarrow>
          let want = sha256 payload in
          case dial of
            Inl e \<Rightarrow> (Some (DialFailed e), None)
          | Inr conn \<Rightarrow>
              (case vsockHandshake port conn of
                 (Inl e, c) \<Rightarrow> (Some e, Some c)
               | (Inr _, c) \<Rightarrow>
                   (case WriteRequest (cn_Out c) payload of
                      (Some e, w) \<Rightarrow> (Some e, Some (c\<lparr>cn_Out := w\<rparr>))
                    | (None, w) \<Rightarrow>
                        (case ReadAck (cn_In c) of
                           (Inl e, r) \<Rightarrow> (Some (NotAcked e), Some \<lparr>cn_In = r, cn_Out = w\<rparr>)
                         | (Inr ack, r) \<Rightarrow>
                             (if ack_Status ack \<noteq> StatusOK then Some (GuestInjectFailed (ack_Status ack))
                              else if ack_Digest ack \<noteq> want then Some DigestMismatch
                              else None,
                              Some \<lparr>cn_In = r, cn_Out = w\<rparr>)))))"

lemma vsockHandshake_ok:
  assumes "vsockHandshake port c = (Inr u, c')"
  obtains line where "rd_Data (cn_In c) = line @ 10 # rd_Data (cn_In c')" "10 \<notin> set line" "take 3 (line @ [10]) = bytes_of ''OK ''"
    "wr_Out (cn_Out c') = wr_Out (cn_Out c) @ connectLine port"
proof -
  from assms obtain n w line r where h: "WriteBytes (cn_Out c) (connectLine port) = (n, True, w)"
    "ReadString 10 (cn_In c) = (None, line, r)" "take 3 line = bytes_of ''OK ''" "c' = \<lparr>cn_In = r, cn_Out = w\<rparr>"
    unfolding vsockHandshake_def by (auto split: prod.splits bool.splits option.splits if_splits)
  let ?l = "takeWhile (\<lambda>b. b \<noteq> 10) (rd_Data (cn_In c))"
  from h(2) have m: "10 \<in> set (rd_Data (cn_In c))" "line = ?l @ [10]"
    "rd_Data r = tl (dropWhile (\<lambda>b. b \<noteq> 10) (rd_Data (cn_In c)))"
    by (auto simp: ReadString_def split: if_splits)
  from m(1) have "dropWhile (\<lambda>b. b \<noteq> 10) (rd_Data (cn_In c)) = 10 # rd_Data r"
    unfolding m(3) by (metis (mono_tags, lifting) dropWhile_eq_Nil_conv hd_dropWhile list.collapse)
  then have "rd_Data (cn_In c) = ?l @ 10 # rd_Data r" by (metis takeWhile_dropWhile_id)
  moreover have "10 \<notin> set ?l" by (auto dest: set_takeWhileD)
  ultimately show thesis using h m WriteBytes_ok [OF h(1)] by (intro that [of ?l]) auto
qed

lemma Reseed_ok:
  assumes "Reseed rs sysrand (Inr c) = (None, Some c')" "reseedPayload rs sysrand = Inr payload"
  shows "\<exists>line. rd_Data (cn_In c) = line @ 10 # ackFrame \<lparr>ack_Status = StatusOK, ack_Digest = sha256 payload\<rparr> @ rd_Data (cn_In c')
    \<and> 10 \<notin> set line"
proof -
  from assms obtain port c1 w a r where h: "vsockHandshake port c = (Inr (), c1)"
    "WriteRequest (cn_Out c1) payload = (None, w)" "ReadAck (cn_In c1) = (Inr a, r)"
    "ack_Status a = StatusOK" "ack_Digest a = sha256 payload" "c' = \<lparr>cn_In = r, cn_Out = w\<rparr>"
    unfolding Reseed_def by (auto simp: Let_def split: prod.splits sum.splits option.splits if_splits)
  from h(1) obtain line where l: "rd_Data (cn_In c) = line @ 10 # rd_Data (cn_In c1)" "10 \<notin> set line"
    by (rule vsockHandshake_ok)
  from h(4,5) have "a = \<lparr>ack_Status = StatusOK, ack_Digest = sha256 payload\<rparr>" by simp
  with l ReadAck_only [OF h(3)] h(6) show ?thesis by auto
qed

lemma WriteAck_prefix:
  assumes "WriteAck w s d = (e, w')"
  shows "\<exists>k. wr_Out w' = wr_Out w @ take k (ackFrame \<lparr>ack_Status = s, ack_Digest = d\<rparr>)"
proof -
  obtain n ok w1 where w: "WriteBytes w (ackMagic @ [entropyProtocolVersion, s] @ d) = (n, ok, w1)"
    by (metis prod_cases3)
  with assms have "w1 = w'" by (cases ok) (auto simp: WriteAck_def)
  with WriteBytes_prefix [OF w] show ?thesis by (simp add: ackFrame_def)
qed

lemma ackFrame_eq_iff:
  "length (ack_Digest a) = length (ack_Digest b) \<Longrightarrow> ackFrame a = ackFrame b \<longleftrightarrow> a = b"
  by (cases a; cases b) (auto simp: ackFrame_def)

lemma first_line_unique:
  "xs @ d # r = ys @ d # s \<Longrightarrow> d \<notin> set xs \<Longrightarrow> d \<notin> set ys \<Longrightarrow> xs = ys \<and> r = s"
proof (induction xs arbitrary: ys)
  case Nil
  then show ?case by (cases ys) auto
next
  case (Cons x xs)
  then show ?case by (cases ys) auto
qed

text \<open>
  A guest that reads the request of the host, over a channel that keeps its bytes, and whose
  pool takes the payload makes the reseed succeed.
\<close>

lemma reseed_succeeds:
  assumes "reseedPayload rs sysrand = Inr payload" "payload_ok payload" "add payload"
    and "EntropyServeConn (Some add) \<lparr>cn_In = mem_reader (requestFrame payload), cn_Out = \<lparr>wr_Out = [], wr_Room = None\<rparr>\<rparr> = (res, g', injected)"
    and "10 \<notin> set l"
  shows "res = None \<and> injected = Some payload \<and>
    fst (Reseed rs sysrand (Inr \<lparr>cn_In = mem_reader (bytes_of ''OK '' @ l @ [10] @ wr_Out (cn_Out g')),
                                   cn_Out = \<lparr>wr_Out = [], wr_Room = None\<rparr>\<rparr>)) = None"
proof -
  let ?a = "\<lparr>ack_Status = StatusOK, ack_Digest = sha256 payload\<rparr>"
  have rr: "ReadRequest (mem_reader (requestFrame payload)) = (Inr payload, mem_reader [])"
    using ReadRequest_frame [OF assms(2), of "[]" None] by simp
  with assms(3,4) have g: "wr_Out (cn_Out g') = ackFrame ?a" "res = None" "injected = Some payload"
    by (auto simp: EntropyServeConn_def WriteAck_def WriteBytes_unbounded ackFrame_def)
  have ok: "10 \<notin> set (bytes_of ''OK '')" by (simp add: bytes_of_def)
  have line: "ReadString 10 (mem_reader (bytes_of ''OK '' @ l @ [10] @ ackFrame ?a)) = (None, bytes_of ''OK '' @ l @ [10], mem_reader (ackFrame ?a))"
    using ReadString_line [of 10 "bytes_of ''OK '' @ l" "ackFrame ?a" None] assms(5) ok by simp
  have ra: "ReadAck (mem_reader (ackFrame ?a)) = (Inr ?a, mem_reader [])"
    using ReadAck_frame [of ?a "[]" None] by simp
  have hs: "vsockHandshake port \<lparr>cn_In = mem_reader (bytes_of ''OK '' @ l @ [10] @ ackFrame ?a), cn_Out = \<lparr>wr_Out = [], wr_Room = None\<rparr>\<rparr>
      = (Inr (), \<lparr>cn_In = mem_reader (ackFrame ?a), cn_Out = \<lparr>wr_Out = connectLine port, wr_Room = None\<rparr>\<rparr>)" for port
    using line by (simp add: vsockHandshake_def WriteBytes_unbounded)
  show ?thesis
    using assms(1) g hs ra by (simp add: Reseed_def WriteRequest_unbounded [OF assms(2)])
qed

text \<open>
  C19. A reseed that succeeds was injected. When the host reports a reseed as done and the bytes
  it read after the handshake are what the guest handler wrote, then the handler handed a
  payload to the entropy pool, the pool took it, and that payload has the SHA-256 of the
  payload that the host drew. The request may have been changed on its way to the guest in any
  manner, and the writes of the guest may have been cut at any byte.
\<close>

theorem reseed_means_injected:
  assumes host: "Reseed rs sysrand (Inr c) = (None, Some c')" and drawn: "reseedPayload rs sysrand = Inr payload"
    and guest: "EntropyServeConn pool g = (res, g', injected)" and fresh: "wr_Out (cn_Out g) = []"
    and wire: "rd_Data (cn_In c) = line @ [10] @ wr_Out (cn_Out g')" "10 \<notin> set line"
  shows "\<exists>add p. pool = Some add \<and> injected = Some p \<and> add p \<and> sha256 p = sha256 payload"
proof -
  let ?want = "\<lparr>ack_Status = StatusOK, ack_Digest = sha256 payload\<rparr>"
  obtain line' rest where read: "rd_Data (cn_In c) = line' @ 10 # ackFrame ?want @ rest" "10 \<notin> set line'"
    using Reseed_ok [OF host drawn] by blast
  have "line @ 10 # wr_Out (cn_Out g') = line' @ 10 # (ackFrame ?want @ rest)"
    using read(1) wire(1) by (metis append_Cons append_Nil)
  then have out: "wr_Out (cn_Out g') = ackFrame ?want @ rest"
    by (rule first_line_unique [OF _ wire(2) read(2), THEN conjunct2])
  then have "wr_Out (cn_Out g') \<noteq> []" by (simp add: ackFrame_def)
  with guest fresh obtain add p s e w' where g: "pool = Some add" "injected = Some p"
    "s = (if add p then StatusOK else StatusError)" "WriteAck (cn_Out g) s (sha256 p) = (e, w')" "cn_Out g' = w'"
    by (auto simp: EntropyServeConn_def Let_def split: option.splits prod.splits sum.splits)
  let ?got = "\<lparr>ack_Status = s, ack_Digest = sha256 p\<rparr>"
  obtain k where "ackFrame ?want @ rest = take k (ackFrame ?got)"
    using WriteAck_prefix [OF g(4)] unfolding fresh append_Nil g(5) [symmetric] out by metis
  moreover have "length (ackFrame ?want) = length (ackFrame ?got)" by (simp add: ackFrame_def)
  ultimately have "ackFrame ?want = ackFrame ?got"
    by (rule prefix_take_full)
  then have "s = StatusOK" "sha256 p = sha256 payload" by (simp_all add: ackFrame_eq_iff)
  with g show ?thesis by (auto simp: split: if_splits)
qed

definition ex_reseeder :: VsockReseeder where
  "ex_reseeder = \<lparr>rs_Port = 0, rs_PayloadBytes = 3, rs_Rand = Some (mem_reader [7, 8, 9, 10])\<rparr>"

definition ex_guest :: Conn where
  "ex_guest = \<lparr>cn_In = mem_reader (requestFrame [7, 8, 9]), cn_Out = \<lparr>wr_Out = [], wr_Room = None\<rparr>\<rparr>"

theorem reseed_means_injected_witness:
  "\<exists>add p. Some (\<lambda>_. True) = Some add \<and> snd (snd (EntropyServeConn (Some (\<lambda>_. True)) ex_guest)) = Some p \<and>
     add p \<and> sha256 p = sha256 [7, 8, 9]"
proof -
  obtain res g' inj where g: "EntropyServeConn (Some (\<lambda>_. True)) ex_guest = (res, g', inj)" by (metis prod_cases3)
  have p: "reseedPayload ex_reseeder (mem_reader []) = Inr [7, 8, 9]"
    by (simp add: reseedPayload_def ex_reseeder_def ReadFull_def)
  let ?c = "\<lparr>cn_In = mem_reader (bytes_of ''OK '' @ [49] @ [10] @ wr_Out (cn_Out g')), cn_Out = \<lparr>wr_Out = [], wr_Room = None\<rparr>\<rparr>"
  have "fst (Reseed ex_reseeder (mem_reader []) (Inr ?c)) = None"
    using reseed_succeeds [OF p _ _ g [unfolded ex_guest_def], of "[49]"] by (simp add: payload_ok_def MaxPayloadBytes_def)
  then obtain c' where h: "Reseed ex_reseeder (mem_reader []) (Inr ?c) = (None, Some c')"
    using p by (auto simp: Reseed_def Let_def split: prod.splits sum.splits option.splits if_splits)
  have "\<exists>add p. Some (\<lambda>_. True) = Some add \<and> inj = Some p \<and> add p \<and> sha256 p = sha256 [7, 8, 9]"
    by (rule reseed_means_injected [OF h p g, of "bytes_of ''OK '' @ [49]"]) (simp_all add: ex_guest_def bytes_of_def)
  then show ?thesis by (simp add: g)
qed

section \<open>Identity: frames\<close>

abbreviation uniquifyDefaultVsockPort :: "32 word" where "uniquifyDefaultVsockPort \<equiv> 2601"
definition MaxFrameBytes :: nat where "MaxFrameBytes = 64 * 1024"
definition specMagic :: bytes where "specMagic = bytes_of ''SUNQ''"
definition reportMagic :: bytes where "reportMagic = bytes_of ''SUNA''"

record UniqSpec =
  us_MachineID :: string
  us_BootID :: string
  us_Hostname :: string
  us_PodIP :: string

record UniqReport =
  ur_Status :: byte
  ur_Error :: string
  ur_Digest :: string
  ur_MachineID :: string
  ur_BootID :: string
  ur_Hostname :: string
  ur_ObservedIPs :: "string list"
  ur_GuestCID :: "32 word"

datatype UniqError =
    EmptyFrame
  | FrameTooLarge nat
  | FrameHeaderWriteFailed
  | FrameBodyWriteFailed
  | FrameHeaderReadFailed IoError
  | BadFrameMagic bytes
  | FrameVersion byte
  | ZeroLengthFrame
  | FrameLengthExceeds nat
  | FrameBodyReadFailed IoError
  | MarshalFailed
  | DecodeFailed
  | MissingApplier
  | ApplyFailed
  | GuestStatus byte
  | ReportDigest
  | MachineIDMismatch
  | BootIDMismatch
  | HostnameMismatch
  | PodIPNotObserved
  | NoGuestCID
  | UniqDialFailed string
  | UniqHandshake EntropyError
  | NoReport UniqError

definition writeFrame :: "Writer \<Rightarrow> bytes \<Rightarrow> bytes \<Rightarrow> UniqError option \<times> Writer" where
  "writeFrame w magic body =
     (if length body = 0 then (Some EmptyFrame, w)
      else if length body > MaxFrameBytes then (Some (FrameTooLarge (length body)), w)
      else case WriteBytes w (magic @ [entropyProtocolVersion] @ to_be 4 (length body)) of
             (_, False, w1) \<Rightarrow> (Some FrameHeaderWriteFailed, w1)
           | (_, True, w1) \<Rightarrow>
               (case WriteBytes w1 body of
                  (_, False, w2) \<Rightarrow> (Some FrameBodyWriteFailed, w2)
                | (_, True, w2) \<Rightarrow> (None, w2)))"

definition readFrame :: "bytes \<Rightarrow> Reader \<Rightarrow> (UniqError + bytes) \<times> Reader" where
  "readFrame magic r =
     (case ReadFull r (4 + 1 + 4) of
        (Some e, _, r1) \<Rightarrow> (Inl (FrameHeaderReadFailed e), r1)
      | (None, header, r1) \<Rightarrow>
          if take 4 header \<noteq> magic then (Inl (BadFrameMagic (take 4 header)), r1)
          else if header ! 4 \<noteq> entropyProtocolVersion then (Inl (FrameVersion (header ! 4)), r1)
          else
            let n = from_be (take 4 (drop 5 header))
            in if n = 0 then (Inl ZeroLengthFrame, r1)
               else if n > MaxFrameBytes then (Inl (FrameLengthExceeds n), r1)
               else case ReadFull r1 n of
                      (Some e, _, r2) \<Rightarrow> (Inl (FrameBodyReadFailed e), r2)
                    | (None, body, r2) \<Rightarrow> (Inr body, r2))"

definition uniqFrame :: "bytes \<Rightarrow> bytes \<Rightarrow> bytes" where
  "uniqFrame magic b = magic @ [entropyProtocolVersion] @ to_be 4 (length b) @ b"

definition body_ok :: "bytes \<Rightarrow> bool" where
  "body_ok b \<longleftrightarrow> b \<noteq> [] \<and> length b \<le> MaxFrameBytes"

lemma readFrame_frame:
  assumes "length magic = 4" "body_ok b"
  shows "readFrame magic \<lparr>rd_Data = uniqFrame magic b @ rest, rd_Err = e\<rparr> = (Inr b, \<lparr>rd_Data = rest, rd_Err = e\<rparr>)"
proof -
  let ?h = "magic @ [entropyProtocolVersion] @ to_be 4 (length b)"
  have n: "from_be (to_be 4 (length b)) = length b"
    using assms by (simp add: from_be_to_be body_ok_def MaxFrameBytes_def)
  have "uniqFrame magic b @ rest = ?h @ (b @ rest)" by (simp add: uniqFrame_def)
  then have "ReadFull \<lparr>rd_Data = uniqFrame magic b @ rest, rd_Err = e\<rparr> (4 + 1 + 4)
      = (None, ?h, \<lparr>rd_Data = b @ rest, rd_Err = e\<rparr>)"
    by (simp only: ReadFull_append length_append list.size length_to_be assms(1))
  then show ?thesis
    using assms n by (simp add: readFrame_def body_ok_def nth_append)
qed

lemma readFrame_only:
  assumes "readFrame magic r = (Inr b, r')"
  shows "body_ok b \<and> rd_Data r = uniqFrame magic b @ rd_Data r'"
proof -
  from assms obtain h r1 where h: "ReadFull r (4 + 1 + 4) = (None, h, r1)"
    "take 4 h = magic" "h ! 4 = entropyProtocolVersion"
    "from_be (take 4 (drop 5 h)) \<noteq> 0" "from_be (take 4 (drop 5 h)) \<le> MaxFrameBytes"
    "ReadFull r1 (from_be (take 4 (drop 5 h))) = (None, b, r')"
    unfolding readFrame_def
    by (auto simp: Let_def split: prod.splits option.splits if_splits)
  from h(1) have l: "length h = 4 + 1 + 4" by (simp add: ReadFull_ok_iff)
  obtain m v k where k: "h = m @ [v] @ k" "length k = 4" "take 4 h = m" "h ! 4 = v" "drop 5 h = k"
    by (rule header_split [OF l]) auto
  with h have n: "from_be k = length b" "rd_Data r1 = b @ rd_Data r'" by (simp_all add: ReadFull_ok_iff)
  have "h = magic @ [entropyProtocolVersion] @ to_be 4 (length b)"
    using k(1,3,4) h(2,3) to_be_from_be [OF k(2)] n(1) by simp
  moreover have "rd_Data r = h @ rd_Data r1" using h(1) by (simp add: ReadFull_ok_iff)
  moreover have "body_ok b" using h(4,5) k(2,5) n(1) by (auto simp: body_ok_def)
  ultimately show ?thesis using n(2) by (simp add: uniqFrame_def)
qed

interpretation spec_frame: frame_codec "readFrame specMagic" "uniqFrame specMagic" body_ok
  by unfold_locales (erule readFrame_frame [rotated], simp add: specMagic_def, erule readFrame_only)

interpretation report_frame: frame_codec "readFrame reportMagic" "uniqFrame reportMagic" body_ok
  by unfold_locales (erule readFrame_frame [rotated], simp add: reportMagic_def, erule readFrame_only)

lemma writeFrame_ok:
  "writeFrame w magic b = (None, w') \<Longrightarrow> body_ok b \<and> wr_Out w' = wr_Out w @ uniqFrame magic b"
  by (auto simp: writeFrame_def uniqFrame_def body_ok_def
      split: if_splits prod.splits bool.splits dest!: WriteBytes_ok)

text \<open>The encoding of the two messages is Go's \<open>encoding/json\<close>, a parameter.\<close>

record UniqJson =
  uj_MarshalSpec :: "UniqSpec \<Rightarrow> bytes option"
  uj_UnmarshalSpec :: "bytes \<Rightarrow> UniqSpec option"
  uj_MarshalReport :: "UniqReport \<Rightarrow> bytes option"
  uj_UnmarshalReport :: "bytes \<Rightarrow> UniqReport option"

definition WriteSpec :: "UniqJson \<Rightarrow> Writer \<Rightarrow> UniqSpec \<Rightarrow> (UniqError + bytes) \<times> Writer" where
  "WriteSpec js w spec =
     (case uj_MarshalSpec js spec of
        None \<Rightarrow> (Inl MarshalFailed, w)
      | Some body \<Rightarrow> (case writeFrame w specMagic body of
            (Some e, w1) \<Rightarrow> (Inl e, w1)
          | (None, w1) \<Rightarrow> (Inr body, w1)))"

definition ReadSpec :: "UniqJson \<Rightarrow> Reader \<Rightarrow> (UniqError + UniqSpec \<times> bytes) \<times> Reader" where
  "ReadSpec js r =
     (case readFrame specMagic r of
        (Inl e, r1) \<Rightarrow> (Inl e, r1)
      | (Inr body, r1) \<Rightarrow> (case uj_UnmarshalSpec js body of
            None \<Rightarrow> (Inl DecodeFailed, r1)
          | Some spec \<Rightarrow> (Inr (spec, body), r1)))"

definition WriteReport :: "UniqJson \<Rightarrow> Writer \<Rightarrow> UniqReport \<Rightarrow> UniqError option \<times> Writer" where
  "WriteReport js w rep =
     (case uj_MarshalReport js rep of
        None \<Rightarrow> (Some MarshalFailed, w)
      | Some body \<Rightarrow> writeFrame w reportMagic body)"

definition ReadReport :: "UniqJson \<Rightarrow> Reader \<Rightarrow> (UniqError + UniqReport) \<times> Reader" where
  "ReadReport js r =
     (case readFrame reportMagic r of
        (Inl e, r1) \<Rightarrow> (Inl e, r1)
      | (Inr body, r1) \<Rightarrow> (case uj_UnmarshalReport js body of
            None \<Rightarrow> (Inl DecodeFailed, r1)
          | Some rep \<Rightarrow> (Inr rep, r1)))"

definition DigestHex :: "bytes \<Rightarrow> string" where
  "DigestHex b = hex_Encode (sha256 b)"

section \<open>Identity: guest and host\<close>

text \<open>
  The three interfaces of the guest handler, over a guest state. Each change gives the error,
  if it did not take effect, and the state after it.
\<close>

record 'g Appliers =
  ap_MachineID :: "string \<Rightarrow> 'g \<Rightarrow> string option \<times> 'g"
  ap_BootID :: "string \<Rightarrow> 'g \<Rightarrow> string option \<times> 'g"
  ap_Hostname :: "string \<Rightarrow> 'g \<Rightarrow> string option \<times> 'g"
  ap_Reconcile :: "string \<Rightarrow> 'g \<Rightarrow> string list \<times> string option \<times> 'g"
  ap_Read :: "'g \<Rightarrow> string \<times> string \<times> string \<times> string option"
  ap_LocalCID :: "'g \<Rightarrow> 32 word \<times> string option"

definition failReport :: "string \<Rightarrow> string option \<Rightarrow> UniqReport \<Rightarrow> UniqReport" where
  "failReport what err rep = (case err of
      None \<Rightarrow> rep
    | Some e \<Rightarrow> rep\<lparr>ur_Status := StatusError,
        ur_Error := (if ur_Error rep = '''' then what @ '': '' @ e else ur_Error rep @ ''; '' @ what @ '': '' @ e)\<rparr>)"

definition zero_UniqReport :: UniqReport where
  "zero_UniqReport = \<lparr>ur_Status = StatusOK, ur_Error = '''', ur_Digest = '''', ur_MachineID = '''', ur_BootID = '''',
     ur_Hostname = '''', ur_ObservedIPs = [], ur_GuestCID = 0\<rparr>"

definition uniqApply :: "'g Appliers \<Rightarrow> UniqSpec \<Rightarrow> 'g \<Rightarrow> UniqReport \<times> 'g" where
  "uniqApply ap spec g0 =
     (let (e1, g1) = ap_MachineID ap (us_MachineID spec) g0;
          rep = failReport ''machine-id'' e1 zero_UniqReport;
          (e2, g2) = ap_BootID ap (us_BootID spec) g1;
          rep = failReport ''boot-id'' e2 rep;
          (e3, g3) = ap_Hostname ap (us_Hostname spec) g2;
          rep = failReport ''hostname'' e3 rep;
          (observed, e4, g4) = ap_Reconcile ap (us_PodIP spec) g3;
          rep = (failReport ''network'' e4 rep)\<lparr>ur_ObservedIPs := observed\<rparr>;
          (mid, bid, hn, e5) = ap_Read ap g4;
          rep = (failReport ''read identity'' e5 rep)\<lparr>ur_MachineID := mid, ur_BootID := bid, ur_Hostname := hn\<rparr>;
          (cid, e6) = ap_LocalCID ap g4;
          rep = (failReport ''local cid'' e6 rep)\<lparr>ur_GuestCID := cid\<rparr>
      in (rep, g4))"

definition UniqServeConn :: "UniqJson \<Rightarrow> 'g Appliers option \<Rightarrow> Conn \<Rightarrow> 'g \<Rightarrow> UniqError option \<times> Conn \<times> 'g" where
  "UniqServeConn js appliers c g =
     (case appliers of
        None \<Rightarrow> (Some MissingApplier, c, g)
      | Some ap \<Rightarrow>
          (case ReadSpec js (cn_In c) of
             (Inl e, r) \<Rightarrow> (Some e, c\<lparr>cn_In := r\<rparr>, g)
           | (Inr (spec, raw), r) \<Rightarrow>
               let (rep, g') = uniqApply ap spec g;
                   rep = rep\<lparr>ur_Digest := DigestHex raw\<rparr>
               in case WriteReport js (cn_Out c) rep of
                    (Some e, w) \<Rightarrow> (Some e, \<lparr>cn_In = r, cn_Out = w\<rparr>, g')
                  | (None, w) \<Rightarrow> (if ur_Status rep \<noteq> StatusOK then Some ApplyFailed else None, \<lparr>cn_In = r, cn_Out = w\<rparr>, g')))"

text \<open>
  Host names. A Sandbox name is ASCII, so lower-casing and the character class work on single
  characters.
\<close>

definition to_lower :: "char \<Rightarrow> char" where
  "to_lower c = (if 65 \<le> (of_char c :: nat) \<and> (of_char c :: nat) \<le> 90 then char_of ((of_char c :: nat) + 32) else c)"

definition hostname_char :: "char \<Rightarrow> bool" where
  "hostname_char c \<longleftrightarrow>
     97 \<le> (of_char c :: nat) \<and> (of_char c :: nat) \<le> 122 \<or> is_digit c \<or> c = CHR ''-''"

definition trim_dashes :: "string \<Rightarrow> string" where
  "trim_dashes s = rev (dropWhile (\<lambda>c. c = CHR ''-'') (rev (dropWhile (\<lambda>c. c = CHR ''-'') s)))"

definition SanitizeHostname :: "string \<Rightarrow> string" where
  "SanitizeHostname name =
     (let s = map (\<lambda>c. if hostname_char c then c else CHR ''-'') (map to_lower name);
          s = trim_dashes s;
          s = (if length s > 63 then trim_dashes (take 63 s) else s)
      in if s = '''' then ''setec-sandbox'' else s)"

text \<open>The random bytes of the machine id and the fresh UUID are arguments.\<close>

definition NewUniqSpec :: "bytes option \<Rightarrow> string \<Rightarrow> string \<Rightarrow> string \<Rightarrow> UniqSpec option" where
  "NewUniqSpec raw uuid hostname podIP =
     map_option (\<lambda>raw. \<lparr>us_MachineID = hex_Encode raw, us_BootID = uuid,
       us_Hostname = SanitizeHostname hostname, us_PodIP = podIP\<rparr>) raw"

definition UniqVerify :: "UniqSpec \<Rightarrow> bytes \<Rightarrow> UniqReport \<Rightarrow> UniqError option" where
  "UniqVerify spec rawSpec report =
     (if ur_Status report \<noteq> StatusOK then Some (GuestStatus (ur_Status report))
      else if ur_Digest report \<noteq> DigestHex rawSpec then Some ReportDigest
      else if ur_MachineID report \<noteq> us_MachineID spec then Some MachineIDMismatch
      else if ur_BootID report \<noteq> us_BootID spec then Some BootIDMismatch
      else if ur_Hostname report \<noteq> us_Hostname spec then Some HostnameMismatch
      else if us_PodIP spec \<noteq> '''' \<and> us_PodIP spec \<notin> set (ur_ObservedIPs report) then Some PodIPNotObserved
      else if ur_GuestCID report = 0 then Some NoGuestCID
      else None)"

definition Uniquify :: "UniqJson \<Rightarrow> 32 word \<Rightarrow> string + Conn \<Rightarrow> UniqSpec \<Rightarrow> (UniqError option \<times> UniqReport) \<times> Conn option" where
  "Uniquify js uport dial spec =
     (let port = (if uport = 0 then uniquifyDefaultVsockPort else uport) in
      case dial of
        Inl e \<Rightarrow> ((Some (UniqDialFailed e), zero_UniqReport), None)
      | Inr conn \<Rightarrow>
          (case vsockHandshake port conn of
             (Inl e, c) \<Rightarrow> ((Some (UniqHandshake e), zero_UniqReport), Some c)
           | (Inr _, c) \<Rightarrow>
               (case WriteSpec js (cn_Out c) spec of
                  (Inl e, w) \<Rightarrow> ((Some e, zero_UniqReport), Some (c\<lparr>cn_Out := w\<rparr>))
                | (Inr raw, w) \<Rightarrow>
                    (case ReadReport js (cn_In c) of
                       (Inl e, r) \<Rightarrow> ((Some (NoReport e), zero_UniqReport), Some \<lparr>cn_In = r, cn_Out = w\<rparr>)
                     | (Inr report, r) \<Rightarrow> ((UniqVerify spec raw report, report), Some \<lparr>cn_In = r, cn_Out = w\<rparr>)))))"

lemma UniqVerify_None_iff:
  "UniqVerify spec raw rep = None \<longleftrightarrow>
     ur_Status rep = StatusOK \<and> ur_Digest rep = DigestHex raw \<and> ur_MachineID rep = us_MachineID spec \<and>
     ur_BootID rep = us_BootID spec \<and> ur_Hostname rep = us_Hostname spec \<and>
     (us_PodIP spec = '''' \<or> us_PodIP spec \<in> set (ur_ObservedIPs rep)) \<and> ur_GuestCID rep \<noteq> 0"
  by (simp add: UniqVerify_def)

lemma trim_dashes_ends:
  "trim_dashes s \<noteq> [] \<Longrightarrow> hd (trim_dashes s) \<noteq> CHR ''-'' \<and> last (trim_dashes s) \<noteq> CHR ''-''"
proof -
  let ?P = "\<lambda>c. c = CHR ''-''"
  let ?t = "dropWhile ?P s"
  assume ne: "trim_dashes s \<noteq> []"
  then have d: "dropWhile ?P (rev ?t) \<noteq> []" by (simp add: trim_dashes_def)
  then have l: "last (trim_dashes s) \<noteq> CHR ''-''"
    using hd_dropWhile [of ?P "rev ?t"] by (simp add: trim_dashes_def last_rev)
  have "rev ?t = takeWhile ?P (rev ?t) @ dropWhile ?P (rev ?t)" by simp
  then have x: "?t = trim_dashes s @ rev (takeWhile ?P (rev ?t))"
    unfolding trim_dashes_def by (metis rev_append rev_rev_ident)
  with ne have "?t \<noteq> []" by (metis append_is_Nil_conv)
  then have "hd ?t \<noteq> CHR ''-''" by (rule hd_dropWhile)
  with x ne have "hd (trim_dashes s) \<noteq> CHR ''-''" by (metis hd_append2)
  with l show ?thesis by blast
qed

lemma set_trim_dashes: "set (trim_dashes s) \<subseteq> set s"
proof
  fix c
  assume "c \<in> set (trim_dashes s)"
  then have "c \<in> set (dropWhile (\<lambda>c. c = CHR ''-'') (rev (dropWhile (\<lambda>c. c = CHR ''-'') s)))"
    by (simp add: trim_dashes_def)
  then have "c \<in> set (rev (dropWhile (\<lambda>c. c = CHR ''-'') s))" by (rule set_dropWhileD)
  then show "c \<in> set s" unfolding set_rev by (rule set_dropWhileD)
qed

lemma length_trim_dashes: "length (trim_dashes s) \<le> length s"
  unfolding trim_dashes_def length_rev by (metis length_dropWhile_le le_trans length_rev)

definition hostname_label :: "string \<Rightarrow> bool" where
  "hostname_label s \<longleftrightarrow> s \<noteq> [] \<and> length s \<le> 63 \<and> (\<forall>c\<in>set s. hostname_char c) \<and>
     hd s \<noteq> CHR ''-'' \<and> last s \<noteq> CHR ''-''"

lemma hostname_label_default: "hostname_label ''setec-sandbox''"
  by (simp add: hostname_label_def hostname_char_def)

lemma SanitizeHostname_label: "hostname_label (SanitizeHostname name)"
proof -
  define s where "s = map (\<lambda>c. if hostname_char c then c else CHR ''-'') (map to_lower name)"
  have dash: "hostname_char CHR ''-''" by (simp add: hostname_char_def)
  then have s: "\<forall>c\<in>set s. hostname_char c" by (auto simp: s_def)
  have "hostname_label (trim_dashes s)" if "trim_dashes s \<noteq> []" "length (trim_dashes s) \<le> 63"
    using that s set_trim_dashes [of s] trim_dashes_ends [OF that(1)] by (auto simp: hostname_label_def)
  moreover have "hostname_label (trim_dashes t)" if "t = take 63 (trim_dashes s)" "trim_dashes t \<noteq> []" for t
    using that s set_trim_dashes [of s] set_trim_dashes [of t] trim_dashes_ends [OF that(2)] length_trim_dashes [of t]
      set_take_subset [of 63 "trim_dashes s"]
    by (auto simp: hostname_label_def subset_iff)
  ultimately show ?thesis
    unfolding SanitizeHostname_def Let_def s_def [symmetric] using hostname_label_default by auto
qed

lemma take_of_prefix: "take k h = take (min k (length h)) (h @ b)"
  by (simp add: min_def)

lemma take_past_prefix: "h @ take k b = take (length h + k) (h @ b)"
  by simp

lemma writeFrame_prefix:
  assumes "writeFrame w magic b = (e, w')"
  shows "\<exists>k. wr_Out w' = wr_Out w @ take k (uniqFrame magic b)"
proof -
  let ?h = "magic @ [entropyProtocolVersion] @ to_be 4 (length b)"
  have f: "uniqFrame magic b = ?h @ b" by (simp add: uniqFrame_def)
  consider "w' = w" | n where "WriteBytes w ?h = (n, False, w')"
    | n w1 m ok where "WriteBytes w ?h = (n, True, w1)" "WriteBytes w1 b = (m, ok, w')"
    using assms unfolding writeFrame_def by (auto split: if_splits prod.splits bool.splits)
  then show ?thesis
  proof cases
    case 1
    then show ?thesis by (intro exI [of _ 0]) simp
  next
    case 2
    then obtain k where "wr_Out w' = wr_Out w @ take k ?h" using WriteBytes_prefix [of w ?h] by blast
    then have "wr_Out w' = wr_Out w @ take (min k (length ?h)) (uniqFrame magic b)"
      unfolding f by (simp only: take_of_prefix [of k ?h b])
    then show ?thesis ..
  next
    case 3
    obtain k where "wr_Out w' = wr_Out w1 @ take k b" using WriteBytes_prefix [OF 3(2)] by blast
    moreover have "wr_Out w1 = wr_Out w @ ?h" using WriteBytes_ok [OF 3(1)] by simp
    ultimately have "wr_Out w' = wr_Out w @ take (length ?h + k) (uniqFrame magic b)"
      unfolding f by (metis append_assoc take_past_prefix)
    then show ?thesis ..
  qed
qed

lemma failReport_fields [simp]:
  "ur_MachineID (failReport what e rep) = ur_MachineID rep" "ur_BootID (failReport what e rep) = ur_BootID rep"
  "ur_Hostname (failReport what e rep) = ur_Hostname rep" "ur_GuestCID (failReport what e rep) = ur_GuestCID rep"
  "ur_ObservedIPs (failReport what e rep) = ur_ObservedIPs rep" "ur_Digest (failReport what e rep) = ur_Digest rep"
  by (simp_all add: failReport_def split: option.splits)

lemma uniqApply_report:
  assumes "uniqApply ap spec g = (rep, g')"
  shows "ur_MachineID rep = fst (ap_Read ap g')" "ur_BootID rep = fst (snd (ap_Read ap g'))"
    "ur_Hostname rep = fst (snd (snd (ap_Read ap g')))" "ur_GuestCID rep = fst (ap_LocalCID ap g')"
  using assms by (auto simp: uniqApply_def Let_def split_def)

lemma Uniquify_ok:
  assumes "Uniquify js port (Inr c) spec = ((None, report), Some c')"
  obtains line raw body rest where "rd_Data (cn_In c) = line @ 10 # uniqFrame reportMagic body @ rest" "10 \<notin> set line"
    "uj_MarshalSpec js spec = Some raw" "body_ok body" "uj_UnmarshalReport js body = Some report" "UniqVerify spec raw report = None"
proof -
  from assms obtain p c1 raw w r where h: "vsockHandshake p c = (Inr (), c1)"
    "WriteSpec js (cn_Out c1) spec = (Inr raw, w)" "ReadReport js (cn_In c1) = (Inr report, r)" "UniqVerify spec raw report = None"
    unfolding Uniquify_def by (auto simp: Let_def split: prod.splits sum.splits)
  from h(1) obtain line where l: "rd_Data (cn_In c) = line @ 10 # rd_Data (cn_In c1)" "10 \<notin> set line"
    by (rule vsockHandshake_ok)
  from h(3) obtain body where b: "readFrame reportMagic (cn_In c1) = (Inr body, r)" "uj_UnmarshalReport js body = Some report"
    unfolding ReadReport_def by (auto split: prod.splits sum.splits option.splits)
  from h(2) have "uj_MarshalSpec js spec = Some raw"
    unfolding WriteSpec_def by (auto split: option.splits prod.splits)
  with l b h(4) readFrame_only [OF b(1)] show thesis by (intro that) auto
qed

text \<open>
  C20. A machine that passes the identity check has the identity it was given. When the host
  accepts the report and the bytes it read after the handshake are what the guest handler
  wrote for the directive that it read, then the machine id, the boot id and the host name
  that the guest reads back after the changes are the directed ones, the Pod address is
  among the addresses observed, the vsock address is known, and the directive that the guest
  applied has the digest of the one that the host sent. The directive may have been changed
  on its way, and the report may have been cut at any byte.
\<close>

theorem uniquify_means_applied:
  assumes host: "Uniquify js port (Inr c) spec = ((None, report), Some c')"
    and guest: "ReadSpec js (cn_In gc) = (Inr (got, raw'), r)" "UniqServeConn js (Some ap) gc g = (e, gc', g')" "wr_Out (cn_Out gc) = []"
    and applied: "uniqApply ap got g = (rep, g')"
    and json: "uj_MarshalReport js (rep\<lparr>ur_Digest := DigestHex raw'\<rparr>) = Some body"
      "uj_UnmarshalReport js body = Some (rep\<lparr>ur_Digest := DigestHex raw'\<rparr>)"
    and wire: "rd_Data (cn_In c) = line @ [10] @ wr_Out (cn_Out gc')" "10 \<notin> set line"
  shows "fst (ap_Read ap g') = us_MachineID spec \<and> fst (snd (ap_Read ap g')) = us_BootID spec \<and>
    fst (snd (snd (ap_Read ap g'))) = us_Hostname spec \<and> fst (ap_LocalCID ap g') \<noteq> 0 \<and>
    (us_PodIP spec \<noteq> '''' \<longrightarrow> us_PodIP spec \<in> set (ur_ObservedIPs rep)) \<and>
    ur_Status rep = StatusOK \<and> (\<exists>raw. uj_MarshalSpec js spec = Some raw \<and> DigestHex raw' = DigestHex raw)"
proof -
  obtain line' raw b rest where h: "rd_Data (cn_In c) = line' @ 10 # uniqFrame reportMagic b @ rest" "10 \<notin> set line'"
    "uj_MarshalSpec js spec = Some raw" "body_ok b" "uj_UnmarshalReport js b = Some report" "UniqVerify spec raw report = None"
    by (rule Uniquify_ok [OF host])
  have "line @ 10 # wr_Out (cn_Out gc') = line' @ 10 # (uniqFrame reportMagic b @ rest)"
    using h(1) wire(1) by (metis append_Cons append_Nil)
  then have out: "wr_Out (cn_Out gc') = uniqFrame reportMagic b @ rest"
    by (rule first_line_unique [OF _ wire(2) h(2), THEN conjunct2])
  from guest(1,2) applied json(1) obtain w e' where w: "writeFrame (cn_Out gc) reportMagic body = (e', w)" "cn_Out gc' = w"
    by (auto simp: UniqServeConn_def WriteReport_def Let_def split: prod.splits option.splits)
  obtain k where "wr_Out w = take k (uniqFrame reportMagic body)"
    using writeFrame_prefix [OF w(1)] guest(3) by auto
  then have "uniqFrame reportMagic body = (uniqFrame reportMagic b @ rest) @ drop k (uniqFrame reportMagic body)"
    unfolding out [unfolded w(2), symmetric] by simp
  then have full: "uniqFrame reportMagic body @ [] = uniqFrame reportMagic b @ (rest @ drop k (uniqFrame reportMagic body))"
    by simp
  have "body_ok body"
    using w(1) out w(2) guest(3) by (auto simp: writeFrame_def body_ok_def uniqFrame_def split: if_splits)
  then have "b = body" using report_frame.enc_unique(1) [OF _ h(4) full] by simp
  then have "report = rep\<lparr>ur_Digest := DigestHex raw'\<rparr>" using h(5) json(2) by simp
  with h(3,6) uniqApply_report [OF applied] show ?thesis by (auto simp: UniqVerify_None_iff)
qed

definition ex_spec :: UniqSpec where
  "ex_spec = \<lparr>us_MachineID = ''0a'', us_BootID = ''1b'', us_Hostname = ''sb'', us_PodIP = ''10.1.0.7''\<rparr>"

definition ex_appliers :: "(string \<times> string \<times> string) Appliers" where
  "ex_appliers = \<lparr>ap_MachineID = (\<lambda>i (m, b, h). (None, (i, b, h))), ap_BootID = (\<lambda>i (m, b, h). (None, (m, i, h))),
     ap_Hostname = (\<lambda>i (m, b, h). (None, (m, b, i))), ap_Reconcile = (\<lambda>ip g. ([ip], None, g)),
     ap_Read = (\<lambda>(m, b, h). (m, b, h, None)), ap_LocalCID = (\<lambda>g. (3, None))\<rparr>"

definition ex_report :: UniqReport where
  "ex_report = fst (uniqApply ex_appliers ex_spec (''old'', ''old'', ''old''))"

definition ex_json :: UniqJson where
  "ex_json = \<lparr>uj_MarshalSpec = (\<lambda>_. Some [1]), uj_UnmarshalSpec = (\<lambda>_. Some ex_spec), uj_MarshalReport = (\<lambda>_. Some [2]),
     uj_UnmarshalReport = (\<lambda>_. Some (ex_report\<lparr>ur_Digest := DigestHex [1]\<rparr>))\<rparr>"

abbreviation ex_conn :: "bytes \<Rightarrow> Conn" where
  "ex_conn bs \<equiv> \<lparr>cn_In = mem_reader bs, cn_Out = \<lparr>wr_Out = [], wr_Room = None\<rparr>\<rparr>"

lemma ex_apply: "uniqApply ex_appliers ex_spec (''old'', ''old'', ''old'') = (ex_report, (''0a'', ''1b'', ''sb''))"
  unfolding ex_report_def by (simp add: uniqApply_def ex_appliers_def ex_spec_def)

lemma ex_read_spec: "ReadSpec ex_json (mem_reader (uniqFrame specMagic [1])) = (Inr (ex_spec, [1]), mem_reader [])"
  using readFrame_frame [of specMagic "[1]" "[]" None]
  by (simp add: ReadSpec_def ex_json_def body_ok_def MaxFrameBytes_def specMagic_def)

lemma ex_serve:
  "UniqServeConn ex_json (Some ex_appliers) (ex_conn (uniqFrame specMagic [1])) (''old'', ''old'', ''old'') =
     (None, \<lparr>cn_In = mem_reader [], cn_Out = \<lparr>wr_Out = uniqFrame reportMagic [2], wr_Room = None\<rparr>\<rparr>, (''0a'', ''1b'', ''sb''))"
proof -
  have "ur_Status ex_report = StatusOK"
    by (simp add: ex_report_def uniqApply_def ex_appliers_def ex_spec_def failReport_def zero_UniqReport_def)
  moreover have "writeFrame \<lparr>wr_Out = [], wr_Room = None\<rparr> reportMagic [2] = (None, \<lparr>wr_Out = uniqFrame reportMagic [2], wr_Room = None\<rparr>)"
    by (simp add: writeFrame_def WriteBytes_unbounded uniqFrame_def MaxFrameBytes_def)
  ultimately show ?thesis
    by (simp add: UniqServeConn_def ex_read_spec ex_apply WriteReport_def ex_json_def [THEN arg_cong [of _ _ uj_MarshalReport]])
qed

lemma ex_uniquify:
  "\<exists>c'. Uniquify ex_json 0 (Inr (ex_conn (bytes_of ''OK 7'' @ [10] @ uniqFrame reportMagic [2]))) ex_spec
     = ((None, ex_report\<lparr>ur_Digest := DigestHex [1]\<rparr>), Some c')"
proof -
  have line: "ReadString 10 (mem_reader (bytes_of ''OK 7'' @ [10] @ uniqFrame reportMagic [2])) = (None, bytes_of ''OK 7'' @ [10], mem_reader (uniqFrame reportMagic [2]))"
    using ReadString_line [of 10 "bytes_of ''OK 7''" "uniqFrame reportMagic [2]" None] by (simp add: bytes_of_def)
  have hs: "vsockHandshake p (ex_conn (bytes_of ''OK 7'' @ [10] @ uniqFrame reportMagic [2]))
      = (Inr (), \<lparr>cn_In = mem_reader (uniqFrame reportMagic [2]), cn_Out = \<lparr>wr_Out = connectLine p, wr_Room = None\<rparr>\<rparr>)" for p
    using line by (simp add: vsockHandshake_def WriteBytes_unbounded bytes_of_def)
  have rr: "ReadReport ex_json (mem_reader (uniqFrame reportMagic [2])) = (Inr (ex_report\<lparr>ur_Digest := DigestHex [1]\<rparr>), mem_reader [])"
    using readFrame_frame [of reportMagic "[2]" "[]" None]
    by (simp add: ReadReport_def ex_json_def body_ok_def MaxFrameBytes_def reportMagic_def)
  have "UniqVerify ex_spec [1] (ex_report\<lparr>ur_Digest := DigestHex [1]\<rparr>) = None"
    by (simp add: UniqVerify_None_iff ex_report_def uniqApply_def ex_appliers_def ex_spec_def failReport_def zero_UniqReport_def)
  then show ?thesis
    using hs rr by (simp add: Uniquify_def WriteSpec_def writeFrame_def WriteBytes_unbounded MaxFrameBytes_def
        ex_json_def [THEN arg_cong [of _ _ uj_MarshalSpec]])
qed

theorem uniquify_means_applied_witness:
  "fst (ap_Read ex_appliers (''0a'', ''1b'', ''sb'')) = us_MachineID ex_spec \<and> ur_Status ex_report = StatusOK"
proof -
  obtain c' where h: "Uniquify ex_json 0 (Inr (ex_conn (bytes_of ''OK 7'' @ [10] @ uniqFrame reportMagic [2]))) ex_spec
     = ((None, ex_report\<lparr>ur_Digest := DigestHex [1]\<rparr>), Some c')"
    using ex_uniquify by blast
  show ?thesis
    using uniquify_means_applied [OF h _ ex_serve _ ex_apply, of "[1]" _ "[2]" "bytes_of ''OK 7''"] ex_read_spec
    by (simp add: ex_json_def [THEN arg_cong [of _ _ uj_MarshalReport]] ex_json_def [THEN arg_cong [of _ _ uj_UnmarshalReport]] bytes_of_def)
qed

section \<open>The exec stream of the guest agent\<close>

definition MaxFrame :: nat where "MaxFrame = 2 ^ 16"

abbreviation FrameStdin :: byte where "FrameStdin \<equiv> 0"
abbreviation FrameStdout :: byte where "FrameStdout \<equiv> 1"
abbreviation FrameStderr :: byte where "FrameStderr \<equiv> 2"
abbreviation FrameExit :: byte where "FrameExit \<equiv> 3"
abbreviation FrameStdinEOF :: byte where "FrameStdinEOF \<equiv> 4"

datatype FrameError = ExecFrameTooLarge nat | ExecWriteFailed | ExecReadFailed IoError

definition WriteFrame :: "Writer \<Rightarrow> byte \<Rightarrow> bytes \<Rightarrow> FrameError option \<times> Writer" where
  "WriteFrame w t bs =
     (if length bs > MaxFrame then (Some (ExecFrameTooLarge (length bs)), w)
      else case WriteBytes w (t # to_be 4 (length bs)) of
             (_, False, w1) \<Rightarrow> (Some ExecWriteFailed, w1)
           | (_, True, w1) \<Rightarrow>
               (case WriteBytes w1 bs of
                  (_, False, w2) \<Rightarrow> (Some ExecWriteFailed, w2)
                | (_, True, w2) \<Rightarrow> (None, w2)))"

definition ReadFrame :: "Reader \<Rightarrow> (FrameError + byte \<times> bytes) \<times> Reader" where
  "ReadFrame r =
     (case ReadFull r 5 of
        (Some e, _, r1) \<Rightarrow> (Inl (ExecReadFailed e), r1)
      | (None, hdr, r1) \<Rightarrow>
          let n = from_be (drop 1 hdr)
          in if n > MaxFrame then (Inl (ExecFrameTooLarge n), r1)
             else case ReadFull r1 n of
                    (Some e, _, r2) \<Rightarrow> (Inl (ExecReadFailed e), r2)
                  | (None, bs, r2) \<Rightarrow> (Inr (hdr ! 0, bs), r2))"

text \<open>\<open>int32(code)\<close> keeps the low 32 bits; \<open>int(int32(...))\<close> reads them as a signed number.\<close>

definition ExitFrame :: "int \<Rightarrow> bytes" where
  "ExitFrame code = to_be 4 (unat (word_of_int code :: 32 word))"

definition ExitCode :: "bytes \<Rightarrow> int" where
  "ExitCode bs = (if length bs \<noteq> 4 then 255 else sint (word_of_nat (from_be bs) :: 32 word))"

definition execFrame :: "byte \<times> bytes \<Rightarrow> bytes" where
  "execFrame = (\<lambda>(t, bs). t # to_be 4 (length bs) @ bs)"

definition exec_ok :: "byte \<times> bytes \<Rightarrow> bool" where
  "exec_ok = (\<lambda>(t, bs). length bs \<le> MaxFrame)"

lemma ReadFrame_frame:
  assumes "exec_ok f"
  shows "ReadFrame \<lparr>rd_Data = execFrame f @ rest, rd_Err = e\<rparr> = (Inr f, \<lparr>rd_Data = rest, rd_Err = e\<rparr>)"
proof -
  obtain t bs where f: "f = (t, bs)" by fastforce
  let ?h = "t # to_be 4 (length bs)"
  have n: "from_be (to_be 4 (length bs)) = length bs"
    using assms f by (simp add: from_be_to_be exec_ok_def MaxFrame_def)
  have "execFrame f @ rest = ?h @ (bs @ rest)" by (simp add: execFrame_def f)
  moreover have "length ?h = 5" by simp
  ultimately have "ReadFull \<lparr>rd_Data = execFrame f @ rest, rd_Err = e\<rparr> 5 = (None, ?h, \<lparr>rd_Data = bs @ rest, rd_Err = e\<rparr>)"
    by (simp only: ReadFull_append)
  then show ?thesis using assms n by (simp add: ReadFrame_def exec_ok_def f)
qed

lemma ReadFrame_only:
  assumes "ReadFrame r = (Inr f, r')"
  shows "exec_ok f \<and> rd_Data r = execFrame f @ rd_Data r'"
proof -
  from assms obtain h bs r1 where h: "ReadFull r 5 = (None, h, r1)" "from_be (drop 1 h) \<le> MaxFrame"
    "ReadFull r1 (from_be (drop 1 h)) = (None, bs, r')" "f = (h ! 0, bs)"
    unfolding ReadFrame_def by (auto simp: Let_def split: prod.splits option.splits if_splits)
  then have "length h = Suc 4" by (simp add: ReadFull_ok_iff)
  then obtain t k where k: "h = t # k" "length k = 4" by (cases h) auto
  with h have n: "from_be k = length bs" "rd_Data r1 = bs @ rd_Data r'" by (simp_all add: ReadFull_ok_iff)
  moreover have "k = to_be 4 (length bs)" using to_be_from_be [OF k(2)] n(1) by simp
  moreover have "rd_Data r = h @ rd_Data r1" using h(1) by (simp add: ReadFull_ok_iff)
  ultimately show ?thesis using h(2,4) k(1) by (simp add: exec_ok_def execFrame_def)
qed

interpretation exec: frame_codec ReadFrame execFrame exec_ok
  by unfold_locales (erule ReadFrame_frame, erule ReadFrame_only)

lemma WriteFrame_ok:
  "WriteFrame w t bs = (None, w') \<Longrightarrow> exec_ok (t, bs) \<and> wr_Out w' = wr_Out w @ execFrame (t, bs)"
  by (auto simp: WriteFrame_def execFrame_def exec_ok_def split: if_splits prod.splits bool.splits dest!: WriteBytes_ok)

text \<open>Writing a list of frames one after another, until a write fails.\<close>

fun write_frames :: "Writer \<Rightarrow> (byte \<times> bytes) list \<Rightarrow> FrameError option \<times> Writer" where
  "write_frames w [] = (None, w)"
| "write_frames w ((t, bs) # fs) = (case WriteFrame w t bs of (Some e, w1) \<Rightarrow> (Some e, w1) | (None, w1) \<Rightarrow> write_frames w1 fs)"

lemma write_frames_ok:
  "write_frames w fs = (None, w') \<Longrightarrow> (\<forall>f\<in>set fs. exec_ok f) \<and> wr_Out w' = wr_Out w @ concat (map execFrame fs)"
proof (induction w fs arbitrary: w' rule: write_frames.induct)
  case (2 w t bs fs)
  from 2(2) obtain w1 where w1: "WriteFrame w t bs = (None, w1)" "write_frames w1 fs = (None, w')"
    by (auto split: prod.splits option.splits)
  have "(\<forall>f\<in>set fs. exec_ok f) \<and> wr_Out w' = wr_Out w1 @ concat (map execFrame fs)"
    by (rule 2(1) [OF w1(1) [symmetric] refl w1(2)])
  with WriteFrame_ok [OF w1(1)] show ?case by simp
qed simp

lemma ExitCode_ExitFrame: "ExitCode (ExitFrame code) = signed_take_bit 31 code"
proof -
  have "unat (word_of_int code :: 32 word) < 256 ^ 4"
    using unsigned_less [where w = "word_of_int code :: 32 word"] by simp
  then have "from_be (ExitFrame code) = unat (word_of_int code :: 32 word)"
    unfolding ExitFrame_def by (rule from_be_to_be_small)
  then show ?thesis by (simp add: ExitCode_def ExitFrame_def sint_sbintrunc')
qed

text \<open>
  C21. The exec stream keeps its frames. Frames that the agent wrote without an error, followed
  by the exit frame of a 32-bit exit code, are read back in the same order with the same types
  and bytes, the reader stops exactly after them, and the exit code read is the one written.
  The framing loses no boundary, whatever bytes the frames carry.
\<close>

theorem exec_stream_roundtrip:
  assumes "write_frames \<lparr>wr_Out = [], wr_Room = room\<rparr> (fs @ [(FrameExit, ExitFrame code)]) = (None, w)"
    and "- (2 ^ 31) \<le> code" "code < 2 ^ 31"
  shows "\<exists>bs. read_many ReadFrame (Suc (length fs)) \<lparr>rd_Data = wr_Out w @ rest, rd_Err = e\<rparr> =
       (Inr (fs @ [(FrameExit, bs)]), \<lparr>rd_Data = rest, rd_Err = e\<rparr>) \<and> ExitCode bs = code"
proof -
  have "wr_Out w = concat (map execFrame (fs @ [(FrameExit, ExitFrame code)]))"
    "\<forall>f\<in>set (fs @ [(FrameExit, ExitFrame code)]). exec_ok f"
    using write_frames_ok [OF assms(1)] by simp_all
  then have "read_many ReadFrame (Suc (length fs)) \<lparr>rd_Data = wr_Out w @ rest, rd_Err = e\<rparr> =
       (Inr (fs @ [(FrameExit, ExitFrame code)]), \<lparr>rd_Data = rest, rd_Err = e\<rparr>)"
    using exec.read_stream [of "fs @ [(FrameExit, ExitFrame code)]" rest e] by simp
  moreover have "ExitCode (ExitFrame code) = code"
    using assms(2,3) by (simp add: ExitCode_ExitFrame signed_take_bit_int_eq_self)
  ultimately show ?thesis by blast
qed

theorem exec_stream_roundtrip_witness:
  "\<exists>w bs. write_frames \<lparr>wr_Out = [], wr_Room = Some 100\<rparr> ([(FrameStdout, [104, 105]), (FrameStderr, [])] @ [(FrameExit, ExitFrame (- 1))]) = (None, w) \<and>
     read_many ReadFrame (Suc (length [(FrameStdout, [104, 105 :: byte]), (FrameStderr, [])])) \<lparr>rd_Data = wr_Out w @ [], rd_Err = None\<rparr> =
       (Inr ([(FrameStdout, [104, 105]), (FrameStderr, [])] @ [(FrameExit, bs)]), \<lparr>rd_Data = [], rd_Err = None\<rparr>) \<and> ExitCode bs = - 1"
proof -
  let ?fs = "[(FrameStdout, [104, 105 :: byte]), (FrameStderr, [])]"
  have "fst (write_frames \<lparr>wr_Out = [], wr_Room = Some 100\<rparr> (?fs @ [(FrameExit, ExitFrame (- 1))])) = None"
    by (simp add: WriteFrame_def WriteBytes_def MaxFrame_def ExitFrame_def)
  then obtain w where w: "write_frames \<lparr>wr_Out = [], wr_Room = Some 100\<rparr> (?fs @ [(FrameExit, ExitFrame (- 1))]) = (None, w)"
    by (metis prod.collapse)
  with exec_stream_roundtrip [OF w, of "[]" None] show ?thesis by simp
qed

end
