(* ===== verification/Atrest.thy ===== *)
theory Atrest
  imports Go_IO
begin

text \<open>
  Encryption at rest, \<open>internal/snapshot/atrest\<close>: sealing of data keys, the chunked stream
  writer and the reader that checks each chunk. AES-GCM is a parameter, given by its seal and
  open functions; the theorems name what they use of it. Random bytes are arguments.
\<close>

record Aead =
  ae_Seal :: "bytes \<Rightarrow> bytes \<Rightarrow> bytes \<Rightarrow> bytes \<Rightarrow> bytes"
  ae_Open :: "bytes \<Rightarrow> bytes \<Rightarrow> bytes \<Rightarrow> bytes \<Rightarrow> bytes option"

definition streamMagic :: bytes where "streamMagic = bytes_of ''SETECAS1''"
definition sealMagic :: bytes where "sealMagic = bytes_of ''SETECDK1''"
definition KeySize :: nat where "KeySize = 32"
definition chunkSize :: nat where "chunkSize = 2 ^ 20"
abbreviation noncePrefixLen :: nat where "noncePrefixLen \<equiv> 7"
abbreviation gcmTagSize :: nat where "gcmTagSize \<equiv> 16"
abbreviation gcmNonceSize :: nat where "gcmNonceSize \<equiv> 12"
abbreviation maxCiphertextChunk :: nat where "maxCiphertextChunk \<equiv> chunkSize + gcmTagSize"

text \<open>
  The errors. \<open>ErrDecrypt\<close> is the wrapped sentinel with the place that gave it; the others are
  plain errors.
\<close>

datatype DecryptPlace =
    DEKFraming
  | DEKOpen
  | StreamHeader
  | StreamMagic
  | TruncatedStream
  | ChunkLength
  | TruncatedChunk
  | BadChunk "32 word"

datatype AtrestError =
    ErrDecrypt DecryptPlace
  | BadKeySize nat
  | RandFailed
  | PlaintextRead IoError
  | PlaintextPeek IoError
  | CiphertextPeek IoError
  | OutputFailed
  | CounterExhausted

definition newAEAD :: "bytes \<Rightarrow> AtrestError option" where
  "newAEAD key = (if length key \<noteq> KeySize then Some (BadKeySize (length key)) else None)"

section \<open>Sealed data keys\<close>

definition SealDEK :: "Aead \<Rightarrow> bytes option \<Rightarrow> bytes \<Rightarrow> bytes \<Rightarrow> string \<Rightarrow> AtrestError + bytes" where
  "SealDEK ae rnd kek dek aad = (case newAEAD kek of
      Some e \<Rightarrow> Inl e
    | None \<Rightarrow> (case rnd of
          None \<Rightarrow> Inl RandFailed
        | Some nonce \<Rightarrow> Inr (sealMagic @ nonce @ ae_Seal ae kek nonce dek (bytes_of aad))))"

definition OpenDEK :: "Aead \<Rightarrow> bytes \<Rightarrow> bytes \<Rightarrow> string \<Rightarrow> AtrestError + bytes" where
  "OpenDEK ae kek blob aad = (case newAEAD kek of
      Some e \<Rightarrow> Inl e
    | None \<Rightarrow>
        if length blob < length sealMagic + gcmNonceSize + gcmTagSize \<or> take (length sealMagic) blob \<noteq> sealMagic
        then Inl (ErrDecrypt DEKFraming)
        else
          let nonce = take gcmNonceSize (drop (length sealMagic) blob)
          in case ae_Open ae kek nonce (drop (length sealMagic + gcmNonceSize) blob) (bytes_of aad) of
               None \<Rightarrow> Inl (ErrDecrypt DEKOpen)
             | Some dek \<Rightarrow> Inr dek)"

section \<open>The stream writer\<close>

definition chunkNonce :: "bytes \<Rightarrow> 32 word \<Rightarrow> bool \<Rightarrow> bytes" where
  "chunkNonce prefix counter final = prefix @ to_be 4 (unat counter) @ [if final then 1 else 0]"

definition readFull :: "Reader \<Rightarrow> nat \<Rightarrow> bytes \<times> IoError option \<times> Reader" where
  "readFull r n = (case ReadFull r n of
      (Some UnexpectedEOF, bs, r') \<Rightarrow> (bs, None, r')
    | (Some EOF, bs, r') \<Rightarrow> ([], Some EOF, r')
    | (e, bs, r') \<Rightarrow> (bs, e, r'))"

text \<open>Whether a chunk is the last one, or the error of looking ahead.\<close>

definition chunkFinal :: "IoError option \<Rightarrow> Reader \<Rightarrow> IoError + bool" where
  "chunkFinal readErr r =
     (if readErr = Some EOF then Inr True
      else case Peek1 r of
             None \<Rightarrow> Inr False
           | Some EOF \<Rightarrow> Inr True
           | Some e \<Rightarrow> Inl e)"

function encryptLoop :: "Aead \<Rightarrow> bytes \<Rightarrow> bytes \<Rightarrow> 32 word \<Rightarrow> Reader \<Rightarrow> nat \<Rightarrow> Writer \<Rightarrow> AtrestError option \<times> nat \<times> Writer" where
  "encryptLoop ae dek prefix counter r written w =
     (let (pt, readErr, r1) = readFull r chunkSize in
      if readErr \<noteq> None \<and> readErr \<noteq> Some EOF then (Some (PlaintextRead (the readErr)), written, w)
      else case chunkFinal readErr r1 of
             Inl e \<Rightarrow> (Some (PlaintextPeek e), written, w)
           | Inr final \<Rightarrow>
               let ct = ae_Seal ae dek (chunkNonce prefix counter final) pt [];
                   (n1, ok1, w1) = WriteBytes w (to_be 4 (length ct mod 2 ^ 32))
               in if \<not> ok1 then (Some OutputFailed, written + n1, w1)
                  else
                    let (n2, ok2, w2) = WriteBytes w1 ct
                    in if \<not> ok2 then (Some OutputFailed, written + n1 + n2, w2)
                       else if final then (None, written + n1 + n2, w2)
                       else if counter = - 1 then (Some CounterExhausted, written + n1 + n2, w2)
                       else encryptLoop ae dek prefix (counter + 1) r1 (written + n1 + n2) w2)"
  by pat_completeness auto
termination
proof (relation "measure (\<lambda>(ae, dek, prefix, counter, r, written, w). length (rd_Data r))", goal_cases)
  case (2 ae dek prefix counter r written w x pt xb readErr r1 final)
  then have "Peek1 r1 = None" "readFull r chunkSize = (pt, readErr, r1)"
    by (auto simp: chunkFinal_def split: if_splits option.splits IoError.splits)
  then show ?case
    by (auto simp: readFull_def ReadFull_def Peek1_def chunkSize_def split: if_splits option.splits IoError.splits)
qed simp

declare encryptLoop.simps [simp del]

definition Encrypt :: "Aead \<Rightarrow> bytes option \<Rightarrow> Writer \<Rightarrow> Reader \<Rightarrow> bytes \<Rightarrow> AtrestError option \<times> nat \<times> Writer" where
  "Encrypt ae rnd dst src dek = (case newAEAD dek of
      Some e \<Rightarrow> (Some e, 0, dst)
    | None \<Rightarrow> (case rnd of
          None \<Rightarrow> (Some RandFailed, 0, dst)
        | Some prefix \<Rightarrow>
            let (n1, ok1, w1) = WriteBytes dst streamMagic
            in if \<not> ok1 then (Some OutputFailed, n1, w1)
               else
                 let (n2, ok2, w2) = WriteBytes w1 prefix
                 in if \<not> ok2 then (Some OutputFailed, n1 + n2, w2)
                    else encryptLoop ae dek prefix 0 src (n1 + n2) w2))"

section \<open>The stream reader\<close>

record DecReader =
  dr_Src :: Reader
  dr_Prefix :: bytes
  dr_Counter :: "32 word"
  dr_Buf :: bytes
  dr_Done :: bool
  dr_Err :: "AtrestError option"

definition NewDecryptingReader :: "Reader \<Rightarrow> bytes \<Rightarrow> AtrestError + DecReader" where
  "NewDecryptingReader src dek = (case newAEAD dek of
      Some e \<Rightarrow> Inl e
    | None \<Rightarrow> (case ReadFull src (length streamMagic + noncePrefixLen) of
          (Some _, _, _) \<Rightarrow> Inl (ErrDecrypt StreamHeader)
        | (None, header, r) \<Rightarrow>
            if take (length streamMagic) header \<noteq> streamMagic then Inl (ErrDecrypt StreamMagic)
            else Inr \<lparr>dr_Src = r, dr_Prefix = drop (length streamMagic) header, dr_Counter = 0, dr_Buf = [],
                      dr_Done = False, dr_Err = None\<rparr>))"

definition nextChunk :: "Aead \<Rightarrow> bytes \<Rightarrow> DecReader \<Rightarrow> AtrestError option \<times> DecReader" where
  "nextChunk ae dek d =
     (case ReadFull (dr_Src d) 4 of
        (Some _, _, r1) \<Rightarrow> (Some (ErrDecrypt TruncatedStream), d\<lparr>dr_Src := r1\<rparr>)
      | (None, lenBuf, r1) \<Rightarrow>
          let ctLen = from_be lenBuf
          in if ctLen < gcmTagSize \<or> ctLen > maxCiphertextChunk then (Some (ErrDecrypt ChunkLength), d\<lparr>dr_Src := r1\<rparr>)
             else case ReadFull r1 ctLen of
                    (Some _, _, r2) \<Rightarrow> (Some (ErrDecrypt TruncatedChunk), d\<lparr>dr_Src := r2\<rparr>)
                  | (None, ct, r2) \<Rightarrow>
                      (case chunkFinal None r2 of
                         Inl e \<Rightarrow> (Some (CiphertextPeek e), d\<lparr>dr_Src := r2\<rparr>)
                       | Inr final \<Rightarrow>
                           (case ae_Open ae dek (chunkNonce (dr_Prefix d) (dr_Counter d) final) ct [] of
                              None \<Rightarrow> (Some (ErrDecrypt (BadChunk (dr_Counter d))), d\<lparr>dr_Src := r2\<rparr>)
                            | Some pt \<Rightarrow> (None, d\<lparr>dr_Src := r2, dr_Counter := dr_Counter d + 1, dr_Buf := pt, dr_Done := final\<rparr>))))"

text \<open>\<open>Read\<close> fills at most \<open>n\<close> bytes. The error is \<open>None\<close>, \<open>io.EOF\<close> (\<open>Some None\<close>) or a failure.\<close>

function DecRead :: "Aead \<Rightarrow> bytes \<Rightarrow> nat \<Rightarrow> DecReader \<Rightarrow> (bytes \<times> AtrestError option option) \<times> DecReader" where
  "DecRead ae dek n d =
     (if dr_Buf d \<noteq> [] then ((take n (dr_Buf d), None), d\<lparr>dr_Buf := drop n (dr_Buf d)\<rparr>)
      else if dr_Err d \<noteq> None then (([], Some (dr_Err d)), d)
      else if dr_Done d then (([], Some None), d)
      else case nextChunk ae dek d of
             (Some e, d') \<Rightarrow> (([], Some (Some e)), d'\<lparr>dr_Err := Some e\<rparr>)
           | (None, d') \<Rightarrow> DecRead ae dek n d')"
  by pat_completeness auto

lemma ReadFull_shrinks: "ReadFull r n = (None, bs, r') \<Longrightarrow> length (rd_Data r) = n + length (rd_Data r')"
  by (auto simp: ReadFull_ok_iff)

lemma nextChunk_shrinks: "nextChunk ae dek d = (None, d') \<Longrightarrow> length (rd_Data (dr_Src d')) + 4 \<le> length (rd_Data (dr_Src d))"
  by (auto simp: nextChunk_def Let_def split: prod.splits option.splits if_splits sum.splits dest!: ReadFull_shrinks)

termination DecRead
  by (relation "measure (\<lambda>(ae, dek, n, d). length (rd_Data (dr_Src d)))") (auto dest: nextChunk_shrinks [OF sym])

declare DecRead.simps [simp del]

text \<open>
  Reading to the end with a buffer of \<open>n\<close> bytes: what a caller such as \<open>io.Copy\<close> gets. The
  second result is \<open>None\<close> when the reader ended with \<open>io.EOF\<close>.
\<close>

lemma nextChunk_err: "nextChunk ae dek d = (e, d') \<Longrightarrow> dr_Err d' = dr_Err d \<and> (e \<noteq> None \<longrightarrow> dr_Buf d' = dr_Buf d)"
  by (auto simp: nextChunk_def Let_def split: prod.splits option.splits if_splits sum.splits)

lemma DecRead_progress:
  assumes "0 < n" "DecRead ae dek n d = ((bs, None), d')"
  shows "length (rd_Data (dr_Src d')) < length (rd_Data (dr_Src d)) \<or>
    length (rd_Data (dr_Src d')) = length (rd_Data (dr_Src d)) \<and> length (dr_Buf d') < length (dr_Buf d)"
  using assms
proof (induction ae dek n d arbitrary: d' rule: DecRead.induct)
  case (1 ae dek n d)
  show ?case
  proof (cases "dr_Buf d = []")
    case True
    with 1(3) obtain d1 where d1: "dr_Err d = None" "\<not> dr_Done d" "nextChunk ae dek d = (None, d1)"
      "DecRead ae dek n d1 = ((bs, None), d')"
      by (subst (asm) DecRead.simps) (auto split: if_splits prod.splits option.splits)
    from 1(1) [OF _ _ d1(2) d1(3) [symmetric] refl 1(2) d1(4)] True d1(1) nextChunk_shrinks [OF d1(3)]
    show ?thesis by auto
  next
    case False
    with 1(2,3) show ?thesis by (subst (asm) DecRead.simps) auto
  qed
qed

function readToEnd :: "Aead \<Rightarrow> bytes \<Rightarrow> nat \<Rightarrow> DecReader \<Rightarrow> bytes \<times> AtrestError option" where
  "readToEnd ae dek n d =
     (if n = 0 then ([], None)
      else case DecRead ae dek n d of
             ((bs, Some e), d') \<Rightarrow> (bs, e)
           | ((bs, None), d') \<Rightarrow> (let (rest, e) = readToEnd ae dek n d' in (bs @ rest, e)))"
  by pat_completeness auto
termination
  by (relation "inv_image (less_than <*lex*> less_than) (\<lambda>(ae, dek, n, d). (length (rd_Data (dr_Src d)), length (dr_Buf d)))")
    (auto dest: DecRead_progress [OF _ sym])

declare readToEnd.simps [simp del]

section \<open>The stream as a list of chunks\<close>

text \<open>
  What the reader gives does not depend on how the caller reads: it is the plaintext of the
  chunks up to the first that fails.
\<close>

function chunkPlain :: "Aead \<Rightarrow> bytes \<Rightarrow> DecReader \<Rightarrow> bytes \<times> AtrestError option" where
  "chunkPlain ae dek d =
     (if dr_Done d then ([], None)
      else case nextChunk ae dek d of
             (Some e, d') \<Rightarrow> ([], Some e)
           | (None, d') \<Rightarrow> (let (rest, e) = chunkPlain ae dek d' in (dr_Buf d' @ rest, e)))"
  by pat_completeness auto
termination
  by (relation "measure (\<lambda>(ae, dek, d). length (rd_Data (dr_Src d)))") (auto dest: nextChunk_shrinks [OF sym])

declare chunkPlain.simps [simp del]

lemma nextChunk_buf: "nextChunk ae dek (d\<lparr>dr_Buf := b\<rparr>) = (case nextChunk ae dek d of
    (None, d') \<Rightarrow> (None, d') | (Some e, d') \<Rightarrow> (Some e, d'\<lparr>dr_Buf := b\<rparr>))"
  by (simp add: nextChunk_def Let_def split: prod.splits option.splits sum.splits)

lemma chunkPlain_buf: "chunkPlain ae dek (d\<lparr>dr_Buf := b\<rparr>) = chunkPlain ae dek d"
  by (subst (1 2) chunkPlain.simps) (simp add: nextChunk_buf split: prod.splits option.splits)

lemma readToEnd_flush:
  assumes "0 < n"
  shows "readToEnd ae dek n d = (let (rest, e) = readToEnd ae dek n (d\<lparr>dr_Buf := []\<rparr>) in (dr_Buf d @ rest, e))"
proof (induction "length (dr_Buf d)" arbitrary: d rule: less_induct)
  case less
  show ?case
  proof (cases "dr_Buf d = []")
    case True
    then have "d\<lparr>dr_Buf := []\<rparr> = d" by simp
    then show ?thesis by (simp only: True append_Nil Let_def split_def prod.collapse)
  next
    case False
    let ?d = "d\<lparr>dr_Buf := drop n (dr_Buf d)\<rparr>"
    have "readToEnd ae dek n d = (let (rest, e) = readToEnd ae dek n ?d in (take n (dr_Buf d) @ rest, e))"
      using False assms by (subst readToEnd.simps, subst DecRead.simps) simp
    also have "readToEnd ae dek n ?d = (let (rest, e) = readToEnd ae dek n (d\<lparr>dr_Buf := []\<rparr>) in (drop n (dr_Buf d) @ rest, e))"
      using less [of ?d] False assms by simp
    finally show ?thesis by (simp add: split_def Let_def)
  qed
qed

lemma readToEnd_chunkPlain:
  assumes "0 < n" "dr_Err d = None" "dr_Buf d = []"
  shows "readToEnd ae dek n d = chunkPlain ae dek d"
  using assms(2,3)
proof (induction "length (rd_Data (dr_Src d))" arbitrary: d rule: less_induct)
  case less
  obtain e d1 where n: "nextChunk ae dek d = (e, d1)" by fastforce
  consider "dr_Done d" | x where "\<not> dr_Done d" "e = Some x" | "\<not> dr_Done d" "e = None" by (cases e) auto
  then show ?case
  proof cases
    case 1
    with less assms(1) show ?thesis
      by (subst readToEnd.simps, subst DecRead.simps, subst chunkPlain.simps) simp
  next
    case 2
    with less assms(1) n show ?thesis
      by (subst readToEnd.simps, subst DecRead.simps, subst chunkPlain.simps) simp
  next
    case 3
    then have "DecRead ae dek n d = DecRead ae dek n d1"
      using less n by (subst DecRead.simps) simp
    then have "readToEnd ae dek n d = readToEnd ae dek n d1"
      by (subst (1 2) readToEnd.simps) simp
    also have "\<dots> = (let (rest, e) = readToEnd ae dek n (d1\<lparr>dr_Buf := []\<rparr>) in (dr_Buf d1 @ rest, e))"
      by (rule readToEnd_flush [OF assms(1)])
    also have "readToEnd ae dek n (d1\<lparr>dr_Buf := []\<rparr>) = chunkPlain ae dek (d1\<lparr>dr_Buf := []\<rparr>)"
      using less(1) [of "d1\<lparr>dr_Buf := []\<rparr>"] less(2) nextChunk_shrinks [of ae dek d d1] nextChunk_err [OF n] n 3 by simp
    finally show ?thesis
      using 3 n by (subst chunkPlain.simps) (simp add: chunkPlain_buf)
  qed
qed

section \<open>Encrypting and decrypting\<close>

text \<open>The chunks of a plaintext: never none, and all but the last are full.\<close>

function chunksOf :: "bytes \<Rightarrow> bytes list" where
  "chunksOf bs = (if length bs \<le> chunkSize then [bs] else take chunkSize bs # chunksOf (drop chunkSize bs))"
  by pat_completeness auto
termination by (relation "measure length") (auto simp: chunkSize_def)

declare chunksOf.simps [simp del]

lemma concat_chunksOf [simp]: "concat (chunksOf bs) = bs"
  by (induction bs rule: chunksOf.induct) (subst chunksOf.simps, simp)

lemma chunksOf_ne [simp]: "chunksOf bs \<noteq> []"
  by (subst chunksOf.simps) simp

lemma chunksOf_length: "c \<in> set (chunksOf bs) \<Longrightarrow> length c \<le> chunkSize"
  by (induction bs rule: chunksOf.induct) (subst (asm) chunksOf.simps, auto split: if_splits)

text \<open>The bytes of the sealed chunks from a given counter on.\<close>

fun sealedChunks :: "Aead \<Rightarrow> bytes \<Rightarrow> bytes \<Rightarrow> 32 word \<Rightarrow> bytes list \<Rightarrow> bytes" where
  "sealedChunks ae dek prefix i [] = []"
| "sealedChunks ae dek prefix i (c # cs) =
     (let ct = ae_Seal ae dek (chunkNonce prefix i (cs = [])) c []
      in to_be 4 (length ct) @ ct @ sealedChunks ae dek prefix (i + 1) cs)"

text \<open>The chunk that the writer reads, and whether it is the last.\<close>

lemma readFull_chunk:
  "readFull \<lparr>rd_Data = bs, rd_Err = None\<rparr> chunkSize =
     (if bs = [] then ([], Some EOF, mem_reader []) else (take chunkSize bs, None, mem_reader (drop chunkSize bs)))"
  by (auto simp: readFull_def ReadFull_def rd_End_def chunkSize_def)

lemma encryptLoop_step:
  "encryptLoop ae dek prefix i \<lparr>rd_Data = bs, rd_Err = None\<rparr> written w =
     (let final = (length bs \<le> chunkSize);
          ct = ae_Seal ae dek (chunkNonce prefix i final) (take chunkSize bs) [];
          (n1, ok1, w1) = WriteBytes w (to_be 4 (length ct mod 2 ^ 32))
      in if \<not> ok1 then (Some OutputFailed, written + n1, w1)
         else
           let (n2, ok2, w2) = WriteBytes w1 ct
           in if \<not> ok2 then (Some OutputFailed, written + n1 + n2, w2)
              else if final then (None, written + n1 + n2, w2)
              else if i = - 1 then (Some CounterExhausted, written + n1 + n2, w2)
              else encryptLoop ae dek prefix (i + 1) \<lparr>rd_Data = drop chunkSize bs, rd_Err = None\<rparr> (written + n1 + n2) w2)"
proof -
  have "chunkFinal (if bs = [] then Some EOF else None) (mem_reader (drop chunkSize bs)) = Inr (length bs \<le> chunkSize)"
    by (auto simp: chunkFinal_def Peek1_def rd_End_def)
  then show ?thesis
    by (subst encryptLoop.simps) (cases "bs = []"; simp add: readFull_chunk Let_def split: prod.splits)
qed

lemma to_be_mod: "to_be 4 (n mod 2 ^ 32) = to_be 4 n"
proof -
  have "from_be (to_be 4 (n mod 2 ^ 32)) = from_be (to_be 4 n)" by (simp add: from_be_to_be)
  then show ?thesis by (intro from_be_inj) simp_all
qed

lemma encryptLoop_no_err:
  assumes "encryptLoop ae dek prefix i \<lparr>rd_Data = bs, rd_Err = e0\<rparr> written w = (None, n, w')"
  shows "e0 = None"
  using assms
proof (induction "length bs" arbitrary: bs i written w rule: less_induct)
  case less
  show ?case
  proof (cases e0)
    case (Some x)
    have "drop chunkSize bs \<noteq> [] \<and> chunkSize < length bs"
    proof (rule ccontr)
      assume "\<not> (drop chunkSize bs \<noteq> [] \<and> chunkSize < length bs)"
      then have "length bs \<le> chunkSize" by auto
      with less(2) Some show False
        by (subst (asm) encryptLoop.simps)
          (auto simp: readFull_def ReadFull_def rd_End_def chunkFinal_def Peek1_def Let_def split: if_splits)
    qed
    then have "readFull \<lparr>rd_Data = bs, rd_Err = e0\<rparr> chunkSize = (take chunkSize bs, None, \<lparr>rd_Data = drop chunkSize bs, rd_Err = e0\<rparr>)"
      "chunkFinal None \<lparr>rd_Data = drop chunkSize bs, rd_Err = e0\<rparr> = Inr False"
      "length (drop chunkSize bs) < length bs"
      by (auto simp: readFull_def ReadFull_def chunkFinal_def Peek1_def chunkSize_def)
    with less(2) obtain i' written' w1 where
      "encryptLoop ae dek prefix i' \<lparr>rd_Data = drop chunkSize bs, rd_Err = e0\<rparr> written' w1 = (None, n, w')"
      by (subst (asm) encryptLoop.simps) (auto simp: Let_def split: if_splits prod.splits)
    from less(1) [OF _ this] \<open>length (drop chunkSize bs) < length bs\<close> show ?thesis by blast
  qed
qed

lemma encryptLoop_ok:
  assumes "encryptLoop ae dek prefix i \<lparr>rd_Data = bs, rd_Err = None\<rparr> written w = (None, n, w')"
  shows "wr_Out w' = wr_Out w @ sealedChunks ae dek prefix i (chunksOf bs) \<and>
    unat i + length (chunksOf bs) \<le> 2 ^ 32"
  using assms
proof (induction bs arbitrary: i written w rule: chunksOf.induct)
  case (1 bs)
  let ?f = "length bs \<le> chunkSize"
  let ?ct = "ae_Seal ae dek (chunkNonce prefix i ?f) (take chunkSize bs) []"
  obtain n1 ok1 w1 where w1: "WriteBytes w (to_be 4 (length ?ct)) = (n1, ok1, w1)" by (metis prod_cases3)
  obtain n2 ok2 w2 where w2: "WriteBytes w1 ?ct = (n2, ok2, w2)" by (metis prod_cases3)
  note E = trans [OF encryptLoop_step [symmetric] 1(2), unfolded to_be_mod Let_def w1 w2 prod.case]
  have ok: "ok1" using E by (auto split: if_splits)
  with E have ok: "ok1" "ok2" by (auto simp: w2 split: if_splits)
  have out: "wr_Out w2 = wr_Out w @ to_be 4 (length ?ct) @ ?ct"
    using WriteBytes_ok [of w] WriteBytes_ok [of w1] w1 w2 ok by simp
  show ?case
  proof (cases ?f)
    case True
    then have "w' = w2" using E w2 ok by simp
    moreover have "unat i + 1 \<le> 2 ^ 32" using unsigned_less [where w = i and 'a = nat] by simp
    ultimately show ?thesis using True out by (subst (1 2) chunksOf.simps) (simp add: Let_def)
  next
    case False
    then have i: "i \<noteq> - 1" and r: "encryptLoop ae dek prefix (i + 1) \<lparr>rd_Data = drop chunkSize bs, rd_Err = None\<rparr> (written + n1 + n2) w2 = (None, n, w')"
      using E w2 ok by (auto split: if_splits)
    have "1 + i \<noteq> 0" using i by (simp add: eq_neg_iff_add_eq_0 add.commute)
    then have "unat (i + 1) = unat i + 1" using unatSuc [of i] by (simp add: add.commute)
    with 1(1) [OF False r] False out show ?thesis
      by (subst (1 2) chunksOf.simps) (simp add: Let_def)
  qed
qed

definition dec_at :: "bytes \<Rightarrow> bytes \<Rightarrow> string option \<Rightarrow> 32 word \<Rightarrow> bool \<Rightarrow> DecReader" where
  "dec_at prefix bs err i fin = \<lparr>dr_Src = \<lparr>rd_Data = bs, rd_Err = err\<rparr>, dr_Prefix = prefix, dr_Counter = i, dr_Buf = [], dr_Done = fin, dr_Err = None\<rparr>"

text \<open>What the code relies on of the cipher: opening gives back what was sealed, and the sealed chunk is the tag longer.\<close>

definition aead_opens :: "Aead \<Rightarrow> bytes \<Rightarrow> bool" where
  "aead_opens ae k \<longleftrightarrow> (\<forall>n p a. ae_Open ae k n (ae_Seal ae k n p a) a = Some p \<and> length (ae_Seal ae k n p a) = length p + gcmTagSize)"

lemma nextChunk_sealed:
  assumes "aead_opens ae dek" "length c \<le> chunkSize" "rest = [] \<longleftrightarrow> final"
  shows "nextChunk ae dek (dec_at prefix (to_be 4 (length (ae_Seal ae dek (chunkNonce prefix i final) c [])) @ ae_Seal ae dek (chunkNonce prefix i final) c [] @ rest) None i False)
    = (None, (dec_at prefix rest None (i + 1) final)\<lparr>dr_Buf := c\<rparr>)"
proof -
  let ?ct = "ae_Seal ae dek (chunkNonce prefix i final) c []"
  have l: "length ?ct = length c + gcmTagSize" and o: "ae_Open ae dek (chunkNonce prefix i final) ?ct [] = Some c"
    using assms(1) by (auto simp: aead_opens_def)
  have "from_be (to_be 4 (length ?ct)) = length ?ct"
    using l assms(2) by (intro from_be_to_be_small) (simp add: chunkSize_def)
  moreover have "chunkFinal None (mem_reader rest) = Inr final"
    using assms(3) by (auto simp: chunkFinal_def Peek1_def rd_End_def)
  ultimately show ?thesis
    using l o assms(2) by (simp add: nextChunk_def dec_at_def Let_def)
qed

lemma sealedChunks_ne: "sealedChunks ae dek prefix i cs = [] \<longleftrightarrow> cs = []"
  by (cases cs) (auto simp: Let_def dest: arg_cong [of _ _ length])

lemma chunkPlain_sealed:
  assumes "aead_opens ae dek" "\<forall>c\<in>set cs. length c \<le> chunkSize" "cs \<noteq> []"
  shows "chunkPlain ae dek (dec_at prefix (sealedChunks ae dek prefix i cs) None i False) = (concat cs, None)"
  using assms(2,3)
proof (induction cs arbitrary: i)
  case (Cons c cs)
  let ?d = "dec_at prefix (sealedChunks ae dek prefix (i + 1) cs) None (i + 1) (cs = [])"
  have "nextChunk ae dek (dec_at prefix (sealedChunks ae dek prefix i (c # cs)) None i False) = (None, ?d\<lparr>dr_Buf := c\<rparr>)"
    using nextChunk_sealed [OF assms(1), of c "sealedChunks ae dek prefix (i + 1) cs" "cs = []"] Cons.prems
    by (simp add: Let_def sealedChunks_ne)
  moreover have "chunkPlain ae dek ?d = (concat cs, None)"
  proof (cases "cs = []")
    case True
    then show ?thesis by (subst chunkPlain.simps) (simp add: dec_at_def)
  next
    case False
    with Cons.IH [of "i + 1"] Cons.prems show ?thesis by simp
  qed
  ultimately show ?case
    by (subst chunkPlain.simps) (simp add: chunkPlain_buf, simp add: dec_at_def)
qed simp

lemma NewDecryptingReader_stream:
  assumes "length dek = KeySize" "length prefix = noncePrefixLen"
  shows "NewDecryptingReader (mem_reader (streamMagic @ prefix @ bs)) dek = Inr (dec_at prefix bs None 0 False)"
proof -
  have "ReadFull (mem_reader ((streamMagic @ prefix) @ bs)) (length streamMagic + noncePrefixLen) = (None, streamMagic @ prefix, mem_reader bs)"
    by (rule ReadFull_append) (simp add: assms(2))
  with assms show ?thesis by (simp add: NewDecryptingReader_def newAEAD_def dec_at_def)
qed

lemma Encrypt_ok:
  assumes "Encrypt ae rnd \<lparr>wr_Out = [], wr_Room = room\<rparr> src dek = (None, n, w)"
  obtains prefix where "rnd = Some prefix" "length dek = KeySize" "rd_Err src = None"
    "wr_Out w = streamMagic @ prefix @ sealedChunks ae dek prefix 0 (chunksOf (rd_Data src))"
    "length (chunksOf (rd_Data src)) \<le> 2 ^ 32"
proof -
  from assms obtain prefix n1 w1 n2 w2 where h: "rnd = Some prefix" "length dek = KeySize"
    "WriteBytes \<lparr>wr_Out = [], wr_Room = room\<rparr> streamMagic = (n1, True, w1)" "WriteBytes w1 prefix = (n2, True, w2)"
    "encryptLoop ae dek prefix 0 src (n1 + n2) w2 = (None, n, w)"
    unfolding Encrypt_def newAEAD_def by (auto simp: Let_def split: option.splits if_splits prod.splits)
  have src: "src = \<lparr>rd_Data = rd_Data src, rd_Err = rd_Err src\<rparr>" by simp
  have none: "rd_Err src = None" using h(5) encryptLoop_no_err by (subst (asm) src) blast
  with src have "src = \<lparr>rd_Data = rd_Data src, rd_Err = None\<rparr>" by simp
  with h(5) have "encryptLoop ae dek prefix 0 \<lparr>rd_Data = rd_Data src, rd_Err = None\<rparr> (n1 + n2) w2 = (None, n, w)" by simp
  from encryptLoop_ok [OF this] WriteBytes_ok [OF h(3)] WriteBytes_ok [OF h(4)] h none show thesis
    by (intro that [of prefix]) simp_all
qed

text \<open>
  The nonces and plaintexts that the writer seals for one plaintext, and the authenticity of
  the cipher: under a key that sealed only these, nothing else opens.
\<close>

definition sealedPairs :: "bytes \<Rightarrow> bytes \<Rightarrow> (bytes \<times> bytes) set" where
  "sealedPairs prefix bs =
     (\<lambda>i. (chunkNonce prefix (of_nat i) (Suc i = length (chunksOf bs)), chunksOf bs ! i)) ` {..<length (chunksOf bs)}"

definition aead_authentic :: "Aead \<Rightarrow> bytes \<Rightarrow> (bytes \<times> bytes) set \<Rightarrow> bool" where
  "aead_authentic ae k Q \<longleftrightarrow> (\<forall>n c p. ae_Open ae k n c [] = Some p \<longrightarrow> (n, p) \<in> Q)"

lemma counter_lt: "unat (i :: 32 word) < 256 ^ 4"
  using unsigned_less [where w = i and 'a = nat] by simp

lemma chunkNonce_inj:
  assumes "chunkNonce p i f = chunkNonce q j g" "length p = length q"
  shows "p = q \<and> i = j \<and> f = g"
proof -
  from assms have "p = q" "to_be 4 (unat i) = to_be 4 (unat j)" "f = g"
    by (auto simp: chunkNonce_def split: if_splits)
  moreover from this(2) have "unat i = unat j"
    by (rule to_be_inj) (rule counter_lt)+
  ultimately show ?thesis by (simp add: word_unat_eq_iff)
qed

lemma nextChunk_opened:
  assumes "nextChunk ae dek d = (None, d')"
  obtains ct where "ae_Open ae dek (chunkNonce (dr_Prefix d) (dr_Counter d) (dr_Done d')) ct [] = Some (dr_Buf d')"
    "dr_Prefix d' = dr_Prefix d" "dr_Counter d' = dr_Counter d + 1" "dr_Err d' = dr_Err d"
  using assms by (auto simp: nextChunk_def Let_def split: prod.splits option.splits if_splits sum.splits)

lemma sealedPairs_nonce:
  assumes "(chunkNonce p (of_nat i) f, c) \<in> sealedPairs prefix bs" "length p = length prefix"
    and "length (chunksOf bs) \<le> 2 ^ 32" "i < length (chunksOf bs)"
  shows "p = prefix \<and> c = chunksOf bs ! i \<and> (f \<longleftrightarrow> Suc i = length (chunksOf bs))"
proof -
  from assms(1) obtain j where j: "j < length (chunksOf bs)" "c = chunksOf bs ! j"
    "chunkNonce p (of_nat i) f = chunkNonce prefix (of_nat j) (Suc j = length (chunksOf bs))"
    by (auto simp: sealedPairs_def)
  from chunkNonce_inj [OF j(3) assms(2)] have e: "p = prefix" "(of_nat i :: 32 word) = of_nat j" "f = (Suc j = length (chunksOf bs))"
    by auto
  have "i < 2 ^ 32" "j < 2 ^ 32" using assms(3,4) j(1) by linarith+
  then have "unat (of_nat i :: 32 word) = i" "unat (of_nat j :: 32 word) = j"
    by (simp_all add: unat_of_nat)
  with e(2) have "i = j" by metis
  with e(1,3) j(2) show ?thesis by simp
qed

lemma chunkPlain_authentic:
  assumes "length (chunksOf bs) \<le> 2 ^ 32" and "aead_authentic ae dek (sealedPairs prefix bs)"
    and "length (dr_Prefix d) = length prefix" "dr_Counter d = of_nat i" "i < length (chunksOf bs)" "\<not> dr_Done d"
    and "chunkPlain ae dek d = (out, e)"
  shows "\<exists>r. concat (drop i (chunksOf bs)) = out @ r \<and> (e = None \<longrightarrow> r = [])"
  using assms(2-)
proof (induction ae dek d arbitrary: i out e rule: chunkPlain.induct)
  case (1 ae dek d)
  let ?cs = "chunksOf bs"
  obtain er d' where n: "nextChunk ae dek d = (er, d')" by fastforce
  show ?case
  proof (cases er)
    case (Some x)
    with n 1(6,7) have "out = []" "e = Some x" by (subst (asm) chunkPlain.simps, simp)+
    then show ?thesis by simp
  next
    case None
    with n have n: "nextChunk ae dek d = (None, d')" by simp
    then obtain ct where ct: "ae_Open ae dek (chunkNonce (dr_Prefix d) (dr_Counter d) (dr_Done d')) ct [] = Some (dr_Buf d')"
      "dr_Prefix d' = dr_Prefix d" "dr_Counter d' = dr_Counter d + 1"
      by (rule nextChunk_opened)
    have "(chunkNonce (dr_Prefix d) (of_nat i) (dr_Done d'), dr_Buf d') \<in> sealedPairs prefix bs"
      using 1(2,4) ct(1) unfolding aead_authentic_def by metis
    from sealedPairs_nonce [OF this 1(3) assms(1) 1(5)]
    have b: "dr_Buf d' = ?cs ! i" "dr_Done d' \<longleftrightarrow> Suc i = length ?cs" by auto
    have c: "concat (drop i ?cs) = ?cs ! i @ concat (drop (Suc i) ?cs)"
      using 1(5) by (simp add: Cons_nth_drop_Suc [symmetric])
    obtain rest e' where r: "chunkPlain ae dek d' = (rest, e')" by fastforce
    have o: "out = ?cs ! i @ rest" "e = e'"
      using 1(6,7) n r b(1) by (subst (asm) chunkPlain.simps, simp)+
    show ?thesis
    proof (cases "dr_Done d'")
      case True
      then have "rest = []" "e' = None" using r by (subst (asm) chunkPlain.simps, simp)+
      with True b c o show ?thesis by simp
    next
      case False
      with b(2) 1(5) have "Suc i < length ?cs" by simp
      moreover have "dr_Counter d' = of_nat (Suc i)" using ct(3) 1(4) by simp
      ultimately obtain r' where "concat (drop (Suc i) ?cs) = rest @ r'" "e' = None \<longrightarrow> r' = []"
        using 1(1) [OF 1(6) n [symmetric] refl 1(2), of "Suc i" rest e'] ct(2) 1(3) False r by auto
      with c o show ?thesis by auto
    qed
  qed
qed

lemma NewDecryptingReader_ok:
  assumes "NewDecryptingReader src dek = Inr d"
  shows "length (dr_Prefix d) = noncePrefixLen \<and> dr_Counter d = 0 \<and> \<not> dr_Done d \<and> dr_Err d = None \<and> dr_Buf d = []"
  using assms
  by (auto simp: NewDecryptingReader_def ReadFull_ok_iff streamMagic_def
      split: option.splits prod.splits if_splits)

text \<open>The writer succeeds whenever the source reads to its end, the output takes the bytes and the counter is enough.\<close>

lemma encryptLoop_succeeds:
  assumes "unat i + length (chunksOf bs) \<le> 2 ^ 32"
  shows "fst (encryptLoop ae dek prefix i (mem_reader bs) written \<lparr>wr_Out = out, wr_Room = None\<rparr>) = None"
  using assms
proof (induction bs arbitrary: i written out rule: chunksOf.induct)
  case (1 bs)
  show ?case
  proof (cases "length bs \<le> chunkSize")
    case True
    then show ?thesis by (subst encryptLoop_step) (simp add: Let_def WriteBytes_unbounded)
  next
    case False
    have "unat i + Suc (length (chunksOf (drop chunkSize bs))) \<le> 2 ^ 32"
      using 1(2) False by (subst (asm) chunksOf.simps) simp
    moreover have "length (chunksOf (drop chunkSize bs)) \<noteq> 0" by simp
    ultimately have u: "unat i + 1 < 2 ^ 32" "unat i + 1 + length (chunksOf (drop chunkSize bs)) \<le> 2 ^ 32" by linarith+
    have i: "i \<noteq> - 1"
    proof
      assume "i = - 1"
      then have "unat i = 2 ^ 32 - 1" by (simp add: unsigned_minus_1_eq_mask mask_eq_exp_minus_1)
      with u(1) show False by simp
    qed
    have "1 + i \<noteq> 0" using i by (simp add: eq_neg_iff_add_eq_0 add.commute)
    then have "unat (i + 1) = unat i + 1" using unatSuc [of i] by (simp add: add.commute)
    with 1(1) [OF False, of "i + 1"] u(2) i False show ?thesis
      by (subst encryptLoop_step) (simp add: Let_def WriteBytes_unbounded)
  qed
qed

lemma Encrypt_total:
  assumes "length dek = KeySize" "rd_Err src = None" "length (chunksOf (rd_Data src)) \<le> 2 ^ 32"
  shows "fst (Encrypt ae (Some prefix) \<lparr>wr_Out = [], wr_Room = None\<rparr> src dek) = None"
proof -
  have src: "src = mem_reader (rd_Data src)" using assms(2) by (cases src) simp
  have "fst (encryptLoop ae dek prefix 0 (mem_reader (rd_Data src)) m \<lparr>wr_Out = streamMagic @ prefix, wr_Room = None\<rparr>) = None" for m
    using assms(3) by (intro encryptLoop_succeeds) simp
  then show ?thesis using assms(1) by (subst src) (simp add: Encrypt_def newAEAD_def WriteBytes_unbounded)
qed

lemma decrypt_sealed:
  assumes "aead_opens ae dek" "length dek = KeySize" "length prefix = noncePrefixLen" "0 < k"
  shows "\<exists>d. NewDecryptingReader (mem_reader (streamMagic @ prefix @ sealedChunks ae dek prefix 0 (chunksOf bs))) dek = Inr d \<and>
    readToEnd ae dek k d = (bs, None)"
proof -
  let ?d = "dec_at prefix (sealedChunks ae dek prefix 0 (chunksOf bs)) None 0 False"
  have "readToEnd ae dek k ?d = chunkPlain ae dek ?d"
    by (rule readToEnd_chunkPlain [OF assms(4)]) (simp_all add: dec_at_def)
  moreover have "chunkPlain ae dek ?d = (bs, None)"
    using chunkPlain_sealed [OF assms(1), of "chunksOf bs" prefix 0] chunksOf_length by simp
  ultimately show ?thesis using NewDecryptingReader_stream [OF assms(2,3)] by simp
qed

text \<open>
  C22. Encrypted artifacts round trip. When the cipher opens what it sealed, a stream that the
  writer finished is accepted by the reader, and reading it to the end with a buffer of any
  size gives exactly the plaintext and a clean end. The writer finishes whenever the source
  reads to its end, the output takes all bytes and the plaintext has at most \<open>2 ^ 32\<close> chunks.
\<close>

theorem stream_roundtrip:
  assumes "aead_opens ae dek" "length dek = KeySize" "length prefix = noncePrefixLen" "0 < k"
  shows "(Encrypt ae (Some prefix) \<lparr>wr_Out = [], wr_Room = room\<rparr> src dek = (None, n, w) \<longrightarrow>
      (\<exists>d. NewDecryptingReader (mem_reader (wr_Out w)) dek = Inr d \<and> readToEnd ae dek k d = (rd_Data src, None))) \<and>
    (length (chunksOf bs) \<le> 2 ^ 32 \<longrightarrow>
      (\<exists>n w. Encrypt ae (Some prefix) \<lparr>wr_Out = [], wr_Room = None\<rparr> (mem_reader bs) dek = (None, n, w)))"
proof (intro conjI impI)
  assume "Encrypt ae (Some prefix) \<lparr>wr_Out = [], wr_Room = room\<rparr> src dek = (None, n, w)"
  then have out: "wr_Out w = streamMagic @ prefix @ sealedChunks ae dek prefix 0 (chunksOf (rd_Data src))"
    by (rule Encrypt_ok) simp
  from decrypt_sealed [OF assms, of "rd_Data src"]
  show "\<exists>d. NewDecryptingReader (mem_reader (wr_Out w)) dek = Inr d \<and> readToEnd ae dek k d = (rd_Data src, None)"
    unfolding out .
next
  assume "length (chunksOf bs) \<le> 2 ^ 32"
  then have "fst (Encrypt ae (Some prefix) \<lparr>wr_Out = [], wr_Room = None\<rparr> (mem_reader bs) dek) = None"
    using Encrypt_total [OF assms(2), of "mem_reader bs"] by simp
  then show "\<exists>n w. Encrypt ae (Some prefix) \<lparr>wr_Out = [], wr_Room = None\<rparr> (mem_reader bs) dek = (None, n, w)"
    by (metis prod.collapse)
qed

text \<open>
  C23. An artifact that was changed is never read as another one. Under a key that sealed only
  the chunks of one plaintext, whatever bytes the storage serves and whatever prefix they
  carry, the reader gives a prefix of that plaintext, and it ends without an error only after
  all of it: a cut, a reordering, a repetition or a change of a byte is an error.
\<close>

theorem stream_integrity:
  assumes "aead_authentic ae dek (sealedPairs prefix bs)" "length (chunksOf bs) \<le> 2 ^ 32" "length prefix = noncePrefixLen"
    and "NewDecryptingReader src dek = Inr d" "0 < k" "readToEnd ae dek k d = (out, e)"
  shows "(\<exists>r. bs = out @ r) \<and> (e = None \<longrightarrow> out = bs)"
proof -
  note d = NewDecryptingReader_ok [OF assms(4)]
  have "chunkPlain ae dek d = (out, e)"
    using readToEnd_chunkPlain [OF assms(5)] d assms(6) by simp
  with chunkPlain_authentic [OF assms(2,1), of d 0 out e] d assms(3)
  obtain r where "bs = out @ r" "e = None \<longrightarrow> r = []" by auto
  then show ?thesis by auto
qed

definition ex_aead :: Aead where
  "ex_aead = \<lparr>ae_Seal = (\<lambda>k n p a. replicate 16 0 @ p), ae_Open = (\<lambda>k n c a. Some (drop 16 c))\<rparr>"

lemma ex_chunks: "chunksOf [1, 2, 3] = [[1, 2, 3]]"
  by (subst chunksOf.simps) (simp add: chunkSize_def)

theorem stream_roundtrip_witness:
  "\<exists>n w d. Encrypt ex_aead (Some (replicate 7 9)) \<lparr>wr_Out = [], wr_Room = None\<rparr> (mem_reader [1, 2, 3]) (replicate 32 5) = (None, n, w) \<and>
     NewDecryptingReader (mem_reader (wr_Out w)) (replicate 32 5) = Inr d \<and> readToEnd ex_aead (replicate 32 5) 2 d = ([1, 2, 3], None)"
proof -
  have h: "aead_opens ex_aead (replicate 32 5)" "length (replicate 32 (5 :: byte)) = KeySize"
    "length (replicate 7 (9 :: byte)) = noncePrefixLen" "0 < (2 :: nat)"
    by (simp_all add: aead_opens_def ex_aead_def KeySize_def)
  obtain n w where e: "Encrypt ex_aead (Some (replicate 7 9)) \<lparr>wr_Out = [], wr_Room = None\<rparr> (mem_reader [1, 2, 3]) (replicate 32 5) = (None, n, w)"
    using stream_roundtrip [OF h, of None "mem_reader []" 0 \<open>\<lparr>wr_Out = [], wr_Room = None\<rparr>\<close> "[1, 2, 3]"] by (auto simp: ex_chunks)
  with stream_roundtrip [OF h, of None "mem_reader [1, 2, 3]" n w "[]"] show ?thesis by auto
qed

definition ex_strict_aead :: Aead where
  "ex_strict_aead = \<lparr>ae_Seal = (\<lambda>k n p a. replicate 16 0 @ p),
     ae_Open = (\<lambda>k n c a. if n = chunkNonce (replicate 7 9) 0 True \<and> c = replicate 16 0 @ [1, 2, 3] then Some [1, 2, 3] else None)\<rparr>"

theorem stream_integrity_witness:
  "\<exists>d out e. NewDecryptingReader (mem_reader (streamMagic @ replicate 7 9 @ [0, 0, 0, 19])) (replicate 32 5) = Inr d \<and>
     readToEnd ex_strict_aead (replicate 32 5) 4 d = (out, e) \<and> (\<exists>r. [1, 2, 3] = out @ r) \<and> (e = None \<longrightarrow> out = [1, 2, 3])"
proof -
  have h: "aead_authentic ex_strict_aead (replicate 32 5) (sealedPairs (replicate 7 9) [1, 2, 3])"
    "length (chunksOf [1, 2, 3 :: byte]) \<le> 2 ^ 32" "length (replicate 7 (9 :: byte)) = noncePrefixLen"
    by (simp_all add: aead_authentic_def ex_strict_aead_def sealedPairs_def ex_chunks lessThan_Suc)
  have n: "NewDecryptingReader (mem_reader (streamMagic @ replicate 7 9 @ [0, 0, 0, 19])) (replicate 32 5)
      = Inr (dec_at (replicate 7 9) [0, 0, 0, 19] None 0 False)" (is "_ = Inr ?d")
    by (rule NewDecryptingReader_stream) (simp_all add: KeySize_def)
  obtain out e where r: "readToEnd ex_strict_aead (replicate 32 5) 4 ?d = (out, e)" by fastforce
  from stream_integrity [OF h n _ r] n r show ?thesis by auto
qed

section \<open>Sealed keys\<close>

lemma OpenDEK_SealDEK:
  assumes "aead_opens ae kek" "length nonce = gcmNonceSize" "SealDEK ae (Some nonce) kek dek aad = Inr blob"
  shows "OpenDEK ae kek blob aad = Inr dek"
proof -
  have l: "length (ae_Seal ae kek nonce dek (bytes_of aad)) = length dek + gcmTagSize"
    and o: "ae_Open ae kek nonce (ae_Seal ae kek nonce dek (bytes_of aad)) (bytes_of aad) = Some dek"
    using assms(1) by (auto simp: aead_opens_def)
  have "blob = sealMagic @ nonce @ ae_Seal ae kek nonce dek (bytes_of aad)" "newAEAD kek = None"
    using assms(3) by (auto simp: SealDEK_def split: option.splits)
  then show ?thesis using assms(2) l o by (simp add: OpenDEK_def)
qed

end
