(* ===== verification/Storage.thy ===== *)
theory Storage
  imports Atrest Sha256
begin

text \<open>
  The snapshot storage of a node, \<open>internal/snapshot/storage\<close>: the local disk backend, the
  store of sealed data keys and the encrypting backend in front of them. The file system is a
  list of nodes with a clock and a list of faults: each system call takes the next fault, and
  a call that finds one fails, a write after the given number of bytes, the removal of a tree with
  any set of its files left. An empty list is a disk that does not fail. The interfaces \<open>StorageBackend\<close> and \<open>SealedDEKStore\<close> are records of
  functions over a state, as the Go interfaces are, and the locale \<open>blob_store\<close> is the contract
  of the first.
\<close>

section \<open>File system\<close>

type_synonym path = "string list"

datatype Node = FileNode bytes gotime | DirNode gotime

fun is_file :: "Node \<Rightarrow> bool" where
  "is_file (FileNode c t) = True"
| "is_file (DirNode t) = False"

record Fs =
  fs_Nodes :: "(path \<times> Node) list"
  fs_Now :: gotime
  fs_Faults :: "nat option list"

datatype OsError = OsNotExist | OsExist | OsOther

definition fs_get :: "Fs \<Rightarrow> path \<Rightarrow> Node option" where
  "fs_get fs p = map_of (fs_Nodes fs) p"

definition fs_put :: "path \<Rightarrow> Node \<Rightarrow> Fs \<Rightarrow> Fs" where
  "fs_put p n fs = fs\<lparr>fs_Nodes := (p, n) # filter (\<lambda>x. fst x \<noteq> p) (fs_Nodes fs)\<rparr>"

definition fs_del :: "path \<Rightarrow> Fs \<Rightarrow> Fs" where
  "fs_del p fs = fs\<lparr>fs_Nodes := filter (\<lambda>x. fst x \<noteq> p) (fs_Nodes fs)\<rparr>"

definition is_under :: "path \<Rightarrow> path \<Rightarrow> bool" where
  "is_under p q \<longleftrightarrow> take (length p) q = p"

definition fs_fault :: "Fs \<Rightarrow> nat option \<times> Fs" where
  "fs_fault fs = (case fs_Faults fs of [] \<Rightarrow> (None, fs) | f # fl \<Rightarrow> (f, fs\<lparr>fs_Faults := fl\<rparr>))"

definition os_Stat :: "path \<Rightarrow> Fs \<Rightarrow> (OsError + Node) \<times> Fs" where
  "os_Stat p fs = (case fs_fault fs of
      (Some _, fs) \<Rightarrow> (Inl OsOther, fs)
    | (None, fs) \<Rightarrow> (case fs_get fs p of None \<Rightarrow> Inl OsNotExist | Some n \<Rightarrow> Inr n, fs))"

fun prefixes :: "'a list \<Rightarrow> 'a list list" where
  "prefixes [] = [[]]"
| "prefixes (x # xs) = [] # map ((#) x) (prefixes xs)"

definition os_MkdirAll :: "path \<Rightarrow> Fs \<Rightarrow> OsError option \<times> Fs" where
  "os_MkdirAll p fs = (case fs_fault fs of
      (Some _, fs) \<Rightarrow> (Some OsOther, fs)
    | (None, fs) \<Rightarrow>
        if \<exists>q\<in>set (prefixes p). (case fs_get fs q of Some n \<Rightarrow> is_file n | None \<Rightarrow> False) then (Some OsOther, fs)
        else (None, foldr (\<lambda>q fs. if fs_get fs q = None then fs_put q (DirNode (fs_Now fs)) fs else fs) (prefixes p) fs))"

text \<open>\<open>O_CREATE|O_EXCL\<close>: the directory must exist, and its time changes.\<close>

definition os_CreateExcl :: "path \<Rightarrow> Fs \<Rightarrow> OsError option \<times> Fs" where
  "os_CreateExcl p fs = (case fs_fault fs of
      (Some _, fs) \<Rightarrow> (Some OsOther, fs)
    | (None, fs) \<Rightarrow>
        (case fs_get fs p of
           Some _ \<Rightarrow> (Some OsExist, fs)
         | None \<Rightarrow> (case fs_get fs (butlast p) of
               Some (DirNode _) \<Rightarrow> (None, fs_put p (FileNode [] (fs_Now fs)) (fs_put (butlast p) (DirNode (fs_Now fs)) fs))
             | _ \<Rightarrow> (Some OsNotExist, fs))))"

text \<open>Writing a whole content into an open file; a fault leaves the first bytes.\<close>

definition os_WriteOpen :: "path \<Rightarrow> bytes \<Rightarrow> Fs \<Rightarrow> bool \<times> Fs" where
  "os_WriteOpen p bs fs = (case fs_fault fs of
      (Some k, fs) \<Rightarrow> (False, fs_put p (FileNode (take k bs) (fs_Now fs)) fs)
    | (None, fs) \<Rightarrow> (True, fs_put p (FileNode bs (fs_Now fs)) fs))"

text \<open>A call on an open file that changes no content: \<open>Close\<close>, \<open>Sync\<close>, \<open>Seek\<close>.\<close>

definition os_Plain :: "Fs \<Rightarrow> bool \<times> Fs" where
  "os_Plain fs = (case fs_fault fs of (Some _, fs) \<Rightarrow> (False, fs) | (None, fs) \<Rightarrow> (True, fs))"

definition os_ReadFile :: "path \<Rightarrow> Fs \<Rightarrow> (OsError + bytes) \<times> Fs" where
  "os_ReadFile p fs = (case os_Stat p fs of
      (Inl e, fs) \<Rightarrow> (Inl e, fs)
    | (Inr (FileNode c _), fs) \<Rightarrow> (Inr c, fs)
    | (Inr (DirNode _), fs) \<Rightarrow> (Inl OsOther, fs))"

text \<open>\<open>os.WriteFile\<close>: create or truncate, then write. A fault of the open leaves the file as it was.\<close>

definition os_WriteFile :: "path \<Rightarrow> bytes \<Rightarrow> Fs \<Rightarrow> bool \<times> Fs" where
  "os_WriteFile p bs fs = (case fs_fault fs of
      (Some _, fs) \<Rightarrow> (False, fs)
    | (None, fs) \<Rightarrow>
        (case (fs_get fs (butlast p), fs_get fs p) of
           (Some (DirNode _), None) \<Rightarrow> os_WriteOpen p bs (fs_put (butlast p) (DirNode (fs_Now fs)) fs)
         | (Some (DirNode _), Some (FileNode _ _)) \<Rightarrow> os_WriteOpen p bs fs
         | _ \<Rightarrow> (False, fs)))"

definition os_Remove :: "path \<Rightarrow> Fs \<Rightarrow> OsError option \<times> Fs" where
  "os_Remove p fs = (case fs_fault fs of
      (Some _, fs) \<Rightarrow> (Some OsOther, fs)
    | (None, fs) \<Rightarrow>
        (case fs_get fs p of
           None \<Rightarrow> (Some OsNotExist, fs)
         | Some (FileNode _ _) \<Rightarrow> (None, fs_del p fs)
         | Some (DirNode _) \<Rightarrow>
             if \<exists>x\<in>set (fs_Nodes fs). is_under p (fst x) \<and> fst x \<noteq> p then (Some OsOther, fs) else (None, fs_del p fs)))"

text \<open>
  \<open>os.RemoveAll\<close>: a fault leaves a part of the tree. It goes on past an entry that it cannot
  remove, so any set of the files below may be gone; the bits of the fault say which.
\<close>

definition filesBelow :: "path \<Rightarrow> Fs \<Rightarrow> path list" where
  "filesBelow p fs = filter (\<lambda>q. is_under p q \<and> q \<noteq> p \<and> (case fs_get fs q of Some n \<Rightarrow> is_file n | None \<Rightarrow> False)) (map fst (fs_Nodes fs))"

definition os_RemoveAll :: "path \<Rightarrow> Fs \<Rightarrow> OsError option \<times> Fs" where
  "os_RemoveAll p fs = (case fs_fault fs of
      (Some k, fs) \<Rightarrow>
        (let unlinked = map snd (filter (\<lambda>(i, _). bit k i) (List.enumerate 0 (filesBelow p fs)))
         in (Some OsOther, fs\<lparr>fs_Nodes := filter (\<lambda>x. fst x \<notin> set unlinked) (fs_Nodes fs)\<rparr>))
    | (None, fs) \<Rightarrow> (None, fs\<lparr>fs_Nodes := filter (\<lambda>x. \<not> is_under p (fst x)) (fs_Nodes fs)\<rparr>))"

lemma map_of_filter_key: "map_of (filter (\<lambda>x. P (fst x)) xs) q = (if P q then map_of xs q else None)"
  by (induction xs) auto

lemmas map_of_filter_ne = map_of_filter_key [of "\<lambda>q. q \<noteq> p" for p]
lemmas map_of_filter_under = map_of_filter_key [of "\<lambda>q. \<not> is_under p q" for p]

lemma fs_get_put [simp]: "fs_get (fs_put p n fs) q = (if q = p then Some n else fs_get fs q)"
  by (simp add: fs_get_def fs_put_def map_of_filter_ne)

lemma fs_get_del [simp]: "fs_get (fs_del p fs) q = (if q = p then None else fs_get fs q)"
  by (simp add: fs_get_def fs_del_def map_of_filter_ne)

lemma fs_put_fields [simp]:
  "fs_Now (fs_put p n fs) = fs_Now fs" "fs_Faults (fs_put p n fs) = fs_Faults fs"
  "fs_Now (fs_del p fs) = fs_Now fs" "fs_Faults (fs_del p fs) = fs_Faults fs"
  by (simp_all add: fs_put_def fs_del_def)

lemma fs_get_RemoveAll:
  "os_RemoveAll p fs = (None, fs') \<Longrightarrow> fs_get fs' q = (if is_under p q then None else fs_get fs q)"
  by (auto simp: os_RemoveAll_def fs_fault_def fs_get_def map_of_filter_under split: list.splits option.splits)

section \<open>Interfaces\<close>

datatype StorageError =
    ErrNotFound
  | ErrCorrupted
  | ErrInsufficientStorage
  | ErrAlreadyExists
  | InFlight
  | ErrOsNotExist
  | EmptyID
  | IDSeparator
  | IDDotDot
  | CtxDone
  | StoreIO OsError
  | StoreWrite
  | ReadState string
  | KeyFile AtrestError
  | CorruptKey AtrestError
  | StaticKEKSize nat
  | SaveTooLong StorageError
  | CleanupFailed StorageError StorageError

text \<open>\<open>errors.Is\<close> against the sentinels, through the errors that wrap them.\<close>

fun is_AlreadyExists :: "StorageError \<Rightarrow> bool" where
  "is_AlreadyExists ErrAlreadyExists = True"
| "is_AlreadyExists InFlight = True"
| "is_AlreadyExists (SaveTooLong e) = is_AlreadyExists e"
| "is_AlreadyExists (CleanupFailed e f) = (is_AlreadyExists e \<or> is_AlreadyExists f)"
| "is_AlreadyExists _ = False"

record 's StorageBackend =
  sb_Save :: "string \<Rightarrow> Reader \<Rightarrow> 's \<Rightarrow> (StorageError + nat \<times> string) \<times> 's"
  sb_Open :: "string \<Rightarrow> 's \<Rightarrow> (StorageError + Reader) \<times> 's"
  sb_Delete :: "string \<Rightarrow> 's \<Rightarrow> StorageError option \<times> 's"
  sb_Stat :: "string \<Rightarrow> 's \<Rightarrow> (StorageError + nat \<times> bool) \<times> 's"
  sb_RemovePartial :: "(string \<Rightarrow> duration \<Rightarrow> 's \<Rightarrow> StorageError option \<times> 's) option"
  sb_EncryptedAtRest :: "bool option"

record 's SealedDEKStore =
  dk_Put :: "string \<Rightarrow> bytes \<Rightarrow> 's \<Rightarrow> StorageError option \<times> 's"
  dk_Get :: "string \<Rightarrow> 's \<Rightarrow> (StorageError + bytes) \<times> 's"
  dk_Destroy :: "string \<Rightarrow> 's \<Rightarrow> StorageError option \<times> 's"
  dk_ModTime :: "(string \<Rightarrow> 's \<Rightarrow> (StorageError + gotime) \<times> 's) option"

text \<open>The capability: a backend that does not implement it counts as unencrypted.\<close>

definition IsEncryptedAtRest :: "'s StorageBackend \<Rightarrow> bool" where
  "IsEncryptedAtRest b \<longleftrightarrow> sb_EncryptedAtRest b = Some True"

definition ValidateSnapshotID :: "string \<Rightarrow> StorageError option" where
  "ValidateSnapshotID i =
     (if i = '''' then Some EmptyID
      else if CHR ''/'' \<in> set i \<or> CHR 0x5C \<in> set i then Some IDSeparator
      else if str_Contains i ''..'' then Some IDDotDot
      else None)"

section \<open>Local disk\<close>

text \<open>
  \<open>filepath.Join\<close> cleans its result, so an id \<open>.\<close> adds no component. An id that passed
  \<open>ValidateSnapshotID\<close> holds no separator and no \<open>..\<close>. The fill threshold is a fraction, given by
  its numerator and denominator; \<open>ld_Statfs\<close> is the answer of \<open>statfs\<close>: the blocks and the free
  blocks.
\<close>

record LocalDiskBackend =
  ld_Root :: path
  ld_Threshold :: "int \<times> int"
  ld_Statfs :: "(64 word \<times> 64 word) option"

definition joinID :: "path \<Rightarrow> string \<Rightarrow> path" where
  "joinID root i = (if i = ''.'' then root else root @ [i])"

definition snapshotDir :: "LocalDiskBackend \<Rightarrow> string \<Rightarrow> path" where
  "snapshotDir b i = joinID (ld_Root b) i"

definition statePath :: "LocalDiskBackend \<Rightarrow> string \<Rightarrow> path" where
  "statePath b i = joinID (ld_Root b) i @ [''state.bin'']"

definition sha256Path :: "LocalDiskBackend \<Rightarrow> string \<Rightarrow> path" where
  "sha256Path b i = joinID (ld_Root b) i @ [''state.bin.sha256'']"

definition checkFillThreshold :: "LocalDiskBackend \<Rightarrow> StorageError option" where
  "checkFillThreshold b =
     (if fst (ld_Threshold b) \<le> 0 then None
      else case ld_Statfs b of
             None \<Rightarrow> Some (StoreIO OsOther)
           | Some (blocks, bfree) \<Rightarrow>
               if blocks = 0 then None
               else if fst (ld_Threshold b) * uint blocks \<le> uint (blocks - bfree) * snd (ld_Threshold b)
               then Some ErrInsufficientStorage else None)"

text \<open>The body of a save: the copy into the new file, its close and the digest beside it.\<close>

definition localFill :: "LocalDiskBackend \<Rightarrow> string \<Rightarrow> Reader \<Rightarrow> Fs \<Rightarrow> (StorageError + nat \<times> string) \<times> Fs" where
  "localFill b i st fs =
     (let (wok, fs) = os_WriteOpen (statePath b i) (rd_Data st) fs;
          copyOK = (wok \<and> rd_Err st = None);
          (cok, fs) = os_Plain fs
      in if \<not> (copyOK \<and> cok) then
           (Inl (case rd_Err st of Some e \<Rightarrow> if wok then ReadState e else StoreWrite | None \<Rightarrow> StoreWrite),
            snd (os_RemoveAll (snapshotDir b i) fs))
         else
           (case os_WriteFile (sha256Path b i) (bytes_of (hex_Encode (sha256 (rd_Data st)))) fs of
              (False, fs) \<Rightarrow> (Inl StoreWrite, snd (os_RemoveAll (snapshotDir b i) fs))
            | (True, fs) \<Rightarrow> (Inr (length (rd_Data st), i), fs)))"

definition LocalSave :: "LocalDiskBackend \<Rightarrow> bool \<Rightarrow> string \<Rightarrow> Reader \<Rightarrow> Fs \<Rightarrow> (StorageError + nat \<times> string) \<times> Fs" where
  "LocalSave b cancelled i st fs =
     (if cancelled then (Inl CtxDone, fs)
      else case ValidateSnapshotID i of Some e \<Rightarrow> (Inl e, fs)
    | None \<Rightarrow> case checkFillThreshold b of Some e \<Rightarrow> (Inl e, fs)
    | None \<Rightarrow> case os_Stat (snapshotDir b i) fs of
        (Inr _, fs) \<Rightarrow> (Inl ErrAlreadyExists, fs)
      | (Inl OsNotExist, fs) \<Rightarrow>
          (case os_MkdirAll (snapshotDir b i) fs of
             (Some e, fs) \<Rightarrow> (Inl (StoreIO e), fs)
           | (None, fs) \<Rightarrow>
               (case os_CreateExcl (statePath b i) fs of
                  (Some OsExist, fs) \<Rightarrow> (Inl ErrAlreadyExists, fs)
                | (Some e, fs) \<Rightarrow> (Inl (StoreIO e), fs)
                | (None, fs) \<Rightarrow> localFill b i st fs))
      | (Inl e, fs) \<Rightarrow> (Inl (StoreIO e), fs))"

text \<open>\<open>strings.TrimSpace\<close> on the sidecar, byte by byte.\<close>

definition is_space :: "byte \<Rightarrow> bool" where
  "is_space c \<longleftrightarrow> c \<in> {9, 10, 11, 12, 13, 32}"

definition trimSpace :: "bytes \<Rightarrow> bytes" where
  "trimSpace s = rev (dropWhile is_space (rev (dropWhile is_space s)))"

definition LocalOpen :: "LocalDiskBackend \<Rightarrow> bool \<Rightarrow> string \<Rightarrow> Fs \<Rightarrow> (StorageError + Reader) \<times> Fs" where
  "LocalOpen b cancelled ref fs =
     (if cancelled then (Inl CtxDone, fs)
      else case ValidateSnapshotID ref of Some e \<Rightarrow> (Inl e, fs)
    | None \<Rightarrow> case os_ReadFile (sha256Path b ref) fs of
        (Inl OsNotExist, fs) \<Rightarrow> (Inl ErrNotFound, fs)
      | (Inl e, fs) \<Rightarrow> (Inl (StoreIO e), fs)
      | (Inr expected, fs) \<Rightarrow>
          (case os_ReadFile (statePath b ref) fs of
             (Inl OsNotExist, fs) \<Rightarrow> (Inl ErrNotFound, fs)
           | (Inl e, fs) \<Rightarrow> (Inl (StoreIO e), fs)
           | (Inr content, fs) \<Rightarrow>
               if bytes_of (hex_Encode (sha256 content)) \<noteq> trimSpace expected then (Inl ErrCorrupted, fs)
               else (case os_Plain fs of
                       (False, fs) \<Rightarrow> (Inl (StoreIO OsOther), fs)
                     | (True, fs) \<Rightarrow> (Inr (mem_reader content), fs))))"

text \<open>
  The overwrite: open for writing, zeros in pieces of 64 KiB, \<open>Sync\<close>. A write that fails leaves
  its first bytes zeroed.
\<close>

definition zeroPrefix :: "path \<Rightarrow> nat \<Rightarrow> Fs \<Rightarrow> Fs" where
  "zeroPrefix p n fs = (case fs_get fs p of
      Some (FileNode c _) \<Rightarrow> fs_put p (FileNode (replicate n 0 @ drop n c) (fs_Now fs)) fs
    | _ \<Rightarrow> fs)"

function zeroLoop :: "path \<Rightarrow> nat \<Rightarrow> nat \<Rightarrow> Fs \<Rightarrow> bool \<times> Fs" where
  "zeroLoop p written sz fs =
     (if written < sz then
        let chunk = min (sz - written) 65536 in
        case fs_fault fs of
          (Some k, fs) \<Rightarrow> (False, zeroPrefix p (written + min k chunk) fs)
        | (None, fs) \<Rightarrow> zeroLoop p (written + chunk) sz (zeroPrefix p (written + chunk) fs)
      else (True, fs))"
  by pat_completeness auto
termination by (relation "measure (\<lambda>(p, written, sz, fs). sz - written)") auto

declare zeroLoop.simps [simp del]

definition overwriteWithZeros :: "path \<Rightarrow> nat \<Rightarrow> Fs \<Rightarrow> bool \<times> Fs" where
  "overwriteWithZeros p sz fs =
     (if sz \<le> 0 then (True, fs)
      else case os_Stat p fs of
             (Inl _, fs) \<Rightarrow> (False, fs)
           | (Inr (DirNode _), fs) \<Rightarrow> (False, fs)
           | (Inr (FileNode _ _), fs) \<Rightarrow>
               (case zeroLoop p 0 sz fs of
                  (False, fs) \<Rightarrow> (False, fs)
                | (True, fs) \<Rightarrow> os_Plain fs))"

definition removeIgnoringMissing :: "path \<Rightarrow> Fs \<Rightarrow> StorageError option \<times> Fs" where
  "removeIgnoringMissing p fs = (case os_Remove p fs of
      (Some OsNotExist, fs) \<Rightarrow> (None, fs)
    | (Some e, fs) \<Rightarrow> (Some (StoreIO e), fs)
    | (None, fs) \<Rightarrow> (None, fs))"

fun nodeSize :: "Node \<Rightarrow> nat" where
  "nodeSize (FileNode c t) = length c"
| "nodeSize (DirNode t) = 4096"

fun nodeTime :: "Node \<Rightarrow> gotime" where
  "nodeTime (FileNode c t) = t"
| "nodeTime (DirNode t) = t"

definition LocalDelete :: "LocalDiskBackend \<Rightarrow> bool \<Rightarrow> string \<Rightarrow> Fs \<Rightarrow> StorageError option \<times> Fs" where
  "LocalDelete b cancelled ref fs =
     (if cancelled then (Some CtxDone, fs)
      else case ValidateSnapshotID ref of Some e \<Rightarrow> (Some e, fs)
    | None \<Rightarrow> case os_Stat (statePath b ref) fs of
        (Inl OsNotExist, fs) \<Rightarrow> (Some ErrNotFound, fs)
      | (Inl e, fs) \<Rightarrow> (Some (StoreIO e), fs)
      | (Inr info, fs) \<Rightarrow>
          (case overwriteWithZeros (statePath b ref) (nodeSize info) fs of
             (False, fs) \<Rightarrow> (Some StoreWrite, fs)
           | (True, fs) \<Rightarrow>
               (case removeIgnoringMissing (statePath b ref) fs of
                  (Some e, fs) \<Rightarrow> (Some e, fs)
                | (None, fs) \<Rightarrow>
                    (case removeIgnoringMissing (sha256Path b ref) fs of
                       (Some e, fs) \<Rightarrow> (Some e, fs)
                     | (None, fs) \<Rightarrow> removeIgnoringMissing (snapshotDir b ref) fs))))"

definition LocalStat :: "LocalDiskBackend \<Rightarrow> bool \<Rightarrow> string \<Rightarrow> Fs \<Rightarrow> (StorageError + nat \<times> bool) \<times> Fs" where
  "LocalStat b cancelled ref fs =
     (if cancelled then (Inl CtxDone, fs)
      else case ValidateSnapshotID ref of Some e \<Rightarrow> (Inl e, fs)
    | None \<Rightarrow> case os_Stat (statePath b ref) fs of
        (Inl OsNotExist, fs) \<Rightarrow> (Inr (0, False), fs)
      | (Inl e, fs) \<Rightarrow> (Inl (StoreIO e), fs)
      | (Inr info, fs) \<Rightarrow> (Inr (nodeSize info, True), fs))"

definition LocalRemovePartial :: "LocalDiskBackend \<Rightarrow> bool \<Rightarrow> string \<Rightarrow> duration \<Rightarrow> Fs \<Rightarrow> StorageError option \<times> Fs" where
  "LocalRemovePartial b cancelled i olderThan fs =
     (if cancelled then (Some CtxDone, fs)
      else case ValidateSnapshotID i of Some e \<Rightarrow> (Some e, fs)
    | None \<Rightarrow> case os_Stat (sha256Path b i) fs of
        (Inr _, fs) \<Rightarrow> (Some ErrAlreadyExists, fs)
      | (Inl OsNotExist, fs) \<Rightarrow>
          (case os_Stat (snapshotDir b i) fs of
             (Inl OsNotExist, fs) \<Rightarrow> (None, fs)
           | (Inl e, fs) \<Rightarrow> (Some (StoreIO e), fs)
           | (Inr dirInfo, fs) \<Rightarrow>
               (case os_Stat (statePath b i) fs of
                  (Inl OsExist, fs) \<Rightarrow> (Some (StoreIO OsExist), fs)
                | (Inl OsOther, fs) \<Rightarrow> (Some (StoreIO OsOther), fs)
                | (found, fs) \<Rightarrow>
                    let (written, sz, hasPayload) = (case found of
                          Inr info \<Rightarrow> (nodeTime info, nodeSize info, True)
                        | Inl _ \<Rightarrow> (nodeTime dirInfo, 0, False))
                    in if time_Sub (fs_Now fs) written < olderThan then (Some InFlight, fs)
                       else
                         (case (if hasPayload then overwriteWithZeros (statePath b i) sz fs else (True, fs)) of
                            (False, fs) \<Rightarrow> (Some StoreWrite, fs)
                          | (True, fs) \<Rightarrow>
                              (case os_RemoveAll (snapshotDir b i) fs of
                                 (Some e, fs) \<Rightarrow> (Some (StoreIO e), fs)
                               | (None, fs) \<Rightarrow> (None, fs)))))
      | (Inl e, fs) \<Rightarrow> (Some (StoreIO e), fs))"

definition LocalDisk :: "LocalDiskBackend \<Rightarrow> bool \<Rightarrow> Fs StorageBackend" where
  "LocalDisk b cancelled = \<lparr>sb_Save = LocalSave b cancelled, sb_Open = LocalOpen b cancelled,
     sb_Delete = LocalDelete b cancelled, sb_Stat = LocalStat b cancelled,
     sb_RemovePartial = Some (LocalRemovePartial b cancelled), sb_EncryptedAtRest = None\<rparr>"

section \<open>Sealed data keys on disk\<close>

text \<open>
  \<open>atrest.Shred\<close>. The files of the key store have no holes, so the one data extent is the whole
  file, also when a seek fails.
\<close>

definition zeroData :: "path \<Rightarrow> nat \<Rightarrow> Fs \<Rightarrow> bool \<times> Fs" where
  "zeroData p sz fs =
     (case fs_fault fs of
        (Some _, fs) \<Rightarrow> zeroLoop p 0 sz fs
      | (None, fs) \<Rightarrow> zeroLoop p 0 sz (snd (fs_fault fs)))"

definition Shred :: "path \<Rightarrow> Fs \<Rightarrow> OsError option \<times> Fs" where
  "Shred p fs = (case os_Stat p fs of
      (Inl e, fs) \<Rightarrow> (Some e, fs)
    | (Inr info, fs) \<Rightarrow>
        if nodeSize info > 0 then
          (case os_Stat p fs of
             (Inl e, fs) \<Rightarrow> (Some e, fs)
           | (Inr (DirNode _), fs) \<Rightarrow> (Some OsOther, fs)
           | (Inr (FileNode _ _), fs) \<Rightarrow>
               (case zeroData p (nodeSize info) fs of
                  (False, fs) \<Rightarrow> (Some OsOther, fs)
                | (True, fs) \<Rightarrow>
                    (case os_Plain fs of
                       (False, fs) \<Rightarrow> (Some OsOther, fs)
                     | (True, fs) \<Rightarrow>
                         (case os_Plain fs of
                            (False, fs) \<Rightarrow> (Some OsOther, fs)
                          | (True, fs) \<Rightarrow> os_Remove p fs))))
        else os_Remove p fs)"

definition dekPath :: "path \<Rightarrow> string \<Rightarrow> path" where
  "dekPath dir i = dir @ [i @ ''.dek'']"

definition DirPut :: "path \<Rightarrow> string \<Rightarrow> bytes \<Rightarrow> Fs \<Rightarrow> StorageError option \<times> Fs" where
  "DirPut dir i sealed fs = (case ValidateSnapshotID i of
      Some e \<Rightarrow> (Some e, fs)
    | None \<Rightarrow> (case os_MkdirAll dir fs of
          (Some e, fs) \<Rightarrow> (Some (StoreIO e), fs)
        | (None, fs) \<Rightarrow>
            (case os_CreateExcl (dekPath dir i) fs of
               (Some OsExist, fs) \<Rightarrow> (Some ErrAlreadyExists, fs)
             | (Some e, fs) \<Rightarrow> (Some (StoreIO e), fs)
             | (None, fs) \<Rightarrow>
                 let (wok, fs) = os_WriteOpen (dekPath dir i) sealed fs;
                     (sok, fs) = os_Plain fs;
                     (cok, fs) = os_Plain fs
                 in if \<not> (wok \<and> sok \<and> cok) then (Some StoreWrite, snd (os_Remove (dekPath dir i) fs))
                    else (None, fs))))"

definition DirGet :: "path \<Rightarrow> string \<Rightarrow> Fs \<Rightarrow> (StorageError + bytes) \<times> Fs" where
  "DirGet dir i fs = (case ValidateSnapshotID i of
      Some e \<Rightarrow> (Inl e, fs)
    | None \<Rightarrow> (case os_ReadFile (dekPath dir i) fs of
          (Inl OsNotExist, fs) \<Rightarrow> (Inl ErrNotFound, fs)
        | (Inl e, fs) \<Rightarrow> (Inl (StoreIO e), fs)
        | (Inr sealed, fs) \<Rightarrow> (Inr sealed, fs)))"

definition DirModTime :: "path \<Rightarrow> string \<Rightarrow> Fs \<Rightarrow> (StorageError + gotime) \<times> Fs" where
  "DirModTime dir i fs = (case ValidateSnapshotID i of
      Some e \<Rightarrow> (Inl e, fs)
    | None \<Rightarrow> (case os_Stat (dekPath dir i) fs of
          (Inl OsNotExist, fs) \<Rightarrow> (Inl ErrNotFound, fs)
        | (Inl e, fs) \<Rightarrow> (Inl (StoreIO e), fs)
        | (Inr info, fs) \<Rightarrow> (Inr (nodeTime info), fs)))"

definition DirDestroy :: "path \<Rightarrow> string \<Rightarrow> Fs \<Rightarrow> StorageError option \<times> Fs" where
  "DirDestroy dir i fs = (case ValidateSnapshotID i of
      Some e \<Rightarrow> (Some e, fs)
    | None \<Rightarrow> (case Shred (dekPath dir i) fs of
          (Some OsNotExist, fs) \<Rightarrow> (Some ErrOsNotExist, fs)
        | (Some e, fs) \<Rightarrow> (Some (StoreIO e), fs)
        | (None, fs) \<Rightarrow> (None, fs)))"

definition DirDEKStore :: "path \<Rightarrow> Fs SealedDEKStore" where
  "DirDEKStore dir = \<lparr>dk_Put = DirPut dir, dk_Get = DirGet dir, dk_Destroy = DirDestroy dir, dk_ModTime = Some (DirModTime dir)\<rparr>"

section \<open>The encrypting backend\<close>

text \<open>
  A key source gives the key-encryption key or an error. \<open>StaticKEKSource\<close> holds it in memory;
  \<open>LoadOrCreateKEK\<close> reads the key file of the node, makes it on first use, and refuses one that
  has the wrong length or that the group or others can open. The mode of the key file is an
  argument, since the nodes of the file system carry none.
\<close>

definition StaticKEK :: "bytes \<Rightarrow> StorageError + bytes" where
  "StaticKEK s = (if length s \<noteq> KeySize then Inl (StaticKEKSize (length s)) else Inr s)"

datatype KekError = KekLength nat | KekMode nat | KekIO OsError | KekRand | KekWrite

unbundle bit_operations_syntax

definition readKEK :: "nat \<Rightarrow> path \<Rightarrow> Fs \<Rightarrow> (OsError + (KekError + bytes)) \<times> Fs" where
  "readKEK mode p fs = (case os_ReadFile p fs of
      (Inl e, fs) \<Rightarrow> (Inl e, fs)
    | (Inr b, fs) \<Rightarrow>
        if length b \<noteq> KeySize then (Inr (Inl (KekLength (length b))), fs)
        else (case os_Stat p fs of
                (Inl e, fs) \<Rightarrow> (Inr (Inl (KekIO e)), fs)
              | (Inr _, fs) \<Rightarrow>
                  if mode AND 63 \<noteq> 0 then (Inr (Inl (KekMode mode)), fs) else (Inr (Inr b), fs)))"

text \<open>
  The creation with \<open>O_EXCL\<close> can lose a race; then the code reads again. Between the two
  attempts of the loser the file exists, so one more attempt is all that a run needs: \<open>fuel\<close>
  bounds the attempts, and a run out of fuel is \<open>KekIO OsExist\<close>.
\<close>

fun LoadOrCreateKEK :: "nat \<Rightarrow> nat \<Rightarrow> bytes option \<Rightarrow> path \<Rightarrow> Fs \<Rightarrow> (KekError + bytes) \<times> Fs" where
  "LoadOrCreateKEK 0 mode rnd p fs = (Inl (KekIO OsExist), fs)"
| "LoadOrCreateKEK (Suc fuel) mode rnd p fs =
     (case readKEK mode p fs of
        (Inr r, fs) \<Rightarrow> (r, fs)
      | (Inl OsNotExist, fs) \<Rightarrow>
          (case os_MkdirAll (butlast p) fs of
             (Some e, fs) \<Rightarrow> (Inl (KekIO e), fs)
           | (None, fs) \<Rightarrow>
               (case rnd of
                  None \<Rightarrow> (Inl KekRand, fs)
                | Some k \<Rightarrow>
                    (case os_CreateExcl p fs of
                       (Some OsExist, fs) \<Rightarrow> LoadOrCreateKEK fuel mode rnd p fs
                     | (Some e, fs) \<Rightarrow> (Inl (KekIO e), fs)
                     | (None, fs) \<Rightarrow>
                         let (wok, fs) = os_WriteOpen p k fs;
                             (sok, fs) = os_Plain fs;
                             (cok, fs) = os_Plain fs
                         in if \<not> (wok \<and> sok \<and> cok) then (Inl KekWrite, snd (os_Remove p fs))
                            else (Inr k, fs))))
      | (Inl e, fs) \<Rightarrow> (Inl (KekIO e), fs))"

abbreviation defaultPartialStaleAfter :: duration where "defaultPartialStaleAfter \<equiv> 6 * hour"

definition dekAAD :: "string \<Rightarrow> string" where
  "dekAAD i = ''setec-snapshot:'' @ i"

record 's EncryptedBackend =
  eb_Inner :: "'s StorageBackend"
  eb_KEK :: "StorageError + bytes"
  eb_DEKs :: "'s SealedDEKStore"
  eb_PartialStaleAfter :: duration

definition partialStaleAfter :: "'s EncryptedBackend \<Rightarrow> duration" where
  "partialStaleAfter b = (if eb_PartialStaleAfter b > 0 then eb_PartialStaleAfter b else defaultPartialStaleAfter)"

definition removePartial :: "'s EncryptedBackend \<Rightarrow> gotime \<Rightarrow> string \<Rightarrow> 's \<Rightarrow> StorageError option \<times> 's" where
  "removePartial b now i s =
     (case sb_RemovePartial (eb_Inner b) of
        None \<Rightarrow> (None, s)
      | Some rem \<Rightarrow> (case dk_ModTime (eb_DEKs b) of
          None \<Rightarrow> (None, s)
        | Some modTime \<Rightarrow>
            (case rem i (partialStaleAfter b) s of
               (Some e, s) \<Rightarrow> (Some e, s)
             | (None, s) \<Rightarrow>
                 (case modTime i s of
                    (Inl ErrNotFound, s) \<Rightarrow> (None, s)
                  | (Inl e, s) \<Rightarrow> (Some e, s)
                  | (Inr written, s) \<Rightarrow>
                      if time_IsZero written \<or> time_Sub now written < partialStaleAfter b then (Some InFlight, s)
                      else (case dk_Destroy (eb_DEKs b) i s of
                              (Some ErrOsNotExist, s) \<Rightarrow> (None, s)
                            | (r, s) \<Rightarrow> (r, s))))))"

text \<open>
  The claim of an id among the saves that this process runs now: \<open>None\<close> when another save holds
  it.
\<close>

definition claimSave :: "string set \<Rightarrow> string \<Rightarrow> string set option" where
  "claimSave ids i = (if i \<in> ids then None else Some (insert i ids))"

definition releaseSave :: "string set \<Rightarrow> string \<Rightarrow> string set" where
  "releaseSave ids i = ids - {i}"

text \<open>
  What the inner backend reads from the pipe: the encrypted stream, or what was written before
  the encryption failed, with the failure as the error that ends it. When the save runs longer
  than its bound, the pipe is closed after some bytes (\<open>bound\<close>).
\<close>

definition pipeReader :: "Aead \<Rightarrow> bytes \<Rightarrow> bytes \<Rightarrow> nat option \<Rightarrow> Reader \<Rightarrow> Reader" where
  "pipeReader ae prefix dek bound st =
     (let (err, _, w) = Encrypt ae (Some prefix) \<lparr>wr_Out = [], wr_Room = None\<rparr> st dek
      in case bound of
           Some k \<Rightarrow> \<lparr>rd_Data = take k (wr_Out w), rd_Err = Some ''deadline''\<rparr>
         | None \<Rightarrow> \<lparr>rd_Data = wr_Out w, rd_Err = (case err of None \<Rightarrow> None | Some _ \<Rightarrow> Some ''encrypt'')\<rparr>)"

record SaveEnv =
  se_Now :: gotime
  se_Cancelled :: bool
  se_DEK :: "bytes option"
  se_Nonce :: "bytes option"
  se_Prefix :: bytes
  se_Cut :: "nat option"
  se_Ids :: "string set"

definition EncSave :: "Aead \<Rightarrow> 's EncryptedBackend \<Rightarrow> SaveEnv \<Rightarrow> string \<Rightarrow> Reader \<Rightarrow> 's \<Rightarrow> (StorageError + nat \<times> string) \<times> 's" where
  "EncSave ae b env i st s =
     (if se_Cancelled env then (Inl CtxDone, s)
      else case ValidateSnapshotID i of Some e \<Rightarrow> (Inl e, s)
    | None \<Rightarrow> case eb_KEK b of Inl e \<Rightarrow> (Inl e, s)
    | Inr kek \<Rightarrow> case se_DEK env of None \<Rightarrow> (Inl (KeyFile RandFailed), s)
    | Some dek \<Rightarrow> case SealDEK ae (se_Nonce env) kek dek (dekAAD i) of Inl e \<Rightarrow> (Inl (KeyFile e), s)
    | Inr sealed \<Rightarrow> case claimSave (se_Ids env) i of None \<Rightarrow> (Inl InFlight, s)
    | Some _ \<Rightarrow> case removePartial b (se_Now env) i s of (Some e, s) \<Rightarrow> (Inl e, s)
    | (None, s) \<Rightarrow> case dk_Put (eb_DEKs b) i sealed s of (Some e, s) \<Rightarrow> (Inl e, s)
    | (None, s) \<Rightarrow>
        (case sb_Save (eb_Inner b) i (pipeReader ae (se_Prefix env) dek (se_Cut env) st) s of
           (Inr r, s) \<Rightarrow> (Inr r, s)
         | (Inl saveErr, s) \<Rightarrow>
             let saveErr = (if se_Cut env \<noteq> None then SaveTooLong saveErr else saveErr) in
             (case dk_Destroy (eb_DEKs b) i s of
                (Some ErrOsNotExist, s) \<Rightarrow> (Inl saveErr, s)
              | (Some e, s) \<Rightarrow> (Inl (CleanupFailed saveErr e), s)
              | (None, s) \<Rightarrow> (Inl saveErr, s))))"

definition EncOpen :: "Aead \<Rightarrow> 's EncryptedBackend \<Rightarrow> bool \<Rightarrow> string \<Rightarrow> 's \<Rightarrow> (StorageError + bytes \<times> DecReader) \<times> 's" where
  "EncOpen ae b cancelled ref s =
     (if cancelled then (Inl CtxDone, s)
      else case ValidateSnapshotID ref of Some e \<Rightarrow> (Inl e, s)
    | None \<Rightarrow> case eb_KEK b of Inl e \<Rightarrow> (Inl e, s)
    | Inr kek \<Rightarrow> case dk_Get (eb_DEKs b) ref s of (Inl e, s) \<Rightarrow> (Inl e, s)
    | (Inr sealed, s) \<Rightarrow> case OpenDEK ae kek sealed (dekAAD ref) of Inl e \<Rightarrow> (Inl (CorruptKey e), s)
    | Inr dek \<Rightarrow> case sb_Open (eb_Inner b) ref s of (Inl e, s) \<Rightarrow> (Inl e, s)
    | (Inr rc, s) \<Rightarrow> case NewDecryptingReader rc dek of
          Inl (ErrDecrypt p) \<Rightarrow> (Inl ErrCorrupted, s)
        | Inl e \<Rightarrow> (Inl (KeyFile e), s)
        | Inr d \<Rightarrow> (Inr (dek, d), s))"

definition EncDelete :: "'s EncryptedBackend \<Rightarrow> bool \<Rightarrow> string \<Rightarrow> 's \<Rightarrow> StorageError option \<times> 's" where
  "EncDelete b cancelled ref s =
     (if cancelled then (Some CtxDone, s)
      else case ValidateSnapshotID ref of Some e \<Rightarrow> (Some e, s)
    | None \<Rightarrow> let (keyErr, s) = dk_Destroy (eb_DEKs b) ref s in
        if keyErr \<noteq> None \<and> keyErr \<noteq> Some ErrOsNotExist then (keyErr, s)
        else
          let (innerErr, s) = sb_Delete (eb_Inner b) ref s in
          if innerErr = Some ErrNotFound \<and> keyErr \<noteq> Some ErrOsNotExist then (None, s) else (innerErr, s))"

definition EncStat :: "'s EncryptedBackend \<Rightarrow> string \<Rightarrow> 's \<Rightarrow> (StorageError + nat \<times> bool) \<times> 's" where
  "EncStat b ref s = sb_Stat (eb_Inner b) ref s"

end
