(* ===== verification/Storage_Props.thy ===== *)
theory Storage_Props
  imports Storage
begin

text \<open>
  What the file-system calls and the operations of the local disk and of the directory of sealed
  keys change and keep. The content of an id is what a complete open would read: the payload
  whose digest is the recorded one.
\<close>

section \<open>What system calls change\<close>

definition same_outside :: "path set \<Rightarrow> Fs \<Rightarrow> Fs \<Rightarrow> bool" where
  "same_outside A fs fs' \<longleftrightarrow> (\<forall>q. q \<notin> A \<longrightarrow> fs_get fs' q = fs_get fs q)"

lemma same_outside_refl [simp]: "same_outside A fs fs"
  by (simp add: same_outside_def)

lemma same_outside_trans: "same_outside A fs fs' \<Longrightarrow> same_outside A fs' fs'' \<Longrightarrow> same_outside A fs fs''"
  by (simp add: same_outside_def)

lemma same_outside_mono: "same_outside A fs fs' \<Longrightarrow> A \<subseteq> B \<Longrightarrow> same_outside B fs fs'"
  by (auto simp: same_outside_def)

lemma same_outside_get: "same_outside A fs fs' \<Longrightarrow> q \<notin> A \<Longrightarrow> fs_get fs' q = fs_get fs q"
  by (simp add: same_outside_def)

lemma fs_fault_get: "fs_fault fs = (f, fs') \<Longrightarrow> fs_get fs' = fs_get fs"
  by (auto simp: fs_fault_def fs_get_def fun_eq_iff split: list.splits)

lemma fs_fault_now: "fs_fault fs = (f, fs') \<Longrightarrow> fs_Now fs' = fs_Now fs"
  by (auto simp: fs_fault_def split: list.splits)

lemma os_Stat_get: "os_Stat p fs = (r, fs') \<Longrightarrow> fs_get fs' = fs_get fs"
  by (auto simp: os_Stat_def dest: fs_fault_get split: prod.splits option.splits)

lemma os_Stat_Inr: "os_Stat p fs = (Inr n, fs') \<Longrightarrow> fs_get fs p = Some n"
  by (auto simp: os_Stat_def dest: fs_fault_get split: prod.splits option.splits)

lemma os_Stat_missing: "os_Stat p fs = (Inl OsNotExist, fs') \<Longrightarrow> fs_get fs p = None"
  by (auto simp: os_Stat_def dest: fs_fault_get split: prod.splits option.splits)

lemma os_Stat_not_Exist [simp]: "os_Stat p fs \<noteq> (Inl OsExist, fs')"
  by (auto simp: os_Stat_def split: prod.splits option.splits)

lemma os_Plain_get: "os_Plain fs = (r, fs') \<Longrightarrow> fs_get fs' = fs_get fs"
  by (auto simp: os_Plain_def dest: fs_fault_get split: prod.splits option.splits)

lemma os_ReadFile_get: "os_ReadFile p fs = (r, fs') \<Longrightarrow> fs_get fs' = fs_get fs"
  by (auto simp: os_ReadFile_def dest: os_Stat_get split: prod.splits sum.splits Node.splits)

lemma os_ReadFile_Inr: "os_ReadFile p fs = (Inr c, fs') \<Longrightarrow> \<exists>t. fs_get fs p = Some (FileNode c t)"
  by (auto simp: os_ReadFile_def dest: os_Stat_Inr split: prod.splits sum.splits Node.splits)

lemma os_ReadFile_missing: "os_ReadFile p fs = (Inl OsNotExist, fs') \<Longrightarrow> fs_get fs p = None"
  by (auto simp: os_ReadFile_def dest: os_Stat_missing split: prod.splits sum.splits Node.splits)

lemma set_prefixes: "q \<in> set (prefixes p) \<longleftrightarrow> (\<exists>r. p = q @ r)"
  by (induction p arbitrary: q) (auto simp: Cons_eq_append_conv)

lemma os_MkdirAll_get:
  assumes "os_MkdirAll p fs = (r, fs')"
  shows "same_outside (set (prefixes p)) fs fs'"
    and "fs_get fs q \<noteq> None \<Longrightarrow> fs_get fs' q = fs_get fs q"
    and "fs_get fs q = None \<Longrightarrow> fs_get fs' q = None \<or> (\<exists>t. fs_get fs' q = Some (DirNode t))"
    and "r = None \<Longrightarrow> \<exists>t. fs_get fs' p = Some (DirNode t)"
proof -
  define mk where "mk = (\<lambda>q fs. if fs_get fs q = None then fs_put q (DirNode (fs_Now fs)) fs else fs)"
  have mk: "fs_get (foldr mk qs fs) q = (if q \<in> set qs \<and> fs_get fs q = None then Some (DirNode (fs_Now fs)) else fs_get fs q)
      \<and> fs_Now (foldr mk qs fs) = fs_Now fs" for qs fs q
    by (induction qs; cases "fs_get fs q") (auto simp: mk_def split: if_splits)
  obtain f fs1 where f: "fs_fault fs = (f, fs1)" by fastforce
  note g = fs_fault_get [OF f]
  consider "fs' = fs1" "r \<noteq> None" | "fs' = foldr mk (prefixes p) fs1" "r = None" "\<forall>q\<in>set (prefixes p). fs_get fs q = None \<or> (\<exists>n. fs_get fs q = Some n \<and> \<not> is_file n)"
    using assms f g by (auto simp: os_MkdirAll_def mk_def split: option.splits if_splits)
  note c = this
  show "same_outside (set (prefixes p)) fs fs'"
    by (rule c) (auto simp: same_outside_def g mk)
  show "fs_get fs q \<noteq> None \<Longrightarrow> fs_get fs' q = fs_get fs q"
    by (rule c) (auto simp: g mk)
  show "fs_get fs q = None \<Longrightarrow> fs_get fs' q = None \<or> (\<exists>t. fs_get fs' q = Some (DirNode t))"
    by (rule c) (auto simp: g mk)
  have p: "p \<in> set (prefixes p)" by (simp add: set_prefixes)
  show "r = None \<Longrightarrow> \<exists>t. fs_get fs' p = Some (DirNode t)"
  proof (rule c)
    assume fs': "fs' = foldr mk (prefixes p) fs1" and nf: "\<forall>q\<in>set (prefixes p). fs_get fs q = None \<or> (\<exists>n. fs_get fs q = Some n \<and> \<not> is_file n)"
    show ?thesis
    proof (cases "fs_get fs p")
      case None
      with p show ?thesis by (simp add: fs' mk g)
    next
      case (Some n)
      with nf p have "\<not> is_file n" by fastforce
      then obtain t where "n = DirNode t" by (cases n) auto
      with Some show ?thesis by (simp add: fs' mk g)
    qed
  qed simp
qed

lemma os_CreateExcl_get:
  assumes "os_CreateExcl p fs = (r, fs')"
  shows "r \<noteq> None \<Longrightarrow> fs_get fs' = fs_get fs"
    and "r = None \<Longrightarrow> fs_get fs p = None \<and> (\<exists>t. fs_get fs (butlast p) = Some (DirNode t)) \<and>
      fs_get fs' = (fs_get fs)(butlast p := Some (DirNode (fs_Now fs)), p := Some (FileNode [] (fs_Now fs)))"
  using assms
  by (auto simp: os_CreateExcl_def fun_eq_iff dest: fs_fault_get fs_fault_now split: prod.splits option.splits Node.splits)

lemma os_WriteOpen_get:
  assumes "os_WriteOpen p bs fs = (ok, fs')"
  shows "\<exists>c t. fs_get fs' = (fs_get fs)(p := Some (FileNode c t)) \<and> (\<exists>k. c = take k bs) \<and> (ok \<longrightarrow> c = bs)"
proof -
  obtain f fs1 where f: "fs_fault fs = (f, fs1)" by fastforce
  show ?thesis
  proof (cases f)
    case None
    with f assms have "fs_get fs' = (fs_get fs)(p := Some (FileNode bs (fs_Now fs1)))"
      by (auto simp: os_WriteOpen_def fun_eq_iff fs_fault_get)
    moreover have "bs = take (length bs) bs" by simp
    ultimately show ?thesis by blast
  next
    case (Some k)
    with f assms have "fs_get fs' = (fs_get fs)(p := Some (FileNode (take k bs) (fs_Now fs1)))" "\<not> ok"
      by (auto simp: os_WriteOpen_def fun_eq_iff fs_fault_get)
    then show ?thesis by blast
  qed
qed

lemma os_Remove_get:
  assumes "os_Remove p fs = (r, fs')"
  shows "r \<noteq> None \<Longrightarrow> fs_get fs' = fs_get fs"
    and "r = Some OsNotExist \<Longrightarrow> fs_get fs p = None"
    and "r = None \<Longrightarrow> fs_get fs' = (fs_get fs)(p := None)"
    and "r = None \<Longrightarrow> fs_get fs p = Some (DirNode t) \<Longrightarrow> is_under p q \<Longrightarrow> q \<noteq> p \<Longrightarrow> fs_get fs q = None"
proof -
  obtain f fs1 where f: "fs_fault fs = (f, fs1)" by fastforce
  note g = fs_fault_get [OF f]
  show "r \<noteq> None \<Longrightarrow> fs_get fs' = fs_get fs" "r = Some OsNotExist \<Longrightarrow> fs_get fs p = None"
    "r = None \<Longrightarrow> fs_get fs' = (fs_get fs)(p := None)"
    using assms f g by (auto simp: os_Remove_def fun_eq_iff split: option.splits Node.splits if_splits)
  assume "r = None" "fs_get fs p = Some (DirNode t)" "is_under p q" "q \<noteq> p"
  then have "\<forall>x\<in>set (fs_Nodes fs1). is_under p (fst x) \<longrightarrow> fst x = p"
    using assms f g by (auto simp: os_Remove_def split: option.splits Node.splits if_splits)
  with \<open>is_under p q\<close> \<open>q \<noteq> p\<close> have "map_of (fs_Nodes fs1) q = None"
    by (auto simp: map_of_eq_None_iff)
  then show "fs_get fs q = None" using g by (metis fs_get_def)
qed

lemma os_WriteFile_get:
  assumes "os_WriteFile p bs fs = (ok, fs')" "p \<noteq> []"
  shows "same_outside {p, butlast p} fs fs'"
    and "fs_get fs (butlast p) \<noteq> None \<Longrightarrow> fs_get fs' (butlast p) \<noteq> None"
    and "fs_get fs' p = fs_get fs p \<or> (\<exists>k t. fs_get fs' p = Some (FileNode (take k bs) t))"
    and "ok \<Longrightarrow> \<exists>t. fs_get fs' p = Some (FileNode bs t)"
proof -
  have ne: "butlast p \<noteq> p" using assms(2) by (metis length_butlast diff_less length_greater_0_conv less_irrefl zero_less_one)
  obtain f f1 where f: "fs_fault fs = (f, f1)" by fastforce
  have same: "fs_get f1 = fs_get fs" using fs_fault_get [OF f] .
  let ?fs = "fs_put (butlast p) (DirNode (fs_Now f1)) f1"
  have "os_WriteOpen p bs ?fs = (ok, fs') \<or> os_WriteOpen p bs f1 = (ok, fs') \<or> \<not> ok \<and> fs' = f1"
    using assms(1) f by (auto simp: os_WriteFile_def split: option.splits Node.splits)
  then consider "os_WriteOpen p bs ?fs = (ok, fs')" | "os_WriteOpen p bs f1 = (ok, fs')" | "\<not> ok" "fs' = f1"
    by blast
  note c = this
  show "same_outside {p, butlast p} fs fs'"
    by (rule c) (auto simp: same_outside_def same dest!: os_WriteOpen_get)
  show "fs_get fs (butlast p) \<noteq> None \<Longrightarrow> fs_get fs' (butlast p) \<noteq> None"
    by (rule c) (auto simp: same ne dest!: os_WriteOpen_get)
  show "fs_get fs' p = fs_get fs p \<or> (\<exists>k t. fs_get fs' p = Some (FileNode (take k bs) t))"
    by (rule c) (force simp: same ne dest!: os_WriteOpen_get)+
  show "ok \<Longrightarrow> \<exists>t. fs_get fs' p = Some (FileNode bs t)"
    by (rule c) (auto dest!: os_WriteOpen_get)
qed

lemma zeroPrefix_get: "same_outside {p} fs (zeroPrefix p n fs)"
  by (auto simp: same_outside_def zeroPrefix_def split: option.splits Node.splits)

lemma zeroLoop_get: "zeroLoop p written sz fs = (ok, fs') \<Longrightarrow> same_outside {p} fs fs'"
proof (induction p written sz fs arbitrary: ok fs' rule: zeroLoop.induct)
  case (1 p written sz fs)
  obtain f fs1 where f: "fs_fault fs = (f, fs1)" by fastforce
  have s: "same_outside {p} fs fs1" using fs_fault_get [OF f] by (simp add: same_outside_def)
  show ?case
  proof (cases "written < sz")
    case False
    with 1(2) show ?thesis by (subst (asm) zeroLoop.simps) simp
  next
    case True
    show ?thesis
    proof (cases f)
      case (Some k)
      with 1(2) True f have "fs' = zeroPrefix p (written + min k (min (sz - written) 65536)) fs1"
        by (subst (asm) zeroLoop.simps) (simp add: Let_def)
      with s zeroPrefix_get show ?thesis by (metis same_outside_trans)
    next
      case None
      let ?fs = "zeroPrefix p (written + min (sz - written) 65536) fs1"
      have "zeroLoop p (written + min (sz - written) 65536) sz ?fs = (ok, fs')"
        using 1(2) True f None by (subst (asm) zeroLoop.simps) (simp add: Let_def)
      with 1(1) [OF True refl f [symmetric] None] have "same_outside {p} ?fs fs'" by simp
      with s zeroPrefix_get show ?thesis by (metis same_outside_trans)
    qed
  qed
qed

lemma overwriteWithZeros_get: "overwriteWithZeros p sz fs = (ok, fs') \<Longrightarrow> same_outside {p} fs fs'"
  by (auto simp: overwriteWithZeros_def same_outside_def split: if_splits prod.splits sum.splits Node.splits bool.splits
      dest!: os_Stat_get os_Plain_get zeroLoop_get)

lemma removeIgnoringMissing_get:
  assumes "removeIgnoringMissing p fs = (r, fs')"
  shows "same_outside {p} fs fs'" and "r = None \<Longrightarrow> fs_get fs' p = None"
    and "r = None \<Longrightarrow> fs_get fs p = Some (DirNode t) \<Longrightarrow> is_under p q \<Longrightarrow> q \<noteq> p \<Longrightarrow> fs_get fs q = None"
proof -
  obtain e fs1 where e: "os_Remove p fs = (e, fs1)" by fastforce
  note g = os_Remove_get [OF e]
  consider "e = None" "r = None" "fs' = fs1" | "e = Some OsNotExist" "r = None" "fs' = fs1" | "e \<noteq> None" "r \<noteq> None" "fs' = fs1"
    using assms e by (cases e) (auto simp: removeIgnoringMissing_def split: OsError.splits)
  note c = this
  show "same_outside {p} fs fs'"
    by (rule c) (simp_all add: g(1,3) same_outside_def)
  show "r = None \<Longrightarrow> fs_get fs' p = None"
    by (rule c) (simp_all add: g(1,2,3))
  show "r = None \<Longrightarrow> fs_get fs p = Some (DirNode t) \<Longrightarrow> is_under p q \<Longrightarrow> q \<noteq> p \<Longrightarrow> fs_get fs q = None"
    by (rule c) (rule g(4), assumption+, simp add: g(2), simp)
qed

section \<open>The local disk\<close>

definition good_id :: "string \<Rightarrow> bool" where
  "good_id i \<longleftrightarrow> ValidateSnapshotID i = None \<and> i \<noteq> ''.''"

definition own :: "LocalDiskBackend \<Rightarrow> string \<Rightarrow> path set" where
  "own b i = {q. is_under (ld_Root b @ [i]) q}"

definition localView :: "LocalDiskBackend \<Rightarrow> Fs \<Rightarrow> string \<Rightarrow> bytes option" where
  "localView b fs i = (case (fs_get fs (sha256Path b i), fs_get fs (statePath b i)) of
      (Some (FileNode d _), Some (FileNode c _)) \<Rightarrow> if bytes_of (hex_Encode (sha256 c)) = trimSpace d then Some c else None
    | _ \<Rightarrow> None)"

definition localInv :: "LocalDiskBackend \<Rightarrow> Fs \<Rightarrow> bool" where
  "localInv b fs \<longleftrightarrow> (\<forall>i. good_id i \<longrightarrow> fs_get fs (ld_Root b @ [i]) = None \<longrightarrow>
     fs_get fs (statePath b i) = None \<and> fs_get fs (sha256Path b i) = None)"

lemma good_id_paths:
  "good_id i \<Longrightarrow> snapshotDir b i = ld_Root b @ [i]"
  "good_id i \<Longrightarrow> statePath b i = ld_Root b @ [i, ''state.bin'']"
  "good_id i \<Longrightarrow> sha256Path b i = ld_Root b @ [i, ''state.bin.sha256'']"
  by (simp_all add: good_id_def snapshotDir_def statePath_def sha256Path_def joinID_def)

lemma own_mem: "q \<in> own b i \<longleftrightarrow> (\<exists>r. q = ld_Root b @ i # r)"
proof -
  have "is_under p q \<longleftrightarrow> (\<exists>r. q = p @ r)" for p q :: path
    unfolding is_under_def by (metis append_eq_conv_conj append_take_drop_id)
  then show ?thesis by (simp add: own_def)
qed

lemma other_not_own: "i \<noteq> j \<Longrightarrow> ld_Root b @ j # r \<notin> own b i"
  by (simp add: own_mem)

lemma below_root_not_prefix: "ld_Root b @ j # r \<notin> set (prefixes (ld_Root b))"
  by (auto simp: set_prefixes dest: arg_cong [of _ _ length])

lemma prefixes_dir: "set (prefixes (ld_Root b @ [i])) \<subseteq> own b i \<union> set (prefixes (ld_Root b))"
proof
  fix q assume "q \<in> set (prefixes (ld_Root b @ [i]))"
  then obtain r where "ld_Root b @ [i] = q @ r" by (auto simp: set_prefixes)
  then show "q \<in> own b i \<union> set (prefixes (ld_Root b))"
    by (cases r rule: rev_cases) (auto simp: own_mem set_prefixes)
qed

lemma digest_hex: "length (bytes_of (hex_Encode (sha256 c))) = 64"
  by simp

lemma hex_digit_not_space: "k < 16 \<Longrightarrow> \<not> is_space (of_char (hexDigits ! k))"
  by (cases k rule: Nat.nat.exhaust) (auto simp: hexDigits_def is_space_def nth_Cons' )

lemma trimSpace_id: "\<forall>c\<in>set s. \<not> is_space c \<Longrightarrow> trimSpace s = s"
proof -
  assume a: "\<forall>c\<in>set s. \<not> is_space c"
  have "dropWhile is_space t = t" if "\<forall>c\<in>set t. \<not> is_space c" for t
    using that by (cases t) auto
  from this [of s] this [of "rev s"] a show ?thesis by (simp add: trimSpace_def)
qed

lemma trimSpace_digest [simp]: "trimSpace (bytes_of (hex_Encode bs)) = bytes_of (hex_Encode bs)"
proof (rule trimSpace_id, rule ballI)
  fix c assume "c \<in> set (bytes_of (hex_Encode bs))"
  then obtain b where "c = of_char (hexDigits ! (unat (b :: byte) div 16)) \<or> c = of_char (hexDigits ! (unat b mod 16))"
    by (auto simp: bytes_of_def hex_Encode_def)
  moreover have "unat b div 16 < 16" "unat b mod 16 < 16" using byte_lt [of b] by auto
  ultimately show "\<not> is_space c" using hex_digit_not_space by blast
qed

lemma length_trimSpace: "length (trimSpace s) \<le> length s"
  unfolding trimSpace_def length_rev by (metis length_dropWhile_le le_trans length_rev)

text \<open>A digest that was cut while it was written matches no content.\<close>

lemma cut_digest:
  assumes "bytes_of (hex_Encode (sha256 c)) = trimSpace (take k (bytes_of (hex_Encode (sha256 c'))))"
  shows "bytes_of (hex_Encode (sha256 c)) = bytes_of (hex_Encode (sha256 c'))"
proof -
  let ?d = "bytes_of (hex_Encode (sha256 c'))"
  have "64 \<le> length (take k ?d)"
    using length_trimSpace [of "take k ?d"] arg_cong [OF assms, of length] by simp
  then have "take k ?d = ?d" by simp
  with assms show ?thesis by simp
qed

lemma RemoveAll_failed:
  assumes "os_RemoveAll p fs = (Some e, fs')"
  shows "fs_get fs' q = fs_get fs q \<or> is_under p q \<and> q \<noteq> p \<and> fs_get fs' q = None"
proof -
  obtain f f1 where f: "fs_fault fs = (f, f1)" by fastforce
  then obtain k where k: "f = Some k" using assms by (cases f) (auto simp: os_RemoveAll_def)
  define gone where "gone = set (map snd (filter (\<lambda>(i, _). bit k i) (List.enumerate 0 (filesBelow p f1))))"
  have "gone \<subseteq> set (filesBelow p f1)"
    by (auto simp: gone_def in_set_enumerate_eq)
  then have "is_under p q \<and> q \<noteq> p" if "q \<in> gone" using that by (auto simp: filesBelow_def)
  moreover have "fs' = f1\<lparr>fs_Nodes := filter (\<lambda>x. fst x \<notin> gone) (fs_Nodes f1)\<rparr>"
    using assms f k by (simp add: os_RemoveAll_def gone_def)
  then have "fs_get fs' q = (if q \<notin> gone then fs_get f1 q else None)"
    by (simp add: fs_get_def map_of_filter_key [of "\<lambda>q. q \<notin> gone"])
  ultimately show ?thesis using fs_fault_get [OF f] by (auto split: if_splits)
qed

lemma RemoveAll_outcome:
  "(\<forall>q. fs_get (snd (os_RemoveAll p fs)) q = (if is_under p q then None else fs_get fs q)) \<or>
   (\<forall>q. fs_get (snd (os_RemoveAll p fs)) q = fs_get fs q \<or> is_under p q \<and> q \<noteq> p \<and> fs_get (snd (os_RemoveAll p fs)) q = None)"
proof (cases "os_RemoveAll p fs")
  case (Pair r fs')
  then show ?thesis using fs_get_RemoveAll [of p fs fs'] RemoveAll_failed [of p fs _ fs'] by (cases r) auto
qed

lemma fs_get_RemoveAll_any:
  "fs_get (snd (os_RemoveAll p fs)) q = fs_get fs q \<or> is_under p q \<and> fs_get (snd (os_RemoveAll p fs)) q = None"
  using RemoveAll_outcome [of p fs] by (auto split: if_splits)

text \<open>The outcomes of the body of a save, on the two files of the id.\<close>

lemma localFill_outcome:
  assumes "localFill b i st fs = (res, fs')" "good_id i" "fs_get fs (sha256Path b i) = None"
  defines "D \<equiv> bytes_of (hex_Encode (sha256 (rd_Data st)))"
  obtains (gone) e where "res = Inl e" "\<forall>q. q \<in> own b i \<longrightarrow> fs_get fs' q = None" "same_outside (own b i) fs fs'"
    | (left) e where "res = Inl e" "fs_get fs' (sha256Path b i) = None" "same_outside (own b i) fs fs'"
        "fs_get fs (ld_Root b @ [i]) \<noteq> None \<longrightarrow> fs_get fs' (ld_Root b @ [i]) \<noteq> None"
    | (orphan) e where "res = Inl e" "fs_get fs' (statePath b i) = None" "same_outside (own b i) fs fs'"
        "fs_get fs (ld_Root b @ [i]) \<noteq> None \<longrightarrow> fs_get fs' (ld_Root b @ [i]) \<noteq> None"
    | (digest) e k t t' where "res = Inl e" "rd_Err st = None" "fs_get fs' (sha256Path b i) = Some (FileNode (take k D) t)"
        "fs_get fs' (statePath b i) = Some (FileNode (rd_Data st) t')" "same_outside (own b i) fs fs'"
        "fs_get fs (ld_Root b @ [i]) \<noteq> None \<longrightarrow> fs_get fs' (ld_Root b @ [i]) \<noteq> None"
    | (saved) t t' where "res = Inr (length (rd_Data st), i)" "rd_Err st = None" "fs_get fs' (sha256Path b i) = Some (FileNode D t)"
        "fs_get fs' (statePath b i) = Some (FileNode (rd_Data st) t')" "same_outside (own b i) fs fs'"
        "fs_get fs (ld_Root b @ [i]) \<noteq> None \<longrightarrow> fs_get fs' (ld_Root b @ [i]) \<noteq> None"
proof -
  note P = good_id_paths [OF assms(2)]
  obtain wok fs1 where w: "os_WriteOpen (statePath b i) (rd_Data st) fs = (wok, fs1)" by fastforce
  obtain cok fs2 where c: "os_Plain fs1 = (cok, fs2)" by fastforce
  obtain x t' where x: "fs_get fs1 = (fs_get fs)(statePath b i := Some (FileNode x t'))" "wok \<longrightarrow> x = rd_Data st"
    using os_WriteOpen_get [OF w] by blast
  have g2: "fs_get fs2 = (fs_get fs)(statePath b i := Some (FileNode x t'))"
    using x(1) os_Plain_get [OF c] by simp
  have same2: "same_outside (own b i) fs fs2"
    by (auto simp: same_outside_def g2 P own_mem)
  have sha2: "fs_get fs2 (sha256Path b i) = None" using g2 assms(3) P by simp
  have dir2: "fs_get fs2 (ld_Root b @ [i]) = fs_get fs (ld_Root b @ [i])" using g2 P by simp
  have under: "is_under (snapshotDir b i) q \<longleftrightarrow> q \<in> own b i" for q by (simp add: own_def P)
  show thesis
  proof (cases "wok \<and> rd_Err st = None \<and> cok")
    case False
    then obtain e where e: "res = Inl e" "fs' = snd (os_RemoveAll (snapshotDir b i) fs2)"
      using assms(1) w c by (auto simp: localFill_def)
    have s: "same_outside (own b i) fs fs'"
      using same2 fs_get_RemoveAll_any [of "snapshotDir b i" fs2] under e(2) by (metis same_outside_def)
    from RemoveAll_outcome [of "snapshotDir b i" fs2] show thesis
    proof
      assume "\<forall>q. fs_get (snd (os_RemoveAll (snapshotDir b i) fs2)) q = (if is_under (snapshotDir b i) q then None else fs_get fs2 q)"
      with e s under show thesis by (intro gone [of e]) auto
    next
      assume r: "\<forall>q. fs_get (snd (os_RemoveAll (snapshotDir b i) fs2)) q = fs_get fs2 q \<or> is_under (snapshotDir b i) q \<and> q \<noteq> snapshotDir b i \<and>
          fs_get (snd (os_RemoveAll (snapshotDir b i) fs2)) q = None"
      then have "fs_get fs' (sha256Path b i) = None" "fs_get fs' (ld_Root b @ [i]) = fs_get fs (ld_Root b @ [i])"
        using e(2) sha2 dir2 P by metis+
      with e(1) s show thesis by (intro left [of e]) auto
    qed
  next
    case True
    obtain sok fs3 where sh: "os_WriteFile (sha256Path b i) D fs2 = (sok, fs3)" by fastforce
    have ne: "sha256Path b i \<noteq> []" "butlast (sha256Path b i) = ld_Root b @ [i]" by (simp_all add: P butlast_append)
    note W = os_WriteFile_get [OF sh ne(1), unfolded ne(2)]
    have state3: "fs_get fs3 (statePath b i) = Some (FileNode (rd_Data st) t')"
      using same_outside_get [OF W(1), of "statePath b i"] g2 x(2) True P by simp
    have same3: "same_outside (own b i) fs fs3"
      using same2 W(1) P by (auto simp: same_outside_def own_mem)
    have dir3: "fs_get fs (ld_Root b @ [i]) \<noteq> None \<longrightarrow> fs_get fs3 (ld_Root b @ [i]) \<noteq> None"
      using W(2) dir2 by simp
    show thesis
    proof (cases sok)
      case t: True
      then have "res = Inr (length (rd_Data st), i)" "fs' = fs3"
        using assms(1) w c True sh by (auto simp: localFill_def D_def)
      moreover obtain t where "fs_get fs3 (sha256Path b i) = Some (FileNode D t)" using W(4) t by blast
      ultimately show thesis using state3 same3 dir3 True by (intro saved) auto
    next
      case False
      then have e: "res = Inl StoreWrite" "fs' = snd (os_RemoveAll (snapshotDir b i) fs3)"
        using assms(1) w c True sh by (auto simp: localFill_def D_def)
      have s: "same_outside (own b i) fs fs'"
        using same3 fs_get_RemoveAll_any [of "snapshotDir b i" fs3] under e(2) by (metis same_outside_def)
      from RemoveAll_outcome [of "snapshotDir b i" fs3] show thesis
      proof
        assume "\<forall>q. fs_get (snd (os_RemoveAll (snapshotDir b i) fs3)) q = (if is_under (snapshotDir b i) q then None else fs_get fs3 q)"
        with e s under show thesis by (intro gone [of StoreWrite]) auto
      next
        assume r: "\<forall>q. fs_get (snd (os_RemoveAll (snapshotDir b i) fs3)) q = fs_get fs3 q \<or> is_under (snapshotDir b i) q \<and> q \<noteq> snapshotDir b i \<and>
          fs_get (snd (os_RemoveAll (snapshotDir b i) fs3)) q = None"
        then have d: "fs_get fs (ld_Root b @ [i]) \<noteq> None \<longrightarrow> fs_get fs' (ld_Root b @ [i]) \<noteq> None"
          using e(2) dir3 P by metis
        have q: "fs_get fs' q = fs_get fs3 q \<or> fs_get fs' q = None" for q using r e(2) by metis
        from W(3) sha2 q consider "fs_get fs' (sha256Path b i) = None" | "fs_get fs' (statePath b i) = None"
          | k t where "fs_get fs' (sha256Path b i) = Some (FileNode (take k D) t)" "fs_get fs' (statePath b i) = fs_get fs3 (statePath b i)"
          by metis
        then show thesis
        proof cases
          case 1
          with e s d show thesis by (intro left [of StoreWrite]) auto
        next
          case 2
          with e s d show thesis by (intro orphan [of StoreWrite]) auto
        next
          case 3
          with e s d state3 True show thesis by (intro digest [of StoreWrite k t t']) auto
        qed
      qed
    qed
  qed
qed

definition area :: "LocalDiskBackend \<Rightarrow> string \<Rightarrow> path set" where
  "area b i = own b i \<union> set (prefixes (ld_Root b))"

lemma area_other: "i \<noteq> j \<Longrightarrow> ld_Root b @ j # r \<notin> area b i"
  by (simp add: area_def other_not_own below_root_not_prefix)

lemma own_area: "own b i \<subseteq> area b i"
  by (simp add: area_def)

lemma localInv_frame:
  assumes "localInv b fs" "same_outside (area b i) fs fs'"
    and "good_id i \<Longrightarrow> fs_get fs' (ld_Root b @ [i]) = None \<Longrightarrow> fs_get fs' (statePath b i) = None \<and> fs_get fs' (sha256Path b i) = None"
  shows "localInv b fs'"
  unfolding localInv_def
proof (intro allI impI)
  fix j assume j: "good_id j" "fs_get fs' (ld_Root b @ [j]) = None"
  show "fs_get fs' (statePath b j) = None \<and> fs_get fs' (sha256Path b j) = None"
  proof (cases "i = j")
    case True
    with assms(3) j show ?thesis by simp
  next
    case False
    then have same: "fs_get fs' (ld_Root b @ j # r) = fs_get fs (ld_Root b @ j # r)" for r
      by (rule same_outside_get [OF assms(2) area_other])
    from same [of "[]"] same [of "[''state.bin'']"] same [of "[''state.bin.sha256'']"] assms(1) j show ?thesis
      by (simp add: localInv_def good_id_paths)
  qed
qed

lemma localView_frame:
  assumes "same_outside (area b i) fs fs'" "good_id j" "i \<noteq> j"
  shows "localView b fs' j = localView b fs j"
  using same_outside_get [OF assms(1) area_other [OF assms(3), of b "[''state.bin'']"]]
    same_outside_get [OF assms(1) area_other [OF assms(3), of b "[''state.bin.sha256'']"]]
  by (simp add: localView_def good_id_paths [OF assms(2)])

lemma localView_None: "fs_get fs (sha256Path b i) = None \<Longrightarrow> localView b fs i = None"
  by (simp add: localView_def)

lemma localView_NoneI: "fs_get fs (statePath b i) = None \<Longrightarrow> localView b fs i = None"
  by (simp add: localView_def split: option.splits Node.splits)

lemma localView_cong:
  "fs_get fs' (sha256Path b i) = fs_get fs (sha256Path b i) \<Longrightarrow> fs_get fs' (statePath b i) = fs_get fs (statePath b i) \<Longrightarrow>
   localView b fs' i = localView b fs i"
  by (simp add: localView_def)

lemma localFill_law:
  assumes "localFill b i st fs = (res, fs')" "good_id i" "fs_get fs (sha256Path b i) = None" "fs_get fs (ld_Root b @ [i]) \<noteq> None"
  shows "same_outside (own b i) fs fs'"
    and "fs_get fs' (ld_Root b @ [i]) = None \<Longrightarrow> fs_get fs' (statePath b i) = None \<and> fs_get fs' (sha256Path b i) = None"
    and "localView b fs' i = None \<or> localView b fs' i = Some (rd_Data st) \<and> rd_Err st = None"
    and "res = Inr r \<Longrightarrow> r = (length (rd_Data st), i) \<and> rd_Err st = None \<and> localView b fs' i = Some (rd_Data st)"
proof -
  note P = good_id_paths [OF assms(2)]
  have m: "statePath b i \<in> own b i" "sha256Path b i \<in> own b i" by (simp_all add: P own_mem)
  note o = localFill_outcome [OF assms(1-3)]
  show "same_outside (own b i) fs fs'" by (rule o)
  show "fs_get fs' (ld_Root b @ [i]) = None \<Longrightarrow> fs_get fs' (statePath b i) = None \<and> fs_get fs' (sha256Path b i) = None"
    by (rule o) (use m assms(4) in auto)
  show "localView b fs' i = None \<or> localView b fs' i = Some (rd_Data st) \<and> rd_Err st = None"
    by (rule o) (use m localView_NoneI [of fs' b i] in \<open>auto simp: localView_def split: option.splits\<close>)
  show "res = Inr r \<Longrightarrow> r = (length (rd_Data st), i) \<and> rd_Err st = None \<and> localView b fs' i = Some (rd_Data st)"
    by (rule o) (auto simp: localView_def)
qed

lemma LocalSave_cases:
  assumes "LocalSave b cancelled i st fs = (res, fs')"
  obtains (early) e where "res = Inl e" "fs_get fs' = fs_get fs"
    | (made) e fs1 r1 fs2 where "res = Inl e" "os_Stat (snapshotDir b i) fs = (Inl OsNotExist, fs1)"
        "os_MkdirAll (snapshotDir b i) fs1 = (r1, fs2)" "fs_get fs' = fs_get fs2"
    | (filled) fs1 fs2 fs3 where "os_Stat (snapshotDir b i) fs = (Inl OsNotExist, fs1)" "os_MkdirAll (snapshotDir b i) fs1 = (None, fs2)"
        "os_CreateExcl (statePath b i) fs2 = (None, fs3)" "localFill b i st fs3 = (res, fs')"
proof -
  obtain sr fs1 where s: "os_Stat (snapshotDir b i) fs = (sr, fs1)" by fastforce
  obtain mr fs2 where m: "os_MkdirAll (snapshotDir b i) fs1 = (mr, fs2)" by fastforce
  obtain cr fs3 where c: "os_CreateExcl (statePath b i) fs2 = (cr, fs3)" by fastforce
  note g = os_Stat_get [OF s]
  show thesis
  proof (cases "cancelled \<or> ValidateSnapshotID i \<noteq> None \<or> checkFillThreshold b \<noteq> None \<or> sr \<noteq> Inl OsNotExist")
    case True
    have "\<exists>e. res = Inl e \<and> fs_get fs' = fs_get fs"
    proof (cases "cancelled \<or> ValidateSnapshotID i \<noteq> None \<or> checkFillThreshold b \<noteq> None")
      case True
      with assms show ?thesis by (auto simp: LocalSave_def split: if_splits option.splits)
    next
      case False
      with True assms s g show ?thesis
        by (cases sr) (auto simp: LocalSave_def split: OsError.splits)
    qed
    then show thesis using early by blast
  next
    case False
    then have r: "(case mr of Some e \<Rightarrow> (Inl (StoreIO e), fs2) | None \<Rightarrow>
        (case cr of Some OsExist \<Rightarrow> (Inl ErrAlreadyExists, fs3) | Some e \<Rightarrow> (Inl (StoreIO e), fs3) | None \<Rightarrow> localFill b i st fs3)) = (res, fs')"
      using assms s m c by (auto simp: LocalSave_def split: option.splits OsError.splits)
    show thesis
    proof (cases "mr = None \<and> cr = None")
      case True
      with r False s m c show thesis by (intro filled [of fs1 fs2 fs3]) auto
    next
      case not: False
      with r os_CreateExcl_get(1) [OF c] obtain e where "res = Inl e" "fs_get fs' = fs_get fs2"
        by (auto split: option.splits OsError.splits)
      with False s m show thesis by (intro made [of e fs1 mr fs2]) auto
    qed
  qed
qed

lemma LocalSave_law:
  assumes "LocalSave b cancelled i st fs = (res, fs')" "good_id i" "localInv b fs"
  shows "same_outside (area b i) fs fs'" and "localInv b fs'"
    and "localView b fs' i = localView b fs i \<or> localView b fs' i = Some (rd_Data st) \<and> rd_Err st = None"
    and "res = Inr r \<Longrightarrow> r = (length (rd_Data st), i) \<and> rd_Err st = None \<and> localView b fs' i = Some (rd_Data st)"
proof -
  note P = good_id_paths [OF assms(2)]
  have "same_outside (area b i) fs fs' \<and>
    (fs_get fs' (ld_Root b @ [i]) = None \<longrightarrow> fs_get fs' (statePath b i) = None \<and> fs_get fs' (sha256Path b i) = None) \<and>
    (localView b fs' i = localView b fs i \<or> localView b fs' i = Some (rd_Data st) \<and> rd_Err st = None) \<and>
    (\<forall>r. res = Inr r \<longrightarrow> r = (length (rd_Data st), i) \<and> rd_Err st = None \<and> localView b fs' i = Some (rd_Data st))"
    using assms(1)
  proof (cases rule: LocalSave_cases)
    case (early e)
    with assms(2,3) show ?thesis by (auto simp: same_outside_def localInv_def localView_def)
  next
    case (made e fs1 r1 fs2)
    note M = os_MkdirAll_get [OF made(3)] and S = os_Stat_get [OF made(2)] os_Stat_missing [OF made(2)]
    have old: "fs_get fs (statePath b i) = None" "fs_get fs (sha256Path b i) = None"
      using assms(2,3) S(2) P by (auto simp: localInv_def)
    have "same_outside (area b i) fs fs2"
      using same_outside_mono [OF M(1), of "area b i"] prefixes_dir [of b i] S(1) P by (auto simp: area_def same_outside_def)
    moreover have "fs_get fs2 (statePath b i) = None" "fs_get fs2 (sha256Path b i) = None"
      using same_outside_get [OF M(1)] old S(1) P by (auto simp: set_prefixes dest: arg_cong [of _ _ length])
    ultimately show ?thesis using made old by (auto simp: same_outside_def localView_def)
  next
    case (filled fs1 fs2 fs3)
    note M = os_MkdirAll_get [OF filled(2)] and S = os_Stat_get [OF filled(1)] os_Stat_missing [OF filled(1)]
      and C = os_CreateExcl_get(2) [OF filled(3) refl]
    have old: "fs_get fs (statePath b i) = None" "fs_get fs (sha256Path b i) = None"
      using assms(2,3) S(2) P by (auto simp: localInv_def)
    have bl: "butlast (statePath b i) = ld_Root b @ [i]" by (simp add: P butlast_append)
    have "same_outside (area b i) fs fs2"
      using same_outside_mono [OF M(1), of "area b i"] prefixes_dir [of b i] S(1) P by (auto simp: area_def same_outside_def)
    then have s3: "same_outside (area b i) fs fs3"
      using C bl P by (auto simp: same_outside_def area_def own_mem)
    have "fs_get fs2 (sha256Path b i) = None"
      using same_outside_get [OF M(1)] old S(1) P by (auto simp: set_prefixes dest: arg_cong [of _ _ length])
    then have "fs_get fs3 (sha256Path b i) = None" "fs_get fs3 (ld_Root b @ [i]) \<noteq> None"
      using C bl P by auto
    note F = localFill_law [OF filled(4) assms(2) this]
    have "same_outside (area b i) fs fs'"
      using s3 same_outside_mono [OF F(1) own_area] by (rule same_outside_trans)
    with F(2,3,4) old show ?thesis by (auto simp: localView_None)
  qed
  note R = this
  show "same_outside (area b i) fs fs'" using R by blast
  show "localInv b fs'" by (rule localInv_frame [OF assms(3)]) (use R in auto)
  show "localView b fs' i = localView b fs i \<or> localView b fs' i = Some (rd_Data st) \<and> rd_Err st = None" using R by blast
  show "res = Inr r \<Longrightarrow> r = (length (rd_Data st), i) \<and> rd_Err st = None \<and> localView b fs' i = Some (rd_Data st)" using R by blast
qed

lemma LocalOpen_get: "LocalOpen b cancelled ref fs = (r, fs') \<Longrightarrow> fs_get fs' = fs_get fs"
  unfolding LocalOpen_def
  by (auto split: if_splits option.splits prod.splits sum.splits OsError.splits bool.splits
      dest!: os_ReadFile_get os_Plain_get)

lemma LocalOpen_sound:
  assumes "LocalOpen b cancelled ref fs = (Inr rd, fs')"
  shows "rd_Err rd = None \<and> localView b fs ref = Some (rd_Data rd)"
proof -
  from assms obtain d fs1 c fs2 where r: "os_ReadFile (sha256Path b ref) fs = (Inr d, fs1)"
    "os_ReadFile (statePath b ref) fs1 = (Inr c, fs2)" "bytes_of (hex_Encode (sha256 c)) = trimSpace d" "rd = mem_reader c"
    unfolding LocalOpen_def
    by (auto split: if_splits option.splits prod.splits sum.splits OsError.splits bool.splits)
  from os_ReadFile_Inr [OF r(1)] os_ReadFile_Inr [OF r(2)] os_ReadFile_get [OF r(1)] r(3,4)
  show ?thesis by (auto simp: localView_def)
qed

lemma fault_free: "fs_Faults fs = [] \<Longrightarrow> fs_fault fs = (None, fs)"
  by (simp add: fs_fault_def)

lemma LocalOpen_complete:
  assumes "fs_Faults fs = []" "ValidateSnapshotID ref = None" "localView b fs ref = Some c"
  shows "LocalOpen b False ref fs = (Inr (mem_reader c), fs)"
proof -
  from assms(3) obtain d t t' where "fs_get fs (sha256Path b ref) = Some (FileNode d t)"
    "fs_get fs (statePath b ref) = Some (FileNode c t')" "bytes_of (hex_Encode (sha256 c)) = trimSpace d"
    by (auto simp: localView_def split: option.splits Node.splits if_splits)
  with assms(1,2) show ?thesis
    by (simp add: LocalOpen_def os_ReadFile_def os_Stat_def os_Plain_def fault_free)
qed

lemma LocalDelete_cases:
  assumes "LocalDelete b cancelled i fs = (r, fs')"
  obtains (early) "fs_get fs' = fs_get fs" "r \<noteq> None"
    | (stopped) "fs_get fs (statePath b i) \<noteq> None" "same_outside {statePath b i, sha256Path b i} fs fs'" "r \<noteq> None"
    | (removed) fs1 where "same_outside {statePath b i, sha256Path b i} fs fs1" "fs_get fs1 (statePath b i) = None" "fs_get fs1 (sha256Path b i) = None"
        "same_outside {snapshotDir b i} fs1 fs'"
proof -
  let ?S = "statePath b i" and ?D = "sha256Path b i"
  obtain sr f1 where s: "os_Stat ?S fs = (sr, f1)" by fastforce
  show thesis
  proof (cases "cancelled \<or> ValidateSnapshotID i \<noteq> None \<or> (\<exists>e. sr = Inl e)")
    case True
    then have "fs_get fs' = fs_get fs \<and> r \<noteq> None" using assms s os_Stat_get [OF s]
      by (cases "ValidateSnapshotID i"; cases sr) (auto simp: LocalDelete_def dest: sym [of "Some _"] split: if_splits OsError.splits)
    then show thesis using early by blast
  next
    case False
    then obtain n where n: "sr = Inr n" by (cases sr) auto
    obtain wok f2 where w: "overwriteWithZeros ?S (nodeSize n) f1 = (wok, f2)" by fastforce
    obtain r1 f3 where r1: "removeIgnoringMissing ?S f2 = (r1, f3)" by fastforce
    obtain r2 f4 where r2: "removeIgnoringMissing ?D f3 = (r2, f4)" by fastforce
    obtain r3 f5 where r3: "removeIgnoringMissing (snapshotDir b i) f4 = (r3, f5)" by fastforce
    have ex: "fs_get fs ?S \<noteq> None" using os_Stat_Inr s n by fastforce
    let ?A = "{?S, ?D}"
    have s1: "same_outside ?A fs f1" using os_Stat_get [OF s] by (simp add: same_outside_def)
    have s2: "same_outside ?A fs f2"
      using s1 same_outside_mono [OF overwriteWithZeros_get [OF w], of ?A] same_outside_trans by blast
    have s3: "same_outside ?A fs f3"
      using s2 same_outside_mono [OF removeIgnoringMissing_get(1) [OF r1], of ?A] same_outside_trans by blast
    have s4: "same_outside ?A fs f4"
      using s3 same_outside_mono [OF removeIgnoringMissing_get(1) [OF r2], of ?A] same_outside_trans by blast
    have out: "(r, fs') = (if \<not> wok then (Some StoreWrite, f2) else if r1 \<noteq> None then (r1, f3) else if r2 \<noteq> None then (r2, f4) else (r3, f5))"
      using assms False s n w r1 r2 r3 by (auto simp: LocalDelete_def split: option.splits bool.splits)
    show thesis
    proof (cases "wok \<and> r1 = None \<and> r2 = None")
      case False
      with out s2 s3 s4 ex show thesis by (intro stopped) (auto split: if_splits)
    next
      case True
      have "fs_get f3 ?S = None" using removeIgnoringMissing_get(2) [OF r1] True by simp
      then have "fs_get f4 ?S = None"
        using same_outside_get [OF removeIgnoringMissing_get(1) [OF r2], of ?S] by (simp add: statePath_def sha256Path_def)
      moreover have "fs_get f4 ?D = None" using removeIgnoringMissing_get(2) [OF r2] True by simp
      ultimately show thesis using removeIgnoringMissing_get(1) [OF r3] s4 out True by (intro removed [of f4]) auto
    qed
  qed
qed

lemma LocalDelete_law:
  assumes "LocalDelete b cancelled i fs = (r, fs')" "good_id i" "localInv b fs"
  shows "same_outside (own b i) fs fs'" and "localInv b fs'" and "r = None \<Longrightarrow> localView b fs' i = None"
proof -
  note P = good_id_paths [OF assms(2)]
  have own: "{statePath b i, sha256Path b i} \<subseteq> own b i" "{snapshotDir b i} \<subseteq> own b i"
    by (simp_all add: P own_mem)
  have all: "same_outside (own b i) fs fs' \<and>
      (fs_get fs' (ld_Root b @ [i]) = None \<longrightarrow> fs_get fs' (statePath b i) = None \<and> fs_get fs' (sha256Path b i) = None) \<and>
      (r = None \<longrightarrow> fs_get fs' (statePath b i) = None)"
    using assms(1)
  proof (cases rule: LocalDelete_cases)
    case early
    with assms(2,3) show ?thesis by (auto simp: same_outside_def localInv_def)
  next
    case stopped
    have "fs_get fs' (ld_Root b @ [i]) = fs_get fs (ld_Root b @ [i])"
      by (rule same_outside_get [OF stopped(2)]) (simp add: P)
    with stopped own(1) assms(2,3) same_outside_mono show ?thesis by (auto simp: localInv_def)
  next
    case (removed fs1)
    have "fs_get fs' (statePath b i) = None" "fs_get fs' (sha256Path b i) = None"
      using same_outside_get [OF removed(4)] removed(2,3) by (simp_all add: P)
    moreover have "same_outside (own b i) fs fs'"
      by (rule same_outside_trans [OF same_outside_mono [OF removed(1) own(1)] same_outside_mono [OF removed(4) own(2)]])
    ultimately show ?thesis by simp
  qed
  then show "same_outside (own b i) fs fs'" by blast
  show "localInv b fs'"
    by (rule localInv_frame [OF assms(3) same_outside_mono [OF _ own_area, of _ i]]) (use all in auto)
  show "r = None \<Longrightarrow> localView b fs' i = None" using all localView_NoneI by blast
qed

lemma LocalRemovePartial_cases:
  assumes "LocalRemovePartial b cancelled i d fs = (r, fs')"
  obtains (same) "fs_get fs' = fs_get fs"
    | (stopped) fs1 where "fs_get fs (sha256Path b i) = None" "fs_get fs (snapshotDir b i) \<noteq> None" "same_outside {statePath b i} fs fs1"
        "\<forall>q. fs_get fs' q = fs_get fs1 q \<or> is_under (snapshotDir b i) q \<and> q \<noteq> snapshotDir b i \<and> fs_get fs' q = None"
    | (removed) fs1 fs2 where "fs_get fs (sha256Path b i) = None" "same_outside {statePath b i} fs fs1"
        "os_RemoveAll (snapshotDir b i) fs1 = (None, fs2)" "fs' = fs2" "r = None"
proof -
  let ?S = "statePath b i" and ?D = "sha256Path b i"
  obtain r1 f1 where s1: "os_Stat ?D fs = (r1, f1)" by fastforce
  obtain r2 f2 where s2: "os_Stat (snapshotDir b i) f1 = (r2, f2)" by fastforce
  obtain r3 f3 where s3: "os_Stat ?S f2 = (r3, f3)" by fastforce
  note g = os_Stat_get [OF s1] os_Stat_get [OF s2] os_Stat_get [OF s3]
  show thesis
  proof (cases "\<not> cancelled \<and> ValidateSnapshotID i = None \<and> r1 = Inl OsNotExist \<and> (\<exists>n. r2 = Inr n) \<and> (r3 = Inl OsNotExist \<or> (\<exists>n. r3 = Inr n))")
    case False
    then have "fs_get fs' = fs_get fs" using assms s1 s2 s3 g
      by (cases "ValidateSnapshotID i"; cases r1; cases r2; cases r3)
        (auto simp: LocalRemovePartial_def split: if_splits OsError.splits)
    then show thesis by (rule same)
  next
    case True
    then obtain n where n: "r2 = Inr n" by blast
    have miss: "fs_get fs ?D = None" using os_Stat_missing s1 True by blast
    have dir: "fs_get fs (snapshotDir b i) \<noteq> None" using os_Stat_Inr s2 n g by fastforce
    define w where "w = (case r3 of Inr m \<Rightarrow> overwriteWithZeros ?S (nodeSize m) f3 | Inl _ \<Rightarrow> (True, f3))"
    obtain wok f4 where w4: "w = (wok, f4)" by fastforce
    have s4: "same_outside {?S} fs f4"
    proof (cases r3)
      case (Inl e)
      with w4 g show ?thesis by (simp add: w_def same_outside_def)
    next
      case (Inr m)
      with w4 have "overwriteWithZeros ?S (nodeSize m) f3 = (wok, f4)" by (simp add: w_def)
      from overwriteWithZeros_get [OF this] g show ?thesis by (simp add: same_outside_def)
    qed
    obtain r5 f5 where ra: "os_RemoveAll (snapshotDir b i) f4 = (r5, f5)" by fastforce
    have "(r, fs') = (Some InFlight, f3) \<or> \<not> wok \<and> (r, fs') = (Some StoreWrite, f4) \<or>
        wok \<and> (r, fs') = (case r5 of Some e \<Rightarrow> (Some (StoreIO e), f5) | None \<Rightarrow> (None, f5))"
      using assms True s1 s2 s3 n w4 ra
      by (cases r3) (auto simp: LocalRemovePartial_def w_def Let_def split: if_splits bool.splits prod.splits option.splits OsError.splits)
    then consider "fs' = f3" | "fs' = f4" | "r5 \<noteq> None" "fs' = f5" | "r5 = None" "fs' = f5" "r = None"
      by (auto split: option.splits)
    then show thesis
    proof cases
      case 1
      with g show thesis by (intro same) simp
    next
      case 2
      with miss dir s4 show thesis by (intro stopped [of f4]) auto
    next
      case 3
      then obtain e where "os_RemoveAll (snapshotDir b i) f4 = (Some e, f5)" using ra by auto
      from RemoveAll_failed [OF this] 3 miss dir s4 show thesis by (intro stopped [of f4]) auto
    next
      case 4
      with miss s4 ra show thesis by (intro removed [of f4 f5]) auto
    qed
  qed
qed


lemma LocalRemovePartial_law:
  assumes "LocalRemovePartial b cancelled i d fs = (r, fs')" "good_id i" "localInv b fs"
  shows "same_outside (own b i) fs fs'" and "localInv b fs'" and "localView b fs' i = localView b fs i"
proof -
  note P = good_id_paths [OF assms(2)]
  have all: "same_outside (own b i) fs fs' \<and>
      (fs_get fs' (ld_Root b @ [i]) = None \<longrightarrow> fs_get fs' (statePath b i) = None \<and> fs_get fs' (sha256Path b i) = None) \<and>
      localView b fs' i = localView b fs i"
    using assms(1)
  proof (cases rule: LocalRemovePartial_cases)
    case same
    with assms(2,3) show ?thesis by (auto simp: same_outside_def localInv_def localView_def)
  next
    case (stopped fs1)
    have "fs_get fs1 (ld_Root b @ [i]) \<noteq> None" "fs_get fs1 (sha256Path b i) = None"
      using same_outside_get [OF stopped(3)] stopped(1,2) by (simp_all add: P)
    then have "fs_get fs' (ld_Root b @ [i]) \<noteq> None" "fs_get fs' (sha256Path b i) = None"
      using stopped(4) P by metis+
    moreover have "same_outside (own b i) fs fs1"
      by (rule same_outside_mono [OF stopped(3)]) (simp add: P own_mem)
    then have "same_outside (own b i) fs fs'"
      using stopped(4) unfolding same_outside_def own_def P mem_Collect_eq by metis
    ultimately show ?thesis using stopped(1) by (auto simp: localView_None)
  next
    case (removed fs1 fs2)
    note R = fs_get_RemoveAll [OF removed(3)]
    have "{statePath b i} \<subseteq> own b i" by (simp add: P own_mem)
    from same_outside_mono [OF removed(2) this] have "q \<notin> own b i \<Longrightarrow> fs_get fs2 q = fs_get fs q" for q
      using R [of q] by (simp add: same_outside_def own_def P)
    moreover have "fs_get fs2 (statePath b i) = None" "fs_get fs2 (sha256Path b i) = None"
      using R by (simp_all add: P is_under_def)
    ultimately show ?thesis using removed by (simp add: same_outside_def localView_None)
  qed
  then show "same_outside (own b i) fs fs'" "localView b fs' i = localView b fs i" by blast+
  show "localInv b fs'"
    by (rule localInv_frame [OF assms(3) same_outside_mono [OF _ own_area, of _ i]]) (use all in auto)
qed

section \<open>The directory of sealed keys\<close>

definition dekView :: "path \<Rightarrow> Fs \<Rightarrow> string \<Rightarrow> bytes option" where
  "dekView dir fs i = (case fs_get fs (dekPath dir i) of Some (FileNode c _) \<Rightarrow> Some c | _ \<Rightarrow> None)"

lemma dekPath_inj [simp]: "dekPath dir i = dekPath dir j \<longleftrightarrow> i = j"
  by (simp add: dekPath_def)

lemma dekPath_not_prefix: "dekPath dir i \<notin> set (prefixes dir)"
  by (auto simp: dekPath_def set_prefixes dest: arg_cong [of _ _ length])

lemma dekView_frame: "same_outside A fs fs' \<Longrightarrow> dekPath dir i \<notin> A \<Longrightarrow> dekView dir fs' i = dekView dir fs i"
  by (simp add: dekView_def same_outside_get)

lemma zeroData_get: "zeroData p sz fs = (ok, fs') \<Longrightarrow> same_outside {p} fs fs'"
proof -
  assume a: "zeroData p sz fs = (ok, fs')"
  obtain f fs1 where f: "fs_fault fs = (f, fs1)" by fastforce
  obtain f2 fs2 where f2: "fs_fault fs1 = (f2, fs2)" by fastforce
  from a f f2 obtain fs3 where "zeroLoop p 0 sz fs3 = (ok, fs')" "fs_get fs3 = fs_get fs"
    by (cases f) (auto simp: zeroData_def fs_fault_get [OF f] fs_fault_get [OF f2])
  from zeroLoop_get [OF this(1)] this(2) show ?thesis by (simp add: same_outside_def)
qed


definition dekArea :: "path \<Rightarrow> string \<Rightarrow> path set" where
  "dekArea dir i = insert (dekPath dir i) (set (prefixes dir))"

lemma DirPut_cases:
  assumes "DirPut dir i sealed fs = (r, fs')"
  obtains (kept) "r \<noteq> None" "same_outside (set (prefixes dir)) fs fs'"
    | (created) "r = None" "fs_get fs (dekPath dir i) = None" "same_outside (dekArea dir i) fs fs'" "dekView dir fs' i = Some sealed"
    | (undone) "r \<noteq> None" "fs_get fs (dekPath dir i) = None" "same_outside (dekArea dir i) fs fs'"
proof -
  let ?p = "dekPath dir i"
  obtain mr f1 where m: "os_MkdirAll dir fs = (mr, f1)" by fastforce
  obtain cr f2 where c: "os_CreateExcl ?p f1 = (cr, f2)" by fastforce
  obtain wok f3 where w: "os_WriteOpen ?p sealed f2 = (wok, f3)" by fastforce
  obtain sok f4 where s: "os_Plain f3 = (sok, f4)" by fastforce
  obtain cok f5 where l: "os_Plain f4 = (cok, f5)" by fastforce
  obtain rr f6 where d: "os_Remove ?p f5 = (rr, f6)" by fastforce
  note M = os_MkdirAll_get(1) [OF m]
  show thesis
  proof (cases "ValidateSnapshotID i = None \<and> mr = None \<and> cr = None")
    case False
    have "r \<noteq> None \<and> same_outside (set (prefixes dir)) fs fs'"
      using assms False m c M os_CreateExcl_get(1) [OF c]
      by (cases "ValidateSnapshotID i"; cases mr; cases cr)
        (auto simp: DirPut_def same_outside_def dest: sym [of "Some _"] split: OsError.splits)
    then show thesis using kept by blast
  next
    case True
    have bl: "butlast ?p = dir" by (simp add: dekPath_def)
    have C: "fs_get f1 ?p = None" "fs_get f2 = (fs_get f1)(dir := Some (DirNode (fs_Now f1)), ?p := Some (FileNode [] (fs_Now f1)))"
      using os_CreateExcl_get(2) [OF c] True bl by auto
    have old: "fs_get fs ?p = None"
      using same_outside_get [OF M dekPath_not_prefix] C(1) by simp
    have "dir \<in> set (prefixes dir)" by (simp add: set_prefixes)
    with M C(2) have s2: "same_outside (dekArea dir i) fs f2" by (auto simp: same_outside_def dekArea_def)
    from os_WriteOpen_get [OF w] obtain t x where W: "fs_get f3 = (fs_get f2)(?p := Some (FileNode x t))" "wok \<longrightarrow> x = sealed" by blast
    have g5: "fs_get f5 = fs_get f3" using os_Plain_get [OF s] os_Plain_get [OF l] by simp
    have s5: "same_outside (dekArea dir i) fs f5" using s2 W(1) g5 by (auto simp: same_outside_def dekArea_def)
    have s6: "same_outside (dekArea dir i) fs f6"
      using s5 os_Remove_get(1,3) [OF d] by (cases rr) (auto simp: same_outside_def dekArea_def)
    have out: "(r, fs') = (if wok \<and> sok \<and> cok then (None, f5) else (Some StoreWrite, f6))"
      using assms True m c w s l d by (auto simp: DirPut_def Let_def)
    show thesis
    proof (cases "wok \<and> sok \<and> cok")
      case True
      with out old s5 W g5 show thesis by (intro created) (auto simp: dekView_def)
    next
      case False
      with out old s6 show thesis by (intro undone) auto
    qed
  qed
qed

lemma Shred_law:
  assumes "Shred p fs = (r, fs')"
  shows "same_outside {p} fs fs'" and "r = None \<or> r = Some OsNotExist \<Longrightarrow> fs_get fs' p = None"
proof -
  obtain r1 f1 where s1: "os_Stat p fs = (r1, f1)" by fastforce
  obtain r2 f2 where s2: "os_Stat p f1 = (r2, f2)" by fastforce
  note g1 = os_Stat_get [OF s1] and g2 = os_Stat_get [OF s2]
  have rem: "same_outside {p} f f' \<and> (x = None \<or> x = Some OsNotExist \<longrightarrow> fs_get f' p = None)"
    if "os_Remove p f = (x, f')" for f f' x
    using os_Remove_get(1,2,3) [OF that] by (cases x) (auto simp: same_outside_def)
  have "same_outside {p} fs fs' \<and> (r = None \<or> r = Some OsNotExist \<longrightarrow> fs_get fs' p = None)"
  proof (cases r1)
    case (Inl e)
    with assms s1 g1 os_Stat_missing [of p fs f1] show ?thesis by (auto simp: Shred_def same_outside_def)
  next
    case (Inr info)
    show ?thesis
    proof (cases "nodeSize info > 0 \<and> \<not> (\<exists>c t. r2 = Inr (FileNode c t))")
      case True
      with assms s1 s2 Inr have "fs' = f2" "r = Some OsOther \<or> (\<exists>e. r2 = Inl e \<and> r = Some e)"
        by (cases r2; auto simp: Shred_def split: Node.splits)+
      with g1 g2 os_Stat_missing [of p f1 f2] s2 show ?thesis by (auto simp: same_outside_def)
    next
      case False
      obtain zok f3 where z: "zeroData p (nodeSize info) f2 = (zok, f3)" by fastforce
      obtain o1 f4 where p1: "os_Plain f3 = (o1, f4)" by fastforce
      obtain o2 f5 where p2: "os_Plain f4 = (o2, f5)" by fastforce
      have s3: "same_outside {p} fs f3" using zeroData_get [OF z] g1 g2 by (simp add: same_outside_def)
      have s45: "same_outside {p} fs f4" "same_outside {p} fs f5"
        using s3 os_Plain_get [OF p1] os_Plain_get [OF p2] by (simp_all add: same_outside_def)
      from False assms s1 s2 Inr z p1 p2
      consider "fs' \<in> {f3, f4, f5}" "r = Some OsOther" | "os_Remove p f5 = (r, fs')" | "os_Remove p f1 = (r, fs')"
        by (cases "nodeSize info > 0") (auto simp: Shred_def split: bool.splits)
      then show ?thesis
      proof cases
        case 1
        with s3 s45 show ?thesis by auto
      next
        case 2
        with rem [OF 2] s45(2) same_outside_trans show ?thesis by blast
      next
        case 3
        with rem [OF 3] g1 show ?thesis by (simp add: same_outside_def)
      qed
    qed
  qed
  then show "same_outside {p} fs fs'" "r = None \<or> r = Some OsNotExist \<Longrightarrow> fs_get fs' p = None" by blast+
qed

lemma DirDestroy_law:
  assumes "DirDestroy dir i fs = (r, fs')"
  shows "same_outside {dekPath dir i} fs fs'" and "r = None \<or> r = Some ErrOsNotExist \<Longrightarrow> dekView dir fs' i = None"
proof -
  obtain sr f1 where s: "Shred (dekPath dir i) fs = (sr, f1)" by fastforce
  note S = Shred_law [OF s]
  have v: "ValidateSnapshotID i \<noteq> Some ErrOsNotExist" by (simp add: ValidateSnapshotID_def)
  show "same_outside {dekPath dir i} fs fs'"
    using assms s S(1) by (auto simp: DirDestroy_def split: option.splits OsError.splits)
  show "r = None \<or> r = Some ErrOsNotExist \<Longrightarrow> dekView dir fs' i = None"
    using assms s S(2) v by (auto simp: DirDestroy_def dekView_def split: option.splits OsError.splits)
qed

lemma DirGet_law:
  assumes "DirGet dir i fs = (r, fs')"
  shows "fs_get fs' = fs_get fs" and "r = Inr x \<Longrightarrow> dekView dir fs i = Some x"
  using assms os_ReadFile_get [of "dekPath dir i" fs] os_ReadFile_Inr [of "dekPath dir i" fs]
  by (auto simp: DirGet_def dekView_def split: option.splits prod.splits sum.splits OsError.splits)

lemma DirGet_complete:
  assumes "fs_Faults fs = []" "ValidateSnapshotID i = None" "dekView dir fs i = Some x"
  shows "DirGet dir i fs = (Inr x, fs)"
  using assms by (auto simp: DirGet_def dekView_def os_ReadFile_def os_Stat_def os_Plain_def fault_free split: option.splits Node.splits)

lemma DirModTime_get: "DirModTime dir i fs = (r, fs') \<Longrightarrow> fs_get fs' = fs_get fs"
  by (auto simp: DirModTime_def split: option.splits prod.splits sum.splits OsError.splits dest: os_Stat_get)

end
