(* ===== verification/Encrypted_Store.thy ===== *)
theory Encrypted_Store
  imports Storage_Props
begin

text \<open>
  The contracts between the encrypting backend and what it is built on. \<open>blob_store\<close> is what a
  \<open>StorageBackend\<close> promises, \<open>key_store\<close> what a \<open>SealedDEKStore\<close> promises, and
  \<open>encrypted_store\<close> joins the two with the law that neither touches what the other holds. The
  lemmas on \<open>EncSave\<close>, \<open>EncOpen\<close> and \<open>EncDelete\<close> are proved once there. The local disk with
  the directory of sealed keys, at two places of which neither lies in the other, is the
  interpretation. A state is healthy when the next calls meet no fault.
\<close>

section \<open>The contracts\<close>

locale blob_store =
  fixes be :: "'s StorageBackend" and view :: "'s \<Rightarrow> string \<Rightarrow> bytes option"
    and inv :: "'s \<Rightarrow> bool" and healthy :: "'s \<Rightarrow> bool" and okid :: "string \<Rightarrow> bool"
  assumes okid_valid: "okid i \<Longrightarrow> ValidateSnapshotID i = None"
    and save_inv: "okid i \<Longrightarrow> inv s \<Longrightarrow> sb_Save be i st s = (r, s') \<Longrightarrow> inv s'"
    and save_other: "okid i \<Longrightarrow> okid j \<Longrightarrow> j \<noteq> i \<Longrightarrow> inv s \<Longrightarrow> sb_Save be i st s = (r, s') \<Longrightarrow> view s' j = view s j"
    and save_done: "okid i \<Longrightarrow> inv s \<Longrightarrow> sb_Save be i st s = (Inr x, s') \<Longrightarrow>
      x = (length (rd_Data st), i) \<and> rd_Err st = None \<and> view s' i = Some (rd_Data st)"
    and save_failed: "okid i \<Longrightarrow> inv s \<Longrightarrow> sb_Save be i st s = (Inl e, s') \<Longrightarrow>
      view s' i = view s i \<or> view s' i = Some (rd_Data st) \<and> rd_Err st = None"
    and open_same: "okid i \<Longrightarrow> inv s \<Longrightarrow> sb_Open be i s = (ro, s') \<Longrightarrow> inv s' \<and> (okid j \<longrightarrow> view s' j = view s j)"
    and open_sound: "okid i \<Longrightarrow> inv s \<Longrightarrow> sb_Open be i s = (Inr rd, s') \<Longrightarrow> rd_Err rd = None \<and> view s i = Some (rd_Data rd)"
    and open_complete: "okid i \<Longrightarrow> inv s \<Longrightarrow> healthy s \<Longrightarrow> view s i = Some c \<Longrightarrow> sb_Open be i s = (Inr (mem_reader c), s)"
    and delete_inv: "okid i \<Longrightarrow> inv s \<Longrightarrow> sb_Delete be i s = (rd', s') \<Longrightarrow> inv s'"
    and delete_other: "okid i \<Longrightarrow> okid j \<Longrightarrow> j \<noteq> i \<Longrightarrow> inv s \<Longrightarrow> sb_Delete be i s = (rd', s') \<Longrightarrow> view s' j = view s j"
    and delete_done: "okid i \<Longrightarrow> inv s \<Longrightarrow> sb_Delete be i s = (None, s') \<Longrightarrow> view s' i = None"
    and partial_same: "okid i \<Longrightarrow> inv s \<Longrightarrow> sb_RemovePartial be = Some rem \<Longrightarrow> rem i d s = (rd', s') \<Longrightarrow>
      inv s' \<and> (okid j \<longrightarrow> view s' j = view s j)"

locale key_store =
  fixes ks :: "'s SealedDEKStore" and kview :: "'s \<Rightarrow> string \<Rightarrow> bytes option"
    and healthy :: "'s \<Rightarrow> bool" and okid :: "string \<Rightarrow> bool"
  assumes put_other: "okid i \<Longrightarrow> okid j \<Longrightarrow> j \<noteq> i \<Longrightarrow> dk_Put ks i x s = (r, s') \<Longrightarrow> kview s' j = kview s j"
    and put_done: "okid i \<Longrightarrow> dk_Put ks i x s = (None, s') \<Longrightarrow> kview s i = None \<and> kview s' i = Some x"
    and put_keeps: "okid i \<Longrightarrow> dk_Put ks i x s = (r, s') \<Longrightarrow> kview s i = Some y \<Longrightarrow> kview s' i = Some y"
    and get_same: "okid i \<Longrightarrow> okid j \<Longrightarrow> dk_Get ks i s = (r', s') \<Longrightarrow> kview s' j = kview s j"
    and get_sound: "okid i \<Longrightarrow> dk_Get ks i s = (Inr x, s') \<Longrightarrow> kview s i = Some x"
    and get_complete: "okid i \<Longrightarrow> healthy s \<Longrightarrow> kview s i = Some x \<Longrightarrow> dk_Get ks i s = (Inr x, s)"
    and destroy_other: "okid i \<Longrightarrow> okid j \<Longrightarrow> j \<noteq> i \<Longrightarrow> dk_Destroy ks i s = (r, s') \<Longrightarrow> kview s' j = kview s j"
    and destroy_done: "okid i \<Longrightarrow> dk_Destroy ks i s = (r, s') \<Longrightarrow> r = None \<or> r = Some ErrOsNotExist \<Longrightarrow> kview s' i = None"
    and modtime_same: "okid i \<Longrightarrow> okid j \<Longrightarrow> dk_ModTime ks = Some mt \<Longrightarrow> mt i s = (r'', s') \<Longrightarrow> kview s' j = kview s j"

locale encrypted_store = blob_store be view inv healthy okid + key_store ks kview healthy okid
  for be :: "'s StorageBackend" and view inv healthy okid and ks :: "'s SealedDEKStore" and kview +
  assumes blob_keeps_keys: "okid i \<Longrightarrow> okid j \<Longrightarrow> inv s \<Longrightarrow> sb_Save be i st s = (r1, s') \<Longrightarrow> kview s' j = kview s j"
    "okid i \<Longrightarrow> okid j \<Longrightarrow> inv s \<Longrightarrow> sb_Delete be i s = (r2, s') \<Longrightarrow> kview s' j = kview s j"
    "okid i \<Longrightarrow> okid j \<Longrightarrow> inv s \<Longrightarrow> sb_RemovePartial be = Some rem \<Longrightarrow> rem i d s = (r3, s') \<Longrightarrow> kview s' j = kview s j"
    and keys_keep_blob: "okid i \<Longrightarrow> okid j \<Longrightarrow> inv s \<Longrightarrow> dk_Put ks i x s = (r4, s') \<Longrightarrow> inv s' \<and> view s' j = view s j"
    "okid i \<Longrightarrow> okid j \<Longrightarrow> inv s \<Longrightarrow> dk_Get ks i s = (r5, s') \<Longrightarrow> inv s' \<and> view s' j = view s j"
    "okid i \<Longrightarrow> okid j \<Longrightarrow> inv s \<Longrightarrow> dk_Destroy ks i s = (r6, s') \<Longrightarrow> inv s' \<and> view s' j = view s j"
    "okid i \<Longrightarrow> okid j \<Longrightarrow> inv s \<Longrightarrow> dk_ModTime ks = Some mt \<Longrightarrow> mt i s = (r7, s') \<Longrightarrow> inv s' \<and> view s' j = view s j"

section \<open>The encrypting backend on the contracts\<close>

lemma EncSave_trace:
  assumes "EncSave ae b env i st s = (res, s')"
  obtains (refused) e where "res = Inl e" "s' = s"
    | (blocked) e where "removePartial b (se_Now env) i s = (Some e, s')" "res = Inl e"
    | (unkeyed) e x s1 where "removePartial b (se_Now env) i s = (None, s1)" "dk_Put (eb_DEKs b) i x s1 = (Some e, s')" "res = Inl e"
    | (run) kek dek x s1 s2 s3 sr where "\<not> se_Cancelled env" "ValidateSnapshotID i = None" "eb_KEK b = Inr kek" "se_DEK env = Some dek" "SealDEK ae (se_Nonce env) kek dek (dekAAD i) = Inr x"
        "removePartial b (se_Now env) i s = (None, s1)" "dk_Put (eb_DEKs b) i x s1 = (None, s2)"
        "sb_Save (eb_Inner b) i (pipeReader ae (se_Prefix env) dek (se_Cut env) st) s2 = (sr, s3)"
        "(\<exists>y. sr = Inr y \<and> res = Inr y \<and> s' = s3) \<or>
         (\<exists>e e' dr. sr = Inl e \<and> dk_Destroy (eb_DEKs b) i s3 = (dr, s') \<and> res = Inl e' \<and>
            (dr \<noteq> None \<and> dr \<noteq> Some ErrOsNotExist \<longrightarrow> (\<exists>u v. e' = CleanupFailed u v)))"
proof (cases "se_Cancelled env \<or> ValidateSnapshotID i \<noteq> None \<or> (\<exists>e. eb_KEK b = Inl e) \<or> se_DEK env = None \<or> claimSave (se_Ids env) i = None")
  case True
  then have "(\<exists>e. res = Inl e) \<and> s' = s"
    using assms by (auto simp: EncSave_def split: if_splits option.splits sum.splits)
  then show thesis using refused by blast
next
  case False
  then obtain kek dek ids where k: "eb_KEK b = Inr kek" "se_DEK env = Some dek" "claimSave (se_Ids env) i = Some ids"
    by (cases "eb_KEK b") auto
  show thesis
  proof (cases "SealDEK ae (se_Nonce env) kek dek (dekAAD i)")
    case (Inl e)
    with False k assms show thesis by (intro refused) (auto simp: EncSave_def)
  next
    case (Inr x)
    obtain pr s1 where p: "removePartial b (se_Now env) i s = (pr, s1)" by fastforce
    obtain ur s2 where u: "dk_Put (eb_DEKs b) i x s1 = (ur, s2)" by fastforce
    obtain sr s3 where w: "sb_Save (eb_Inner b) i (pipeReader ae (se_Prefix env) dek (se_Cut env) st) s2 = (sr, s3)" by fastforce
    show thesis
    proof (cases "pr = None \<and> ur = None")
      case False
      with \<open>\<not> (_ \<or> _)\<close> k Inr p u assms show thesis
        by (cases pr; cases ur) (auto simp: EncSave_def intro: blocked unkeyed)
    next
      case True
      have "(\<exists>y. sr = Inr y \<and> res = Inr y \<and> s' = s3) \<or>
         (\<exists>e e' dr. sr = Inl e \<and> dk_Destroy (eb_DEKs b) i s3 = (dr, s') \<and> res = Inl e' \<and>
            (dr \<noteq> None \<and> dr \<noteq> Some ErrOsNotExist \<longrightarrow> (\<exists>u v. e' = CleanupFailed u v)))"
        using False True k Inr p u w assms
        by (cases sr) (auto simp: EncSave_def Let_def split: prod.splits option.splits StorageError.splits)
      with False True k Inr p u w show thesis by (intro run) auto
    qed
  qed
qed

context encrypted_store
begin

lemma removePartial_law:
  assumes "eb_Inner b = be" "eb_DEKs b = ks" "okid i" "inv s" "removePartial b now i s = (r, s')"
  shows "inv s' \<and> (\<forall>j. okid j \<longrightarrow> view s' j = view s j \<and> (j \<noteq> i \<longrightarrow> kview s' j = kview s j))"
proof (cases "sb_RemovePartial be")
  case None
  with assms show ?thesis by (simp add: removePartial_def)
next
  case (Some rem)
  show ?thesis
  proof (cases "dk_ModTime ks")
    case None
    with Some assms show ?thesis by (simp add: removePartial_def)
  next
    case mt: (Some mt)
    obtain pr s1 where p: "rem i (partialStaleAfter b) s = (pr, s1)" by fastforce
    obtain m s2 where m: "mt i s1 = (m, s2)" by fastforce
    obtain dr s3 where d: "dk_Destroy ks i s2 = (dr, s3)" by fastforce
    have 1: "inv s1 \<and> (okid j \<longrightarrow> view s1 j = view s j \<and> kview s1 j = kview s j)" for j
      using partial_same [OF assms(3,4) Some p, of j] blob_keeps_keys(3) [OF assms(3) _ assms(4) Some p, of j] by blast
    have 2: "inv s2 \<and> (okid j \<longrightarrow> view s2 j = view s j \<and> kview s2 j = kview s j)" for j
      using keys_keep_blob(4) [OF assms(3) _ _ mt m] modtime_same [OF assms(3) _ mt m] 1 assms(3) by metis
    have 3: "inv s3 \<and> (okid j \<longrightarrow> view s3 j = view s j \<and> (j \<noteq> i \<longrightarrow> kview s3 j = kview s j))" for j
      using keys_keep_blob(3) [OF assms(3) _ _ d] destroy_other [OF assms(3) _ _ d] 2 assms(3) by metis
    have "s' \<in> {s1, s2, s3}"
      using assms(1,2,5) Some mt p m d
      by (auto simp: removePartial_def split: option.splits sum.splits StorageError.splits if_splits)
    with 1 2 3 show ?thesis by auto
  qed
qed

lemma EncSave_frame:
  assumes "eb_Inner b = be" "eb_DEKs b = ks" "okid i" "inv s" "EncSave ae b env i st s = (res, s')"
  shows "inv s' \<and> (\<forall>j. okid j \<longrightarrow> j \<noteq> i \<longrightarrow> view s' j = view s j \<and> kview s' j = kview s j)"
  using assms(5)
proof (cases rule: EncSave_trace)
  case (refused e)
  with assms(4) show ?thesis by simp
next
  case (blocked e)
  from removePartial_law [OF assms(1-4) blocked(1)] show ?thesis by blast
next
  case (unkeyed e x s1)
  have p: "dk_Put ks i x s1 = (Some e, s')" using unkeyed(2) assms(2) by simp
  show ?thesis
    using removePartial_law [OF assms(1-4) unkeyed(1)] keys_keep_blob(1) [OF assms(3) _ _ p] put_other [OF assms(3) _ _ p] assms(3)
    by metis
next
  case (run kek dek x s1 s2 s3 sr)
  note n = run(7,8) [unfolded assms(1,2)]
  have 2: "inv s2 \<and> (\<forall>j. okid j \<longrightarrow> j \<noteq> i \<longrightarrow> view s2 j = view s j \<and> kview s2 j = kview s j)"
    using removePartial_law [OF assms(1-4) run(6)] keys_keep_blob(1) [OF assms(3) _ _ n(1)] put_other [OF assms(3) _ _ n(1)] assms(3)
    by metis
  then have 3: "inv s3 \<and> (\<forall>j. okid j \<longrightarrow> j \<noteq> i \<longrightarrow> view s3 j = view s j \<and> kview s3 j = kview s j)"
    using save_inv [OF assms(3) _ n(2)] save_other [OF assms(3) _ _ _ n(2)] blob_keeps_keys(1) [OF assms(3) _ _ n(2)] by metis
  from run(9) consider "s' = s3" | dr where "dk_Destroy ks i s3 = (dr, s')" using assms(2) by blast
  then show ?thesis
  proof cases
    case 1
    with 3 show ?thesis by simp
  next
    case 2
    with 3 keys_keep_blob(3) [OF assms(3) _ _ 2] destroy_other [OF assms(3) _ _ 2] assms(3) show ?thesis by metis
  qed
qed

lemma EncSave_done:
  assumes "eb_Inner b = be" "eb_DEKs b = ks" "okid i" "inv s" "EncSave ae b env i st s = (Inr y, s')"
  obtains kek dek x where "eb_KEK b = Inr kek" "se_DEK env = Some dek" "SealDEK ae (se_Nonce env) kek dek (dekAAD i) = Inr x"
    "kview s' i = Some x" "length dek = KeySize" "rd_Err st = None"
    "view s' i = Some (streamMagic @ se_Prefix env @ sealedChunks ae dek (se_Prefix env) 0 (chunksOf (rd_Data st)))"
  using assms(5)
proof (cases rule: EncSave_trace)
  case (run kek dek x s1 s2 s3 sr)
  note n = run(7,8) [unfolded assms(1,2)]
  have i1: "inv s1" using removePartial_law [OF assms(1-4) run(6)] by blast
  have i2: "inv s2" using keys_keep_blob(1) [OF assms(3,3) i1 n(1)] by blast
  have k2: "kview s2 i = Some x" using put_done [OF assms(3) n(1)] by blast
  have sr: "sr = Inr y" "s' = s3" using run(9) by auto
  let ?p = "pipeReader ae (se_Prefix env) dek (se_Cut env) st"
  have d: "rd_Err ?p = None" "view s' i = Some (rd_Data ?p)"
    using save_done [OF assms(3) i2 n(2) [unfolded sr(1)]] sr(2) by auto
  have k: "kview s' i = Some x" using blob_keeps_keys(1) [OF assms(3,3) i2 n(2)] k2 sr(2) by simp
  obtain err m w where e: "Encrypt ae (Some (se_Prefix env)) \<lparr>wr_Out = [], wr_Room = None\<rparr> st dek = (err, m, w)"
    by (cases "Encrypt ae (Some (se_Prefix env)) \<lparr>wr_Out = [], wr_Room = None\<rparr> st dek") auto
  from d(1) e have c: "se_Cut env = None" "err = None"
    by (auto simp: pipeReader_def split: option.splits)
  with d(2) e have v: "view s' i = Some (wr_Out w)" by (simp add: pipeReader_def)
  from e [unfolded c(2)] show thesis
    by (rule Encrypt_ok) (rule that [OF run(3,4,5) k], use v in auto)
qed simp_all

lemma enc_roundtrip:
  assumes "eb_Inner b = be" "eb_DEKs b = ks" "okid i" "inv s" "EncSave ae b env i st s = (Inr y, s')"
    and "healthy s'" "\<And>key. aead_opens ae key" "length (se_Prefix env) = noncePrefixLen"
    and "\<And>n. se_Nonce env = Some n \<Longrightarrow> length n = gcmNonceSize" "0 < k"
  shows "\<exists>dek d. EncOpen ae b False i s' = (Inr (dek, d), s') \<and> readToEnd ae dek k d = (rd_Data st, None)"
  using assms(1-5)
proof (rule EncSave_done)
  fix kek dek x
  assume h: "eb_KEK b = Inr kek" "se_DEK env = Some dek" "SealDEK ae (se_Nonce env) kek dek (dekAAD i) = Inr x"
    "kview s' i = Some x" "length dek = KeySize" "rd_Err st = None"
    "view s' i = Some (streamMagic @ se_Prefix env @ sealedChunks ae dek (se_Prefix env) 0 (chunksOf (rd_Data st)))" (is "_ = Some ?ct")
  have "inv s'" using EncSave_frame [OF assms(1-5)] by blast
  from open_complete [OF assms(3) this assms(6) h(7)] have o: "sb_Open be i s' = (Inr (mem_reader ?ct), s')" .
  obtain n where n: "se_Nonce env = Some n" using h(3) by (cases "se_Nonce env") (auto simp: SealDEK_def split: option.splits)
  have "OpenDEK ae kek x (dekAAD i) = Inr dek"
    by (rule OpenDEK_SealDEK [OF assms(7) assms(9) [OF n] h(3) [unfolded n]])
  moreover obtain d where d: "NewDecryptingReader (mem_reader ?ct) dek = Inr d" "readToEnd ae dek k d = (rd_Data st, None)"
    using decrypt_sealed [OF assms(7) h(5) assms(8,10), of "rd_Data st"] by blast
  ultimately have "EncOpen ae b False i s' = (Inr (dek, d), s')"
    using okid_valid [OF assms(3)] h(1) get_complete [OF assms(3,6) h(4)] o assms(1,2) by (simp add: EncOpen_def)
  with d(2) show ?thesis by blast
qed

lemma enc_failed_save:
  assumes "eb_Inner b = be" "eb_DEKs b = ks" "okid i" "inv s" "EncSave ae b env i st s = (Inl e, s')"
    and "view s i = None" "\<nexists>u v. e = CleanupFailed u v"
  shows "view s' i = None \<or> kview s' i = None"
  using assms(5)
proof (cases rule: EncSave_trace)
  case (refused e)
  with assms(6) show ?thesis by simp
next
  case (blocked e)
  from removePartial_law [OF assms(1-4) blocked(1)] assms(3,6) show ?thesis by simp
next
  case (unkeyed e x s1)
  have "view s' i = view s1 i"
    using removePartial_law [OF assms(1-4) unkeyed(1)] keys_keep_blob(1) [OF assms(3,3) _ unkeyed(2) [unfolded assms(2)]] by blast
  with removePartial_law [OF assms(1-4) unkeyed(1)] assms(3,6) show ?thesis by simp
next
  case (run kek dek x s1 s2 s3 sr)
  with assms(2,7) obtain dr where "dk_Destroy ks i s3 = (dr, s')" "dr = None \<or> dr = Some ErrOsNotExist" by auto
  from destroy_done [OF assms(3) this] show ?thesis by simp
qed

lemma EncDelete_law:
  assumes "eb_Inner b = be" "eb_DEKs b = ks" "okid i" "inv s" "EncDelete b False i s = (r, s')"
  shows "inv s' \<and> (\<forall>j. okid j \<longrightarrow> j \<noteq> i \<longrightarrow> view s' j = view s j \<and> kview s' j = kview s j)"
    and "fst (dk_Destroy ks i s) \<in> {None, Some ErrOsNotExist} \<Longrightarrow> kview s' i = None"
    and "r = None \<Longrightarrow> kview s' i = None"
proof -
  obtain kr s1 where d: "dk_Destroy ks i s = (kr, s1)" by fastforce
  obtain ir s2 where w: "sb_Delete be i s1 = (ir, s2)" by fastforce
  have 1: "inv s1" "okid j \<Longrightarrow> j \<noteq> i \<Longrightarrow> view s1 j = view s j \<and> kview s1 j = kview s j" for j
    using keys_keep_blob(3) [OF assms(3) _ assms(4) d] destroy_other [OF assms(3) _ _ d] assms(3) by blast+
  have 2: "inv s2" "okid j \<Longrightarrow> j \<noteq> i \<Longrightarrow> view s2 j = view s j \<and> kview s2 j = kview s j" for j
    using delete_inv [OF assms(3) 1(1) w] delete_other [OF assms(3) _ _ 1(1) w] 1(2) blob_keeps_keys(2) [OF assms(3) _ 1(1) w] by metis+
  have r: "(if kr \<noteq> None \<and> kr \<noteq> Some ErrOsNotExist then (kr, s1)
      else (if ir = Some ErrNotFound \<and> kr \<noteq> Some ErrOsNotExist then None else ir, s2)) = (r, s')"
    using assms(1,2,5) okid_valid [OF assms(3)] d w by (cases kr) (auto simp: EncDelete_def split: if_splits)
  with 1 2 show "inv s' \<and> (\<forall>j. okid j \<longrightarrow> j \<noteq> i \<longrightarrow> view s' j = view s j \<and> kview s' j = kview s j)"
    by (auto split: if_splits)
  have k: "kview s2 i = None" if "kr = None \<or> kr = Some ErrOsNotExist"
    using destroy_done [OF assms(3) d that] blob_keeps_keys(2) [OF assms(3,3) 1(1) w] by simp
  show "fst (dk_Destroy ks i s) \<in> {None, Some ErrOsNotExist} \<Longrightarrow> kview s' i = None"
    using r k d by (auto split: if_splits)
  show "r = None \<Longrightarrow> kview s' i = None" using r k by (auto split: if_splits)
qed

lemma unkeyed_unreadable:
  assumes "eb_DEKs b = ks" "okid i" "kview s i = None"
  shows "isl (fst (EncOpen ae b cancelled i s))"
proof -
  obtain g s1 where g: "dk_Get ks i s = (g, s1)" by fastforce
  with get_sound [OF assms(2), of s _ s1] assms(3) obtain e where "g = Inl e" by (cases g) auto
  with g assms(1) show ?thesis by (auto simp: EncOpen_def split: option.splits sum.splits)
qed

lemma unstored_unreadable:
  assumes "eb_Inner b = be" "eb_DEKs b = ks" "okid i" "inv s" "view s i = None"
  shows "isl (fst (EncOpen ae b cancelled i s))"
proof -
  obtain g s1 where g: "dk_Get ks i s = (g, s1)" by fastforce
  have s1: "inv s1" "view s1 i = None" using keys_keep_blob(2) [OF assms(3,3,4) g] assms(5) by auto
  obtain rd s2 where o: "sb_Open be i s1 = (rd, s2)" by fastforce
  with open_sound [OF assms(3) s1(1)] s1(2) obtain e where "rd = Inl e" by (cases rd) auto
  with g o assms(1,2) show ?thesis by (auto simp: EncOpen_def split: option.splits sum.splits)
qed

end

section \<open>The store of a node\<close>

definition apart :: "path \<Rightarrow> path \<Rightarrow> bool" where
  "apart p q \<longleftrightarrow> \<not> is_under p q \<and> \<not> is_under q p"

definition calm :: "bool \<Rightarrow> Fs \<Rightarrow> bool" where
  "calm cancelled fs \<longleftrightarrow> \<not> cancelled \<and> fs_Faults fs = []"

definition nodeInv :: "LocalDiskBackend \<Rightarrow> path \<Rightarrow> Fs \<Rightarrow> bool" where
  "nodeInv b dir fs \<longleftrightarrow> localInv b fs \<and> apart (ld_Root b) dir"

lemma is_under_iff: "is_under p q \<longleftrightarrow> (\<exists>r. q = p @ r)"
  unfolding is_under_def by (metis append_eq_conv_conj append_take_drop_id)

lemma apart_area: "apart (ld_Root b) dir \<Longrightarrow> dekPath dir j \<notin> area b i"
proof
  assume a: "apart (ld_Root b) dir" and "dekPath dir j \<in> area b i"
  then consider r where "dir @ [j @ ''.dek''] = ld_Root b @ i # r" | r where "ld_Root b = dir @ [j @ ''.dek''] @ r"
    by (auto simp: area_def own_mem set_prefixes dekPath_def)
  then show False
  proof cases
    case 1
    then have "dir = ld_Root b @ butlast (i # r)" by (metis butlast_append butlast_snoc list.discI)
    with a show False by (auto simp: apart_def is_under_iff)
  next
    case 2
    with a show False by (auto simp: apart_def is_under_iff)
  qed
qed

lemma apart_dekArea: "apart (ld_Root b) dir \<Longrightarrow> ld_Root b @ r \<notin> dekArea dir j"
proof
  assume a: "apart (ld_Root b) dir" and "ld_Root b @ r \<in> dekArea dir j"
  then consider "dir @ [j @ ''.dek''] = ld_Root b @ r" | r' where "dir = ld_Root b @ r @ r'"
    by (auto simp: dekArea_def set_prefixes dekPath_def)
  then show False
  proof cases
    case 1
    show False
    proof (cases r rule: rev_cases)
      case Nil
      with 1 have "ld_Root b = dir @ [j @ ''.dek'']" by simp
      with a show False by (auto simp: apart_def is_under_iff)
    next
      case (snoc xs y)
      with 1 have "dir = ld_Root b @ xs" by simp
      with a show False by (auto simp: apart_def is_under_iff)
    qed
  next
    case 2
    with a show False by (auto simp: apart_def is_under_iff)
  qed
qed

lemma dekArea_keeps:
  assumes "same_outside (dekArea dir i) fs fs'" "nodeInv b dir fs"
  shows "nodeInv b dir fs' \<and> (good_id j \<longrightarrow> localView b fs' j = localView b fs j)"
proof -
  have g: "fs_get fs' (ld_Root b @ r) = fs_get fs (ld_Root b @ r)" for r
    by (rule same_outside_get [OF assms(1) apart_dekArea]) (use assms(2) in \<open>simp add: nodeInv_def\<close>)
  with assms(2) show ?thesis by (auto simp: nodeInv_def localInv_def localView_def good_id_paths)
qed

lemma dekArea_mono: "same_outside {dekPath dir i} fs fs' \<Longrightarrow> same_outside (dekArea dir i) fs fs'"
  "same_outside (set (prefixes dir)) fs fs' \<Longrightarrow> same_outside (dekArea dir i) fs fs'"
  "fs_get fs' = fs_get fs \<Longrightarrow> same_outside (dekArea dir i) fs fs'"
  by (auto simp: same_outside_def dekArea_def)

lemma area_keeps:
  assumes "same_outside (area b i) fs fs'" "nodeInv b dir fs"
  shows "dekView dir fs' j = dekView dir fs j"
  by (rule dekView_frame [OF assms(1) apart_area]) (use assms(2) in \<open>simp add: nodeInv_def\<close>)

lemma get_eq_localInv: "fs_get fs' = fs_get fs \<Longrightarrow> localInv b fs' = localInv b fs"
  by (simp add: localInv_def)

lemma get_eq_localView: "fs_get fs' = fs_get fs \<Longrightarrow> localView b fs' = localView b fs"
  by (rule ext) (simp add: localView_def)

lemma DirPut_area: "DirPut dir i x fs = (r, fs') \<Longrightarrow> same_outside (dekArea dir i) fs fs'"
  by (erule DirPut_cases) (auto intro: dekArea_mono)

lemma dekArea_other: "i \<noteq> j \<Longrightarrow> dekPath dir j \<notin> dekArea dir i"
  by (simp add: dekArea_def dekPath_not_prefix)

lemma DirPut_keeps:
  assumes "DirPut dir i x fs = (r, fs')" "dekView dir fs i = Some y"
  shows "dekView dir fs' i = Some y"
  using assms(1)
proof (cases rule: DirPut_cases)
  case kept
  with assms(2) show ?thesis using dekView_frame [OF kept(2) dekPath_not_prefix] by simp
qed (use assms(2) in \<open>simp_all add: dekView_def\<close>)

interpretation local_disk: blob_store "LocalDisk b c" "localView b" "localInv b" "calm c" good_id for b c
proof (unfold_locales, goal_cases)
  case (1 i)
  then show ?case by (simp add: good_id_def)
next
  case (2 i s st r s')
  then show ?case using LocalSave_law(2) by (fastforce simp: LocalDisk_def)
next
  case (3 i j s st r s')
  then show ?case using localView_frame [OF LocalSave_law(1)] by (fastforce simp: LocalDisk_def)
next
  case (4 i s st x s')
  then show ?case using LocalSave_law(4) by (simp add: LocalDisk_def)
next
  case (5 i s st e s')
  then show ?case using LocalSave_law(3) by (simp add: LocalDisk_def)
next
  case (6 i s r s' j)
  then have g: "fs_get s' = fs_get s" using LocalOpen_get by (simp add: LocalDisk_def)
  with 6 get_eq_localInv [OF g] get_eq_localView [OF g] show ?case by simp
next
  case (7 i s rd s')
  then show ?case using LocalOpen_sound by (simp add: LocalDisk_def)
next
  case (8 i s x)
  then show ?case using LocalOpen_complete by (simp add: LocalDisk_def calm_def good_id_def)
next
  case (9 i s r s')
  then show ?case using LocalDelete_law(2) by (simp add: LocalDisk_def)
next
  case (10 i j s r s')
  then show ?case using localView_frame [OF same_outside_mono [OF LocalDelete_law(1) own_area]] by (fastforce simp: LocalDisk_def)
next
  case (11 i s s')
  then show ?case using LocalDelete_law(3) by (simp add: LocalDisk_def)
next
  case (12 i s rem d r s' j)
  then have p: "LocalRemovePartial b c i d s = (r, s')" by (auto simp: LocalDisk_def)
  note L = LocalRemovePartial_law [OF p 12(1,2)]
  show ?case
    using L(2,3) localView_frame [OF same_outside_mono [OF L(1) own_area], of j] by (cases "j = i") auto
qed

interpretation dek_dir: key_store "DirDEKStore dir" "dekView dir" "calm c" good_id for dir c
proof (unfold_locales, goal_cases)
  case (1 i j x s r s')
  then show ?case by (simp add: DirDEKStore_def dekView_frame [OF DirPut_area dekArea_other])
next
  case (2 i x s s')
  then have "DirPut dir i x s = (None, s')" by (simp add: DirDEKStore_def)
  then show ?case by (cases rule: DirPut_cases) (auto simp: dekView_def)
next
  case (3 i x s r s' y)
  then show ?case using DirPut_keeps by (simp add: DirDEKStore_def)
next
  case (4 i j s r s')
  then show ?case using DirGet_law(1) by (simp add: DirDEKStore_def dekView_def)
next
  case (5 i s x s')
  then show ?case using DirGet_law(2) by (simp add: DirDEKStore_def)
next
  case (6 i s x)
  then show ?case using DirGet_complete by (simp add: DirDEKStore_def calm_def good_id_def)
next
  case (7 i j s r s')
  then show ?case using dekView_frame [OF DirDestroy_law(1)] by (simp add: DirDEKStore_def)
next
  case (8 i s r s')
  then show ?case using DirDestroy_law(2) by (simp add: DirDEKStore_def)
next
  case (9 i j mt s r s')
  then show ?case using DirModTime_get by (auto simp: DirDEKStore_def dekView_def)
qed


lemma node_blob: "blob_store (LocalDisk b c) (localView b) (nodeInv b dir) (calm c) good_id"
  by unfold_locales
    (auto simp: nodeInv_def intro: local_disk.okid_valid local_disk.save_inv local_disk.delete_inv local_disk.delete_done
      dest: local_disk.save_other local_disk.save_done local_disk.save_failed local_disk.open_same local_disk.open_sound
        local_disk.open_complete local_disk.delete_other local_disk.partial_same)

interpretation node: encrypted_store "LocalDisk b c" "localView b" "nodeInv b dir" "calm c" good_id "DirDEKStore dir" "dekView dir" for b c dir
proof (intro encrypted_store.intro encrypted_store_axioms.intro node_blob dek_dir.key_store_axioms, goal_cases)
  case (1 i j s st r s')
  then show ?case using area_keeps [OF LocalSave_law(1)] by (simp add: LocalDisk_def nodeInv_def)
next
  case (2 i j s r s')
  then show ?case using area_keeps [OF same_outside_mono [OF LocalDelete_law(1) own_area]] by (simp add: LocalDisk_def nodeInv_def)
next
  case (3 i j s rem d r s')
  then show ?case using area_keeps [OF same_outside_mono [OF LocalRemovePartial_law(1) own_area]] by (auto simp: LocalDisk_def nodeInv_def)
next
  case (4 i j s x r s')
  then show ?case using dekArea_keeps [OF DirPut_area] by (simp add: DirDEKStore_def)
next
  case (5 i j s r s')
  then show ?case using dekArea_keeps [OF dekArea_mono(3) [OF DirGet_law(1)]] by (simp add: DirDEKStore_def)
next
  case (6 i j s r s')
  then show ?case using dekArea_keeps [OF dekArea_mono(1) [OF DirDestroy_law(1)]] by (simp add: DirDEKStore_def)
next
  case (7 i j s mt r s')
  then show ?case using dekArea_keeps [OF dekArea_mono(3) [OF DirModTime_get]] by (auto simp: DirDEKStore_def)
qed


section \<open>A save that meets no fault\<close>

definition noFiles :: "path \<Rightarrow> Fs \<Rightarrow> bool" where
  "noFiles p fs \<longleftrightarrow> (\<forall>q\<in>set (prefixes p). \<not> (\<exists>c t. fs_get fs q = Some (FileNode c t)))"

lemma foldr_mkdir_calm:
  "fs_Faults (foldr (\<lambda>q fs. if fs_get fs q = None then fs_put q (DirNode (fs_Now fs)) fs else fs) qs fs) = fs_Faults fs"
  by (induction qs) auto

lemma os_MkdirAll_calm:
  assumes "fs_Faults fs = []" "noFiles p fs"
  obtains fs' where "os_MkdirAll p fs = (None, fs')" "fs_Faults fs' = []"
proof -
  have "\<not> (\<exists>q\<in>set (prefixes p). (case fs_get fs q of Some n \<Rightarrow> is_file n | None \<Rightarrow> False))"
    using assms(2) by (auto simp: noFiles_def split: option.splits elim!: is_file.elims)
  then show thesis using that assms(1) by (simp add: os_MkdirAll_def fault_free foldr_mkdir_calm)
qed

lemma os_calm:
  assumes "fs_Faults fs = []"
  shows "os_Stat p fs = (case fs_get fs p of None \<Rightarrow> Inl OsNotExist | Some n \<Rightarrow> Inr n, fs)"
    and "os_Plain fs = (True, fs)" and "os_WriteOpen p bs fs = (True, fs_put p (FileNode bs (fs_Now fs)) fs)"
  using assms by (simp_all add: os_Stat_def os_Plain_def os_WriteOpen_def fault_free)

lemma os_CreateExcl_calm:
  assumes "fs_Faults fs = []" "fs_get fs p = None" "fs_get fs (butlast p) = Some (DirNode t)"
  shows "os_CreateExcl p fs = (None, fs_put p (FileNode [] (fs_Now fs)) (fs_put (butlast p) (DirNode (fs_Now fs)) fs))"
  using assms by (simp add: os_CreateExcl_def fault_free)

lemma LocalSave_calm:
  assumes "fs_Faults fs = []" "good_id i" "localInv b fs" "checkFillThreshold b = None" "noFiles (ld_Root b @ [i]) fs"
    and "fs_get fs (ld_Root b @ [i]) = None" "rd_Err st = None"
  shows "\<exists>fs'. LocalSave b False i st fs = (Inr (length (rd_Data st), i), fs') \<and> fs_Faults fs' = []"
proof -
  note P = good_id_paths [OF assms(2), of b]
  obtain f1 where m: "os_MkdirAll (ld_Root b @ [i]) fs = (None, f1)" "fs_Faults f1 = []"
    by (rule os_MkdirAll_calm [OF assms(1,5)])
  from os_MkdirAll_get(4) [OF m(1)] obtain t where d: "fs_get f1 (ld_Root b @ [i]) = Some (DirNode t)" by blast
  have "statePath b i \<notin> set (prefixes (ld_Root b @ [i]))" "sha256Path b i \<notin> set (prefixes (ld_Root b @ [i]))"
    by (auto simp: P set_prefixes dest: arg_cong [of _ _ length])
  then have n: "fs_get f1 (statePath b i) = None" "fs_get f1 (sha256Path b i) = None"
    using same_outside_get [OF os_MkdirAll_get(1) [OF m(1)]] assms(2,3,6) by (auto simp: localInv_def)
  have bl: "butlast (statePath b i) = ld_Root b @ [i]" "butlast (sha256Path b i) = ld_Root b @ [i]"
    by (simp_all add: P butlast_append)
  have c: "os_CreateExcl (statePath b i) f1 =
      (None, fs_put (statePath b i) (FileNode [] (fs_Now f1)) (fs_put (ld_Root b @ [i]) (DirNode (fs_Now f1)) f1))" (is "_ = (None, ?f2)")
    using os_CreateExcl_calm [OF m(2) n(1), of t] d bl by simp
  have f2: "fs_Faults ?f2 = []" "fs_get ?f2 (sha256Path b i) = None" "\<exists>t. fs_get ?f2 (ld_Root b @ [i]) = Some (DirNode t)"
    using m(2) n(2) by (auto simp: P)
  then have "\<exists>fs'. localFill b i st ?f2 = (Inr (length (rd_Data st), i), fs') \<and> fs_Faults fs' = []"
    using assms(7) bl m(2) n(2) by (auto simp: localFill_def Let_def os_calm os_WriteFile_def fault_free P)
  with m(1) c assms(1,2,4,6) show ?thesis
    by (simp add: LocalSave_def os_calm good_id_def P)
qed

lemma DirPut_calm:
  assumes "fs_Faults fs = []" "good_id i" "fs_get fs (dekPath dir i) = None" "noFiles dir fs"
  obtains fs' where "DirPut dir i x fs = (None, fs')" "fs_Faults fs' = []"
    "\<And>q. q \<noteq> dekPath dir i \<Longrightarrow> fs_get fs' q = fs_get fs q \<or> (\<exists>t. fs_get fs' q = Some (DirNode t))"
proof -
  obtain f1 where m: "os_MkdirAll dir fs = (None, f1)" "fs_Faults f1 = []"
    by (rule os_MkdirAll_calm [OF assms(1,4)])
  from os_MkdirAll_get(4) [OF m(1)] obtain t where d: "fs_get f1 dir = Some (DirNode t)" by blast
  have n: "fs_get f1 (dekPath dir i) = None"
    using same_outside_get [OF os_MkdirAll_get(1) [OF m(1)] dekPath_not_prefix] assms(3) by simp
  have bl: "butlast (dekPath dir i) = dir" by (simp add: dekPath_def)
  let ?f2 = "fs_put (dekPath dir i) (FileNode [] (fs_Now f1)) (fs_put dir (DirNode (fs_Now f1)) f1)"
  have c: "os_CreateExcl (dekPath dir i) f1 = (None, ?f2)"
    using os_CreateExcl_calm [OF m(2) n, of t] d bl by simp
  have f2: "fs_Faults ?f2 = []" using m(2) by simp
  let ?f3 = "fs_put (dekPath dir i) (FileNode x (fs_Now f1)) ?f2"
  have "DirPut dir i x fs = (None, ?f3)"
    using assms(2) m c f2 by (simp add: DirPut_def good_id_def os_calm)
  moreover have "fs_get ?f3 q = fs_get fs q \<or> (\<exists>t. fs_get ?f3 q = Some (DirNode t))" if "q \<noteq> dekPath dir i" for q
    using os_MkdirAll_get(2,3) [OF m(1), of q] that by (cases "fs_get fs q") auto
  ultimately show thesis using that m(2) by simp
qed

lemma EncSave_calm:
  assumes node: "eb_Inner b = LocalDisk ld False" "eb_DEKs b = DirDEKStore dir" "nodeInv ld dir fs" "fs_Faults fs = []"
    and id: "good_id i" "fs_get fs (ld_Root ld @ [i]) = None" "fs_get fs (dekPath dir i) = None"
    and room: "checkFillThreshold ld = None" "noFiles (ld_Root ld @ [i]) fs" "noFiles dir fs"
    and keys: "eb_KEK b = Inr kek" "length kek = KeySize" "se_DEK env = Some dek" "length dek = KeySize" "se_Nonce env = Some nonce"
    and run: "\<not> se_Cancelled env" "i \<notin> se_Ids env" "se_Cut env = None"
    and src: "rd_Err st = None" "length (chunksOf (rd_Data st)) \<le> 2 ^ 32"
  shows "\<exists>n fs'. EncSave ae b env i st fs = (Inr (n, i), fs') \<and> fs_Faults fs' = []"
proof -
  note P = good_id_paths [OF id(1), of ld]
  have inv: "localInv ld fs" and ap: "apart (ld_Root ld) dir" using node(3) by (simp_all add: nodeInv_def)
  have none: "fs_get fs (sha256Path ld i) = None" using inv id(1,2) by (simp add: localInv_def)
  have v: "ValidateSnapshotID i = None" using id(1) by (simp add: good_id_def)
  have p: "removePartial b (se_Now env) i fs = (None, fs)"
    using none id(2,3) v node
    by (simp add: removePartial_def LocalDisk_def DirDEKStore_def LocalRemovePartial_def DirModTime_def os_calm P)
  obtain x where x: "SealDEK ae (se_Nonce env) kek dek (dekAAD i) = Inr x"
    using keys by (simp add: SealDEK_def newAEAD_def)
  obtain f1 where u: "DirPut dir i x fs = (None, f1)" "fs_Faults f1 = []"
    "\<And>q. q \<noteq> dekPath dir i \<Longrightarrow> fs_get f1 q = fs_get fs q \<or> (\<exists>t. fs_get f1 q = Some (DirNode t))"
    using DirPut_calm [OF node(4) id(1,3) room(3)] by metis
  note keep = apart_dekArea [OF ap]
  have f1: "localInv ld f1" "fs_get f1 (ld_Root ld @ [i]) = None"
    using dekArea_keeps [OF DirPut_area [OF u(1)] node(3)] same_outside_get [OF DirPut_area [OF u(1)] keep] id(2)
    by (simp_all add: nodeInv_def)
  have "dekPath dir i \<notin> set (prefixes (ld_Root ld @ [i]))"
    using apart_area [OF ap, of i i] prefixes_dir [of ld i] by (auto simp: area_def)
  then have nf: "noFiles (ld_Root ld @ [i]) f1"
    using u(3) room(2) unfolding noFiles_def by (metis Node.distinct(1) option.inject)
  have e: "fst (Encrypt ae (Some (se_Prefix env)) \<lparr>wr_Out = [], wr_Room = None\<rparr> st dek) = None"
    using Encrypt_total [OF keys(4) src] by simp
  then have "rd_Err (pipeReader ae (se_Prefix env) dek (se_Cut env) st) = None"
    using run(3) by (auto simp: pipeReader_def split: prod.splits)
  from LocalSave_calm [OF u(2) id(1) f1(1) room(1) nf f1(2) this] obtain n fs' where
    s: "LocalSave ld False i (pipeReader ae (se_Prefix env) dek (se_Cut env) st) f1 = (Inr (n, i), fs')" "fs_Faults fs' = []" by blast
  have "EncSave ae b env i st fs = (Inr (n, i), fs')"
    using run v keys(1,3) x p u(1) s(1) node(1,2) by (simp add: EncSave_def claimSave_def LocalDisk_def DirDEKStore_def)
  with s(2) show ?thesis by blast
qed


section \<open>A backend is a map from ids to contents\<close>

text \<open>
  The calls of a client, their results, and the map that a backend stands for. A save that fails
  may leave the whole content behind, never a part of it; a delete that fails promises nothing on
  its own id.
\<close>

datatype StoreOp = OpSave string Reader | OpOpen string | OpDelete string | OpRemovePartial string duration

datatype StoreRes = ResSave "StorageError + nat \<times> string" | ResOpen "StorageError + Reader" | ResDone "StorageError option"

fun op_id :: "StoreOp \<Rightarrow> string" where
  "op_id (OpSave i st) = i"
| "op_id (OpOpen i) = i"
| "op_id (OpDelete i) = i"
| "op_id (OpRemovePartial i d) = i"

fun run_op :: "'s StorageBackend \<Rightarrow> StoreOp \<Rightarrow> 's \<Rightarrow> StoreRes \<times> 's" where
  "run_op be (OpSave i st) s = map_prod ResSave id (sb_Save be i st s)"
| "run_op be (OpOpen i) s = map_prod ResOpen id (sb_Open be i s)"
| "run_op be (OpDelete i) s = map_prod ResDone id (sb_Delete be i s)"
| "run_op be (OpRemovePartial i d) s =
     (case sb_RemovePartial be of None \<Rightarrow> (ResDone None, s) | Some rem \<Rightarrow> map_prod ResDone id (rem i d s))"

fun run_ops :: "'s StorageBackend \<Rightarrow> StoreOp list \<Rightarrow> 's \<Rightarrow> StoreRes list \<times> 's" where
  "run_ops be [] s = ([], s)"
| "run_ops be (c # cs) s = (let (r, s) = run_op be c s; (rs, s) = run_ops be cs s in (r # rs, s))"

inductive spec_op :: "StoreOp \<Rightarrow> StoreRes \<Rightarrow> (string \<rightharpoonup> bytes) \<Rightarrow> (string \<rightharpoonup> bytes) \<Rightarrow> bool" where
  save_done: "rd_Err st = None \<Longrightarrow> spec_op (OpSave i st) (ResSave (Inr (length (rd_Data st), i))) m (m(i \<mapsto> rd_Data st))"
| save_failed: "spec_op (OpSave i st) (ResSave (Inl e)) m m"
| save_kept: "rd_Err st = None \<Longrightarrow> spec_op (OpSave i st) (ResSave (Inl e)) m (m(i \<mapsto> rd_Data st))"
| open_done: "m i = Some c \<Longrightarrow> spec_op (OpOpen i) (ResOpen (Inr (mem_reader c))) m m"
| open_failed: "spec_op (OpOpen i) (ResOpen (Inl e)) m m"
| delete_done: "spec_op (OpDelete i) (ResDone None) m (m(i := None))"
| delete_failed: "spec_op (OpDelete i) (ResDone (Some e)) m (m(i := x))"
| partial: "spec_op (OpRemovePartial i d) (ResDone r) m m"

inductive spec_run :: "StoreOp list \<Rightarrow> StoreRes list \<Rightarrow> (string \<rightharpoonup> bytes) \<Rightarrow> (string \<rightharpoonup> bytes) \<Rightarrow> bool" where
  stop: "spec_run [] [] m m"
| step: "spec_op c r m m1 \<Longrightarrow> spec_run cs rs m1 m2 \<Longrightarrow> spec_run (c # cs) (r # rs) m m2"

context blob_store
begin

definition absmap :: "'s \<Rightarrow> string \<rightharpoonup> bytes" where
  "absmap s i = (if okid i then view s i else None)"

lemma absmap_upd: "(\<And>j. okid j \<Longrightarrow> j \<noteq> i \<Longrightarrow> view s' j = view s j) \<Longrightarrow> okid i \<Longrightarrow> absmap s' = (absmap s)(i := view s' i)"
  by (auto simp: absmap_def fun_eq_iff)

lemma absmap_same: "(\<And>j. okid j \<Longrightarrow> view s' j = view s j) \<Longrightarrow> absmap s' = absmap s"
  by (auto simp: absmap_def fun_eq_iff)

lemma save_step:
  assumes "okid i" "inv s" "sb_Save be i st s = (r, s')"
  shows "spec_op (OpSave i st) (ResSave r) (absmap s) (absmap s')"
proof -
  have u: "absmap s' = (absmap s)(i := view s' i)"
    using save_other [OF assms(1) _ _ assms(2,3)] assms(1) by (intro absmap_upd) auto
  show ?thesis
  proof (cases r)
    case (Inl e)
    from save_failed [OF assms(1,2) assms(3) [unfolded Inl]] show ?thesis
    proof
      assume "view s' i = view s i"
      with u assms(1) have "absmap s' = absmap s" by (auto simp: absmap_def fun_eq_iff)
      with Inl show ?thesis by (simp add: spec_op.save_failed)
    next
      assume "view s' i = Some (rd_Data st) \<and> rd_Err st = None"
      with Inl u show ?thesis by (simp add: spec_op.save_kept)
    qed
  next
    case (Inr x)
    from save_done [OF assms(1,2) assms(3) [unfolded Inr]] Inr u show ?thesis by (simp add: spec_op.save_done)
  qed
qed

lemma op_step:
  assumes "okid (op_id c)" "inv s" "run_op be c s = (r, s')"
  shows "inv s' \<and> spec_op c r (absmap s) (absmap s')"
proof (cases c)
  case (OpSave i st)
  with assms obtain x where "sb_Save be i st s = (x, s')" "r = ResSave x" "okid i" by (cases "sb_Save be i st s") auto
  with save_step save_inv assms(2) OpSave show ?thesis by blast
next
  case (OpOpen i)
  with assms obtain x where x: "sb_Open be i s = (x, s')" "r = ResOpen x" "okid i" by (cases "sb_Open be i s") auto
  note s = open_same [OF x(3) assms(2) x(1)]
  then have a: "absmap s' = absmap s" by (intro absmap_same) blast
  show ?thesis
  proof (cases x)
    case (Inl e)
    with s a x OpOpen show ?thesis by (simp add: spec_op.open_failed)
  next
    case (Inr rd)
    with open_sound [OF x(3) assms(2)] x(1) have "rd = mem_reader (rd_Data rd)" "absmap s i = Some (rd_Data rd)"
      using x(3) by (cases rd, auto simp: absmap_def)
    then have "spec_op (OpOpen i) (ResOpen (Inr rd)) (absmap s) (absmap s)" by (metis spec_op.open_done)
    with Inr s a x OpOpen show ?thesis by simp
  qed
next
  case (OpDelete i)
  with assms obtain x where x: "sb_Delete be i s = (x, s')" "r = ResDone x" "okid i" by (cases "sb_Delete be i s") auto
  have u: "absmap s' = (absmap s)(i := view s' i)"
    using delete_other [OF x(3) _ _ assms(2) x(1)] x(3) by (intro absmap_upd) auto
  have "spec_op (OpDelete i) (ResDone x) (absmap s) (absmap s')"
    using delete_done [OF x(3) assms(2)] x(1) by (cases x) (auto simp: u intro: spec_op.delete_done spec_op.delete_failed)
  with delete_inv [OF x(3) assms(2) x(1)] OpDelete x show ?thesis by simp
next
  case (OpRemovePartial i d)
  show ?thesis
  proof (cases "sb_RemovePartial be")
    case None
    with OpRemovePartial assms show ?thesis by (auto intro: spec_op.partial)
  next
    case (Some rem)
    with OpRemovePartial assms obtain x where x: "rem i d s = (x, s')" "r = ResDone x" "okid i" by (cases "rem i d s") auto
    note s = partial_same [OF x(3) assms(2) Some x(1)]
    then have "absmap s' = absmap s" by (intro absmap_same) blast
    with s x OpRemovePartial show ?thesis by (simp add: spec_op.partial)
  qed
qed

lemma refines_map:
  assumes "\<forall>c\<in>set cs. okid (op_id c)" "inv s" "run_ops be cs s = (rs, s')"
  shows "spec_run cs rs (absmap s) (absmap s')"
  using assms
proof (induction cs arbitrary: s rs)
  case Nil
  then show ?case by (auto intro: spec_run.stop)
next
  case (Cons c cs)
  obtain r s1 where r: "run_op be c s = (r, s1)" by fastforce
  from Cons.prems(3) r obtain rs1 where rs: "run_ops be cs s1 = (rs1, s')" "rs = r # rs1" by (auto split: prod.splits)
  from op_step [OF _ Cons.prems(2) r] Cons.prems(1) have "inv s1" "spec_op c r (absmap s) (absmap s1)" by auto
  with Cons.IH [OF _ this(1) rs(1)] Cons.prems(1) rs(2) show ?case by (auto intro: spec_run.step)
qed

end

definition localMap :: "LocalDiskBackend \<Rightarrow> Fs \<Rightarrow> string \<rightharpoonup> bytes" where
  "localMap b fs i = (if good_id i then localView b fs i else None)"


text \<open>
  C24. The local disk is a map from ids to contents: whatever sequence of saves, opens, deletes and
  removals of partial saves a client runs on ids that have a directory of their own (every id that
  passes the check of the code but the single dot, which names the root itself), and whichever system calls fail on the way, the results
  are those of a run on the map. A save that is reported done stored the whole content, an open
  gives exactly the content that was stored, a failed save changes nothing or stores the whole
  content, and no call changes the content of another id.
\<close>
theorem local_disk_refines_map:
  assumes "localInv b fs" "\<forall>c\<in>set cs. good_id (op_id c)" "run_ops (LocalDisk b cancelled) cs fs = (rs, fs')"
  shows "spec_run cs rs (localMap b fs) (localMap b fs')"
proof -
  have "local_disk.absmap b = localMap b" by (intro ext) (simp add: local_disk.absmap_def localMap_def)
  with local_disk.refines_map [OF assms(2,1,3)] show ?thesis by simp
qed

text \<open>
  C25. A snapshot that the node saved can be read back. A save of a new id that meets no fault, with
  keys of the right length and a stream of fewer than two to the thirty-second chunks, succeeds,
  and an open after any successful save decrypts to the bytes of the stream, with any size of
  the buffer.
\<close>
theorem encrypted_save_then_open:
  assumes "eb_Inner b = LocalDisk ld False" "eb_DEKs b = DirDEKStore dir" "nodeInv ld dir fs" "fs_Faults fs = []" "good_id i"
    and "\<And>key. aead_opens ae key" "length (se_Prefix env) = noncePrefixLen"
    and "se_Nonce env = Some nonce" "length nonce = gcmNonceSize" "0 < k"
    and "eb_KEK b = Inr kek" "length kek = KeySize" "se_DEK env = Some dek" "length dek = KeySize"
    and "fs_get fs (ld_Root ld @ [i]) = None" "fs_get fs (dekPath dir i) = None"
    and "checkFillThreshold ld = None" "noFiles (ld_Root ld @ [i]) fs" "noFiles dir fs"
    and "\<not> se_Cancelled env" "i \<notin> se_Ids env" "se_Cut env = None"
    and "rd_Err st = None" "length (chunksOf (rd_Data st)) \<le> 2 ^ 32"
  shows "\<exists>n fs' key d. EncSave ae b env i st fs = (Inr (n, i), fs') \<and> EncOpen ae b False i fs' = (Inr (key, d), fs') \<and>
    readToEnd ae key k d = (rd_Data st, None)"
proof -
  obtain n fs' where s: "EncSave ae b env i st fs = (Inr (n, i), fs')" "fs_Faults fs' = []"
    using EncSave_calm [OF assms(1-5,15-19,11-14,8,20-24)] by blast
  then have "calm False fs'" by (simp add: calm_def)
  from node.enc_roundtrip [OF assms(1,2,5,3) s(1) this assms(6,7) _ assms(10)] assms(8,9) s(1) show ?thesis by auto
qed

text \<open>
  C26. Deleting a snapshot erases it cryptographically. Once the sealed key is destroyed no open
  of the id returns a reader, also when the removal of the payload then fails; a delete that
  reports success has destroyed the key, and no delete touches the payload or the key of another
  snapshot.
\<close>
theorem deleted_snapshot_unreadable:
  assumes "eb_Inner b = LocalDisk ld c" "eb_DEKs b = DirDEKStore dir" "nodeInv ld dir fs" "good_id i"
    and "EncDelete b False i fs = (r, fs')"
  shows "(r = None \<or> fst (DirDestroy dir i fs) \<in> {None, Some ErrOsNotExist} \<longrightarrow> isl (fst (EncOpen ae b cancelled i fs'))) \<and>
    (\<forall>j. good_id j \<longrightarrow> j \<noteq> i \<longrightarrow> localView ld fs' j = localView ld fs j \<and> dekView dir fs' j = dekView dir fs j)"
proof -
  have "dk_Destroy (DirDEKStore dir) = DirDestroy dir" by (simp add: DirDEKStore_def)
  with node.EncDelete_law [OF assms(1,2,4,3,5)] node.unkeyed_unreadable [OF assms(2,4)] show ?thesis by auto
qed

text \<open>
  C27. A save that fails leaves nothing that can be read, when the id held no complete snapshot before: unless the error says that the cleanup
  failed too, the payload is not complete or its key is gone, so no open returns a reader. The
  other snapshots are as before.
\<close>
theorem failed_save_unreadable:
  assumes "eb_Inner b = LocalDisk ld c" "eb_DEKs b = DirDEKStore dir" "nodeInv ld dir fs" "good_id i"
    and "EncSave ae b env i st fs = (Inl e, fs')" "localView ld fs i = None" "\<nexists>u v. e = CleanupFailed u v"
  shows "isl (fst (EncOpen ae b cancelled i fs')) \<and>
    (\<forall>j. good_id j \<longrightarrow> j \<noteq> i \<longrightarrow> localView ld fs' j = localView ld fs j \<and> dekView dir fs' j = dekView dir fs j)"
proof -
  note F = node.EncSave_frame [OF assms(1,2,4,3,5)]
  have "isl (fst (EncOpen ae b cancelled i fs'))"
    using node.enc_failed_save [OF assms(1,2,4,3,5-7)] node.unkeyed_unreadable [OF assms(2,4)]
      node.unstored_unreadable [OF assms(1,2,4)] F by blast
  with F show ?thesis by blast
qed


section \<open>Concrete runs\<close>

definition ex_disk :: LocalDiskBackend where
  "ex_disk = \<lparr>ld_Root = [''s''], ld_Threshold = (0, 1), ld_Statfs = None\<rparr>"

definition ex_fs :: "nat option list \<Rightarrow> (path \<times> Node) list \<Rightarrow> Fs" where
  "ex_fs faults nodes = \<lparr>fs_Nodes = nodes, fs_Now = 0, fs_Faults = faults\<rparr>"

definition ex_backend :: "Fs EncryptedBackend" where
  "ex_backend = \<lparr>eb_Inner = LocalDisk ex_disk False, eb_KEK = Inr (replicate 32 1), eb_DEKs = DirDEKStore [''k''], eb_PartialStaleAfter = 0\<rparr>"

definition ex_env :: SaveEnv where
  "ex_env = \<lparr>se_Now = 0, se_Cancelled = False, se_DEK = Some (replicate 32 5), se_Nonce = Some (replicate 12 3),
     se_Prefix = replicate 7 9, se_Cut = None, se_Ids = {}\<rparr>"

lemma ex_id: "good_id ''a''"
  by code_simp

lemma ex_empty: "localInv ex_disk (ex_fs f [])" "nodeInv ex_disk [''k''] (ex_fs f [])"
  by (simp_all add: localInv_def nodeInv_def apart_def is_under_def ex_disk_def ex_fs_def fs_get_def)

theorem local_disk_refines_map_witness:
  "\<exists>rs fs'. run_ops (LocalDisk ex_disk False) [OpSave ''a'' (mem_reader [7]), OpOpen ''a'', OpDelete ''a''] (ex_fs [] []) = (rs, fs') \<and>
     spec_run [OpSave ''a'' (mem_reader [7]), OpOpen ''a'', OpDelete ''a''] rs (localMap ex_disk (ex_fs [] [])) (localMap ex_disk fs')"
proof -
  obtain rs fs' where r: "run_ops (LocalDisk ex_disk False) [OpSave ''a'' (mem_reader [7]), OpOpen ''a'', OpDelete ''a''] (ex_fs [] []) = (rs, fs')"
    by (metis surj_pair)
  with local_disk_refines_map [OF ex_empty(1) _ r] ex_id show ?thesis by auto
qed

theorem encrypted_save_then_open_witness:
  "\<exists>n fs' key d. EncSave ex_aead ex_backend ex_env ''a'' (mem_reader [1, 2, 3]) (ex_fs [] []) = (Inr (n, ''a''), fs') \<and>
     EncOpen ex_aead ex_backend False ''a'' fs' = (Inr (key, d), fs') \<and> readToEnd ex_aead key 2 d = ([1, 2, 3], None)"
proof -
  have "noFiles p (ex_fs [] [])" for p by (simp add: noFiles_def ex_fs_def fs_get_def)
  moreover have "aead_opens ex_aead key" for key by (simp add: aead_opens_def ex_aead_def)
  ultimately show ?thesis
    using encrypted_save_then_open [of ex_backend ex_disk "[''k'']" "ex_fs [] []" "''a''" ex_aead ex_env "replicate 12 3" 2 "replicate 32 1"
        "replicate 32 5" "mem_reader [1, 2, 3]"] ex_empty ex_id
    by (simp add: ex_backend_def ex_env_def ex_disk_def ex_fs_def fs_get_def checkFillThreshold_def ex_chunks
        KeySize_def)
qed

definition ex_stored :: "(path \<times> Node) list" where
  "ex_stored = [([''k''], DirNode 0), ([''k'', ''a.dek''], FileNode [1] 0), ([''s''], DirNode 0), ([''s'', ''a''], DirNode 0),
     ([''s'', ''a'', ''state.bin''], FileNode [1, 2] 0), ([''s'', ''a'', ''state.bin.sha256''], FileNode [3] 0)]"

lemmas ex_run = ex_backend_def ex_env_def ex_fs_def ex_disk_def LocalDisk_def DirDEKStore_def snapshotDir_def statePath_def sha256Path_def
  joinID_def dekPath_def os_Stat_def os_Plain_def os_WriteOpen_def os_CreateExcl_def os_MkdirAll_def os_Remove_def fs_fault_def fs_get_def
  fs_put_def fs_del_def is_under_def

lemma ex_valid: "ValidateSnapshotID ''a'' = None"
  by code_simp

lemma ex_delete: "fst (EncDelete ex_backend False ''a'' (ex_fs [] ex_stored)) = None"
  by (simp add: EncDelete_def ex_valid ex_stored_def DirDestroy_def Shred_def zeroData_def zeroLoop.simps zeroPrefix_def LocalDelete_def
      overwriteWithZeros_def removeIgnoringMissing_def ex_run)

lemma ex_stored_inv: "nodeInv ex_disk [''k''] (ex_fs f ex_stored)"
  by (auto simp: nodeInv_def localInv_def apart_def is_under_def ex_disk_def ex_fs_def ex_stored_def fs_get_def good_id_paths)

theorem deleted_snapshot_unreadable_witness:
  "\<exists>fs'. EncDelete ex_backend False ''a'' (ex_fs [] ex_stored) = (None, fs') \<and> isl (fst (EncOpen ex_aead ex_backend False ''a'' fs'))"
proof -
  obtain fs' where d: "EncDelete ex_backend False ''a'' (ex_fs [] ex_stored) = (None, fs')"
    using ex_delete by (metis prod.collapse)
  have b: "eb_Inner ex_backend = LocalDisk ex_disk False" "eb_DEKs ex_backend = DirDEKStore [''k'']" by (simp_all add: ex_backend_def)
  from deleted_snapshot_unreadable [OF b ex_stored_inv ex_id d] d show ?thesis by blast
qed

text \<open>The stat of the payload directory fails after the key is stored.\<close>

definition ex_faults :: "nat option list" where
  "ex_faults = [None, None, None, None, None, None, None, None, Some 0]"

lemma ex_failed: "fst (EncSave ex_aead ex_backend ex_env ''a'' (mem_reader [1, 2, 3]) (ex_fs ex_faults [])) = Inl (StoreIO OsOther)"
  by (simp add: EncSave_def ex_valid ex_faults_def claimSave_def removePartial_def LocalRemovePartial_def DirModTime_def DirPut_def
      LocalSave_def checkFillThreshold_def SealDEK_def newAEAD_def KeySize_def DirDestroy_def Shred_def zeroData_def zeroLoop.simps zeroPrefix_def ex_aead_def sealMagic_def Let_def ex_run)


theorem failed_save_unreadable_witness:
  "\<exists>fs'. EncSave ex_aead ex_backend ex_env ''a'' (mem_reader [1, 2, 3]) (ex_fs ex_faults []) = (Inl (StoreIO OsOther), fs') \<and>
     isl (fst (EncOpen ex_aead ex_backend False ''a'' fs'))"
proof -
  obtain fs' where s: "EncSave ex_aead ex_backend ex_env ''a'' (mem_reader [1, 2, 3]) (ex_fs ex_faults []) = (Inl (StoreIO OsOther), fs')"
    using ex_failed by (metis prod.collapse)
  have b: "eb_Inner ex_backend = LocalDisk ex_disk False" "eb_DEKs ex_backend = DirDEKStore [''k'']" by (simp_all add: ex_backend_def)
  have v: "localView ex_disk (ex_fs ex_faults []) ''a'' = None" by (simp add: localView_def ex_fs_def fs_get_def)
  from failed_save_unreadable [OF b ex_empty(2) ex_id s v] s show ?thesis by blast
qed


section \<open>Ids that the local disk mishandles\<close>

text \<open>
  C28. The id \<open>.\<close> passes the validation and names the store itself: on a store whose directory was
  not written for the given time, the removal of a partial save of \<open>.\<close> removes every snapshot.
\<close>
theorem dot_id_removes_store:
  assumes "fs_Faults fs = []" "fs_get fs (ld_Root b) = Some (DirNode t)" "olderThan \<le> time_Sub (fs_Now fs) t"
    and "fs_get fs (ld_Root b @ [''state.bin'']) = None" "fs_get fs (ld_Root b @ [''state.bin.sha256'']) = None"
  shows "\<exists>fs'. LocalRemovePartial b False ''.'' olderThan fs = (None, fs') \<and> (\<forall>i. localView b fs' i = None)"
proof -
  have p: "snapshotDir b ''.'' = ld_Root b" "statePath b ''.'' = ld_Root b @ [''state.bin'']" "sha256Path b ''.'' = ld_Root b @ [''state.bin.sha256'']"
    by (simp_all add: snapshotDir_def statePath_def sha256Path_def joinID_def)
  have v: "ValidateSnapshotID ''.'' = None" by code_simp
  obtain fs' where r: "os_RemoveAll (ld_Root b) fs = (None, fs')" using assms(1) by (simp add: os_RemoveAll_def fault_free)
  have "LocalRemovePartial b False ''.'' olderThan fs = (None, fs')"
    using assms r v by (simp add: LocalRemovePartial_def p os_calm)
  moreover have "fs_get fs' (statePath b i) = None" for i
    using fs_get_RemoveAll [OF r] by (simp add: statePath_def joinID_def is_under_def)
  ultimately show ?thesis using localView_NoneI by blast
qed

theorem dot_id_removes_store_witness:
  "\<exists>fs'. LocalRemovePartial ex_disk False ''.'' 0 (ex_fs [] ex_stored) = (None, fs') \<and> (\<forall>i. localView ex_disk fs' i = None)"
  by (rule dot_id_removes_store [where t = 0])
    (simp_all add: ex_fs_def ex_stored_def ex_disk_def fs_get_def time_Sub_def minDuration_def maxDuration_def)

text \<open>
  A delete that unlinked the payload and could not unlink the digest leaves an id that is stuck:
  nothing can be opened, and the next deletes, saves and removals of partial saves all refuse it
  and change nothing.
\<close>

lemma orphan_digest_is_stuck:
  assumes "fs_Faults fs = []" "good_id i" "checkFillThreshold b = None"
    and "fs_get fs (statePath b i) = None" "fs_get fs (sha256Path b i) = Some (FileNode d t)" "fs_get fs (snapshotDir b i) = Some (DirNode t')"
  shows "LocalOpen b False i fs = (Inl ErrNotFound, fs)" "LocalDelete b False i fs = (Some ErrNotFound, fs)"
    "LocalSave b False i st fs = (Inl ErrAlreadyExists, fs)" "LocalRemovePartial b False i olderThan fs = (Some ErrAlreadyExists, fs)"
  using assms by (simp_all add: good_id_def LocalOpen_def LocalDelete_def LocalSave_def LocalRemovePartial_def os_calm os_ReadFile_def)

lemma delete_leaves_orphan_digest:
  "\<exists>fs'. LocalDelete ex_disk False ''a'' (ex_fs [None, None, None, None, None, Some 0] ex_stored) = (Some (StoreIO OsOther), fs') \<and> fs_Faults fs' = [] \<and>
    fs_get fs' (statePath ex_disk ''a'') = None \<and> fs_get fs' (sha256Path ex_disk ''a'') = Some (FileNode [3] 0)"
  by (simp add: LocalDelete_def ex_valid ex_stored_def zeroLoop.simps zeroPrefix_def overwriteWithZeros_def removeIgnoringMissing_def ex_run)

end
