(* ===== verification/Go_Text.thy ===== *)
theory Go_Text
  imports Go_IO Sha256
begin

text \<open>
  More of Go's \<open>strings\<close>, \<open>strconv\<close> and \<open>encoding/hex\<close>, and the interface of
  \<open>crypto/ed25519\<close>, which the signed disks and the identity tokens use. The signature scheme is a
  parameter: \<open>ed_works\<close> says that what a key signs verifies, \<open>ed_signed_only\<close> that nothing
  verifies under a key but the messages of a given set. Nothing here models a file of the
  repository.
\<close>

section \<open>Splitting and trimming\<close>

text \<open>\<open>strings.Split\<close> with a separator of one character, and \<open>strings.Cut\<close>.\<close>

fun str_Split :: "char \<Rightarrow> string \<Rightarrow> string list" where
  "str_Split c [] = [[]]"
| "str_Split c (x # s) = (if x = c then [] # str_Split c s else (case str_Split c s of [] \<Rightarrow> [[x]] | p # ps \<Rightarrow> (x # p) # ps))"

definition str_Cut :: "char \<Rightarrow> string \<Rightarrow> (string \<times> string) option" where
  "str_Cut c s = (if c \<in> set s then Some (takeWhile (\<lambda>x. x \<noteq> c) s, tl (dropWhile (\<lambda>x. x \<noteq> c) s)) else None)"

lemma str_Split_ne [simp]: "str_Split c s \<noteq> []"
  by (induction s) (auto split: list.splits)

lemma str_Split_plain: "c \<notin> set s \<Longrightarrow> str_Split c s = [s]"
  by (induction s) auto

lemma str_Split_append: "c \<notin> set a \<Longrightarrow> str_Split c (a @ c # b) = a # str_Split c b"
  by (induction a) auto

lemma str_Split_three: "c \<notin> set a \<Longrightarrow> c \<notin> set b \<Longrightarrow> c \<notin> set d \<Longrightarrow> str_Split c (a @ [c] @ b @ [c] @ d) = [a, b, d]"
  by (simp add: str_Split_append str_Split_plain)

lemma str_Split_Join: "str_Join (str_Split c s) [c] = s"
proof (induction s)
  case (Cons x s)
  obtain p ps where p: "str_Split c s = p # ps" by (cases "str_Split c s") auto
  with Cons.IH show ?case by (cases ps) auto
qed simp

lemma str_Split_parts: "p \<in> set (str_Split c s) \<Longrightarrow> c \<notin> set p"
proof (induction s arbitrary: p)
  case (Cons x s)
  then show ?case by (cases "str_Split c s") (auto split: if_splits)
qed simp

lemma str_Split_snoc: "str_Split c (s @ [c]) = str_Split c s @ [[]]"
proof (induction s)
  case (Cons x s)
  then show ?case by (cases "str_Split c s") auto
qed simp

lemma str_Split_of_Join:
  "ps \<noteq> [] \<Longrightarrow> (\<And>p. p \<in> set ps \<Longrightarrow> c \<notin> set p) \<Longrightarrow> str_Split c (str_Join ps [c]) = ps"
proof (induction ps rule: induct_list012)
  case (3 p q ps)
  then show ?case by (simp add: str_Split_append)
qed (auto simp: str_Split_plain)

text \<open>
  \<open>strings.TrimSpace\<close> drops the white space of Unicode at both ends, each rune in its UTF-8
  form.
\<close>

definition spaceRunes :: "string list" where
  "spaceRunes = map (map char_of) ([[9], [10], [11], [12], [13], [32], [0xC2, 0x85], [0xC2, 0xA0], [0xE1, 0x9A, 0x80]]
     @ map (\<lambda>k. [0xE2, 0x80, 0x80 + k]) [0 ..< 11]
     @ [[0xE2, 0x80, 0xA8], [0xE2, 0x80, 0xA9], [0xE2, 0x80, 0xAF], [0xE2, 0x81, 0x9F], [0xE3, 0x80, 0x80 :: nat]])"

definition dropRune :: "string list \<Rightarrow> string \<Rightarrow> string option" where
  "dropRune rs s = map_option (\<lambda>r. drop (length r) s) (List.find (\<lambda>r. r \<noteq> [] \<and> str_HasPrefix s r) rs)"

lemma dropRune_shrinks: "dropRune rs s = Some t \<Longrightarrow> length t < length s"
  by (auto simp: dropRune_def find_Some_iff str_HasPrefix_iff neq_Nil_conv)

function trimRunes :: "string list \<Rightarrow> string \<Rightarrow> string" where
  "trimRunes rs s = (case dropRune rs s of None \<Rightarrow> s | Some t \<Rightarrow> trimRunes rs t)"
  by pat_completeness auto
termination by (relation "measure (\<lambda>(rs, s). length s)") (auto dest: dropRune_shrinks)

declare trimRunes.simps [simp del]

definition str_TrimSpace :: "string \<Rightarrow> string" where
  "str_TrimSpace s = rev (trimRunes (map rev spaceRunes) (rev (trimRunes spaceRunes s)))"

definition str_ContainsAny :: "string \<Rightarrow> string \<Rightarrow> bool" where
  "str_ContainsAny s chars \<longleftrightarrow> (\<exists>c\<in>set s. c \<in> set chars)"

section \<open>Numbers and hex\<close>

text \<open>\<open>strconv.ParseInt (s, 10, 64)\<close>: an optional sign, digits, and the range of \<open>int64\<close>.\<close>

definition ParseInt :: "string \<Rightarrow> int option" where
  "ParseInt s =
     (let (neg, ds) = (case s of [] \<Rightarrow> (False, []) | c # r \<Rightarrow> if c = CHR ''-'' then (True, r) else if c = CHR ''+'' then (False, r) else (False, s))
      in if ds = [] \<or> \<not> list_all is_digit ds then None
         else
           let n = foldl (\<lambda>a c. 10 * a + int (digit_val c)) 0 ds; v = (if neg then - n else n)
           in if - (2 ^ 63) \<le> v \<and> v < 2 ^ 63 then Some v else None)"

definition is_lower_hex :: "char \<Rightarrow> bool" where
  "is_lower_hex c \<longleftrightarrow> c \<in> set hexDigits"

lemma hex_Encode_lower: "c \<in> set (hex_Encode bs) \<Longrightarrow> is_lower_hex c"
proof -
  have length_hexDigits: "length hexDigits = 16" by (simp add: hexDigits_def)
  have "hexDigits ! (unat b div 16) \<in> set hexDigits" "hexDigits ! (unat b mod 16) \<in> set hexDigits" for b :: byte
  proof -
    have "unat b < 256" by (rule byte_lt)
    then show "hexDigits ! (unat b div 16) \<in> set hexDigits" "hexDigits ! (unat b mod 16) \<in> set hexDigits"
      using length_hexDigits by (auto intro!: nth_mem)
  qed
  then show "c \<in> set (hex_Encode bs) \<Longrightarrow> is_lower_hex c" by (auto simp: hex_Encode_def is_lower_hex_def)
qed

lemma bytes_of_inj: "bytes_of s = bytes_of t \<Longrightarrow> s = t"
proof -
  have "inj (of_char :: char \<Rightarrow> byte)"
  proof (rule injI)
    fix c d :: char
    assume "(of_char c :: byte) = of_char d"
    then have "unat (of_char c :: byte) = unat (of_char d :: byte)" by simp
    moreover have "unat (of_char x :: byte) = of_char x" for x :: char
    proof -
      have "unat (of_nat (of_char x) :: byte) = of_char x mod 256"
        by (simp only: unsigned_of_nat take_bit_eq_mod) simp
      then show ?thesis by (simp only: of_nat_of_char of_char_mod_256)
    qed
    ultimately have "(of_char c :: nat) = of_char d" by simp
    then show "c = d" by simp
  qed
  then show "bytes_of s = bytes_of t \<Longrightarrow> s = t" by (simp add: bytes_of_def inj_map_eq_map)
qed

section \<open>Signatures\<close>

record Ed25519 =
  ed_NewKeyFromSeed :: "bytes \<Rightarrow> bytes"
  ed_Public :: "bytes \<Rightarrow> bytes"
  ed_Sign :: "bytes \<Rightarrow> bytes \<Rightarrow> bytes"
  ed_Verify :: "bytes \<Rightarrow> bytes \<Rightarrow> bytes \<Rightarrow> bool"

definition SeedSize :: nat where "SeedSize = 32"
definition PublicKeySize :: nat where "PublicKeySize = 32"
definition PrivateKeySize :: nat where "PrivateKeySize = 64"

definition ed_works :: "Ed25519 \<Rightarrow> bytes \<Rightarrow> bool" where
  "ed_works ed key \<longleftrightarrow> (\<forall>m. ed_Verify ed (ed_Public ed key) m (ed_Sign ed key m))"

definition ed_signed_only :: "Ed25519 \<Rightarrow> bytes \<Rightarrow> bytes set \<Rightarrow> bool" where
  "ed_signed_only ed pub M \<longleftrightarrow> (\<forall>m sg. ed_Verify ed pub m sg \<longrightarrow> m \<in> M)"

end
