(* ===== verification/Sandbox_Token.thy ===== *)
theory Sandbox_Token
  imports Go_Text
begin

text \<open>
  The identity tokens of a Sandbox: the compact signed tokens of
  \<open>src/internal/sandboxid/token.go\<close> and the signer in the launcher
  (\<open>src/internal/launcher/identity.go\<close>). JSON and the signature scheme are parameters; base64,
  SHA-256 and hex are the definitions of this development. Every error of \<open>Verify\<close> wraps
  \<open>ErrInvalid\<close> and is a constructor of its own here.
\<close>

section \<open>Tokens\<close>

abbreviation Issuer :: string where "Issuer \<equiv> ''setec''"
abbreviation Lifetime :: duration where "Lifetime \<equiv> 5 * minute"

record Claims =
  c_Issuer :: string
  c_Subject :: string
  c_Audience :: string
  c_Client :: string
  c_Tenant :: string
  c_Generation :: int
  c_IssuedAt :: int
  c_Expires :: int
  c_ID :: string

record TokenHeader =
  h_Alg :: string
  h_Typ :: string
  h_Kid :: string

record Json =
  js_Header :: "TokenHeader \<Rightarrow> bytes option"
  js_Claims :: "Claims \<Rightarrow> bytes option"
  js_ReadHeader :: "bytes \<Rightarrow> TokenHeader option"
  js_ReadClaims :: "bytes \<Rightarrow> Claims option"

datatype TokenError =
    NotCompactJWS
  | BadBase64
  | BadHeader
  | BadClaims
  | NotSandboxKey
  | BadSignature
  | WrongIssuer string
  | WrongSubject
  | WrongAudience string
  | NoTokenID
  | ErrExpired
  | ErrGeneration

datatype SignError = NotEd25519Key | MarshalFailed | BadSeed | BadPublicKey

definition KeyID :: "bytes \<Rightarrow> string" where
  "KeyID pub = hex_Encode (take 16 (sha256 pub))"

definition Sign :: "Ed25519 \<Rightarrow> Json \<Rightarrow> bytes \<Rightarrow> Claims \<Rightarrow> SignError + string" where
  "Sign ed js key c =
     (if length key \<noteq> PrivateKeySize then Inl NotEd25519Key
      else case js_Header js \<lparr>h_Alg = ''EdDSA'', h_Typ = ''JWT'', h_Kid = KeyID (ed_Public ed key)\<rparr> of
        None \<Rightarrow> Inl MarshalFailed
      | Some h \<Rightarrow> (case js_Claims js c of
          None \<Rightarrow> Inl MarshalFailed
        | Some p \<Rightarrow>
            let input = b64_Encode RawURLEncoding h @ ''.'' @ b64_Encode RawURLEncoding p
            in Inr (input @ ''.'' @ b64_Encode RawURLEncoding (ed_Sign ed key (bytes_of input)))))"

definition split_token :: "Json \<Rightarrow> string \<Rightarrow> TokenError + (TokenHeader \<times> Claims \<times> string \<times> bytes)" where
  "split_token js token = (case str_Split CHR ''.'' token of
      [p0, p1, p2] \<Rightarrow>
        (case (b64_Decode RawURLEncoding p0, b64_Decode RawURLEncoding p1, b64_Decode RawURLEncoding p2) of
           (Some hb, Some pb, Some sig) \<Rightarrow>
             (case js_ReadHeader js hb of
                None \<Rightarrow> Inl BadHeader
              | Some h \<Rightarrow> (case js_ReadClaims js pb of
                    None \<Rightarrow> Inl BadClaims
                  | Some c \<Rightarrow> Inr (h, c, p0 @ ''.'' @ p1, sig)))
         | _ \<Rightarrow> Inl BadBase64)
    | _ \<Rightarrow> Inl NotCompactJWS)"

definition Subject :: "Json \<Rightarrow> string \<Rightarrow> TokenError + string" where
  "Subject js token = (case split_token js token of Inl e \<Rightarrow> Inl e | Inr (_, c, _, _) \<Rightarrow> Inr (c_Subject c))"

record Expect =
  x_Key :: bytes
  x_Subject :: string
  x_Audience :: string
  x_Generation :: int
  x_Now :: gotime

text \<open>\<open>time.Time.Unix\<close>: whole seconds since 1970, rounded towards the past.\<close>

definition unixToInternal :: int where "unixToInternal = 62135596800"

definition time_Unix :: "gotime \<Rightarrow> int" where
  "time_Unix t = t div second - unixToInternal"

definition TokenVerify :: "Ed25519 \<Rightarrow> Json \<Rightarrow> string \<Rightarrow> Expect \<Rightarrow> TokenError + Claims" where
  "TokenVerify ed js token want = (case split_token js token of
      Inl e \<Rightarrow> Inl e
    | Inr (h, c, input, sig) \<Rightarrow>
        if h_Alg h \<noteq> ''EdDSA'' \<or> h_Kid h \<noteq> KeyID (x_Key want) \<or> length (x_Key want) \<noteq> PublicKeySize then Inl NotSandboxKey
        else if \<not> ed_Verify ed (x_Key want) (bytes_of input) sig then Inl BadSignature
        else if c_Issuer c \<noteq> Issuer then Inl (WrongIssuer (c_Issuer c))
        else if c_Subject c \<noteq> x_Subject want then Inl WrongSubject
        else if c_Audience c \<noteq> x_Audience want then Inl (WrongAudience (c_Audience c))
        else if c_ID c = '''' then Inl NoTokenID
        else
          let now = time_Unix (x_Now want)
          in if now \<ge> c_Expires c \<or> c_IssuedAt c > now + 60 then Inl ErrExpired
             else if c_Generation c \<noteq> x_Generation want then Inl ErrGeneration
             else Inr c)"

definition KeyFromSeed :: "Ed25519 \<Rightarrow> string \<Rightarrow> SignError + bytes" where
  "KeyFromSeed ed seed = (case b64_Decode StdEncoding (str_TrimSpace seed) of
      Some raw \<Rightarrow> if length raw \<noteq> SeedSize then Inl BadSeed else Inr (ed_NewKeyFromSeed ed raw)
    | None \<Rightarrow> Inl BadSeed)"

definition PublicKey :: "string \<Rightarrow> SignError + bytes" where
  "PublicKey s = (case b64_Decode StdEncoding s of
      Some raw \<Rightarrow> if length raw \<noteq> PublicKeySize then Inl BadPublicKey else Inr raw
    | None \<Rightarrow> Inl BadPublicKey)"

section \<open>The signer of the launcher\<close>

abbreviation maxAudience :: nat where "maxAudience \<equiv> 256"

record IdentitySpec =
  is_SandboxID :: string
  is_Client :: string
  is_Tenant :: string
  is_KeyFile :: string
  is_Generation :: int
  is_GenerationFile :: string

datatype SignerError = ReadKey | SeedError SignError

datatype IdentityResponse = IdToken string int | IdError

text \<open>
  The signer is its spec and its key. The contents of its key file and of its generation file are
  arguments: \<open>None\<close> is a read that fails.
\<close>

definition newIdentitySigner :: "Ed25519 \<Rightarrow> string option \<Rightarrow> SignerError + bytes" where
  "newIdentitySigner ed keyFile = (case keyFile of
      None \<Rightarrow> Inl ReadKey
    | Some raw \<Rightarrow> (case KeyFromSeed ed raw of Inl e \<Rightarrow> Inl (SeedError e) | Inr key \<Rightarrow> Inr key))"

definition signer_generation :: "IdentitySpec \<Rightarrow> string option \<Rightarrow> int" where
  "signer_generation spec genFile =
     (let gen = is_Generation spec
      in if is_GenerationFile spec = '''' then gen
         else case genFile of
                None \<Rightarrow> gen
              | Some raw \<Rightarrow> (case ParseInt (str_TrimSpace raw) of
                    Some v \<Rightarrow> if v > gen then v else gen
                  | None \<Rightarrow> gen))"

definition signer_claims :: "IdentitySpec \<Rightarrow> string option \<Rightarrow> bytes \<Rightarrow> gotime \<Rightarrow> string \<Rightarrow> Claims" where
  "signer_claims spec genFile jti now audience =
     \<lparr>c_Issuer = Issuer, c_Subject = is_SandboxID spec, c_Audience = audience, c_Client = is_Client spec,
      c_Tenant = is_Tenant spec, c_Generation = signer_generation spec genFile, c_IssuedAt = time_Unix now,
      c_Expires = time_Unix (time_Add now Lifetime), c_ID = hex_Encode jti\<rparr>"

definition signer_sign ::
  "Ed25519 \<Rightarrow> Json \<Rightarrow> IdentitySpec \<Rightarrow> bytes \<Rightarrow> string option \<Rightarrow> bytes option \<Rightarrow> gotime \<Rightarrow> string \<Rightarrow> IdentityResponse" where
  "signer_sign ed js spec key genFile rnd now audience =
     (if audience = '''' \<or> length audience > maxAudience \<or> str_ContainsAny audience [CHR 0x0A, CHR 0x0D] then IdError
      else case rnd of
        None \<Rightarrow> IdError
      | Some jti \<Rightarrow>
          let c = signer_claims spec genFile jti now audience
          in case Sign ed js key c of
               Inl _ \<Rightarrow> IdError
             | Inr tok \<Rightarrow> IdToken tok (c_Expires c))"

text \<open>One connection of the guest: a line of at most 4096 bytes, the request in it, one answer.\<close>

definition answerIdentity ::
  "Ed25519 \<Rightarrow> Json \<Rightarrow> (bytes \<Rightarrow> string option) \<Rightarrow> IdentitySpec \<Rightarrow> bytes \<Rightarrow> string option \<Rightarrow> bytes option \<Rightarrow> gotime \<Rightarrow> bytes \<Rightarrow> IdentityResponse option" where
  "answerIdentity ed js readRequest spec key genFile rnd now conn =
     (let sent = take 4096 conn; line = (if 10 \<in> set sent then takeWhile (\<lambda>c. c \<noteq> 10) sent @ [10] else sent)
      in if line = [] then None
         else Some (case readRequest line of
                      None \<Rightarrow> IdError
                    | Some audience \<Rightarrow> signer_sign ed js spec key genFile rnd now audience))"

section \<open>What a token proves\<close>

text \<open>
  What \<open>encoding/json\<close> promises of the header and the claims: what it wrote it reads back. It
  replaces bytes that are not valid UTF-8, so an encoder with this property refuses claims with such a
  string; the names and the hexadecimal ids that the program puts into a token have none.
\<close>

definition json_reads_back :: "Json \<Rightarrow> bool" where
  "json_reads_back js \<longleftrightarrow> (\<forall>h b. js_Header js h = Some b \<longrightarrow> js_ReadHeader js b = Some h) \<and>
     (\<forall>c b. js_Claims js c = Some b \<longrightarrow> js_ReadClaims js b = Some c)"

lemma dot_not_b64: "CHR ''.'' \<notin> set (b64_Encode RawURLEncoding bs)"
  using b64_Encode_no_newline [OF b64_valid_url, of "CHR ''.''" bs] by (auto simp: RawURLEncoding_def b64_url_def)

definition signing_input :: "bytes \<Rightarrow> bytes \<Rightarrow> string" where
  "signing_input h p = b64_Encode RawURLEncoding h @ ''.'' @ b64_Encode RawURLEncoding p"

definition token_header :: "Ed25519 \<Rightarrow> bytes \<Rightarrow> TokenHeader" where
  "token_header ed key = \<lparr>h_Alg = ''EdDSA'', h_Typ = ''JWT'', h_Kid = KeyID (ed_Public ed key)\<rparr>"

lemma Sign_ok:
  assumes "Sign ed js key c = Inr tok"
  obtains h p where "js_Header js (token_header ed key) = Some h" "js_Claims js c = Some p" "length key = PrivateKeySize"
    "tok = signing_input h p @ ''.'' @ b64_Encode RawURLEncoding (ed_Sign ed key (bytes_of (signing_input h p)))"
  using assms by (auto simp: Sign_def token_header_def signing_input_def Let_def split: if_splits option.splits)

lemma split_signed:
  "split_token js (signing_input h p @ ''.'' @ b64_Encode RawURLEncoding sg) =
     (case js_ReadHeader js h of None \<Rightarrow> Inl BadHeader
      | Some hdr \<Rightarrow> (case js_ReadClaims js p of None \<Rightarrow> Inl BadClaims | Some c \<Rightarrow> Inr (hdr, c, signing_input h p, sg)))"
proof -
  have "str_Split CHR ''.'' (signing_input h p @ ''.'' @ b64_Encode RawURLEncoding sg)
      = [b64_Encode RawURLEncoding h, b64_Encode RawURLEncoding p, b64_Encode RawURLEncoding sg]"
    using str_Split_three [OF dot_not_b64 dot_not_b64 dot_not_b64, of h p sg] by (simp add: signing_input_def)
  then show ?thesis by (simp add: split_token_def b64_roundtrip signing_input_def split: option.splits)
qed

lemma split_token_ok:
  assumes "split_token js token = Inr (h, c, input, sig)"
  obtains p0 p1 hb pb where "input = p0 @ ''.'' @ p1" "CHR ''.'' \<notin> set p0" "CHR ''.'' \<notin> set p1"
    "b64_Decode RawURLEncoding p0 = Some hb" "b64_Decode RawURLEncoding p1 = Some pb" "js_ReadHeader js hb = Some h" "js_ReadClaims js pb = Some c"
proof -
  from assms obtain p0 p1 p2 hb pb where s: "str_Split CHR ''.'' token = [p0, p1, p2]" "b64_Decode RawURLEncoding p0 = Some hb"
    "b64_Decode RawURLEncoding p1 = Some pb" "js_ReadHeader js hb = Some h" "js_ReadClaims js pb = Some c" "input = p0 @ ''.'' @ p1"
    by (auto simp: split_token_def split: list.splits option.splits)
  have "CHR ''.'' \<notin> set p0" "CHR ''.'' \<notin> set p1"
    using str_Split_parts [of p0 "CHR ''.''" token] str_Split_parts [of p1 "CHR ''.''" token] s(1) by auto
  with s show thesis by (intro that [of p0 p1 hb pb]) auto
qed

lemma signing_input_unique:
  assumes "signing_input h p = p0 @ ''.'' @ p1" "CHR ''.'' \<notin> set p0" "CHR ''.'' \<notin> set p1"
  shows "p0 = b64_Encode RawURLEncoding h" "p1 = b64_Encode RawURLEncoding p"
proof -
  have "str_Split CHR ''.'' (signing_input h p) = [b64_Encode RawURLEncoding h, b64_Encode RawURLEncoding p]"
    using str_Split_append [OF dot_not_b64, of h "b64_Encode RawURLEncoding p"] str_Split_plain [OF dot_not_b64, of p]
    by (simp add: signing_input_def)
  moreover have "str_Split CHR ''.'' (p0 @ ''.'' @ p1) = [p0, p1]"
    using assms(2,3) by (simp add: str_Split_append str_Split_plain)
  ultimately show "p0 = b64_Encode RawURLEncoding h" "p1 = b64_Encode RawURLEncoding p" using assms(1) by simp_all
qed

text \<open>The messages that a key signed for the claims of a set.\<close>

definition signed_inputs :: "Ed25519 \<Rightarrow> Json \<Rightarrow> bytes \<Rightarrow> Claims set \<Rightarrow> bytes set" where
  "signed_inputs ed js key C = {m. \<exists>h p. \<exists>c\<in>C. js_Header js (token_header ed key) = Some h \<and> js_Claims js c = Some p \<and> m = bytes_of (signing_input h p)}"

lemma TokenVerify_ok:
  assumes "TokenVerify ed js token want = Inr c"
  obtains h input sig where "split_token js token = Inr (h, c, input, sig)" "h_Kid h = KeyID (x_Key want)"
    "ed_Verify ed (x_Key want) (bytes_of input) sig" "c_Issuer c = Issuer" "c_Subject c = x_Subject want" "c_Audience c = x_Audience want"
    "c_ID c \<noteq> ''''" "time_Unix (x_Now want) < c_Expires c" "c_IssuedAt c \<le> time_Unix (x_Now want) + 60" "c_Generation c = x_Generation want"
  using assms by (auto simp: TokenVerify_def Let_def split: sum.splits prod.splits if_splits)

text \<open>
  C29. A token that verifies was signed by the launcher of the sandbox, for claims that name this
  sandbox, this audience and the current identity generation, and it is not expired. When only
  claims of an earlier generation were signed, as in the memory of a fork, nothing verifies.
\<close>
theorem verified_token_was_signed:
  assumes "json_reads_back js" "ed_signed_only ed (x_Key want) (signed_inputs ed js key C)" "TokenVerify ed js token want = Inr c"
  shows "c \<in> C \<and> c_Subject c = x_Subject want \<and> c_Audience c = x_Audience want \<and> c_Generation c = x_Generation want \<and>
    time_Unix (x_Now want) < c_Expires c"
  using assms(3)
proof (rule TokenVerify_ok)
  fix h input sig
  assume t: "split_token js token = Inr (h, c, input, sig)" "ed_Verify ed (x_Key want) (bytes_of input) sig"
    "c_Subject c = x_Subject want" "c_Audience c = x_Audience want" "time_Unix (x_Now want) < c_Expires c" "c_Generation c = x_Generation want"
  from t(1) obtain p0 p1 hb pb where s: "input = p0 @ ''.'' @ p1" "CHR ''.'' \<notin> set p0" "CHR ''.'' \<notin> set p1"
    "b64_Decode RawURLEncoding p1 = Some pb" "js_ReadClaims js pb = Some c" by (rule split_token_ok)
  from t(2) assms(2) have "bytes_of input \<in> signed_inputs ed js key C" unfolding ed_signed_only_def by blast
  then obtain h' p c' where m: "c' \<in> C" "js_Claims js c' = Some p" "bytes_of input = bytes_of (signing_input h' p)"
    by (auto simp: signed_inputs_def)
  have "p1 = b64_Encode RawURLEncoding p"
    using bytes_of_inj [OF m(3)] s(1) signing_input_unique(2) [OF _ s(2,3), of h' p] by simp
  with s(4) have "pb = p" by (simp add: b64_roundtrip)
  with assms(1) m(2) s(5) have "c = c'" by (auto simp: json_reads_back_def)
  with m(1) t show ?thesis by simp
qed

text \<open>
  C30. A token of the launcher verifies: from the second it is signed until five minutes later, a
  verifier that has the key of the sandbox, its id, the audience and its generation accepts it and
  reads the claims of the signer.
\<close>
theorem issued_token_verifies:
  assumes "json_reads_back js" "ed_works ed key" "length (ed_Public ed key) = PublicKeySize"
    and "signer_sign ed js spec key genFile (Some jti) now audience = IdToken tok expires" "jti \<noteq> []"
    and "now \<le> x_Now want" "time_Unix (x_Now want) < expires"
    and "x_Key want = ed_Public ed key" "x_Subject want = is_SandboxID spec" "x_Audience want = audience"
    and "x_Generation want = signer_generation spec genFile"
  shows "TokenVerify ed js tok want = Inr (signer_claims spec genFile jti now audience)"
proof -
  let ?c = "signer_claims spec genFile jti now audience"
  from assms(4) have s: "Sign ed js key ?c = Inr tok" "expires = c_Expires ?c"
    by (auto simp: signer_sign_def Let_def split: if_splits sum.splits)
  from s(1) obtain h p where t: "js_Header js (token_header ed key) = Some h" "js_Claims js ?c = Some p"
    "tok = signing_input h p @ ''.'' @ b64_Encode RawURLEncoding (ed_Sign ed key (bytes_of (signing_input h p)))" by (rule Sign_ok)
  have sp: "split_token js tok = Inr (token_header ed key, ?c, signing_input h p, ed_Sign ed key (bytes_of (signing_input h p)))"
    unfolding t(3) split_signed using assms(1) t(1,2) by (auto simp: json_reads_back_def)
  have "hex_Encode jti \<noteq> ''''" using assms(5) length_hex_Encode [of jti] by (metis list.size(3) length_0_conv mult_eq_0_iff zero_neq_numeral)
  moreover have "time_Unix now \<le> time_Unix (x_Now want)"
    using assms(6) by (simp add: time_Unix_def zdiv_mono1)
  ultimately show ?thesis
    using sp assms(2,3,7-11) s(2)
    by (simp add: TokenVerify_def token_header_def ed_works_def Let_def signer_claims_def)
qed

section \<open>Concrete tokens\<close>

definition ex_key :: bytes where "ex_key = replicate 64 7"

definition ex_identity :: IdentitySpec where
  "ex_identity = \<lparr>is_SandboxID = ''ns/box/u1'', is_Client = ''c'', is_Tenant = ''t'', is_KeyFile = ''/k'', is_Generation = 2, is_GenerationFile = ''''\<rparr>"

definition ex_claims :: Claims where
  "ex_claims = signer_claims ex_identity None [1] (unixToInternal * second) ''db''"

definition ex_ed :: Ed25519 where
  "ex_ed = \<lparr>ed_NewKeyFromSeed = (\<lambda>s. s @ s), ed_Public = take 32, ed_Sign = (\<lambda>k m. m), ed_Verify = (\<lambda>p m sg. sg = m)\<rparr>"

definition ex_json :: Json where
  "ex_json = \<lparr>js_Header = (\<lambda>h. if h = token_header ex_ed ex_key then Some [2] else None), js_Claims = (\<lambda>c. if c = ex_claims then Some [1] else None),
     js_ReadHeader = (\<lambda>b. Some (token_header ex_ed ex_key)), js_ReadClaims = (\<lambda>b. Some ex_claims)\<rparr>"

definition ex_strict_ed :: Ed25519 where
  "ex_strict_ed = ex_ed\<lparr>ed_Verify := (\<lambda>p m sg. sg = m \<and> m = bytes_of (signing_input [2] [1]))\<rparr>"

definition ex_want :: Expect where
  "ex_want = \<lparr>x_Key = take 32 ex_key, x_Subject = ''ns/box/u1'', x_Audience = ''db'', x_Generation = 2, x_Now = unixToInternal * second + minute\<rparr>"

definition ex_token :: string where
  "ex_token = signing_input [2] [1] @ ''.'' @ b64_Encode RawURLEncoding (bytes_of (signing_input [2] [1]))"

lemma ex_json_ok: "json_reads_back ex_json"
  by (simp add: json_reads_back_def ex_json_def)

lemma ex_split: "split_token ex_json ex_token = Inr (token_header ex_ed ex_key, ex_claims, signing_input [2] [1], bytes_of (signing_input [2] [1]))"
  unfolding ex_token_def split_signed by (simp add: ex_json_def)

lemmas ex_token_defs = ex_want_def ex_claims_def signer_claims_def signer_generation_def ex_identity_def time_Unix_def time_Add_def
  unixToInternal_def token_header_def ex_ed_def ex_strict_ed_def PublicKeySize_def ex_key_def

theorem verified_token_was_signed_witness:
  "TokenVerify ex_strict_ed ex_json ex_token ex_want = Inr ex_claims \<and> ex_claims \<in> {ex_claims} \<and> c_Generation ex_claims = x_Generation ex_want"
proof -
  have "token_header ex_strict_ed ex_key = token_header ex_ed ex_key" by (simp add: token_header_def ex_strict_ed_def ex_ed_def)
  then have "ed_signed_only ex_strict_ed (x_Key ex_want) (signed_inputs ex_strict_ed ex_json ex_key {ex_claims})"
    by (auto simp: ed_signed_only_def ex_strict_ed_def signed_inputs_def ex_json_def)
  moreover have "TokenVerify ex_strict_ed ex_json ex_token ex_want = Inr ex_claims"
    by (simp add: TokenVerify_def ex_split ex_token_defs hex_Encode_def hexDigits_def)
  ultimately show ?thesis using verified_token_was_signed [OF ex_json_ok, of ex_strict_ed ex_want ex_key "{ex_claims}" ex_token ex_claims] by simp
qed

theorem issued_token_verifies_witness:
  "signer_sign ex_ed ex_json ex_identity ex_key None (Some [1]) (unixToInternal * second) ''db'' = IdToken ex_token (c_Expires ex_claims) \<and>
   TokenVerify ex_ed ex_json ex_token ex_want = Inr ex_claims"
proof -
  have s: "signer_sign ex_ed ex_json ex_identity ex_key None (Some [1]) (unixToInternal * second) ''db'' = IdToken ex_token (c_Expires ex_claims)"
    by (simp add: signer_sign_def Sign_def ex_json_def ex_ed_def token_header_def ex_claims_def [symmetric] ex_token_def signing_input_def
        str_ContainsAny_def PrivateKeySize_def ex_key_def)
  have "TokenVerify ex_ed ex_json ex_token ex_want = Inr (signer_claims ex_identity None [1] (unixToInternal * second) ''db'')"
    by (rule issued_token_verifies [OF ex_json_ok _ _ s]) (simp_all add: ed_works_def ex_token_defs)
  with s show ?thesis by (simp add: ex_claims_def)
qed

end
