(* ===== verification/Diskbuilder.thy ===== *)
theory Diskbuilder
  imports Go_Text
begin

text \<open>
  The signed disks of \<open>src/internal/diskbuilder\<close>: the signing keys and their ids (\<open>keys.go\<close>), the
  name of a disk, the flattened image, the signature that binds a disk to an image digest
  (\<open>diskbuilder.go\<close>), and the reports and steps of a build (\<open>store.go\<close>). The reference parser of
  the registry library, the registry, JSON and the signature scheme are parameters; running
  \<open>mksquashfs\<close> and writing the layer archive are not modelled.
\<close>

section \<open>Keys\<close>

datatype DiskError =
    NoDigest string
  | NamesTag string
  | BadReference string
  | BadKeyID string
  | BadTag string
  | LeavesRoot string
  | LinkOutside string string
  | ReadConfig
  | ReadLayers
  | DiskUnreadable
  | SigForOther string string
  | DiskChanged
  | ErrBadSignature
  | SigUnreadable
  | SigNotJSON
  | BadSeedValue
  | BadPublicKeyValue string
  | NoPublicKey
  | ErrBadReport
  | BadDigestReport string
  | LookupFailed
  | PullFailed
  | PackFailed
  | PushFailed

definition ParsePrivateKey :: "Ed25519 \<Rightarrow> string \<Rightarrow> DiskError + bytes" where
  "ParsePrivateKey ed raw = (case b64_Decode StdEncoding (str_TrimSpace raw) of
      Some seed \<Rightarrow> if length seed \<noteq> SeedSize then Inl BadSeedValue else Inr (ed_NewKeyFromSeed ed seed)
    | None \<Rightarrow> Inl BadSeedValue)"

abbreviation keyIDLen :: nat where "keyIDLen \<equiv> 16"

definition DiskKeyID :: "bytes \<Rightarrow> string" where
  "DiskKeyID pub = take keyIDLen (hex_Encode (sha256 pub))"

definition EncodePublicKey :: "bytes \<Rightarrow> string" where
  "EncodePublicKey pub = b64_Encode StdEncoding pub"

text \<open>Hex digits of either case decode; the lower-case test leaves the digits of \<open>hexDigits\<close>.\<close>

definition validKeyID :: "string \<Rightarrow> bool" where
  "validKeyID i \<longleftrightarrow> length i = keyIDLen \<and> list_all is_lower_hex i"

fun parsePublicKeysFrom :: "string list \<Rightarrow> DiskError + bytes list" where
  "parsePublicKeysFrom [] = Inr []"
| "parsePublicKeysFrom (e # es) = (case b64_Decode StdEncoding (str_TrimSpace e) of
      Some k \<Rightarrow> if length k \<noteq> PublicKeySize then Inl (BadPublicKeyValue e)
        else (case parsePublicKeysFrom es of Inl err \<Rightarrow> Inl err | Inr ks \<Rightarrow> Inr (k # ks))
    | None \<Rightarrow> Inl (BadPublicKeyValue e))"

definition ParsePublicKeys :: "string list \<Rightarrow> DiskError + bytes list" where
  "ParsePublicKeys encoded = (case parsePublicKeysFrom encoded of
      Inl e \<Rightarrow> Inl e
    | Inr ks \<Rightarrow> if ks = [] then Inl NoPublicKey else Inr ks)"

section \<open>The name of a disk\<close>

record Digest =
  dg_Name :: string
  dg_DigestStr :: string

record Names =
  nm_NewDigest :: "string \<Rightarrow> Digest option" \<comment> \<open>a reference with its digest, or a parse error\<close>
  nm_NewTag :: "string \<Rightarrow> string option" \<comment> \<open>the printed form of a tag, or a parse error\<close>

definition lastPart :: "string \<Rightarrow> string" where
  "lastPart repo = rev (takeWhile (\<lambda>c. c \<noteq> CHR ''/'') (rev repo))"

definition ParseDigestRef :: "Names \<Rightarrow> string \<Rightarrow> DiskError + Digest" where
  "ParseDigestRef nm r = (case str_Cut CHR ''@'' r of
      None \<Rightarrow> Inl (NoDigest r)
    | Some (repo, _) \<Rightarrow>
        if str_Contains (lastPart repo) '':'' then Inl (NamesTag r)
        else (case nm_NewDigest nm r of None \<Rightarrow> Inl (BadReference r) | Some d \<Rightarrow> Inr d))"

definition str_TrimPrefix :: "string \<Rightarrow> string \<Rightarrow> string" where
  "str_TrimPrefix s p = (if str_HasPrefix s p then drop (length p) s else s)"

definition diskTag :: "Names \<Rightarrow> string \<Rightarrow> Digest \<Rightarrow> string \<Rightarrow> DiskError + string" where
  "diskTag nm repo d keyID =
     (if \<not> validKeyID keyID then Inl (BadKeyID keyID)
      else case nm_NewTag nm (repo @ '':'' @ str_TrimPrefix (dg_DigestStr d) ''sha256:'' @ ''-'' @ keyID) of
             None \<Rightarrow> Inl (BadTag repo) | Some t \<Rightarrow> Inr t)"

definition DiskRef :: "Names \<Rightarrow> string \<Rightarrow> string \<Rightarrow> string \<Rightarrow> DiskError + string" where
  "DiskRef nm repo imageRef keyID = (case ParseDigestRef nm imageRef of
      Inl e \<Rightarrow> Inl e
    | Inr d \<Rightarrow> diskTag nm repo d keyID)"

abbreviation DiskFile :: string where "DiskFile \<equiv> ''disk.sqfs''"
abbreviation SignatureFile :: string where "SignatureFile \<equiv> ''disk.sig.json''"

section \<open>The flattened image\<close>

fun cleanParts :: "string list \<Rightarrow> string list option" where
  "cleanParts [] = Some []"
| "cleanParts (p # ps) =
     (if p = '''' \<or> p = ''.'' then cleanParts ps
      else if p = ''..'' then None
      else map_option (\<lambda>r. p # r) (cleanParts ps))"

definition cleanTarName :: "string \<Rightarrow> string option" where
  "cleanTarName n = (case cleanParts (str_Split CHR ''/'' n) of
      None \<Rightarrow> None
    | Some parts \<Rightarrow>
        let out = str_Join parts ''/''
        in Some (if str_HasSuffix n ''/'' \<and> out \<noteq> '''' then out @ ''/'' else out))"

record TarEntry =
  te_Name :: string
  te_Link :: bool \<comment> \<open>a hard link\<close>
  te_Linkname :: string
  te_Data :: bytes

abbreviation ImageConfigPath :: string where "ImageConfigPath \<equiv> ''.setec/image.json''"

definition setecName :: "string \<Rightarrow> bool" where
  "setecName clean \<longleftrightarrow> clean = ''.setec'' \<or> str_HasPrefix clean ''.setec/''"

fun tarLoop :: "TarEntry list \<Rightarrow> bool \<Rightarrow> DiskError + TarEntry list" where
  "tarLoop [] ok = (if ok then Inr [] else Inl ReadLayers)"
| "tarLoop (h # hs) ok = (case cleanTarName (te_Name h) of
      None \<Rightarrow> Inl (LeavesRoot (te_Name h))
    | Some clean \<Rightarrow>
        if clean = '''' then tarLoop hs ok
        else
          let linked = (if te_Link h then
                (case cleanTarName (te_Linkname h) of
                   Some l \<Rightarrow> if l = '''' then None else Some (h\<lparr>te_Name := clean, te_Linkname := l\<rparr>)
                 | None \<Rightarrow> None)
              else Some (h\<lparr>te_Name := clean\<rparr>))
          in case linked of
               None \<Rightarrow> Inl (LinkOutside clean '''')
             | Some h' \<Rightarrow>
                 if setecName clean then tarLoop hs ok
                 else (case tarLoop hs ok of Inl e \<Rightarrow> Inl e | Inr out \<Rightarrow> Inr (h' # out)))"

text \<open>
  The entries of the image are a list, with whether the layers were read to their end; \<open>config\<close> is
  the marshalled image config, or \<open>None\<close> when it cannot be read. The result is what is written to
  the archive; an error of the writer is the failure of the pack step. The message about a link names
  the cleaned target, which is empty whenever the message is made.
\<close>

definition imageTar :: "TarEntry list \<Rightarrow> bool \<Rightarrow> bytes option \<Rightarrow> DiskError + TarEntry list" where
  "imageTar entries ok config = (case config of
      None \<Rightarrow> Inl ReadConfig
    | Some cfg \<Rightarrow> (case tarLoop entries ok of
      Inl e \<Rightarrow> Inl e
    | Inr out \<Rightarrow> Inr (out @ [\<lparr>te_Name = ''.setec/'', te_Link = False, te_Linkname = '''', te_Data = []\<rparr>,
         \<lparr>te_Name = ImageConfigPath, te_Link = False, te_Linkname = '''', te_Data = cfg\<rparr>])))"

section \<open>Signatures\<close>

record Signature =
  sg_ImageDigest :: string
  sg_DiskSHA256 :: string
  sg_Value :: bytes

definition Payload :: "Signature \<Rightarrow> bytes" where
  "Payload s = bytes_of (''setec-disk-v1'' @ [CHR 0x0A] @ sg_ImageDigest s @ [CHR 0x0A] @ sg_DiskSHA256 s @ [CHR 0x0A])"

text \<open>A file is its content; \<open>None\<close> is a file that cannot be read.\<close>

definition FileSHA256 :: "bytes option \<Rightarrow> DiskError + string" where
  "FileSHA256 f = (case f of None \<Rightarrow> Inl DiskUnreadable | Some c \<Rightarrow> Inr (hex_Encode (sha256 c)))"

definition SignDigest :: "Ed25519 \<Rightarrow> bytes \<Rightarrow> string \<Rightarrow> string \<Rightarrow> Signature" where
  "SignDigest ed key imageDigest diskSHA256 =
     (let s = \<lparr>sg_ImageDigest = imageDigest, sg_DiskSHA256 = diskSHA256, sg_Value = []\<rparr>
      in s\<lparr>sg_Value := ed_Sign ed key (Payload s)\<rparr>)"

definition DiskVerify :: "Ed25519 \<Rightarrow> bytes list \<Rightarrow> Signature \<Rightarrow> string \<Rightarrow> bytes option \<Rightarrow> DiskError option" where
  "DiskVerify ed keys s imageDigest disk =
     (if sg_ImageDigest s \<noteq> imageDigest then Some (SigForOther (sg_ImageDigest s) imageDigest)
      else case FileSHA256 disk of
             Inl e \<Rightarrow> Some e
           | Inr dsum \<Rightarrow>
               if dsum \<noteq> sg_DiskSHA256 s then Some DiskChanged
               else if \<exists>k\<in>set keys. ed_Verify ed k (Payload s) (sg_Value s) then None else Some ErrBadSignature)"

definition VerifyMounted ::
  "Ed25519 \<Rightarrow> Names \<Rightarrow> (bytes \<Rightarrow> Signature option) \<Rightarrow> bytes option \<Rightarrow> bytes option \<Rightarrow> string \<Rightarrow> bytes list \<Rightarrow> DiskError + string" where
  "VerifyMounted ed nm readSig disk sigFile imageRef keys = (case ParseDigestRef nm imageRef of
      Inl e \<Rightarrow> Inl e
    | Inr d \<Rightarrow> (case sigFile of
          None \<Rightarrow> Inl SigUnreadable
        | Some raw \<Rightarrow> (case readSig raw of
              None \<Rightarrow> Inl SigNotJSON
            | Some sig \<Rightarrow> (case DiskVerify ed keys sig (dg_DigestStr d) disk of Some e \<Rightarrow> Inl e | None \<Rightarrow> Inr (sg_DiskSHA256 sig)))))"

section \<open>The steps of a build\<close>

definition sha256Hex :: "string \<Rightarrow> bool" where
  "sha256Hex s \<longleftrightarrow> length s = 64 \<and> list_all is_lower_hex s"

text \<open>Strict JSON: the parameter reads a report with no unknown field and nothing after it.\<close>

definition ParseCheckResult :: "(string \<Rightarrow> bool option) \<Rightarrow> string \<Rightarrow> DiskError + bool" where
  "ParseCheckResult readReport raw = (case readReport raw of None \<Rightarrow> Inl ErrBadReport | Some r \<Rightarrow> Inr r)"

definition ParseBuildResult :: "(string \<Rightarrow> string option) \<Rightarrow> string \<Rightarrow> DiskError + string" where
  "ParseBuildResult readReport raw = (case readReport raw of
      None \<Rightarrow> Inl ErrBadReport
    | Some dsum \<Rightarrow> if \<not> sha256Hex dsum then Inl (BadDigestReport dsum) else Inr dsum)"

definition Build :: "Names \<Rightarrow> (Digest \<Rightarrow> 'img option) \<Rightarrow> ('img \<Rightarrow> bytes option) \<Rightarrow> string \<Rightarrow> DiskError + string" where
  "Build nm pull pack r = (case ParseDigestRef nm r of
      Inl e \<Rightarrow> Inl e
    | Inr d \<Rightarrow> (case pull d of
          None \<Rightarrow> Inl PullFailed
        | Some img \<Rightarrow> (case pack img of None \<Rightarrow> Inl PackFailed | Some out \<Rightarrow> FileSHA256 (Some out))))"

text \<open>
  The registry is its answer to a look-up of a tag (\<open>None\<close>: an error other than not found) and
  whether the disk image is made and pushed. The result is the tag, and what is pushed under it when
  the tag is new. The disk is read twice; the model reads the same bytes both times.
\<close>

definition DiskExists :: "Names \<Rightarrow> (string \<Rightarrow> bool option) \<Rightarrow> string \<Rightarrow> string \<Rightarrow> string \<Rightarrow> DiskError + bool" where
  "DiskExists nm head' repo r keyID = (case ParseDigestRef nm r of
      Inl e \<Rightarrow> Inl e
    | Inr d \<Rightarrow> (case diskTag nm repo d keyID of
          Inl e \<Rightarrow> Inl e
        | Inr tag \<Rightarrow> (case head' tag of None \<Rightarrow> Inl LookupFailed | Some b \<Rightarrow> Inr b)))"

definition Publish ::
  "Names \<Rightarrow> (string \<Rightarrow> bool option) \<Rightarrow> (string \<Rightarrow> bool) \<Rightarrow> string \<Rightarrow> string \<Rightarrow> string \<Rightarrow> bytes option \<Rightarrow> Signature
   \<Rightarrow> DiskError + (string \<times> (bytes \<times> Signature) option)" where
  "Publish nm head' push repo r keyID disk sig = (case ParseDigestRef nm r of
      Inl e \<Rightarrow> Inl e
    | Inr d \<Rightarrow> (case FileSHA256 disk of
          Inl e \<Rightarrow> Inl e
        | Inr dsum \<Rightarrow>
            if sg_ImageDigest sig \<noteq> dg_DigestStr d \<or> sg_DiskSHA256 sig \<noteq> dsum then Inl ErrBadSignature
            else (case diskTag nm repo d keyID of
                Inl e \<Rightarrow> Inl e
              | Inr tag \<Rightarrow> (case head' tag of
                    Some True \<Rightarrow> Inr (tag, None)
                  | None \<Rightarrow> Inl LookupFailed
                  | Some False \<Rightarrow> if push tag then Inr (tag, Some (the disk, sig)) else Inl PushFailed))))"

section \<open>What a disk holds\<close>

definition insideRoot :: "string \<Rightarrow> bool" where
  "insideRoot n \<longleftrightarrow> n \<noteq> '''' \<and> hd n \<noteq> CHR ''/'' \<and> ''..'' \<notin> set (str_Split CHR ''/'' n) \<and> ''.'' \<notin> set (str_Split CHR ''/'' n)"

lemma cleanParts_good:
  "cleanParts ps = Some r \<Longrightarrow> set r \<subseteq> set ps - {'''', ''.'', ''..''}"
  by (induction ps arbitrary: r) (auto split: if_splits)

lemma hd_str_Join: "ps \<noteq> [] \<Longrightarrow> hd ps \<noteq> '''' \<Longrightarrow> str_Join ps sep \<noteq> '''' \<and> hd (str_Join ps sep) = hd (hd ps)"
  by (cases "(ps, sep)" rule: str_Join.cases) auto

lemma cleanTarName_inside:
  assumes "cleanTarName n = Some c" "c \<noteq> ''''"
  shows "insideRoot c"
proof -
  from assms(1) obtain ps where ps: "cleanParts (str_Split CHR ''/'' n) = Some ps"
    "c = (let out = str_Join ps ''/'' in if str_HasSuffix n ''/'' \<and> out \<noteq> '''' then out @ ''/'' else out)"
    by (auto simp: cleanTarName_def Let_def split: option.splits)
  note g = cleanParts_good [OF ps(1)]
  have ne: "ps \<noteq> []" using assms(2) ps(2) by (auto simp: Let_def)
  then have h: "hd ps \<noteq> ''''" "CHR ''/'' \<notin> set (hd ps)"
    using subsetD [OF g hd_in_set [OF ne]] str_Split_parts [of "hd ps" "CHR ''/''" n] by auto
  have parts: "str_Split CHR ''/'' (str_Join ps ''/'') = ps"
    using g str_Split_parts [of _ "CHR ''/''" n] by (intro str_Split_of_Join [OF ne]) auto
  have "set (str_Split CHR ''/'' c) \<subseteq> insert '''' (set ps)"
    using ps(2) parts by (auto simp: Let_def str_Split_snoc split: if_splits)
  moreover have "hd c = hd (hd ps)"
    using hd_str_Join [OF ne h(1), of "''/''"] ps(2) by (auto simp: Let_def hd_append)
  moreover have "hd (hd ps) \<noteq> CHR ''/''" using h by (cases "hd ps") auto
  ultimately show ?thesis using g assms(2) by (auto simp: insideRoot_def)
qed

definition fromImage :: "TarEntry list \<Rightarrow> TarEntry \<Rightarrow> bool" where
  "fromImage entries e \<longleftrightarrow> insideRoot (te_Name e) \<and> \<not> setecName (te_Name e) \<and> (te_Link e \<longrightarrow> insideRoot (te_Linkname e)) \<and>
     (\<exists>h\<in>set entries. te_Data e = te_Data h \<and> cleanTarName (te_Name h) = Some (te_Name e))"

lemma tarLoop_out: "tarLoop hs ok = Inr out \<Longrightarrow> \<forall>e\<in>set out. fromImage hs e"
proof (induction hs ok arbitrary: out rule: tarLoop.induct)
  case (1 ok)
  then show ?case by (simp split: if_splits)
next
  case (2 h hs ok)
  have mono: "fromImage hs e \<Longrightarrow> fromImage (h # hs) e" for e by (auto simp: fromImage_def)
  from "2.prems" obtain clean where c: "cleanTarName (te_Name h) = Some clean" by (auto split: option.splits)
  show ?case
  proof (cases "tarLoop hs ok = Inr out")
    case True
    then have "\<forall>e\<in>set out. fromImage hs e"
      using "2.IH" "2.prems" c by (auto simp: Let_def split: option.splits if_splits sum.splits)
    then show ?thesis using mono by blast
  next
    case False
    with "2.prems" c obtain h' rest where o: "clean \<noteq> ''''" "\<not> setecName clean" "tarLoop hs ok = Inr rest" "out = h' # rest"
      "h' = h\<lparr>te_Name := clean\<rparr> \<and> \<not> te_Link h \<or> (\<exists>l. te_Link h \<and> l \<noteq> '''' \<and> cleanTarName (te_Linkname h) = Some l \<and> h' = h\<lparr>te_Name := clean, te_Linkname := l\<rparr>)"
      by (auto simp: Let_def split: option.splits if_splits sum.splits)
    have "fromImage (h # hs) h'"
      using o(1,2,5) c cleanTarName_inside [OF c] by (auto simp: fromImage_def intro: cleanTarName_inside)
    moreover have "\<forall>e\<in>set rest. fromImage hs e"
      using "2.IH" c o by (auto simp: Let_def split: option.splits if_splits)
    ultimately show ?thesis using mono o(4) by auto
  qed
qed

text \<open>
  C32. The archive of a disk is the image and nothing else: every entry but the last two has a path
  inside the root, with no dot-dot part and not under the setec directory, carries the data of an
  image entry of that cleaned name, and links only to paths inside the root. The last two entries are
  the setec directory and the image config, whatever the image holds under these names.
\<close>
theorem disk_holds_only_the_image:
  assumes "imageTar entries ok config = Inr out"
  shows "\<exists>body cfg. config = Some cfg \<and> (\<forall>e\<in>set body. fromImage entries e) \<and>
    out = body @ [\<lparr>te_Name = ''.setec/'', te_Link = False, te_Linkname = '''', te_Data = []\<rparr>,
      \<lparr>te_Name = ImageConfigPath, te_Link = False, te_Linkname = '''', te_Data = cfg\<rparr>]"
  using assms tarLoop_out by (fastforce simp: imageTar_def split: option.splits sum.splits)

theorem disk_holds_only_the_image_witness:
  "\<exists>body cfg. Some [7] = Some cfg \<and>
     (\<forall>e\<in>set body. fromImage [\<lparr>te_Name = ''./bin/'', te_Link = False, te_Linkname = '''', te_Data = []\<rparr>,
        \<lparr>te_Name = ''/.setec/image.json'', te_Link = False, te_Linkname = '''', te_Data = [1]\<rparr>] e) \<and>
     [\<lparr>te_Name = ''bin/'', te_Link = False, te_Linkname = '''', te_Data = []\<rparr>,
      \<lparr>te_Name = ''.setec/'', te_Link = False, te_Linkname = '''', te_Data = []\<rparr>,
      \<lparr>te_Name = ImageConfigPath, te_Link = False, te_Linkname = '''', te_Data = [7]\<rparr>] =
      body @ [\<lparr>te_Name = ''.setec/'', te_Link = False, te_Linkname = '''', te_Data = []\<rparr>,
      \<lparr>te_Name = ImageConfigPath, te_Link = False, te_Linkname = '''', te_Data = cfg\<rparr>]"
  by (rule disk_holds_only_the_image [of _ True])
     (simp add: imageTar_def cleanTarName_def str_HasSuffix_def str_HasPrefix_def setecName_def Let_def)

section \<open>What a signature binds\<close>

lemma newline_not_hex: "list_all is_lower_hex s \<Longrightarrow> CHR 0x0A \<notin> set s"
proof -
  have "\<not> is_lower_hex (CHR 0x0A)" by (simp add: is_lower_hex_def hexDigits_def)
  then show "list_all is_lower_hex s \<Longrightarrow> CHR 0x0A \<notin> set s" by (auto simp: list_all_iff)
qed

lemma FileSHA256_hex: "FileSHA256 f = Inr s \<Longrightarrow> list_all is_lower_hex s"
  by (auto simp: FileSHA256_def list_all_iff split: option.splits intro: hex_Encode_lower)

text \<open>The sum has no newline, so the last line of a payload is the sum and the rest is the image.\<close>

lemma last_line_unique:
  assumes "a @ [c] @ s = b @ [c] @ t" "c \<notin> set s" "c \<notin> set t"
  shows "a = b \<and> s = t"
proof -
  have first: "takeWhile (\<lambda>x. x \<noteq> c) (u @ c # v) = u" if "c \<notin> set u" for u v using that by (induction u) auto
  have eq: "rev s @ c # rev a = rev t @ c # rev b" using arg_cong [OF assms(1), of rev] by simp
  then have "rev s = rev t" using first [of "rev s" "rev a"] first [of "rev t" "rev b"] assms(2,3) by simp
  with eq show ?thesis by simp
qed

lemma Payload_binds:
  assumes "Payload s = Payload t" "list_all is_lower_hex (sg_DiskSHA256 s)" "list_all is_lower_hex (sg_DiskSHA256 t)"
  shows "sg_ImageDigest s = sg_ImageDigest t \<and> sg_DiskSHA256 s = sg_DiskSHA256 t"
proof -
  have "sg_ImageDigest s @ [CHR 0x0A] @ sg_DiskSHA256 s = sg_ImageDigest t @ [CHR 0x0A] @ sg_DiskSHA256 t"
    using bytes_of_inj [OF assms(1) [unfolded Payload_def]] by simp
  then show ?thesis using assms(2,3) newline_not_hex by (intro last_line_unique) auto
qed

text \<open>The payloads that the operator signed: an image digest, and a sum that \<open>ParseBuildResult\<close> accepted.\<close>

definition signed_disks :: "Ed25519 \<Rightarrow> bytes \<Rightarrow> (string \<times> string) set \<Rightarrow> bytes set" where
  "signed_disks ed key S = {Payload (SignDigest ed key i s) |i s. (i, s) \<in> S \<and> sha256Hex s}"

lemma DiskVerify_ok:
  "DiskVerify ed keys sig i disk = None \<longleftrightarrow> sg_ImageDigest sig = i \<and> FileSHA256 disk = Inr (sg_DiskSHA256 sig) \<and>
     (\<exists>k\<in>set keys. ed_Verify ed k (Payload sig) (sg_Value sig))"
  by (auto simp: DiskVerify_def split: sum.splits)

lemma VerifyMounted_ok:
  "VerifyMounted ed nm readSig disk sigFile imageRef keys = Inr h \<longleftrightarrow>
     (\<exists>d raw sig. ParseDigestRef nm imageRef = Inr d \<and> sigFile = Some raw \<and> readSig raw = Some sig \<and>
        DiskVerify ed keys sig (dg_DigestStr d) disk = None \<and> h = sg_DiskSHA256 sig)"
  by (auto simp: VerifyMounted_def split: sum.splits option.splits)

text \<open>
  C31. A launcher accepts a mounted disk only when the operator signed exactly these bytes for the
  digest of exactly this image, whatever the signature file says and whichever of the trusted keys
  it verifies under: the result is the SHA-256 of the disk, and the operator signed the pair of the
  image digest and this sum.
\<close>
theorem accepted_disk_was_signed:
  assumes "\<forall>k\<in>set keys. \<exists>key. ed_signed_only ed k (signed_disks ed key S)"
    and "VerifyMounted ed nm readSig disk sigFile imageRef keys = Inr h"
  shows "\<exists>d content. nm_NewDigest nm imageRef = Some d \<and> disk = Some content \<and> h = hex_Encode (sha256 content) \<and> (dg_DigestStr d, h) \<in> S"
proof -
  from assms(2) obtain d raw sig where v: "ParseDigestRef nm imageRef = Inr d" "DiskVerify ed keys sig (dg_DigestStr d) disk = None"
    "h = sg_DiskSHA256 sig" by (auto simp: VerifyMounted_ok)
  then obtain k where k: "k \<in> set keys" "ed_Verify ed k (Payload sig) (sg_Value sig)" and s: "sg_ImageDigest sig = dg_DigestStr d" "FileSHA256 disk = Inr h"
    by (auto simp: DiskVerify_ok)
  from assms(1) k obtain key where "Payload sig \<in> signed_disks ed key S" unfolding ed_signed_only_def by blast
  then obtain i t where p: "(i, t) \<in> S" "sha256Hex t" "Payload sig = Payload (SignDigest ed key i t)" by (auto simp: signed_disks_def)
  have "sg_ImageDigest sig = i \<and> sg_DiskSHA256 sig = t"
    using Payload_binds [OF p(3)] p(2) FileSHA256_hex [OF s(2)] v(3) by (simp add: SignDigest_def Let_def sha256Hex_def)
  with p(1) s v(1,3) show ?thesis
    by (auto simp: FileSHA256_def ParseDigestRef_def split: option.splits if_splits)
qed

text \<open>What the operator signs from a report, the publish step takes and a launcher accepts.\<close>

lemma signed_disk_accepted:
  assumes "\<forall>s. readSig (marshal s) = Some s" "ed_works ed key" "ed_Public ed key \<in> set keys"
    and "ParseDigestRef nm imageRef = Inr d"
  shows "VerifyMounted ed nm readSig (Some c) (Some (marshal (SignDigest ed key (dg_DigestStr d) (hex_Encode (sha256 c))))) imageRef keys =
    Inr (hex_Encode (sha256 c))"
proof -
  let ?s = "SignDigest ed key (dg_DigestStr d) (hex_Encode (sha256 c))"
  have "Payload (?s\<lparr>sg_Value := v\<rparr>) = Payload ?s" for v by (simp add: Payload_def)
  then have "ed_Verify ed (ed_Public ed key) (Payload ?s) (sg_Value ?s)"
    using assms(2) by (simp add: ed_works_def SignDigest_def Let_def Payload_def)
  then have "DiskVerify ed keys ?s (dg_DigestStr d) (Some c) = None"
    using assms(3) by (auto simp: DiskVerify_ok SignDigest_def Let_def FileSHA256_def)
  then show ?thesis using assms(1,4) by (auto simp: VerifyMounted_ok SignDigest_def Let_def)
qed

section \<open>Instances\<close>

definition ex_disk_ref :: string where "ex_disk_ref = ''r/app@sha256:00''"
definition ex_names :: Names where
  "ex_names = \<lparr>nm_NewDigest = (\<lambda>r. Some \<lparr>dg_Name = r, dg_DigestStr = ''sha256:00''\<rparr>), nm_NewTag = Some\<rparr>"
definition ex_disk_sum :: string where "ex_disk_sum = hex_Encode (sha256 [1, 2, 3])"
definition ex_disk_ed :: Ed25519 where
  "ex_disk_ed = \<lparr>ed_NewKeyFromSeed = id, ed_Public = id, ed_Sign = (\<lambda>_ m. m),
     ed_Verify = (\<lambda>_ m s. m = s \<and> m = Payload \<lparr>sg_ImageDigest = ''sha256:00'', sg_DiskSHA256 = ex_disk_sum, sg_Value = []\<rparr>)\<rparr>"
definition ex_disk_sig :: Signature where
  "ex_disk_sig = SignDigest ex_disk_ed [9] ''sha256:00'' ex_disk_sum"

lemma ex_disk_sum_hex: "sha256Hex ex_disk_sum"
  by (auto simp: sha256Hex_def ex_disk_sum_def list_all_iff intro: hex_Encode_lower)

lemma ex_disk_parse: "ParseDigestRef ex_names ex_disk_ref = Inr \<lparr>dg_Name = ex_disk_ref, dg_DigestStr = ''sha256:00''\<rparr>"
  by (simp add: ParseDigestRef_def ex_names_def ex_disk_ref_def str_Cut_def lastPart_def str_HasPrefix_def)

theorem accepted_disk_was_signed_witness:
  "\<exists>d content. nm_NewDigest ex_names ex_disk_ref = Some d \<and> Some [1, 2, 3] = Some content \<and> ex_disk_sum = hex_Encode (sha256 content) \<and>
     (dg_DigestStr d, ex_disk_sum) \<in> {(''sha256:00'', ex_disk_sum)}"
proof (rule accepted_disk_was_signed [where ed = ex_disk_ed and keys = "[[9]]" and readSig = "\<lambda>_. Some ex_disk_sig" and sigFile = "Some []"])
  show "\<forall>k\<in>set [[9]]. \<exists>key. ed_signed_only ex_disk_ed k (signed_disks ex_disk_ed key {(''sha256:00'', ex_disk_sum)})"
    using ex_disk_sum_hex by (auto simp: ed_signed_only_def signed_disks_def ex_disk_ed_def SignDigest_def Let_def Payload_def)
  show "VerifyMounted ex_disk_ed ex_names (\<lambda>_. Some ex_disk_sig) (Some [1, 2, 3]) (Some []) ex_disk_ref [[9]] = Inr ex_disk_sum"
    by (auto simp: VerifyMounted_ok ex_disk_parse DiskVerify_ok ex_disk_sig_def SignDigest_def Let_def FileSHA256_def ex_disk_sum_def)
       (simp add: ex_disk_ed_def Payload_def ex_disk_sum_def)
qed

end
