(* ===== verification/Podspec.thy ===== *)
theory Podspec
  imports Sandbox_Class Diskbuilder Sandbox_Token
begin

text \<open>
  The launcher Pod: the translator of \<open>src/internal/podspec\<close> that turns a Sandbox into its Pod, and
  the check of the machine spec in
  \<open>src/internal/launcher/spec.go\<close>. The operator and the launcher exchange the spec as JSON with the
  same keys, so one record stands for both sides of it.
\<close>

section \<open>The machine spec\<close>

record BootSource =
  bs_Kernel :: string
  bs_Initrd :: string
  bs_BootArgs :: string

record SnapshotSource =
  ss_State :: string
  ss_Memory :: string
  ss_Staged :: string
  ss_Evidence :: string
  ss_TakenAt :: string
  ss_ImageDisk :: string

record LauncherProcess =
  lp_Argv :: "string list"
  lp_Env :: "string list"

record LauncherSpec =
  ls_VCPU :: int
  ls_MemoryMiB :: int
  ls_ImageDisk :: string
  ls_DiskSignature :: string
  ls_ImageRef :: string
  ls_DiskKeys :: "string list"
  ls_WritableDisk :: string
  ls_WritableBytes :: int
  ls_WorkspaceDevice :: string
  ls_Boot :: "BootSource option"
  ls_Snapshot :: "SnapshotSource option"
  ls_CPUTemplate :: string
  ls_WorkDir :: string
  ls_Base :: bool
  ls_Workload :: "LauncherProcess option"
  ls_Identity :: "IdentitySpec option"

datatype SpecError =
    SpecVCPU int | SpecMemory int | SpecDiskPaths | SpecCPUTemplate | SpecWritableBytes | SpecWorkspace
  | SpecSource | SpecKernel | SpecStatePaths | SpecMarkerPaths | SpecImageDigestPath | SpecBase | SpecNoWorkload | SpecIdentity

definition IsAbs :: "string \<Rightarrow> bool" where "IsAbs p \<longleftrightarrow> str_HasPrefix p ''/''"

definition validateIdentity :: "LauncherSpec \<Rightarrow> SpecError option" where
  "validateIdentity s = (case ls_Identity s of
      Some i \<Rightarrow> if is_SandboxID i = '''' \<or> \<not> IsAbs (is_KeyFile i) \<or> is_GenerationFile i \<noteq> '''' \<and> \<not> IsAbs (is_GenerationFile i)
        then Some SpecIdentity else None
    | None \<Rightarrow> None)"

definition validateSnapshotSource :: "SnapshotSource \<Rightarrow> SpecError option" where
  "validateSnapshotSource sn =
     (if \<not> IsAbs (ss_State sn) \<or> \<not> IsAbs (ss_Memory sn) then Some SpecStatePaths
      else if ss_Staged sn \<noteq> '''' \<and> \<not> IsAbs (ss_Staged sn) \<or> ss_Evidence sn \<noteq> '''' \<and> \<not> IsAbs (ss_Evidence sn) then Some SpecMarkerPaths
      else if \<not> IsAbs (ss_ImageDisk sn) then Some SpecImageDigestPath
      else None)"

definition validateSource :: "LauncherSpec \<Rightarrow> SpecError option" where
  "validateSource s =
     (let first = (if (ls_Boot s = None) = (ls_Snapshot s = None) then Some SpecSource
                   else case ls_Boot s of
                          Some b \<Rightarrow> if \<not> IsAbs (bs_Kernel b) then Some SpecKernel else None
                        | None \<Rightarrow> (case ls_Snapshot s of Some sn \<Rightarrow> validateSnapshotSource sn | None \<Rightarrow> None))
      in case first of
           Some e \<Rightarrow> Some e
         | None \<Rightarrow>
             if ls_Base s \<and> (ls_Workload s \<noteq> None \<or> ls_Boot s = None) then Some SpecBase
             else if ls_Boot s \<noteq> None \<and> ls_Workload s = None \<and> \<not> ls_Base s then Some SpecNoWorkload
             else validateIdentity s)"

definition ValidateSpec :: "LauncherSpec \<Rightarrow> SpecError option" where
  "ValidateSpec s =
     (if ls_VCPU s < 1 \<or> ls_VCPU s > 32 then Some (SpecVCPU (ls_VCPU s))
      else if ls_MemoryMiB s < 128 then Some (SpecMemory (ls_MemoryMiB s))
      else if \<not> IsAbs (ls_ImageDisk s) \<or> \<not> IsAbs (ls_WritableDisk s) \<or> \<not> IsAbs (ls_WorkDir s) then Some SpecDiskPaths
      else if ls_CPUTemplate s \<noteq> '''' \<and> \<not> IsAbs (ls_CPUTemplate s) then Some SpecCPUTemplate
      else if ls_WritableBytes s \<le> 0 then Some SpecWritableBytes
      else if ls_WorkspaceDevice s \<noteq> '''' \<and> \<not> IsAbs (ls_WorkspaceDevice s) then Some SpecWorkspace
      else validateSource s)"

section \<open>Names and paths\<close>

abbreviation SandboxLabelKey :: string where "SandboxLabelKey \<equiv> ''setec.zeroroot.ai/sandbox''"
definition WorkspacePVCName :: "string \<Rightarrow> string" where "WorkspacePVCName sandboxName = sandboxName @ ''-workspace''"
abbreviation KVMResource :: string where "KVMResource \<equiv> ''setec.zeroroot.ai/kvm''"
abbreviation TunResource :: string where "TunResource \<equiv> ''setec.zeroroot.ai/tun''"
abbreviation LauncherMemoryOverhead :: quantity where "LauncherMemoryOverhead \<equiv> whole 268435456"
definition IdentitySecretName :: "string \<Rightarrow> string" where "IdentitySecretName sandbox = sandbox @ ''-identity''"
abbreviation BaseLabel :: string where "BaseLabel \<equiv> ''setec.zeroroot.ai/base''"

section \<open>The Pod\<close>

record LauncherIdentity =
  li_SandboxID :: string
  li_Client :: string
  li_Tenant :: string
  li_Generation :: int

record LauncherOptions =
  lo_Identity :: "LauncherIdentity option"
  lo_Image :: string
  lo_Scratch :: quantity
  lo_Requests :: "ResourceRequests option"
  lo_DiskRepo :: string
  lo_DiskKeys :: "string list"
  lo_DiskKeyID :: string
  lo_ResolverIPs :: "string list"
  lo_Restore :: bool
  lo_Base :: bool
  lo_FromBase :: bool
  lo_NodeName :: string
  lo_InstanceType :: string
  lo_CPUTemplate :: string

type_synonym ResourceList = "string \<rightharpoonup> quantity"

record VolumeMount =
  vm_Name :: string
  vm_MountPath :: string
  vm_ReadOnly :: bool

datatype VolumeSource = EmptyDir quantity | ImageVolume string | SecretVolume string int | ClaimVolume string

text \<open>
  The launcher Pod as the operator builds it: its one container is part of the record. The container
  always sets a readiness probe that runs \<open>setec-launcher ready\<close>.
\<close>

record PodManifest =
  pm_Name :: string
  pm_Namespace :: string
  pm_Labels :: strmap
  pm_Annotations :: strmap
  pm_Owner :: "(string \<times> string) option" \<comment> \<open>name and UID of the Sandbox that controls it\<close>
  pm_RestartPolicy :: string
  pm_AutomountServiceAccountToken :: bool
  pm_EnableServiceLinks :: bool
  pm_Seccomp :: string
  pm_ContainerName :: string
  pm_Image :: string
  pm_Spec :: LauncherSpec \<comment> \<open>the value of \<open>SETEC_LAUNCHER_SPEC\<close>\<close>
  pm_Limits :: ResourceList
  pm_Requests :: ResourceList
  pm_RunAsUser :: int
  pm_AllowPrivilegeEscalation :: bool
  pm_ReadOnlyRootFilesystem :: bool
  pm_CapDrop :: "string list"
  pm_CapAdd :: "string list"
  pm_VolumeMounts :: "VolumeMount list"
  pm_VolumeDevices :: "(string \<times> string) list"
  pm_Volumes :: "(string \<times> VolumeSource) list"
  pm_NodeExpressions :: "(string \<times> string list) list" \<comment> \<open>required node labels, each one of a list of values\<close>
  pm_NodeFields :: "(string \<times> string \<times> string list) list" \<comment> \<open>a field of the node, an operator and values\<close>
  pm_NodeSelector :: strmap
  pm_Tolerations :: "Toleration list"
  pm_Nameservers :: "string list option" \<comment> \<open>the DNS servers when the policy is \<open>None\<close>\<close>

datatype PodspecError =
    PodspecNilSandbox | PodspecMissingName | PodspecNoImage | PodspecNoDisk | PodspecNoDigest string
  | PodspecDisk DiskError | PodspecVCPU int | PodspecMemory quantity

definition checkLauncherInputs :: "Names \<Rightarrow> Sandbox option \<Rightarrow> LauncherOptions \<Rightarrow> PodspecError + string" where
  "checkLauncherInputs nm sbo opts = (case sbo of
      None \<Rightarrow> Inl PodspecNilSandbox
    | Some sb \<Rightarrow>
        let spec = sb_Spec sb; res = sp_Resources spec
        in if sb_Name sb = '''' then Inl PodspecMissingName
           else if lo_Image opts = '''' then Inl PodspecNoImage
           else if lo_DiskRepo opts = '''' \<or> lo_DiskKeys opts = [] \<or> lo_DiskKeyID opts = '''' then Inl PodspecNoDisk
           else if \<not> str_Contains (sp_Image spec) ''@sha256:'' then Inl (PodspecNoDigest (sp_Image spec))
           else (case DiskRef nm (lo_DiskRepo opts) (sp_Image spec) (lo_DiskKeyID opts) of
                   Inl e \<Rightarrow> Inl (PodspecDisk e)
                 | Inr diskRef \<Rightarrow>
                     if res_VCPU res < 1 then Inl (PodspecVCPU (res_VCPU res))
                     else if res_Memory res \<le> 0 then Inl (PodspecMemory (res_Memory res))
                     else Inr diskRef))"

text \<open>\<open>Quantity.Value\<close> rounds up to whole units.\<close>

definition quantity_Value :: "quantity \<Rightarrow> int" where
  "quantity_Value q = (q + 999999999) div 1000000000"

definition buildLauncherSpec :: "Sandbox \<Rightarrow> LauncherOptions \<Rightarrow> quantity \<Rightarrow> LauncherSpec" where
  "buildLauncherSpec sb opts work =
     (let spec = sb_Spec sb; res = sp_Resources spec; snapshot = lo_Restore opts \<or> lo_FromBase opts
      in \<lparr>ls_VCPU = res_VCPU res, ls_MemoryMiB = quantity_Value (res_Memory res) div 1048576,
          ls_ImageDisk = ''/disk/'' @ DiskFile, ls_DiskSignature = ''/disk/'' @ SignatureFile,
          ls_ImageRef = sp_Image spec, ls_DiskKeys = lo_DiskKeys opts,
          ls_WritableDisk = ''/work/writable.ext4'', ls_WritableBytes = quantity_Value work,
          ls_WorkspaceDevice = (if IsSession spec then ''/dev/setec-workspace'' else ''''),
          ls_Boot = (if snapshot then None
                     else Some \<lparr>bs_Kernel = ''/opt/setec/vmlinux'', bs_Initrd = ''/opt/setec/initrd.cpio'', bs_BootArgs = ''console=ttyS0 reboot=k panic=1 pci=off setec.lowerfs=squashfs''\<rparr>),
          ls_Snapshot = (if snapshot
             then Some \<lparr>ss_State = ''/work/vm/restore/state.bin'', ss_Memory = ''/work/vm/restore/memory.bin'', ss_Staged = ''/work/vm/restore/staged'',
                       ss_Evidence = ''/work/vm/restore/evidence.json'', ss_TakenAt = ''/work/vm/restore/taken-at'', ss_ImageDisk = ''/work/vm/restore/image-disk.sha256''\<rparr>
             else None),
          ls_CPUTemplate = (if lo_CPUTemplate opts \<noteq> '''' then ''/opt/setec/cpu-templates/'' @ lo_CPUTemplate opts @ ''.json'' else ''''),
          ls_WorkDir = ''/work/vm'', ls_Base = lo_Base opts,
          ls_Workload = (if \<not> lo_Restore opts \<and> \<not> lo_Base opts
             then Some \<lparr>lp_Argv = sp_Command spec,
                       lp_Env = map (\<lambda>e. ev_Name e @ ''='' @ ev_Value e) (filter (\<lambda>e. \<not> ev_ValueFrom e) (sp_Env spec))\<rparr>
             else None),
          ls_Identity = (case lo_Identity opts of
             Some i \<Rightarrow> if lo_Base opts then None
               else Some \<lparr>is_SandboxID = li_SandboxID i, is_Client = li_Client i, is_Tenant = li_Tenant i, is_KeyFile = ''/etc/setec/identity/seed'',
                         is_Generation = li_Generation i, is_GenerationFile = ''/work/identity-generation''\<rparr>
           | None \<Rightarrow> None)\<rparr>)"

definition lowerRequest :: "ResourceList \<Rightarrow> string \<Rightarrow> quantity option \<Rightarrow> ResourceList \<Rightarrow> ResourceList" where
  "lowerRequest limits n q requests = (case limits n of
      Some l \<Rightarrow> (case q of Some v \<Rightarrow> if v < l then requests(n \<mapsto> v) else requests | None \<Rightarrow> requests)
    | None \<Rightarrow> requests)"

definition launcherRequests :: "ResourceList \<Rightarrow> ResourceRequests option \<Rightarrow> ResourceList" where
  "launcherRequests limits req =
     (let requests = (if limits ''ephemeral-storage'' \<noteq> None then limits(''ephemeral-storage'' \<mapsto> EphemeralHeadroom) else limits)
      in case req of
           None \<Rightarrow> requests
         | Some r \<Rightarrow> lowerRequest limits ''memory'' (rr_Memory r) (lowerRequest limits ''cpu'' (rr_CPU r) requests))"

definition launcherLimits :: "Resources \<Rightarrow> quantity \<Rightarrow> ResourceList" where
  "launcherLimits res workDir =
     [''cpu'' \<mapsto> whole (res_VCPU res), ''memory'' \<mapsto> res_Memory res + LauncherMemoryOverhead, KVMResource \<mapsto> whole 1, TunResource \<mapsto> whole 1,
      ''ephemeral-storage'' \<mapsto> EphemeralLimit workDir]"

definition launcherPod :: "Sandbox \<Rightarrow> LauncherOptions \<Rightarrow> string \<Rightarrow> quantity \<Rightarrow> PodManifest" where
  "launcherPod sb opts diskRef work =
     (let workDir = work + 2 * gibibyte;
          limits = launcherLimits (sp_Resources (sb_Spec sb)) workDir;
          spec = buildLauncherSpec sb opts work;
          identity = ls_Identity spec \<noteq> None;
          session = IsSession (sb_Spec sb)
      in \<lparr>pm_Name = sb_Name sb @ ''-vm'', pm_Namespace = sb_Namespace sb, pm_Labels = [SandboxLabelKey \<mapsto> sb_Name sb], pm_Annotations = Map.empty,
             pm_Owner = Some (sb_Name sb, om_UID (sb_Meta sb)), pm_RestartPolicy = ''Never'', pm_AutomountServiceAccountToken = False,
             pm_EnableServiceLinks = False, pm_Seccomp = ''RuntimeDefault'', pm_ContainerName = ''launcher'', pm_Image = lo_Image opts,
             pm_Spec = spec, pm_Limits = limits, pm_Requests = launcherRequests limits (lo_Requests opts),
             pm_RunAsUser = 0, pm_AllowPrivilegeEscalation = False, pm_ReadOnlyRootFilesystem = True,
             pm_CapDrop = [''ALL''], pm_CapAdd = [''NET_ADMIN''],
             pm_VolumeMounts = [\<lparr>vm_Name = ''work'', vm_MountPath = ''/work'', vm_ReadOnly = False\<rparr>,
                \<lparr>vm_Name = ''disk'', vm_MountPath = ''/disk'', vm_ReadOnly = True\<rparr>]
                @ (if identity then [\<lparr>vm_Name = ''identity'', vm_MountPath = ''/etc/setec/identity'', vm_ReadOnly = True\<rparr>] else []),
             pm_VolumeDevices = (if session then [(''workspace'', ''/dev/setec-workspace'')] else []),
             pm_Volumes = [(''work'', EmptyDir workDir), (''disk'', ImageVolume diskRef)]
                @ (if identity then [(''identity'', SecretVolume (IdentitySecretName (sb_Name sb)) 256)] else [])
                @ (if session then [(''workspace'', ClaimVolume (WorkspacePVCName (sb_Name sb)))] else []),
             pm_NodeExpressions = [(''kubernetes.io/arch'', [''amd64''])]
                @ (if lo_InstanceType opts \<noteq> '''' then [(''node.kubernetes.io/instance-type'', [lo_InstanceType opts])] else []),
             pm_NodeFields = (if lo_NodeName opts \<noteq> '''' then [(''metadata.name'', ''In'', [lo_NodeName opts])] else []),
             pm_NodeSelector = Map.empty, pm_Tolerations = [],
             pm_Nameservers = (if lo_ResolverIPs opts \<noteq> [] then Some (lo_ResolverIPs opts) else None)\<rparr>)"

definition BuildLauncher :: "Names \<Rightarrow> Sandbox option \<Rightarrow> LauncherOptions \<Rightarrow> PodspecError + PodManifest" where
  "BuildLauncher nm sbo opts = (case checkLauncherInputs nm sbo opts of
      Inl e \<Rightarrow> Inl e
    | Inr diskRef \<Rightarrow> Inr (launcherPod (the sbo) opts diskRef (if lo_Scratch opts = 0 then 10 * gibibyte else lo_Scratch opts)))"

definition BuildLauncherBase :: "Names \<Rightarrow> string \<Rightarrow> string \<Rightarrow> string \<Rightarrow> Resources \<Rightarrow> LauncherOptions \<Rightarrow> PodspecError + PodManifest" where
  "BuildLauncherBase nm name namespace img res opts =
     (let sb = zero_Sandbox\<lparr>sb_Meta := zero_ObjectMeta\<lparr>om_Name := name, om_Namespace := namespace\<rparr>,
                 sb_Spec := zero_SandboxSpec\<lparr>sp_Image := img, sp_Resources := res\<rparr>\<rparr>
      in case BuildLauncher nm (Some sb) (opts\<lparr>lo_Base := True, lo_Restore := False, lo_FromBase := False, lo_Requests := None\<rparr>) of
           Inl e \<Rightarrow> Inl e
         | Inr pod \<Rightarrow> Inr (pod\<lparr>pm_Name := name, pm_Owner := None, pm_Labels := [BaseLabel \<mapsto> ''true'']\<rparr>))"

section \<open>What the launcher accepts\<close>

text \<open>The paths that the operator writes are absolute, so only the sizes and the id of the identity can be refused.\<close>

lemma IsAbs_Cons [simp]: "IsAbs (c # s) \<longleftrightarrow> c = CHR ''/''" "\<not> IsAbs []"
  by (simp_all add: IsAbs_def str_HasPrefix_def)

lemma buildLauncherSpec_sizes [simp]:
  "ls_VCPU (buildLauncherSpec sb opts work) = res_VCPU (sp_Resources (sb_Spec sb))"
  "ls_MemoryMiB (buildLauncherSpec sb opts work) = quantity_Value (res_Memory (sp_Resources (sb_Spec sb))) div 1048576"
  "ls_WritableBytes (buildLauncherSpec sb opts work) = quantity_Value work"
  by (simp_all add: buildLauncherSpec_def Let_def)

lemma launcherPod_parts [simp]:
  "pm_Spec (launcherPod sb opts diskRef work) = buildLauncherSpec sb opts work"
  "pm_Limits (launcherPod sb opts diskRef work) = launcherLimits (sp_Resources (sb_Spec sb)) (work + 2 * gibibyte)"
  "pm_Requests (launcherPod sb opts diskRef work) =
     launcherRequests (launcherLimits (sp_Resources (sb_Spec sb)) (work + 2 * gibibyte)) (lo_Requests opts)"
  by (simp_all add: launcherPod_def Let_def)

lemma built_source_valid:
  "validateSource (buildLauncherSpec sb opts work) = None \<longleftrightarrow>
     \<not> (lo_Base opts \<and> (lo_Restore opts \<or> lo_FromBase opts)) \<and> (\<forall>i. lo_Identity opts = Some i \<and> \<not> lo_Base opts \<longrightarrow> li_SandboxID i \<noteq> '''')"
  by (simp add: validateSource_def validateSnapshotSource_def validateIdentity_def buildLauncherSpec_def Let_def split: option.split) auto

lemma built_spec_valid:
  "ValidateSpec (buildLauncherSpec sb opts work) = None \<longleftrightarrow>
     (let s = buildLauncherSpec sb opts work in
      1 \<le> ls_VCPU s \<and> ls_VCPU s \<le> 32 \<and> 128 \<le> ls_MemoryMiB s \<and> 0 < ls_WritableBytes s \<and> validateSource s = None)"
proof -
  let ?s = "buildLauncherSpec sb opts work"
  have "IsAbs (ls_ImageDisk ?s)" "IsAbs (ls_WritableDisk ?s)" "IsAbs (ls_WorkDir ?s)"
    "ls_CPUTemplate ?s = '''' \<or> IsAbs (ls_CPUTemplate ?s)" "ls_WorkspaceDevice ?s = '''' \<or> IsAbs (ls_WorkspaceDevice ?s)"
    by (simp_all add: buildLauncherSpec_def Let_def)
  then show ?thesis unfolding ValidateSpec_def Let_def by auto
qed

lemma BuildLauncher_ok:
  assumes "BuildLauncher nm (Some sb) opts = Inr pod"
  obtains diskRef work where "DiskRef nm (lo_DiskRepo opts) (sp_Image (sb_Spec sb)) (lo_DiskKeyID opts) = Inr diskRef"
    "work = (if lo_Scratch opts = 0 then 10 * gibibyte else lo_Scratch opts)" "pod = launcherPod sb opts diskRef work"
    "1 \<le> res_VCPU (sp_Resources (sb_Spec sb))" "0 < res_Memory (sp_Resources (sb_Spec sb))"
  using assms by (auto simp: BuildLauncher_def checkLauncherInputs_def Let_def split: sum.splits if_splits)

text \<open>
  C34. The operator and the launcher agree on a machine: the launcher accepts the spec of a Pod that
  the operator built exactly when the Sandbox asks for at most 32 CPUs, at least 128 MiB and a
  positive scratch size, the Pod is not both a base and a restore, and its identity names the Sandbox.
  The builder checks none of these, so a smaller machine gets a Pod that its launcher refuses.
\<close>
theorem launcher_accepts_exact:
  assumes "BuildLauncher nm (Some sb) opts = Inr pod"
  shows "ValidateSpec (pm_Spec pod) = None \<longleftrightarrow>
    res_VCPU (sp_Resources (sb_Spec sb)) \<le> 32 \<and> whole (128 * 1048576 - 1) < res_Memory (sp_Resources (sb_Spec sb)) \<and> 0 \<le> lo_Scratch opts \<and>
    \<not> (lo_Base opts \<and> (lo_Restore opts \<or> lo_FromBase opts)) \<and>
    (\<forall>i. lo_Identity opts = Some i \<and> \<not> lo_Base opts \<longrightarrow> li_SandboxID i \<noteq> '''')"
  using assms
proof (rule BuildLauncher_ok)
  fix diskRef work
  assume b: "work = (if lo_Scratch opts = 0 then 10 * gibibyte else lo_Scratch opts)" "pod = launcherPod sb opts diskRef work"
    "1 \<le> res_VCPU (sp_Resources (sb_Spec sb))"
  have "0 < quantity_Value work \<longleftrightarrow> 0 \<le> lo_Scratch opts" using b(1) by (auto simp: quantity_Value_def)
  moreover have "128 \<le> quantity_Value m div 1048576 \<longleftrightarrow> whole (128 * 1048576 - 1) < m" for m by (auto simp: quantity_Value_def)
  ultimately show ?thesis using b(3) unfolding b(2) launcherPod_parts built_spec_valid Let_def built_source_valid buildLauncherSpec_sizes by blast
qed

definition within :: "ResourceList \<Rightarrow> ResourceList \<Rightarrow> bool" where
  "within requests limits \<longleftrightarrow> (\<forall>r v. requests r = Some v \<longrightarrow> (\<exists>l. limits r = Some l \<and> v \<le> l))"

lemma lowerRequest_within: "within requests limits \<Longrightarrow> within (lowerRequest limits n q requests) limits"
  by (auto simp: lowerRequest_def within_def split: option.splits if_splits)

lemma launcherRequests_within:
  assumes "limits ''ephemeral-storage'' = Some e" "EphemeralHeadroom \<le> e"
  shows "within (launcherRequests limits req) limits"
proof -
  have "within (limits(''ephemeral-storage'' \<mapsto> EphemeralHeadroom)) limits" using assms by (auto simp: within_def)
  then show ?thesis
    using assms(1) by (auto simp: launcherRequests_def Let_def split: option.splits intro: lowerRequest_within)
qed

text \<open>
  C35. The Pod of a machine is large enough for it and small for its node: its memory limit covers the
  memory of the machine and the overhead of the launcher, its storage limit covers the writable
  layer, every request has a limit that is not smaller, and the requests of the two devices equal
  their limits, as an extended resource needs.
\<close>
theorem launcher_pod_bounds:
  assumes "BuildLauncher nm (Some sb) opts = Inr pod" "0 \<le> lo_Scratch opts"
  shows "(\<exists>m. pm_Limits pod ''memory'' = Some m \<and> whole (ls_MemoryMiB (pm_Spec pod) * 1048576) < m - LauncherMemoryOverhead + whole 1) \<and>
    (\<exists>e. pm_Limits pod ''ephemeral-storage'' = Some e \<and> whole (ls_WritableBytes (pm_Spec pod)) \<le> e) \<and>
    within (pm_Requests pod) (pm_Limits pod) \<and>
    (\<forall>r\<in>{KVMResource, TunResource}. pm_Requests pod r = pm_Limits pod r \<and> pm_Limits pod r = Some (whole 1))"
  using assms(1)
proof (rule BuildLauncher_ok)
  fix diskRef work
  let ?r = "sp_Resources (sb_Spec sb)"
  assume b: "work = (if lo_Scratch opts = 0 then 10 * gibibyte else lo_Scratch opts)" "pod = launcherPod sb opts diskRef work" "0 < res_Memory ?r"
  have w: "0 < work" using b(1) assms(2) by auto
  let ?l = "launcherLimits ?r (work + 2 * gibibyte)"
  have lim: "?l ''memory'' = Some (res_Memory ?r + LauncherMemoryOverhead)" "?l ''ephemeral-storage'' = Some (work + 2 * gibibyte + EphemeralHeadroom)"
    "?l KVMResource = Some (whole 1)" "?l TunResource = Some (whole 1)"
    by (simp_all add: launcherLimits_def EphemeralLimit_def)
  have "whole (quantity_Value (res_Memory ?r) div 1048576 * 1048576) < res_Memory ?r + whole 1" by (simp add: quantity_Value_def)
  moreover have "whole (quantity_Value work) \<le> work + 2 * gibibyte + EphemeralHeadroom"
    using w by (simp add: quantity_Value_def)
  moreover have "within (launcherRequests ?l (lo_Requests opts)) ?l"
    using w launcherRequests_within [of ?l, OF lim(2)] by simp
  moreover have "launcherRequests ?l (lo_Requests opts) r = ?l r" if "r \<in> {KVMResource, TunResource}" for r
    using that by (auto simp: launcherRequests_def Let_def lowerRequest_def split: option.splits)
  ultimately show ?thesis unfolding b(2) using lim by simp
qed

section \<open>Instances\<close>

definition ex_pod_sandbox :: Sandbox where
  "ex_pod_sandbox = zero_Sandbox\<lparr>sb_Meta := zero_ObjectMeta\<lparr>om_Name := ''box''\<rparr>,
     sb_Spec := zero_SandboxSpec\<lparr>sp_Image := ex_disk_ref, sp_Resources := \<lparr>res_VCPU = 2, res_Memory = whole (64 * 1048576), res_Scratch = None\<rparr>\<rparr>\<rparr>"

definition ex_pod_opts :: LauncherOptions where
  "ex_pod_opts = \<lparr>lo_Identity = None, lo_Image = ''launcher'', lo_Scratch = 0, lo_Requests = None, lo_DiskRepo = ''disks'', lo_DiskKeys = [''k''],
     lo_DiskKeyID = ''0123456789abcdef'', lo_ResolverIPs = [], lo_Restore = False, lo_Base = False, lo_FromBase = False, lo_NodeName = '''',
     lo_InstanceType = '''', lo_CPUTemplate = ''''\<rparr>"

definition ex_pod :: PodManifest where
  "ex_pod = projr (BuildLauncher ex_names (Some ex_pod_sandbox) ex_pod_opts)"

lemma ex_pod_built: "BuildLauncher ex_names (Some ex_pod_sandbox) ex_pod_opts = Inr ex_pod"
proof -
  have "validKeyID ''0123456789abcdef''" by (simp add: validKeyID_def is_lower_hex_def hexDigits_def)
  then obtain d where d: "DiskRef ex_names ''disks'' ex_disk_ref ''0123456789abcdef'' = Inr d"
    by (simp add: DiskRef_def ex_disk_parse diskTag_def) (simp add: ex_names_def)
  have "str_Contains ex_disk_ref ''@sha256:''" by (simp add: ex_disk_ref_def str_HasPrefix_def)
  with d have "checkLauncherInputs ex_names (Some ex_pod_sandbox) ex_pod_opts = Inr d"
    by (simp add: checkLauncherInputs_def ex_pod_sandbox_def ex_pod_opts_def zero_defs Let_def)
  then show ?thesis by (simp add: ex_pod_def BuildLauncher_def Let_def)
qed

theorem launcher_accepts_exact_witness: "ValidateSpec (pm_Spec ex_pod) \<noteq> None"
  using launcher_accepts_exact [OF ex_pod_built] by (simp add: ex_pod_sandbox_def zero_defs)

theorem launcher_pod_bounds_witness:
  "(\<exists>e. pm_Limits ex_pod ''ephemeral-storage'' = Some e \<and> whole (ls_WritableBytes (pm_Spec ex_pod)) \<le> e) \<and> pm_Requests ex_pod KVMResource = Some (whole 1)"
proof -
  have "0 \<le> lo_Scratch ex_pod_opts" by (simp add: ex_pod_opts_def)
  from launcher_pod_bounds [OF ex_pod_built this] show ?thesis by auto
qed

end
