(* ===== verification/World.thy ===== *)
theory World
  imports Podspec Netpol_Policy "HOL-Library.State_Monad"
begin

text \<open>
  The cluster as the operator sees it. The Kubernetes API, the node agents, the clock and the random
  source are parameters: an \<open>Env\<close> answers every call, and its answer may depend on the whole history
  of calls, so that other actors can change anything between two calls of one operation. An operation
  is a program of the state monad over the history; each call appends one event with its request and
  its answer. Nothing here models a file of the repository, except the messages of the node agent
  service. The second half holds the proof rules: a weakest precondition that follows the structure of
  a program, and frame rules for helpers that only emit events of some kind.
\<close>

section \<open>Objects\<close>

record Namespace =
  nsp_Meta :: ObjectMeta

record ConfigMap =
  cm_Meta :: ObjectMeta
  cm_Data :: strmap

text \<open>A Job as the operator sends it: its containers, and the volumes of its Pod.\<close>

record JobContainer =
  jn_Name :: string
  jn_Image :: string
  jn_Args :: "string list"
  jn_Env :: "(string \<times> string) list"
  jn_Mounts :: "VolumeMount list"

datatype JobVolume = JobEmptyDir quantity | JobSecret string | JobConfigMap string

record JobManifest =
  jm_Name :: string
  jm_Namespace :: string
  jm_Labels :: strmap
  jm_BackoffLimit :: int
  jm_TTLSecondsAfterFinished :: int
  jm_RestartPolicy :: string
  jm_AutomountServiceAccountToken :: bool
  jm_RunAsNonRoot :: bool
  jm_RunAsUser :: int
  jm_Seccomp :: string
  jm_NodeSelector :: strmap
  jm_InitContainers :: "JobContainer list"
  jm_Containers :: "JobContainer list"
  jm_Volumes :: "(string \<times> JobVolume) list"

datatype Kind = KSandbox | KClass | KSnapshot | KPod | KNode | KNamespace | KSecret | KClaim | KJob | KConfigMap | KNetworkPolicy

datatype Object =
    OSandbox Sandbox
  | OClass SandboxClass
  | OSnapshot Snapshot
  | OPod Pod
  | OManifest PodManifest \<comment> \<open>a launcher Pod as the operator sends it\<close>
  | ONode Node
  | ONamespace Namespace
  | OSecret Secret
  | OClaim PersistentVolumeClaim
  | OJob Job
  | OJobManifest JobManifest
  | OConfigMap ConfigMap
  | ONetworkPolicy NetworkPolicy

type_synonym key = "string \<times> string"

text \<open>What a list asks for: everything, the objects of a namespace with some labels or with a value of an indexed field, or all that carry a label.\<close>

datatype Selector = AllObjects | MatchingLabels string "(string \<times> string) list" | MatchingField string string string | HasLabel string

section \<open>Calls to a node agent\<close>

record CreateSnapshotRequest =
  csr_SandboxId :: string
  csr_SnapshotId :: string
  csr_StorageBackend :: string
  csr_SourcePodUid :: string
  csr_ParentStorageRef :: string
  csr_SessionKek :: bytes
  csr_LeavePaused :: bool
  csr_ScanForSecrets :: bool
  csr_IdentityGeneration :: int

record CreateSnapshotResponse =
  csp_StorageRef :: string
  csp_SizeBytes :: int64
  csp_CleanBaseVerified :: bool

record RestoreSandboxRequest =
  rsr_SnapshotId :: string
  rsr_StorageRef :: string
  rsr_StorageBackend :: string
  rsr_TargetPodUid :: string
  rsr_SandboxId :: string
  rsr_PodIp :: string
  rsr_Hostname :: string
  rsr_StateTakenUnixNano :: int
  rsr_SessionKek :: bytes

record RestoreSandboxResponse =
  rsp_Success :: bool
  rsp_Error :: string
  rsp_EntropyReseeded :: bool
  rsp_Uniquified :: bool
  rsp_EncryptedAtRest :: bool

record TargetRequest = \<comment> \<open>pause and resume\<close>
  tr_SandboxId :: string
  tr_TargetPodUid :: string

record PlainResponse = \<comment> \<open>pause, resume and delete\<close>
  pr_Success :: bool
  pr_Error :: string

record DeleteSnapshotRequest =
  dsr_SnapshotId :: string
  dsr_StorageRef :: string
  dsr_StorageBackend :: string

text \<open>An error of a dial or a call; \<open>re_Unavailable\<close> says that it wraps \<open>ErrNodeAgentUnavailable\<close>.\<close>

record RpcError =
  re_Unavailable :: bool
  re_Message :: string

section \<open>Events and the environment\<close>

datatype Event =
    EvGet Kind key "ApiError + Object"
  | EvList Kind Selector "ApiError + Object list"
  | EvCreate Object "ApiError + Object"
  | EvPatch Object Object "ApiError + Object" \<comment> \<open>the original, the object sent, the object as the server has it\<close>
  | EvStatusPatch Object Object "ApiError + Object"
  | EvUpdate Object "ApiError + Object"
  | EvDelete Object "ApiError option"
  | EvDial string "RpcError option"
  | EvCreateSnapshot string CreateSnapshotRequest "RpcError + CreateSnapshotResponse"
  | EvRestore string RestoreSandboxRequest "RpcError + RestoreSandboxResponse"
  | EvPause string TargetRequest "RpcError + PlainResponse"
  | EvResume string TargetRequest "RpcError + PlainResponse"
  | EvDeleteSnapshot string DeleteSnapshotRequest "RpcError + PlainResponse"
  | EvRecord string key string string \<comment> \<open>a recorded Event: object kind and key, type, reason\<close>
  | EvNow gotime
  | EvRand nat "bytes option"

type_synonym history = "Event list"

record Env =
  e_Get :: "history \<Rightarrow> Kind \<Rightarrow> key \<Rightarrow> ApiError + Object"
  e_List :: "history \<Rightarrow> Kind \<Rightarrow> Selector \<Rightarrow> ApiError + Object list"
  e_Create :: "history \<Rightarrow> Object \<Rightarrow> ApiError + Object"
  e_Patch :: "history \<Rightarrow> Object \<Rightarrow> Object \<Rightarrow> ApiError + Object"
  e_StatusPatch :: "history \<Rightarrow> Object \<Rightarrow> Object \<Rightarrow> ApiError + Object"
  e_Update :: "history \<Rightarrow> Object \<Rightarrow> ApiError + Object"
  e_Delete :: "history \<Rightarrow> Object \<Rightarrow> ApiError option"
  e_Dial :: "history \<Rightarrow> string \<Rightarrow> RpcError option"
  e_CreateSnapshot :: "history \<Rightarrow> string \<Rightarrow> CreateSnapshotRequest \<Rightarrow> RpcError + CreateSnapshotResponse"
  e_Restore :: "history \<Rightarrow> string \<Rightarrow> RestoreSandboxRequest \<Rightarrow> RpcError + RestoreSandboxResponse"
  e_Pause :: "history \<Rightarrow> string \<Rightarrow> TargetRequest \<Rightarrow> RpcError + PlainResponse"
  e_Resume :: "history \<Rightarrow> string \<Rightarrow> TargetRequest \<Rightarrow> RpcError + PlainResponse"
  e_DeleteSnapshot :: "history \<Rightarrow> string \<Rightarrow> DeleteSnapshotRequest \<Rightarrow> RpcError + PlainResponse"
  e_Now :: "history \<Rightarrow> gotime"
  e_Rand :: "history \<Rightarrow> nat \<Rightarrow> bytes option"

type_synonym 'a io = "(history, 'a) state"

abbreviation ret :: "'a \<Rightarrow> 'a io" where "ret \<equiv> State_Monad.return"

definition call :: "(history \<Rightarrow> 'r) \<Rightarrow> ('r \<Rightarrow> Event) \<Rightarrow> 'r io" where
  "call ask ev = State (\<lambda>h. let r = ask h in (r, h @ [ev r]))"

text \<open>A typed read decodes the answer into the type of the target, and an answer of another kind is an error.\<close>

definition decode :: "(Object \<Rightarrow> 'a option) \<Rightarrow> ApiError + Object \<Rightarrow> ApiError + 'a" where
  "decode f r = (case r of Inl e \<Rightarrow> Inl e | Inr obj \<Rightarrow> (case f obj of Some x \<Rightarrow> Inr x | None \<Rightarrow> Inl (ApiOther ''kind'')))"

definition asSandbox :: "Object \<Rightarrow> Sandbox option" where "asSandbox x = (case x of OSandbox y \<Rightarrow> Some y | _ \<Rightarrow> None)"
definition asClass :: "Object \<Rightarrow> SandboxClass option" where "asClass x = (case x of OClass y \<Rightarrow> Some y | _ \<Rightarrow> None)"
definition asSnapshot :: "Object \<Rightarrow> Snapshot option" where "asSnapshot x = (case x of OSnapshot y \<Rightarrow> Some y | _ \<Rightarrow> None)"
definition asPod :: "Object \<Rightarrow> Pod option" where "asPod x = (case x of OPod y \<Rightarrow> Some y | _ \<Rightarrow> None)"
definition asNode :: "Object \<Rightarrow> Node option" where "asNode x = (case x of ONode y \<Rightarrow> Some y | _ \<Rightarrow> None)"
definition asNamespace :: "Object \<Rightarrow> Namespace option" where "asNamespace x = (case x of ONamespace y \<Rightarrow> Some y | _ \<Rightarrow> None)"
definition asSecret :: "Object \<Rightarrow> Secret option" where "asSecret x = (case x of OSecret y \<Rightarrow> Some y | _ \<Rightarrow> None)"
definition asClaim :: "Object \<Rightarrow> PersistentVolumeClaim option" where "asClaim x = (case x of OClaim y \<Rightarrow> Some y | _ \<Rightarrow> None)"
definition asJob :: "Object \<Rightarrow> Job option" where "asJob x = (case x of OJob y \<Rightarrow> Some y | _ \<Rightarrow> None)"
definition asConfigMap :: "Object \<Rightarrow> ConfigMap option" where "asConfigMap x = (case x of OConfigMap y \<Rightarrow> Some y | _ \<Rightarrow> None)"
definition asNetworkPolicy :: "Object \<Rightarrow> NetworkPolicy option" where "asNetworkPolicy x = (case x of ONetworkPolicy y \<Rightarrow> Some y | _ \<Rightarrow> None)"

section \<open>The calls\<close>

definition GetSandbox :: "Env \<Rightarrow> key \<Rightarrow> (ApiError + Sandbox) io" where
  "GetSandbox env k = do {r \<leftarrow> call (\<lambda>h. e_Get env h KSandbox k) (EvGet KSandbox k); ret (decode asSandbox r)}"
definition GetClass :: "Env \<Rightarrow> string \<Rightarrow> (ApiError + SandboxClass) io" where
  "GetClass env n = do {r \<leftarrow> call (\<lambda>h. e_Get env h KClass ('''', n)) (EvGet KClass ('''', n)); ret (decode asClass r)}"
definition GetSnapshot :: "Env \<Rightarrow> key \<Rightarrow> (ApiError + Snapshot) io" where
  "GetSnapshot env k = do {r \<leftarrow> call (\<lambda>h. e_Get env h KSnapshot k) (EvGet KSnapshot k); ret (decode asSnapshot r)}"
definition GetPod :: "Env \<Rightarrow> key \<Rightarrow> (ApiError + Pod) io" where
  "GetPod env k = do {r \<leftarrow> call (\<lambda>h. e_Get env h KPod k) (EvGet KPod k); ret (decode asPod r)}"
definition GetNode :: "Env \<Rightarrow> string \<Rightarrow> (ApiError + Node) io" where
  "GetNode env n = do {r \<leftarrow> call (\<lambda>h. e_Get env h KNode ('''', n)) (EvGet KNode ('''', n)); ret (decode asNode r)}"
definition GetNamespace :: "Env \<Rightarrow> string \<Rightarrow> (ApiError + Namespace) io" where
  "GetNamespace env n = do {r \<leftarrow> call (\<lambda>h. e_Get env h KNamespace ('''', n)) (EvGet KNamespace ('''', n)); ret (decode asNamespace r)}"
definition GetSecret :: "Env \<Rightarrow> key \<Rightarrow> (ApiError + Secret) io" where
  "GetSecret env k = do {r \<leftarrow> call (\<lambda>h. e_Get env h KSecret k) (EvGet KSecret k); ret (decode asSecret r)}"
definition GetClaim :: "Env \<Rightarrow> key \<Rightarrow> (ApiError + PersistentVolumeClaim) io" where
  "GetClaim env k = do {r \<leftarrow> call (\<lambda>h. e_Get env h KClaim k) (EvGet KClaim k); ret (decode asClaim r)}"
definition GetJob :: "Env \<Rightarrow> key \<Rightarrow> (ApiError + Job) io" where
  "GetJob env k = do {r \<leftarrow> call (\<lambda>h. e_Get env h KJob k) (EvGet KJob k); ret (decode asJob r)}"
definition GetConfigMap :: "Env \<Rightarrow> key \<Rightarrow> (ApiError + ConfigMap) io" where
  "GetConfigMap env k = do {r \<leftarrow> call (\<lambda>h. e_Get env h KConfigMap k) (EvGet KConfigMap k); ret (decode asConfigMap r)}"
definition GetNetworkPolicy :: "Env \<Rightarrow> key \<Rightarrow> (ApiError + NetworkPolicy) io" where
  "GetNetworkPolicy env k = do {r \<leftarrow> call (\<lambda>h. e_Get env h KNetworkPolicy k) (EvGet KNetworkPolicy k); ret (decode asNetworkPolicy r)}"
definition ListObjs :: "Env \<Rightarrow> Kind \<Rightarrow> Selector \<Rightarrow> (Object \<Rightarrow> 'a option) \<Rightarrow> (ApiError + 'a list) io" where
  "ListObjs env kind sel as = do {r \<leftarrow> call (\<lambda>h. e_List env h kind sel) (EvList kind sel);
     ret (case r of Inl e \<Rightarrow> Inl e | Inr xs \<Rightarrow> Inr (List.map_filter as xs))}"
abbreviation ListNodes :: "Env \<Rightarrow> (ApiError + Node list) io" where "ListNodes env \<equiv> ListObjs env KNode AllObjects asNode"
definition CreateObj :: "Env \<Rightarrow> Object \<Rightarrow> (ApiError + Object) io" where
  "CreateObj env x = call (\<lambda>h. e_Create env h x) (EvCreate x)"
definition CreateSnapshotObj :: "Env \<Rightarrow> Snapshot \<Rightarrow> (ApiError + Snapshot) io" where
  "CreateSnapshotObj env s = do {r \<leftarrow> call (\<lambda>h. e_Create env h (OSnapshot s)) (EvCreate (OSnapshot s)); ret (decode asSnapshot r)}"
definition CreateSecret :: "Env \<Rightarrow> Secret \<Rightarrow> (ApiError + Secret) io" where
  "CreateSecret env s = do {r \<leftarrow> call (\<lambda>h. e_Create env h (OSecret s)) (EvCreate (OSecret s)); ret (decode asSecret r)}"
definition PatchSnapshot :: "Env \<Rightarrow> Snapshot \<Rightarrow> Snapshot \<Rightarrow> (ApiError + Snapshot) io" where
  "PatchSnapshot env original s =
     do {r \<leftarrow> call (\<lambda>h. e_Patch env h (OSnapshot original) (OSnapshot s)) (EvPatch (OSnapshot original) (OSnapshot s)); ret (decode asSnapshot r)}"
definition StatusPatchSnapshot :: "Env \<Rightarrow> Snapshot \<Rightarrow> Snapshot \<Rightarrow> (ApiError + Snapshot) io" where
  "StatusPatchSnapshot env original s =
     do {r \<leftarrow> call (\<lambda>h. e_StatusPatch env h (OSnapshot original) (OSnapshot s)) (EvStatusPatch (OSnapshot original) (OSnapshot s)); ret (decode asSnapshot r)}"
definition StatusPatchSandbox :: "Env \<Rightarrow> Sandbox \<Rightarrow> Sandbox \<Rightarrow> (ApiError + Sandbox) io" where
  "StatusPatchSandbox env original s =
     do {r \<leftarrow> call (\<lambda>h. e_StatusPatch env h (OSandbox original) (OSandbox s)) (EvStatusPatch (OSandbox original) (OSandbox s)); ret (decode asSandbox r)}"
definition StatusPatchClass :: "Env \<Rightarrow> SandboxClass \<Rightarrow> SandboxClass \<Rightarrow> (ApiError + SandboxClass) io" where
  "StatusPatchClass env original s =
     do {r \<leftarrow> call (\<lambda>h. e_StatusPatch env h (OClass original) (OClass s)) (EvStatusPatch (OClass original) (OClass s)); ret (decode asClass r)}"
definition PatchSandbox :: "Env \<Rightarrow> Sandbox \<Rightarrow> Sandbox \<Rightarrow> (ApiError + Sandbox) io" where
  "PatchSandbox env original s =
     do {r \<leftarrow> call (\<lambda>h. e_Patch env h (OSandbox original) (OSandbox s)) (EvPatch (OSandbox original) (OSandbox s)); ret (decode asSandbox r)}"
definition PatchPod :: "Env \<Rightarrow> Pod \<Rightarrow> Pod \<Rightarrow> (ApiError + Pod) io" where
  "PatchPod env original s =
     do {r \<leftarrow> call (\<lambda>h. e_Patch env h (OPod original) (OPod s)) (EvPatch (OPod original) (OPod s)); ret (decode asPod r)}"
definition PatchNetworkPolicy :: "Env \<Rightarrow> NetworkPolicy \<Rightarrow> NetworkPolicy \<Rightarrow> (ApiError + NetworkPolicy) io" where
  "PatchNetworkPolicy env original s =
     do {r \<leftarrow> call (\<lambda>h. e_Patch env h (ONetworkPolicy original) (ONetworkPolicy s)) (EvPatch (ONetworkPolicy original) (ONetworkPolicy s));
         ret (decode asNetworkPolicy r)}"
definition UpdateSnapshot :: "Env \<Rightarrow> Snapshot \<Rightarrow> (ApiError + Snapshot) io" where
  "UpdateSnapshot env s = do {r \<leftarrow> call (\<lambda>h. e_Update env h (OSnapshot s)) (EvUpdate (OSnapshot s)); ret (decode asSnapshot r)}"
definition DeleteObj :: "Env \<Rightarrow> Object \<Rightarrow> ApiError option io" where
  "DeleteObj env x = call (\<lambda>h. e_Delete env h x) (EvDelete x)"
definition Dial :: "Env \<Rightarrow> string \<Rightarrow> RpcError option io" where
  "Dial env node = call (\<lambda>h. e_Dial env h node) (EvDial node)"
definition rpcCreateSnapshot :: "Env \<Rightarrow> string \<Rightarrow> CreateSnapshotRequest \<Rightarrow> (RpcError + CreateSnapshotResponse) io" where
  "rpcCreateSnapshot env node q = call (\<lambda>h. e_CreateSnapshot env h node q) (EvCreateSnapshot node q)"
definition rpcRestore :: "Env \<Rightarrow> string \<Rightarrow> RestoreSandboxRequest \<Rightarrow> (RpcError + RestoreSandboxResponse) io" where
  "rpcRestore env node q = call (\<lambda>h. e_Restore env h node q) (EvRestore node q)"
definition rpcPause :: "Env \<Rightarrow> string \<Rightarrow> TargetRequest \<Rightarrow> (RpcError + PlainResponse) io" where
  "rpcPause env node q = call (\<lambda>h. e_Pause env h node q) (EvPause node q)"
definition rpcResume :: "Env \<Rightarrow> string \<Rightarrow> TargetRequest \<Rightarrow> (RpcError + PlainResponse) io" where
  "rpcResume env node q = call (\<lambda>h. e_Resume env h node q) (EvResume node q)"
definition rpcDeleteSnapshot :: "Env \<Rightarrow> string \<Rightarrow> DeleteSnapshotRequest \<Rightarrow> (RpcError + PlainResponse) io" where
  "rpcDeleteSnapshot env node q = call (\<lambda>h. e_DeleteSnapshot env h node q) (EvDeleteSnapshot node q)"
definition recordEvent :: "string \<Rightarrow> key \<Rightarrow> string \<Rightarrow> string \<Rightarrow> unit io" where
  "recordEvent kind k t reason = call (\<lambda>_. ()) (\<lambda>_. EvRecord kind k t reason)"
definition timeNow :: "Env \<Rightarrow> gotime io" where
  "timeNow env = call (e_Now env) EvNow"
definition randRead :: "Env \<Rightarrow> nat \<Rightarrow> bytes option io" where
  "randRead env n = call (\<lambda>h. e_Rand env h n) (EvRand n)"

lemmas call_defs = GetSandbox_def GetClass_def GetSnapshot_def GetPod_def GetNode_def GetNamespace_def GetSecret_def GetClaim_def GetJob_def
  GetConfigMap_def GetNetworkPolicy_def ListObjs_def CreateObj_def
  CreateSnapshotObj_def CreateSecret_def PatchSnapshot_def StatusPatchSnapshot_def StatusPatchSandbox_def StatusPatchClass_def PatchSandbox_def
  PatchPod_def PatchNetworkPolicy_def UpdateSnapshot_def DeleteObj_def Dial_def
  rpcCreateSnapshot_def rpcRestore_def rpcPause_def rpcResume_def rpcDeleteSnapshot_def recordEvent_def timeNow_def randRead_def

section \<open>Proof rules\<close>

text \<open>
  \<open>wp m Q h t\<close>: when \<open>m\<close> runs after the history \<open>h\<close> of the world and the events \<open>t\<close> of the current
  operation, it only appends events, and its result and the events of the operation satisfy \<open>Q\<close>.
\<close>

definition wp :: "'a io \<Rightarrow> ('a \<Rightarrow> history \<Rightarrow> bool) \<Rightarrow> history \<Rightarrow> history \<Rightarrow> bool" where
  "wp m Q h t \<longleftrightarrow> (case run_state m (h @ t) of (a, h') \<Rightarrow> \<exists>t'. h' = h @ t @ t' \<and> Q a (t @ t'))"

named_theorems wp

lemma wp_ret [simp]: "wp (ret a) Q h t \<longleftrightarrow> Q a t"
  by (simp add: wp_def)

lemma wp_retI [wp]: "Q a t \<Longrightarrow> wp (ret a) Q h t"
  by simp

lemma wp_bind [wp]:
  assumes "wp m (\<lambda>a t. wp (f a) Q h t) h t"
  shows "wp (State_Monad.bind m f) Q h t"
proof -
  obtain a h1 where m: "run_state m (h @ t) = (a, h1)" by (cases "run_state m (h @ t)")
  with assms obtain t1 where t1: "h1 = h @ t @ t1" "wp (f a) Q h (t @ t1)" unfolding wp_def by auto
  obtain b h2 where f: "run_state (f a) (h @ t @ t1) = (b, h2)" by (cases "run_state (f a) (h @ t @ t1)")
  with t1(2) show ?thesis by (auto simp: wp_def m t1(1) State_Monad.bind_def)
qed

lemma wp_call [simp]: "wp (call ask ev) Q h t \<longleftrightarrow> Q (ask (h @ t)) (t @ [ev (ask (h @ t))])"
  by (simp add: wp_def call_def Let_def)

lemma wp_callI [wp]: "(\<And>r. Q r (t @ [ev r])) \<Longrightarrow> wp (call ask ev) Q h t"
  by simp

lemma wp_mono: "wp m R h t \<Longrightarrow> (\<And>a t'. R a t' \<Longrightarrow> Q a t') \<Longrightarrow> wp m Q h t"
  by (auto simp: wp_def split: prod.splits)

lemma wp_if [wp]: "(b \<Longrightarrow> wp m Q h t) \<Longrightarrow> (\<not> b \<Longrightarrow> wp m' Q h t) \<Longrightarrow> wp (if b then m else m') Q h t"
  by simp

lemma wp_sum [wp]: "(\<And>x. r = Inl x \<Longrightarrow> wp (f x) Q h t) \<Longrightarrow> (\<And>y. r = Inr y \<Longrightarrow> wp (g y) Q h t) \<Longrightarrow> wp (case r of Inl x \<Rightarrow> f x | Inr y \<Rightarrow> g y) Q h t"
  by (cases r) auto

lemma wp_option [wp]: "(r = None \<Longrightarrow> wp m Q h t) \<Longrightarrow> (\<And>y. r = Some y \<Longrightarrow> wp (g y) Q h t) \<Longrightarrow> wp (case r of None \<Rightarrow> m | Some y \<Rightarrow> g y) Q h t"
  by (cases r) auto

lemma wp_prod [wp]: "(\<And>x y. r = (x, y) \<Longrightarrow> wp (f x y) Q h t) \<Longrightarrow> wp (case r of (x, y) \<Rightarrow> f x y) Q h t"
  by (cases r) auto

lemma wp_run: "wp m Q h [] \<longleftrightarrow> (\<exists>t. snd (run_state m h) = h @ t \<and> Q (fst (run_state m h)) t)"
  by (auto simp: wp_def split: prod.splits)

text \<open>What a helper does from the start of its own events holds after any events.\<close>

lemma wp_frame:
  assumes "\<And>h. wp m R h []" "\<And>a u. R a u \<Longrightarrow> Q a (t @ u)"
  shows "wp m Q h t"
  using assms(1) [of "h @ t"] assms(2) by (auto simp: wp_def split: prod.splits)

text \<open>\<open>emits P m\<close>: every event of \<open>m\<close> satisfies \<open>P\<close>.\<close>

definition emits :: "(Event \<Rightarrow> bool) \<Rightarrow> 'a io \<Rightarrow> bool" where
  "emits P m \<longleftrightarrow> (\<forall>h t. wp m (\<lambda>_ t'. \<exists>u. t' = t @ u \<and> list_all P u) h t)"

named_theorems emits

lemma emits_ret [emits]: "emits P (ret a)"
  by (simp add: emits_def)

lemma emits_call [emits]: "(\<And>r. P (ev r)) \<Longrightarrow> emits P (call ask ev)"
  by (simp add: emits_def)

lemma emits_bind [emits]:
  assumes "emits P m" "\<And>a. emits P (f a)"
  shows "emits P (State_Monad.bind m f)"
  unfolding emits_def
proof (intro allI wp_bind)
  fix h t
  have "wp m (\<lambda>_ t'. \<exists>u. t' = t @ u \<and> list_all P u) h t" using assms(1) by (simp add: emits_def)
  then show "wp m (\<lambda>a t'. wp (f a) (\<lambda>_ t'. \<exists>u. t' = t @ u \<and> list_all P u) h t') h t"
  proof (rule wp_mono)
    fix a t'
    assume "\<exists>u. t' = t @ u \<and> list_all P u"
    then obtain u where u: "t' = t @ u" "list_all P u" by blast
    have "wp (f a) (\<lambda>_ t''. \<exists>v. t'' = t' @ v \<and> list_all P v) h t'" using assms(2) by (simp add: emits_def)
    then show "wp (f a) (\<lambda>_ t'. \<exists>u. t' = t @ u \<and> list_all P u) h t'" by (rule wp_mono) (use u in auto)
  qed
qed

lemma emits_if [emits]: "(b \<Longrightarrow> emits P m) \<Longrightarrow> (\<not> b \<Longrightarrow> emits P m') \<Longrightarrow> emits P (if b then m else m')"
  by simp

lemma emits_sum [emits]: "(\<And>x. r = Inl x \<Longrightarrow> emits P (f x)) \<Longrightarrow> (\<And>y. r = Inr y \<Longrightarrow> emits P (g y)) \<Longrightarrow> emits P (case r of Inl x \<Rightarrow> f x | Inr y \<Rightarrow> g y)"
  by (cases r) auto

lemma emits_option [emits]: "(r = None \<Longrightarrow> emits P m) \<Longrightarrow> (\<And>y. r = Some y \<Longrightarrow> emits P (g y)) \<Longrightarrow> emits P (case r of None \<Rightarrow> m | Some y \<Rightarrow> g y)"
  by (cases r) auto

lemma emits_prod [emits]: "(\<And>x y. r = (x, y) \<Longrightarrow> emits P (f x y)) \<Longrightarrow> emits P (case r of (x, y) \<Rightarrow> f x y)"
  by (cases r) auto

lemma emits_mono: "emits P m \<Longrightarrow> (\<And>e. P e \<Longrightarrow> P' e) \<Longrightarrow> emits P' m"
  unfolding emits_def by (blast intro: wp_mono list.pred_mono_strong)

text \<open>A helper whose events satisfy \<open>P\<close> only extends the events so far by such events.\<close>

lemma wp_emits:
  assumes "emits P m" "\<And>a u. list_all P u \<Longrightarrow> Q a (t @ u)"
  shows "wp m Q h t"
proof -
  have "wp m (\<lambda>_ t'. \<exists>u. t' = t @ u \<and> list_all P u) h t" using assms(1) by (simp add: emits_def)
  then show ?thesis by (rule wp_mono) (use assms(2) in auto)
qed

end
