(* ===== verification/Gate.thy ===== *)
theory Gate
  imports World "HOL-Library.List_Lexorder" "HOL-Library.Char_ord"
begin

text \<open>
  The invariant gate of \<open>src/internal/snapshot/gate/gate.go\<close>: the one decision whether a restored
  machine may be handed to a caller. The evidence of a restore is evaluated, and a failed
  verification is served only under the opt-out of the class and of the cluster together.
\<close>

type_synonym Invariant = string

abbreviation InvariantCleanBase :: Invariant where "InvariantCleanBase \<equiv> ''clean-base''"
abbreviation InvariantUniquified :: Invariant where "InvariantUniquified \<equiv> ''per-restore-uniquification''"
abbreviation InvariantSingleSession :: Invariant where "InvariantSingleSession \<equiv> ''one-session-then-destroy''"
abbreviation InvariantProvenance :: Invariant where "InvariantProvenance \<equiv> ''template-provenance''"
abbreviation InvariantEncryptedAtRest :: Invariant where "InvariantEncryptedAtRest \<equiv> ''encrypted-at-rest''"

abbreviation AllowUnverifiedRestoresAnnotation :: string where
  "AllowUnverifiedRestoresAnnotation \<equiv> ''setec.zeroroot.ai/allow-unverified-restores''"
abbreviation DefaultAllowDevLabel :: string where "DefaultAllowDevLabel \<equiv> ''setec.zeroroot.ai/allow-dev-runtimes''"
abbreviation DefaultGateNamespace :: string where "DefaultGateNamespace \<equiv> ''default''"

record Evidence =
  evd_CleanBase :: bool
  evd_EntropyReseeded :: bool
  evd_IdentityUniquified :: bool
  evd_SingleSession :: bool
  evd_ProvenanceVerified :: bool
  evd_EncryptedAtRest :: bool

definition Evaluate :: "Evidence \<Rightarrow> Invariant list" where
  "Evaluate ev = sort (
     (if \<not> evd_CleanBase ev then [InvariantCleanBase] else [])
     @ (if \<not> evd_EntropyReseeded ev \<or> \<not> evd_IdentityUniquified ev then [InvariantUniquified] else [])
     @ (if \<not> evd_SingleSession ev then [InvariantSingleSession] else [])
     @ (if \<not> evd_ProvenanceVerified ev then [InvariantProvenance] else [])
     @ (if \<not> evd_EncryptedAtRest ev then [InvariantEncryptedAtRest] else []))"

record Decision =
  dc_Allowed :: bool
  dc_Violations :: "Invariant list"
  dc_DevOptOut :: bool

record Gate =
  g_Reader :: bool \<comment> \<open>whether a reader of the gate namespace is wired\<close>
  g_AllowDevLabel :: string
  g_GateNamespace :: string

definition allowDevLabel :: "Gate option \<Rightarrow> string" where
  "allowDevLabel g = (case g of Some x \<Rightarrow> if g_AllowDevLabel x \<noteq> '''' then g_AllowDevLabel x else DefaultAllowDevLabel | None \<Rightarrow> DefaultAllowDevLabel)"

definition gateNamespace :: "Gate option \<Rightarrow> string" where
  "gateNamespace g = (case g of Some x \<Rightarrow> if g_GateNamespace x \<noteq> '''' then g_GateNamespace x else DefaultGateNamespace | None \<Rightarrow> DefaultGateNamespace)"

definition ClassOptsOut :: "SandboxClass option \<Rightarrow> bool" where
  "ClassOptsOut cls = (case cls of None \<Rightarrow> False | Some c \<Rightarrow> om_Annotations (cl_Meta c) AllowUnverifiedRestoresAnnotation = Some ''true'')"

definition DevModeActive :: "Env \<Rightarrow> Gate option \<Rightarrow> (ApiError + bool) io" where
  "DevModeActive env g = (case g of
      None \<Rightarrow> ret (Inr False)
    | Some x \<Rightarrow> if \<not> g_Reader x then ret (Inr False)
        else do {
          r \<leftarrow> GetNamespace env (gateNamespace g);
          ret (case r of Inl e \<Rightarrow> Inl e | Inr ns \<Rightarrow> Inr (om_Labels (nsp_Meta ns) (allowDevLabel g) = Some ''true''))
        })"

definition Decide :: "Env \<Rightarrow> Gate option \<Rightarrow> SandboxClass option \<Rightarrow> Evidence \<Rightarrow> (Decision \<times> ApiError option) io" where
  "Decide env g cls ev =
     (let violations = Evaluate ev in
      if violations = [] then ret (\<lparr>dc_Allowed = True, dc_Violations = [], dc_DevOptOut = False\<rparr>, None)
      else if \<not> ClassOptsOut cls then ret (\<lparr>dc_Allowed = False, dc_Violations = violations, dc_DevOptOut = False\<rparr>, None)
      else do {
        dev \<leftarrow> DevModeActive env g;
        ret (case dev of
               Inl e \<Rightarrow> (\<lparr>dc_Allowed = False, dc_Violations = violations, dc_DevOptOut = False\<rparr>, Some e)
             | Inr False \<Rightarrow> (\<lparr>dc_Allowed = False, dc_Violations = violations, dc_DevOptOut = False\<rparr>, None)
             | Inr True \<Rightarrow> (\<lparr>dc_Allowed = True, dc_Violations = violations, dc_DevOptOut = True\<rparr>, None))
      })"

section \<open>What the gate lets through\<close>

definition verified :: "Evidence \<Rightarrow> bool" where
  "verified ev \<longleftrightarrow> evd_CleanBase ev \<and> evd_EntropyReseeded ev \<and> evd_IdentityUniquified ev \<and> evd_SingleSession ev \<and>
     evd_ProvenanceVerified ev \<and> evd_EncryptedAtRest ev"

lemma Evaluate_empty: "Evaluate ev = [] \<longleftrightarrow> verified ev"
proof -
  have "sort xs = [] \<longleftrightarrow> xs = []" for xs :: "string list" by (metis length_0_conv length_sort)
  then show ?thesis by (auto simp: Evaluate_def verified_def)
qed

text \<open>
  The consent of the cluster: among the events of the operation, the gate namespace was read with the
  label of the opt-out.
\<close>

definition clusterConsents :: "Gate option \<Rightarrow> history \<Rightarrow> bool" where
  "clusterConsents g t \<longleftrightarrow> (\<exists>ns. EvGet KNamespace ('''', gateNamespace g) (Inr (ONamespace ns)) \<in> set t \<and>
     om_Labels (nsp_Meta ns) (allowDevLabel g) = Some ''true'')"

definition reads_namespace :: "Gate option \<Rightarrow> Event \<Rightarrow> bool" where
  "reads_namespace g e \<longleftrightarrow> (\<exists>r. e = EvGet KNamespace ('''', gateNamespace g) r)"

definition decided :: "Gate option \<Rightarrow> SandboxClass option \<Rightarrow> Evidence \<Rightarrow> Decision \<Rightarrow> history \<Rightarrow> bool" where
  "decided g cls ev d u \<longleftrightarrow> list_all (reads_namespace g) u \<and> dc_Violations d = Evaluate ev \<and>
     (dc_Allowed d \<longleftrightarrow> verified ev \<or> dc_DevOptOut d) \<and> (dc_DevOptOut d \<longrightarrow> \<not> verified ev \<and> ClassOptsOut cls \<and> clusterConsents g u)"

lemma Decide_wp [wp]:
  assumes "\<And>d e u. decided g cls ev d u \<Longrightarrow> Q (d, e) (t @ u)"
  shows "wp (Decide env g cls ev) Q h t"
proof -
  have "Q (d, e) t" if "decided g cls ev d []" for d e using assms [of d "[]" e] that by simp
  moreover have "Q (d, e) (t @ [x])" if "decided g cls ev d [x]" for d e x using assms [of d "[x]" e] that by simp
  ultimately show ?thesis
    unfolding Decide_def DevModeActive_def GetNamespace_def Let_def
    by (intro wp)
       (auto simp: decided_def reads_namespace_def clusterConsents_def Evaluate_empty decode_def asNamespace_def split: sum.splits bool.splits option.splits Object.splits)
qed

text \<open>A verified restore is allowed with no call at all.\<close>

lemma Decide_verified: "verified ev \<Longrightarrow> Decide env g cls ev = ret (\<lparr>dc_Allowed = True, dc_Violations = [], dc_DevOptOut = False\<rparr>, None)"
  by (simp add: Decide_def Evaluate_empty)

end
