(* ===== verification/Coordinator.thy ===== *)
theory Coordinator
  imports Gate Atrest
begin

text \<open>
  The snapshot coordinator of \<open>src/internal/snapshot\<close>: taking, restoring and deleting snapshots, the
  bases of the warm pool, the checkpoints of a session and the key of a tenant. Every operation is a
  program over the calls of \<open>World\<close>, in the order of the source. The texts of messages, the spans and
  the durations of metrics are left out. An argument that the source takes as a pointer is a value
  here, and an operation that writes to its Sandbox returns it.
\<close>

section \<open>State and errors\<close>

record Coordinator =
  co_Env :: Env \<comment> \<open>the client, the dialer, the clock and the random source\<close>
  co_HasClient :: bool
  co_Recorder :: bool
  co_StorageBackendName :: string
  co_Gate :: "Gate option"
  co_PoolNamespace :: string
  co_QuantityString :: "quantity \<Rightarrow> string" \<comment> \<open>\<open>resource.Quantity.String\<close>\<close>
  co_Rounds :: nat \<comment> \<open>how many rounds of \<open>TenantKEK\<close> are followed\<close>

datatype ParentError = ParentMissing ApiError | ParentNotReady | ParentOfOther string | ParentOtherPod | ParentOtherStore string

datatype CoordError =
    CoordBadRequest
  | CoordNameConflict
  | CoordApi ApiError
  | CoordNotScheduled string
  | CoordInvalidParent ParentError
  | CoordKeptDiff
  | CoordTenantKeySize
  | CoordRand
  | CoordNoAnswer
  | CoordDial RpcError
  | CoordRpc RpcError
  | CoordRpcFailed string
  | CoordGateViolation "Invariant list"
  | CoordAbandoned "ApiError option" RpcError
  | CoordWrongNode string string
  | CoordNoNode
  | CoordBaseNotClean
  | CoordNoAgent "RpcError list"

text \<open>\<open>errors.Is (err, ErrNodeAgentUnavailable)\<close> and \<open>errors.Is (err, ErrInvariantGateViolation)\<close>.\<close>

definition isUnavailable :: "CoordError \<Rightarrow> bool" where
  "isUnavailable e = (case e of CoordDial r \<Rightarrow> re_Unavailable r | CoordRpc r \<Rightarrow> re_Unavailable r | CoordAbandoned _ r \<Rightarrow> re_Unavailable r
     | CoordNoAgent rs \<Rightarrow> list_ex re_Unavailable rs | _ \<Rightarrow> False)"

definition isGateViolation :: "CoordError \<Rightarrow> bool" where
  "isGateViolation e = (case e of CoordGateViolation _ \<Rightarrow> True | _ \<Rightarrow> False)"


abbreviation defaultStorageBackend :: string where "defaultStorageBackend \<equiv> ''local-disk''"
abbreviation BaseLabelValue :: string where "BaseLabelValue \<equiv> ''true''"
abbreviation BaseClassLabel :: string where "BaseClassLabel \<equiv> ''setec.zeroroot.ai/base-class''"
abbreviation BaseKeyAnnotation :: string where "BaseKeyAnnotation \<equiv> ''setec.zeroroot.ai/base-key''"
abbreviation CleanBaseAnnotation :: string where "CleanBaseAnnotation \<equiv> ''setec.zeroroot.ai/clean-base''"
abbreviation TenantKEKSecret :: string where "TenantKEKSecret \<equiv> ''setec-tenant-kek''"
abbreviation tenantKEKKey :: string where "tenantKEKKey \<equiv> ''kek''"
abbreviation KeptBackend :: string where "KeptBackend \<equiv> ''s3''"
abbreviation DefaultKeptTTL :: duration where "DefaultKeptTTL \<equiv> 30 * 24 * hour"

section \<open>Helpers\<close>

definition sbKey :: "Sandbox \<Rightarrow> key" where "sbKey sb = (sb_Namespace sb, sb_Name sb)"

definition emit :: "Coordinator \<Rightarrow> Sandbox \<Rightarrow> string \<Rightarrow> string \<Rightarrow> unit io" where
  "emit c sb eventType reason = (if co_Recorder c then recordEvent ''Sandbox'' (sbKey sb) eventType reason else ret ())"

abbreviation warn :: "Coordinator \<Rightarrow> Sandbox \<Rightarrow> string \<Rightarrow> unit io" where "warn c sb reason \<equiv> emit c sb ''Warning'' reason"
abbreviation inform :: "Coordinator \<Rightarrow> Sandbox \<Rightarrow> string \<Rightarrow> unit io" where "inform c sb reason \<equiv> emit c sb ''Normal'' reason"

definition backendName :: "Coordinator \<Rightarrow> string" where
  "backendName c = (if co_StorageBackendName c \<noteq> '''' then co_StorageBackendName c else defaultStorageBackend)"

definition getPod :: "Coordinator \<Rightarrow> Sandbox \<Rightarrow> (CoordError + Pod) io" where
  "getPod c sb = do {
     r \<leftarrow> GetPod (co_Env c) (sb_Namespace sb, if st_PodName (sb_Status sb) = '''' then sb_Name sb @ ''-vm'' else st_PodName (sb_Status sb));
     ret (case r of Inl e \<Rightarrow> Inl (CoordApi e) | Inr pod \<Rightarrow> Inr pod)
   }"

definition classOf :: "Coordinator \<Rightarrow> Sandbox \<Rightarrow> SandboxClass option io" where
  "classOf c sb =
     (if sp_SandboxClassName (sb_Spec sb) = '''' then ret None
      else do {r \<leftarrow> GetClass (co_Env c) (sp_SandboxClassName (sb_Spec sb)); ret (case r of Inl _ \<Rightarrow> None | Inr cls \<Rightarrow> Some cls)})"

definition instanceType :: "Coordinator \<Rightarrow> string \<Rightarrow> string io" where
  "instanceType c nodeName = do {
     r \<leftarrow> GetNode (co_Env c) nodeName;
     ret (case r of Inl _ \<Rightarrow> '''' | Inr node \<Rightarrow> map_get (om_Labels (node_Meta node)) ''node.kubernetes.io/instance-type'')
   }"

definition isInsufficientStorage :: "RpcError \<Rightarrow> bool" where
  "isInsufficientStorage e = str_Contains (re_Message e) ''storage: insufficient free space''"

definition errString :: "RpcError option \<Rightarrow> string \<Rightarrow> string" where
  "errString rpcErr respError =
     (if respError \<noteq> '''' then respError else case rpcErr of Some e \<Rightarrow> re_Message e | None \<Rightarrow> ''unknown error'')"

text \<open>The outcome of a call whose response carries a success flag: \<open>None\<close>, or the message of the failure.\<close>

definition rpcFailure :: "(RpcError + 'r) \<Rightarrow> ('r \<Rightarrow> bool) \<Rightarrow> ('r \<Rightarrow> string) \<Rightarrow> string option" where
  "rpcFailure r success errorOf = (case r of
      Inl e \<Rightarrow> Some (errString (Some e) '''')
    | Inr resp \<Rightarrow> if success resp then None else Some (errString None (errorOf resp)))"

definition isOwnFork :: "Sandbox \<Rightarrow> Snapshot \<Rightarrow> bool" where
  "isOwnFork sb snap \<longleftrightarrow> ns_Forkable (sn_Spec snap) \<and> sn_Namespace snap = sb_Namespace sb \<and> ns_SourceSandbox (sn_Spec snap) \<noteq> ''''"

definition isReviewOf :: "Sandbox \<Rightarrow> Snapshot \<Rightarrow> bool" where
  "isReviewOf sb snap \<longleftrightarrow> ns_Kept (sn_Spec snap) \<and> sp_Review (sb_Spec sb) \<and> sn_Namespace snap = sb_Namespace sb"

definition isCleanBase :: "Coordinator \<Rightarrow> Snapshot \<Rightarrow> bool" where
  "isCleanBase c snap \<longleftrightarrow> co_PoolNamespace c \<noteq> '''' \<and> sn_Namespace snap = co_PoolNamespace c \<and>
     om_Labels (sn_Meta snap) BaseLabel = Some BaseLabelValue \<and> om_Annotations (sn_Meta snap) CleanBaseAnnotation = Some BaseLabelValue \<and>
     map_get (om_Annotations (sn_Meta snap)) BaseKeyAnnotation \<noteq> ''''"

text \<open>A generation is an \<open>int64\<close>: the sum wraps around.\<close>

definition nextIdentityGeneration :: "Sandbox \<Rightarrow> int" where
  "nextIdentityGeneration sb = (case st_Identity (sb_Status sb) of None \<Rightarrow> 0 | Some i \<Rightarrow> sint (of_int (sid_Generation i + 1) :: int64))"

definition withGeneration :: "Sandbox \<Rightarrow> int \<Rightarrow> Sandbox" where
  "withGeneration sb gen = sb\<lparr>sb_Status := (sb_Status sb)\<lparr>st_Identity := map_option (\<lambda>i. i\<lparr>sid_Generation := gen\<rparr>) (st_Identity (sb_Status sb))\<rparr>\<rparr>"

definition recordIdentityGeneration :: "Coordinator \<Rightarrow> Sandbox \<Rightarrow> int \<Rightarrow> (CoordError option \<times> Sandbox) io" where
  "recordIdentityGeneration c sb gen =
     (if gen = 0 then ret (None, sb)
      else do {
        r \<leftarrow> GetSandbox (co_Env c) (sbKey sb);
        case r of
          Inl e \<Rightarrow> ret (Some (CoordApi e), sb)
        | Inr live \<Rightarrow>
            (case st_Identity (sb_Status live) of
               None \<Rightarrow> ret (None, sb)
             | Some i \<Rightarrow>
                 if sid_Generation i \<ge> gen then ret (None, sb)
                 else do {
                   p \<leftarrow> StatusPatchSandbox (co_Env c) live (withGeneration live gen);
                   case p of
                     Inl e \<Rightarrow> ret (Some (CoordApi e), sb)
                   | Inr _ \<Rightarrow> ret (None, withGeneration sb gen)
                 })
      })"

definition markPhase :: "Coordinator \<Rightarrow> Snapshot \<Rightarrow> SnapshotPhase \<Rightarrow> string \<Rightarrow> (CoordError option \<times> Snapshot) io" where
  "markPhase c snap phase reason = do {
     now \<leftarrow> timeNow (co_Env c);
     let snap' = snap\<lparr>sn_Status := (sn_Status snap)\<lparr>nst_Phase := phase, nst_Reason := reason, nst_LastTransitionTime := Some now\<rparr>\<rparr>;
     r \<leftarrow> StatusPatchSnapshot (co_Env c) snap snap';
     ret (case r of Inl e \<Rightarrow> (Some (CoordApi e), snap') | Inr s \<Rightarrow> (None, s))
   }"

definition failSnapshot :: "Coordinator \<Rightarrow> Snapshot \<Rightarrow> string \<Rightarrow> unit io" where
  "failSnapshot c snap reason = do {_ \<leftarrow> markPhase c snap SnapshotPhaseFailed reason; ret ()}"

definition abandonSnapshot :: "Coordinator \<Rightarrow> Snapshot \<Rightarrow> RpcError \<Rightarrow> CoordError io" where
  "abandonSnapshot c snap cause = do {
     err \<leftarrow> DeleteObj (co_Env c) (OSnapshot snap);
     if err \<noteq> None \<and> err \<noteq> Some NotFound
     then do {_ \<leftarrow> failSnapshot c snap ''NodeAgentUnreachable''; ret (CoordAbandoned err cause)}
     else ret (CoordAbandoned None cause)
   }"

definition failCreate :: "Coordinator \<Rightarrow> Sandbox \<Rightarrow> Snapshot \<Rightarrow> RpcError \<Rightarrow> CoordError io" where
  "failCreate c sb snap rpcErr =
     (if re_Unavailable rpcErr
      then do {_ \<leftarrow> warn c sb ''NodeAgentUnreachable''; abandonSnapshot c snap rpcErr}
      else do {
        let reason = (if isInsufficientStorage rpcErr then ''InsufficientStorage'' else ''SnapshotCreateFailed'');
        _ \<leftarrow> warn c sb reason;
        _ \<leftarrow> failSnapshot c snap reason;
        ret (CoordRpc rpcErr)
      })"

section \<open>The key of a tenant\<close>

text \<open>A read that finds no key makes one; when another writer was first, the read starts again. \<open>CoordNoAnswer\<close> ends the model after the rounds.\<close>

fun TenantKEK_rounds :: "nat \<Rightarrow> Coordinator \<Rightarrow> string \<Rightarrow> (CoordError + bytes) io" where
  "TenantKEK_rounds 0 c ns = ret (Inl CoordNoAnswer)"
| "TenantKEK_rounds (Suc n) c ns = do {
     r \<leftarrow> GetSecret (co_Env c) (ns, TenantKEKSecret);
     case r of
       Inr secret \<Rightarrow> (case sec_Data secret tenantKEKKey of
           Some k \<Rightarrow> if length k = KeySize then ret (Inr k) else ret (Inl CoordTenantKeySize)
         | None \<Rightarrow> ret (Inl CoordTenantKeySize))
     | Inl e \<Rightarrow>
         if e \<noteq> NotFound then ret (Inl (CoordApi e))
         else do {
           rnd \<leftarrow> randRead (co_Env c) KeySize;
           case rnd of
             None \<Rightarrow> ret (Inl CoordRand)
           | Some k \<Rightarrow> do {
               w \<leftarrow> CreateSecret (co_Env c) \<lparr>sec_Meta = zero_ObjectMeta\<lparr>om_Namespace := ns, om_Name := TenantKEKSecret\<rparr>, sec_Data = [tenantKEKKey \<mapsto> k]\<rparr>;
               case w of
                 Inl e \<Rightarrow> if e = AlreadyExists then TenantKEK_rounds n c ns else ret (Inl (CoordApi e))
               | Inr _ \<Rightarrow> ret (Inr k)
             }
         }
   }"

definition TenantKEK :: "Coordinator \<Rightarrow> string \<Rightarrow> (CoordError + bytes) io" where
  "TenantKEK c ns = TenantKEK_rounds (co_Rounds c) c ns"

section \<open>Taking a snapshot\<close>

abbreviation snapSpec :: "Sandbox \<Rightarrow> SandboxSnapshotSpec" where "snapSpec sb \<equiv> the (sp_Snapshot (sb_Spec sb))"

definition checkNameFree :: "Coordinator \<Rightarrow> Sandbox \<Rightarrow> CoordError option io" where
  "checkNameFree c sb = do {
     r \<leftarrow> GetSnapshot (co_Env c) (sb_Namespace sb, sss_Name (snapSpec sb));
     case r of
       Inr _ \<Rightarrow> do {_ \<leftarrow> warn c sb ''SnapshotNameConflict''; ret (Some CoordNameConflict)}
     | Inl e \<Rightarrow> ret (if e = NotFound then None else Some (CoordApi e))
   }"

definition diffParent :: "Coordinator \<Rightarrow> Sandbox \<Rightarrow> string \<Rightarrow> (CoordError + string) io" where
  "diffParent c sb podUID =
     (let name = sss_Parent (snapSpec sb) in
      if name = '''' then ret (Inr '''')
      else do {
        r \<leftarrow> GetSnapshot (co_Env c) (sb_Namespace sb, name);
        ret (case r of
               Inl e \<Rightarrow> Inl (CoordInvalidParent (ParentMissing e))
             | Inr parent \<Rightarrow>
                 if nst_Phase (sn_Status parent) \<noteq> SnapshotPhaseReady \<or> ns_StorageRef (sn_Spec parent) = ''''
                 then Inl (CoordInvalidParent ParentNotReady)
                 else if ns_SourceSandbox (sn_Spec parent) \<noteq> sb_Name sb
                 then Inl (CoordInvalidParent (ParentOfOther (ns_SourceSandbox (sn_Spec parent))))
                 else if map_get (om_Annotations (sn_Meta parent)) SnapshotSourcePodUIDAnnotation \<noteq> podUID
                 then Inl (CoordInvalidParent ParentOtherPod)
                 else if ns_StorageBackend (sn_Spec parent) \<noteq> backendName c
                 then Inl (CoordInvalidParent (ParentOtherStore (ns_StorageBackend (sn_Spec parent))))
                 else Inr (ns_StorageRef (sn_Spec parent)))
      })"

definition newSnapshotCR :: "Coordinator \<Rightarrow> Sandbox \<Rightarrow> string \<Rightarrow> Snapshot io" where
  "newSnapshotCR c sb nodeName = do {
     let className = sp_SandboxClassName (sb_Spec sb);
     cpuTemplate \<leftarrow> (if className \<noteq> ''''
        then do {r \<leftarrow> GetClass (co_Env c) className; ret (case r of Inl _ \<Rightarrow> '''' | Inr cls \<Rightarrow> cs_CPUTemplate (cl_Spec cls))}
        else ret '''');
     it \<leftarrow> instanceType c nodeName;
     ret (zero_Snapshot\<lparr>sn_Meta := zero_ObjectMeta\<lparr>om_Namespace := sb_Namespace sb, om_Name := sss_Name (snapSpec sb)\<rparr>,
       sn_Spec := zero_SnapshotSpec\<lparr>ns_SourceSandbox := sb_Name sb, ns_SandboxClass := (if className = '''' then sb_Name sb else className),
         ns_ImageRef := sp_Image (sb_Spec sb), ns_TTL := sss_TTL (snapSpec sb), ns_StorageBackend := backendName c, ns_Node := nodeName,
         ns_CPUTemplate := cpuTemplate, ns_InstanceType := it\<rparr>\<rparr>)
   }"

definition applyKept :: "Coordinator \<Rightarrow> Sandbox \<Rightarrow> Snapshot \<Rightarrow> string \<Rightarrow> (CoordError + (string \<times> bytes \<times> Snapshot)) io" where
  "applyKept c sb snap parentRef =
     (if \<not> sss_Kept (snapSpec sb) then ret (Inr (backendName c, [], snap))
      else if parentRef \<noteq> '''' then ret (Inl CoordKeptDiff)
      else do {
        k \<leftarrow> TenantKEK c (sb_Namespace sb);
        ret (case k of
               Inl e \<Rightarrow> Inl e
             | Inr kek \<Rightarrow> Inr (KeptBackend, kek,
                 snap\<lparr>sn_Spec := (sn_Spec snap)\<lparr>ns_Kept := True, ns_StorageBackend := KeptBackend,
                   ns_TTL := (case ns_TTL (sn_Spec snap) of None \<Rightarrow> Some DefaultKeptTTL | Some d \<Rightarrow> Some d)\<rparr>\<rparr>))
      })"

definition snapshotAnnotations :: "Coordinator \<Rightarrow> Sandbox \<Rightarrow> Pod \<Rightarrow> strmap" where
  "snapshotAnnotations c sb pod =
     [SnapshotSourcePodUIDAnnotation \<mapsto> om_UID (pod_Meta pod),
      SnapshotVCPUAnnotation \<mapsto> itoa (res_VCPU (sp_Resources (sb_Spec sb))),
      SnapshotMemoryAnnotation \<mapsto> co_QuantityString c (res_Memory (sp_Resources (sb_Spec sb)))]"

text \<open>From the answer of the node agent to the end: the generation, the storage reference, the phase.\<close>

definition finishSnapshot :: "Coordinator \<Rightarrow> Sandbox \<Rightarrow> Snapshot \<Rightarrow> CreateSnapshotResponse \<Rightarrow> (CoordError option \<times> Sandbox) io" where
  "finishSnapshot c sb snap resp = do {
     (genErr, sb') \<leftarrow> recordIdentityGeneration c sb (nextIdentityGeneration sb);
     case genErr of
       Some err \<Rightarrow> do {_ \<leftarrow> failSnapshot c snap ''IdentityGenerationNotRecorded''; ret (Some err, sb')}
     | None \<Rightarrow> do {
         let snap' = snap\<lparr>sn_Spec := (sn_Spec snap)\<lparr>ns_StorageRef := csp_StorageRef resp, ns_Size := csp_SizeBytes resp\<rparr>\<rparr>;
         p \<leftarrow> PatchSnapshot (co_Env c) snap snap';
         case p of
           Inl e \<Rightarrow> do {_ \<leftarrow> failSnapshot c snap' ''StorageRefNotRecorded''; ret (Some (CoordApi e), sb')}
         | Inr stored \<Rightarrow> do {
             (readyErr, _) \<leftarrow> markPhase c stored SnapshotPhaseReady '''';
             _ \<leftarrow> (if readyErr \<noteq> None then warn c sb' ''SnapshotCreated'' else inform c sb' ''SnapshotCreated'');
             ret (None, sb')
           }
       }
   }"

definition writeSnapshot ::
  "Coordinator \<Rightarrow> Sandbox \<Rightarrow> Pod \<Rightarrow> Snapshot \<Rightarrow> string \<Rightarrow> string \<Rightarrow> bytes \<Rightarrow> (CoordError option \<times> Sandbox) io" where
  "writeSnapshot c sb pod snap parentRef backend kek = do {
     dialErr \<leftarrow> Dial (co_Env c) (pod_NodeName pod);
     case dialErr of
       Some err \<Rightarrow> do {
         _ \<leftarrow> warn c sb ''NodeAgentUnreachable'';
         if re_Unavailable err then do {e \<leftarrow> abandonSnapshot c snap err; ret (Some e, sb)}
         else do {_ \<leftarrow> failSnapshot c snap ''NodeAgentUnreachable''; ret (Some (CoordDial err), sb)}
       }
     | None \<Rightarrow> do {
         r \<leftarrow> rpcCreateSnapshot (co_Env c) (pod_NodeName pod)
           \<lparr>csr_SandboxId = sb_Namespace sb @ ''/'' @ sb_Name sb, csr_SnapshotId = sb_Namespace sb @ ''-'' @ sss_Name (snapSpec sb),
            csr_StorageBackend = backend, csr_SourcePodUid = om_UID (pod_Meta pod), csr_ParentStorageRef = parentRef, csr_SessionKek = kek,
            csr_LeavePaused = False, csr_ScanForSecrets = False, csr_IdentityGeneration = nextIdentityGeneration sb\<rparr>;
         case r of
           Inl rpcErr \<Rightarrow> do {e \<leftarrow> failCreate c sb snap rpcErr; ret (Some e, sb)}
         | Inr resp \<Rightarrow> finishSnapshot c sb snap resp
       }
   }"

definition CreateSnapshot :: "Coordinator \<Rightarrow> Sandbox \<Rightarrow> (CoordError option \<times> Sandbox) io" where
  "CreateSnapshot c sb =
     (if (case sp_Snapshot (sb_Spec sb) of None \<Rightarrow> True | Some s \<Rightarrow> sss_Name s = '''') then ret (Some CoordBadRequest, sb)
      else do {
        conflict \<leftarrow> checkNameFree c sb;
        case conflict of
          Some e \<Rightarrow> ret (Some e, sb)
        | None \<Rightarrow> do {
            p \<leftarrow> getPod c sb;
            case p of
              Inl e \<Rightarrow> ret (Some e, sb)
            | Inr pod \<Rightarrow>
                if pod_NodeName pod = '''' then ret (Some (CoordNotScheduled (om_Name (pod_Meta pod))), sb)
                else do {
                  par \<leftarrow> diffParent c sb (om_UID (pod_Meta pod));
                  case par of
                    Inl e \<Rightarrow> do {_ \<leftarrow> warn c sb ''SnapshotCreateFailed''; ret (Some e, sb)}
                  | Inr parentRef \<Rightarrow> do {
                      snap0 \<leftarrow> newSnapshotCR c sb (pod_NodeName pod);
                      let snap1 = snap0\<lparr>sn_Meta := (sn_Meta snap0)\<lparr>om_Annotations := snapshotAnnotations c sb pod\<rparr>,
                        sn_Spec := (sn_Spec snap0)\<lparr>ns_Parent := sss_Parent (snapSpec sb), ns_Forkable := sss_Forkable (snapSpec sb)\<rparr>\<rparr>;
                      kept \<leftarrow> applyKept c sb snap1 parentRef;
                      case kept of
                        Inl e \<Rightarrow> ret (Some e, sb)
                      | Inr (backend, kek, snap2) \<Rightarrow> do {
                          w \<leftarrow> CreateSnapshotObj (co_Env c) snap2;
                          case w of
                            Inl e \<Rightarrow> ret (Some (if e = AlreadyExists then CoordNameConflict else CoordApi e), sb)
                          | Inr snap3 \<Rightarrow> do {
                              (markErr, snap4) \<leftarrow> markPhase c snap3 SnapshotPhaseCreating ''SnapshotWriteInFlight'';
                              case markErr of
                                Some e \<Rightarrow> ret (Some e, sb)
                              | None \<Rightarrow> writeSnapshot c sb pod snap4 parentRef backend kek
                            }
                        }
                    }
                }
          }
      })"

section \<open>Restoring\<close>

definition time_UnixNano :: "gotime \<Rightarrow> int" where
  "time_UnixNano t = sint (of_int (t - unixToInternal * 1000000000) :: int64)"

definition unixNanoOrZero :: "gotime \<Rightarrow> int" where
  "unixNanoOrZero t = (if time_IsZero t then 0 else time_UnixNano t)"

definition restoreTarget :: "Coordinator \<Rightarrow> Sandbox \<Rightarrow> Snapshot \<Rightarrow> (CoordError + Pod) io" where
  "restoreTarget c sb snap = do {
     p \<leftarrow> getPod c sb;
     ret (case p of
            Inl e \<Rightarrow> Inl e
          | Inr pod \<Rightarrow>
              let local = ns_StorageBackend (sn_Spec snap) = '''' \<or> ns_StorageBackend (sn_Spec snap) = ''local-disk''
              in if pod_NodeName pod = '''' then Inl (CoordNotScheduled (om_Name (pod_Meta pod)))
                 else if local \<and> pod_NodeName pod \<noteq> ns_Node (sn_Spec snap) then Inl (CoordWrongNode (ns_Node (sn_Spec snap)) (pod_NodeName pod))
                 else Inr pod)
   }"

definition emitRestored :: "Coordinator \<Rightarrow> Sandbox \<Rightarrow> string \<Rightarrow> RestoreSandboxResponse \<Rightarrow> unit io" where
  "emitRestored c sb started resp = do {
     _ \<leftarrow> inform c sb started;
     _ \<leftarrow> (if rsp_EntropyReseeded resp then inform c sb ''EntropyReseeded'' else ret ());
     (if rsp_Uniquified resp then inform c sb ''SandboxUniquified'' else ret ())
   }"

definition preflightEvidence :: "bool \<Rightarrow> Evidence" where
  "preflightEvidence bound = \<lparr>evd_CleanBase = bound, evd_EntropyReseeded = True, evd_IdentityUniquified = True, evd_SingleSession = bound,
     evd_ProvenanceVerified = bound, evd_EncryptedAtRest = True\<rparr>"

definition restoreEvidence :: "bool \<Rightarrow> RestoreSandboxResponse \<Rightarrow> Evidence" where
  "restoreEvidence bound resp = \<lparr>evd_CleanBase = bound, evd_EntropyReseeded = rsp_EntropyReseeded resp,
     evd_IdentityUniquified = rsp_Uniquified resp, evd_SingleSession = bound, evd_ProvenanceVerified = bound,
     evd_EncryptedAtRest = rsp_EncryptedAtRest resp\<rparr>"

text \<open>
  The end of both restore paths, which the source writes out twice with other event reasons: the call,
  the gate on the full evidence, and the pause of a refused machine.
\<close>

definition loadState ::
  "Coordinator \<Rightarrow> Sandbox \<Rightarrow> SandboxClass option \<Rightarrow> bool \<Rightarrow> Pod \<Rightarrow> string \<Rightarrow> string \<Rightarrow> RestoreSandboxRequest \<Rightarrow> CoordError option io" where
  "loadState c sb cls bound pod failed started q = do {
     r \<leftarrow> rpcRestore (co_Env c) (pod_NodeName pod) q;
     case rpcFailure r rsp_Success rsp_Error of
       Some msg \<Rightarrow> do {_ \<leftarrow> warn c sb failed; ret (Some (CoordRpcFailed msg))}
     | None \<Rightarrow> do {
         let resp = projr r;
         (decision, gateErr) \<leftarrow> Decide (co_Env c) (co_Gate c) cls (restoreEvidence bound resp);
         if \<not> dc_Allowed decision then do {
           _ \<leftarrow> rpcPause (co_Env c) (pod_NodeName pod) \<lparr>tr_SandboxId = sb_Namespace sb @ ''/'' @ sb_Name sb, tr_TargetPodUid = om_UID (pod_Meta pod)\<rparr>;
           _ \<leftarrow> warn c sb ''InvariantGateViolation'';
           ret (Some (CoordGateViolation (dc_Violations decision)))
         }
         else do {
           _ \<leftarrow> (if dc_DevOptOut decision then warn c sb ''UnverifiedRestoreAllowed'' else ret ());
           _ \<leftarrow> emitRestored c sb started resp;
           ret None
         }
       }
   }"

definition restoreBound :: "Coordinator \<Rightarrow> Sandbox \<Rightarrow> Snapshot \<Rightarrow> bool" where
  "restoreBound c sb snap \<longleftrightarrow> ns_SourceSandbox (sn_Spec snap) = sb_Name sb \<or> isCleanBase c snap \<or> isOwnFork sb snap \<or> isReviewOf sb snap"

definition RestoreSandbox :: "Coordinator \<Rightarrow> Sandbox \<Rightarrow> Snapshot \<Rightarrow> CoordError option io" where
  "RestoreSandbox c sb snap = do {
     cls \<leftarrow> classOf c sb;
     let bound = restoreBound c sb snap;
     (decision, gateErr) \<leftarrow> Decide (co_Env c) (co_Gate c) cls (preflightEvidence bound);
     if \<not> dc_Allowed decision then do {
       _ \<leftarrow> warn c sb ''InvariantGateViolation'';
       ret (Some (CoordGateViolation (dc_Violations decision)))
     }
     else do {
       p \<leftarrow> restoreTarget c sb snap;
       case p of
         Inl e \<Rightarrow> ret (Some e)
       | Inr pod \<Rightarrow> do {
           k \<leftarrow> (if ns_Kept (sn_Spec snap) then TenantKEK c (sn_Namespace snap) else ret (Inr []));
           case k of
             Inl e \<Rightarrow> ret (Some e)
           | Inr kek \<Rightarrow> do {
               dialErr \<leftarrow> Dial (co_Env c) (pod_NodeName pod);
               case dialErr of
                 Some err \<Rightarrow> do {_ \<leftarrow> warn c sb ''NodeAgentUnreachable''; ret (Some (CoordDial err))}
               | None \<Rightarrow> loadState c sb cls bound pod ''SnapshotRestoreFailed'' ''SnapshotRestoreStarted''
                   \<lparr>rsr_SnapshotId = sn_Namespace snap @ ''-'' @ sn_Name snap, rsr_StorageRef = ns_StorageRef (sn_Spec snap),
                    rsr_StorageBackend = ns_StorageBackend (sn_Spec snap), rsr_TargetPodUid = om_UID (pod_Meta pod),
                    rsr_SandboxId = sb_Namespace sb @ ''/'' @ sb_Name sb, rsr_PodIp = pod_PodIP pod, rsr_Hostname = sb_Name sb,
                    rsr_StateTakenUnixNano = time_UnixNano (om_CreationTimestamp (sn_Meta snap)), rsr_SessionKek = kek\<rparr>
             }
         }
     }
   }"

section \<open>Pause and resume\<close>

definition targetCall ::
  "Coordinator \<Rightarrow> Sandbox \<Rightarrow> (string \<Rightarrow> TargetRequest \<Rightarrow> (RpcError + PlainResponse) io) \<Rightarrow> string \<Rightarrow> CoordError option io" where
  "targetCall c sb rpc failed = do {
     p \<leftarrow> getPod c sb;
     case p of
       Inl e \<Rightarrow> ret (Some e)
     | Inr pod \<Rightarrow> do {
         dialErr \<leftarrow> Dial (co_Env c) (pod_NodeName pod);
         case dialErr of
           Some err \<Rightarrow> do {_ \<leftarrow> warn c sb ''NodeAgentUnreachable''; ret (Some (CoordDial err))}
         | None \<Rightarrow> do {
             r \<leftarrow> rpc (pod_NodeName pod) \<lparr>tr_SandboxId = sb_Namespace sb @ ''/'' @ sb_Name sb, tr_TargetPodUid = om_UID (pod_Meta pod)\<rparr>;
             case rpcFailure r pr_Success pr_Error of
               Some msg \<Rightarrow> do {_ \<leftarrow> warn c sb failed; ret (Some (CoordRpcFailed msg))}
             | None \<Rightarrow> ret None
           }
       }
   }"

definition PauseSandbox :: "Coordinator \<Rightarrow> Sandbox \<Rightarrow> CoordError option io" where
  "PauseSandbox c sb = targetCall c sb (rpcPause (co_Env c)) ''PauseFailed''"

definition ResumeSandbox :: "Coordinator \<Rightarrow> Sandbox \<Rightarrow> CoordError option io" where
  "ResumeSandbox c sb = targetCall c sb (rpcResume (co_Env c)) ''ResumeFailed''"

section \<open>Deleting\<close>

definition nodeGone :: "Coordinator \<Rightarrow> Snapshot \<Rightarrow> (CoordError + bool) io" where
  "nodeGone c snap =
     (let backend = (if ns_StorageBackend (sn_Spec snap) = '''' then defaultStorageBackend else ns_StorageBackend (sn_Spec snap)) in
      if backend \<noteq> defaultStorageBackend \<or> \<not> co_HasClient c then ret (Inr False)
      else do {
        r \<leftarrow> GetNode (co_Env c) (ns_Node (sn_Spec snap));
        ret (case r of Inl NotFound \<Rightarrow> Inr True | Inl e \<Rightarrow> Inl (CoordApi e) | Inr _ \<Rightarrow> Inr False)
      })"

definition DeleteSnapshot :: "Coordinator \<Rightarrow> Snapshot \<Rightarrow> CoordError option io" where
  "DeleteSnapshot c snap =
     (if ns_StorageRef (sn_Spec snap) = '''' then ret None
      else if ns_Node (sn_Spec snap) = '''' then ret (Some CoordNoNode)
      else do {
        g \<leftarrow> nodeGone c snap;
        case g of
          Inl e \<Rightarrow> ret (Some e)
        | Inr gone \<Rightarrow>
            if gone then do {
              _ \<leftarrow> (if co_Recorder c then recordEvent ''Snapshot'' (sn_Namespace snap, sn_Name snap) ''Normal'' ''SnapshotNodeGone'' else ret ());
              ret None
            }
            else do {
              dialErr \<leftarrow> Dial (co_Env c) (ns_Node (sn_Spec snap));
              case dialErr of
                Some err \<Rightarrow> ret (Some (CoordDial err))
              | None \<Rightarrow> do {
                  r \<leftarrow> rpcDeleteSnapshot (co_Env c) (ns_Node (sn_Spec snap))
                    \<lparr>dsr_SnapshotId = sn_Namespace snap @ ''-'' @ sn_Name snap, dsr_StorageRef = ns_StorageRef (sn_Spec snap),
                     dsr_StorageBackend = ns_StorageBackend (sn_Spec snap)\<rparr>;
                  ret (map_option CoordRpcFailed (rpcFailure r pr_Success pr_Error))
                }
            }
      })"

section \<open>Bases of the warm pool\<close>

definition CreateBase :: "Coordinator \<Rightarrow> Pod \<Rightarrow> SandboxClass \<Rightarrow> string \<Rightarrow> string \<Rightarrow> CoordError option io" where
  "CreateBase c pod cls img ky =
     (let m = pod_Meta pod in
      if pod_NodeName pod = '''' then ret (Some (CoordNotScheduled (om_Name m)))
      else do {
        it \<leftarrow> instanceType c (pod_NodeName pod);
        w \<leftarrow> CreateSnapshotObj (co_Env c) (zero_Snapshot\<lparr>
          sn_Meta := zero_ObjectMeta\<lparr>om_Namespace := om_Namespace m, om_Name := om_Name m,
            om_Labels := [BaseLabel \<mapsto> BaseLabelValue, BaseClassLabel \<mapsto> cl_Name cls],
            om_Annotations := [BaseKeyAnnotation \<mapsto> ky, SnapshotSourcePodUIDAnnotation \<mapsto> om_UID m]\<rparr>,
          sn_Spec := zero_SnapshotSpec\<lparr>ns_SandboxClass := cl_Name cls, ns_ImageRef := img, ns_CPUTemplate := cs_CPUTemplate (cl_Spec cls),
            ns_InstanceType := it, ns_StorageBackend := backendName c, ns_Node := pod_NodeName pod\<rparr>\<rparr>);
        case w of
          Inl e \<Rightarrow> ret (Some (CoordApi e))
        | Inr snap \<Rightarrow> do {
            (markErr, snap) \<leftarrow> markPhase c snap SnapshotPhaseCreating ''SnapshotWriteInFlight'';
            case markErr of
              Some e \<Rightarrow> ret (Some e)
            | None \<Rightarrow> do {
                dialErr \<leftarrow> Dial (co_Env c) (pod_NodeName pod);
                case dialErr of
                  Some err \<Rightarrow>
                    if re_Unavailable err then do {e \<leftarrow> abandonSnapshot c snap err; ret (Some e)}
                    else do {_ \<leftarrow> failSnapshot c snap ''NodeAgentUnreachable''; ret (Some (CoordDial err))}
                | None \<Rightarrow> do {
                    r \<leftarrow> rpcCreateSnapshot (co_Env c) (pod_NodeName pod)
                      \<lparr>csr_SandboxId = om_Namespace m @ ''/'' @ om_Name m, csr_SnapshotId = om_Namespace m @ ''-'' @ om_Name m,
                       csr_StorageBackend = backendName c, csr_SourcePodUid = om_UID m, csr_ParentStorageRef = '''', csr_SessionKek = [],
                       csr_LeavePaused = False, csr_ScanForSecrets = True, csr_IdentityGeneration = 0\<rparr>;
                    case r of
                      Inl err \<Rightarrow>
                        if re_Unavailable err then do {e \<leftarrow> abandonSnapshot c snap err; ret (Some e)}
                        else do {_ \<leftarrow> failSnapshot c snap ''SnapshotCreateFailed''; ret (Some (CoordRpc err))}
                    | Inr resp \<Rightarrow>
                        if \<not> csp_CleanBaseVerified resp then do {_ \<leftarrow> failSnapshot c snap ''BaseNotClean''; ret (Some CoordBaseNotClean)}
                        else do {
                          let snap' = snap\<lparr>sn_Meta := (sn_Meta snap)\<lparr>om_Annotations := (om_Annotations (sn_Meta snap))(CleanBaseAnnotation \<mapsto> BaseLabelValue)\<rparr>,
                            sn_Spec := (sn_Spec snap)\<lparr>ns_StorageRef := csp_StorageRef resp, ns_Size := csp_SizeBytes resp\<rparr>\<rparr>;
                          p \<leftarrow> PatchSnapshot (co_Env c) snap snap';
                          case p of
                            Inl e \<Rightarrow> do {_ \<leftarrow> failSnapshot c snap' ''StorageRefNotRecorded''; ret (Some (CoordApi e))}
                          | Inr stored \<Rightarrow> do {(readyErr, _) \<leftarrow> markPhase c stored SnapshotPhaseReady ''''; ret readyErr}
                        }
                  }
              }
          }
      })"

definition BaseKey :: "(quantity \<Rightarrow> string) \<Rightarrow> string \<Rightarrow> string \<Rightarrow> string \<Rightarrow> Resources \<Rightarrow> string" where
  "BaseKey quantityString img launcherImage cpuTemplate res =
     take 20 (hex_Encode (sha256 (concat (map (\<lambda>part. bytes_of part @ [0])
       [img, launcherImage, cpuTemplate, itoa (res_VCPU res), quantityString (res_Memory res)]))))"

section \<open>Checkpoints of a session\<close>

definition sessionCheckpointPrefix :: "Sandbox \<Rightarrow> string" where
  "sessionCheckpointPrefix sb =
     (if om_UID (sb_Meta sb) = '''' then sb_Namespace sb @ ''-'' @ sb_Name sb @ ''-ckpt-''
      else sb_Namespace sb @ ''-'' @ sb_Name sb @ ''-'' @ om_UID (sb_Meta sb) @ ''-ckpt-'')"

definition SessionCheckpointID :: "Sandbox \<Rightarrow> int \<Rightarrow> string" where
  "SessionCheckpointID sb sequence = sessionCheckpointPrefix sb @ itoa sequence"

definition CheckpointSession ::
  "Coordinator \<Rightarrow> Sandbox \<Rightarrow> string \<Rightarrow> int \<Rightarrow> bytes \<Rightarrow> bool \<Rightarrow> string \<Rightarrow> ((CoordError + (string \<times> int64)) \<times> Sandbox) io" where
  "CheckpointSession c sb backend sequence sessionKEK leavePaused parentRef = do {
     p \<leftarrow> getPod c sb;
     case p of
       Inl e \<Rightarrow> ret (Inl e, sb)
     | Inr pod \<Rightarrow>
         if pod_NodeName pod = '''' then ret (Inl (CoordNotScheduled (om_Name (pod_Meta pod))), sb)
         else do {
           dialErr \<leftarrow> Dial (co_Env c) (pod_NodeName pod);
           case dialErr of
             Some err \<Rightarrow> do {_ \<leftarrow> warn c sb ''NodeAgentUnreachable''; ret (Inl (CoordDial err), sb)}
           | None \<Rightarrow> do {
               r \<leftarrow> rpcCreateSnapshot (co_Env c) (pod_NodeName pod)
                 \<lparr>csr_SandboxId = sb_Namespace sb @ ''/'' @ sb_Name sb, csr_SnapshotId = SessionCheckpointID sb sequence, csr_StorageBackend = backend,
                  csr_SourcePodUid = om_UID (pod_Meta pod), csr_ParentStorageRef = parentRef, csr_SessionKek = sessionKEK,
                  csr_LeavePaused = leavePaused, csr_ScanForSecrets = False, csr_IdentityGeneration = nextIdentityGeneration sb\<rparr>;
               case r of
                 Inl err \<Rightarrow> do {_ \<leftarrow> warn c sb ''SessionCheckpointCreateFailed''; ret (Inl (CoordRpc err), sb)}
               | Inr resp \<Rightarrow> do {
                   (genErr, sb') \<leftarrow> recordIdentityGeneration c sb (nextIdentityGeneration sb);
                   case genErr of
                     Some e \<Rightarrow> ret (Inl e, sb')
                   | None \<Rightarrow> do {
                       _ \<leftarrow> inform c sb' ''SessionCheckpointCreated'';
                       ret (Inr (csp_StorageRef resp, csp_SizeBytes resp), sb')
                     }
                 }
             }
         }
   }"

definition RestoreSessionCheckpoint :: "Coordinator \<Rightarrow> Sandbox \<Rightarrow> string \<Rightarrow> string \<Rightarrow> bytes \<Rightarrow> gotime \<Rightarrow> CoordError option io" where
  "RestoreSessionCheckpoint c sb ref backend sessionKEK takenAt = do {
     cls \<leftarrow> classOf c sb;
     let bound = str_HasPrefix ref (sessionCheckpointPrefix sb);
     (decision, gateErr) \<leftarrow> Decide (co_Env c) (co_Gate c) cls (preflightEvidence bound);
     if \<not> dc_Allowed decision then do {
       _ \<leftarrow> warn c sb ''InvariantGateViolation'';
       ret (Some (CoordGateViolation (dc_Violations decision)))
     }
     else do {
       p \<leftarrow> getPod c sb;
       case p of
         Inl e \<Rightarrow> ret (Some e)
       | Inr pod \<Rightarrow>
           if pod_NodeName pod = '''' then ret (Some (CoordNotScheduled (om_Name (pod_Meta pod))))
           else do {
             dialErr \<leftarrow> Dial (co_Env c) (pod_NodeName pod);
             case dialErr of
               Some err \<Rightarrow> do {_ \<leftarrow> warn c sb ''NodeAgentUnreachable''; ret (Some (CoordDial err))}
             | None \<Rightarrow> loadState c sb cls bound pod ''SessionCheckpointRestoreFailed'' ''SessionCheckpointRestored''
                 \<lparr>rsr_SnapshotId = ref, rsr_StorageRef = ref, rsr_StorageBackend = backend, rsr_TargetPodUid = om_UID (pod_Meta pod),
                  rsr_SandboxId = sb_Namespace sb @ ''/'' @ sb_Name sb, rsr_PodIp = pod_PodIP pod, rsr_Hostname = sb_Name sb,
                  rsr_StateTakenUnixNano = unixNanoOrZero takenAt, rsr_SessionKek = sessionKEK\<rparr>
           }
     }
   }"

definition nodeIsReady :: "Node \<Rightarrow> bool" where
  "nodeIsReady node = (case List.find (\<lambda>x. nc_Type x = ''Ready'') (node_Conditions node) of Some x \<Rightarrow> nc_Status x = ''True'' | None \<Rightarrow> False)"

fun dialFirst :: "Coordinator \<Rightarrow> Node list \<Rightarrow> RpcError list \<Rightarrow> (CoordError + string) io" where
  "dialFirst c [] errs = ret (Inl (CoordNoAgent errs))"
| "dialFirst c (node # nodes) errs =
     (if \<not> nodeIsReady node then dialFirst c nodes errs
      else do {
        dialErr \<leftarrow> Dial (co_Env c) (om_Name (node_Meta node));
        case dialErr of
          None \<Rightarrow> ret (Inr (om_Name (node_Meta node)))
        | Some err \<Rightarrow> dialFirst c nodes (errs @ [err])
      })"

text \<open>A client of a node agent is the name of its node.\<close>

definition dialSessionAgent :: "Coordinator \<Rightarrow> Sandbox \<Rightarrow> (CoordError + string) io" where
  "dialSessionAgent c sb = do {
     p \<leftarrow> getPod c sb;
     own \<leftarrow> (case p of
         Inl _ \<Rightarrow> ret None
       | Inr pod \<Rightarrow> if pod_NodeName pod = '''' then ret None
           else do {dialErr \<leftarrow> Dial (co_Env c) (pod_NodeName pod); ret (if dialErr = None then Some (pod_NodeName pod) else None)});
     case own of
       Some node \<Rightarrow> ret (Inr node)
     | None \<Rightarrow> do {
         l \<leftarrow> ListNodes (co_Env c);
         case l of Inl e \<Rightarrow> ret (Inl (CoordApi e)) | Inr nodes \<Rightarrow> dialFirst c nodes []
       }
   }"

definition DeleteSessionCheckpoint :: "Coordinator \<Rightarrow> Sandbox \<Rightarrow> string \<Rightarrow> string \<Rightarrow> CoordError option io" where
  "DeleteSessionCheckpoint c sb ref backend = do {
     na \<leftarrow> dialSessionAgent c sb;
     case na of
       Inl e \<Rightarrow> ret (Some e)
     | Inr node \<Rightarrow> do {
         r \<leftarrow> rpcDeleteSnapshot (co_Env c) node \<lparr>dsr_SnapshotId = ref, dsr_StorageRef = ref, dsr_StorageBackend = backend\<rparr>;
         case rpcFailure r pr_Success pr_Error of
           Some msg \<Rightarrow> do {_ \<leftarrow> warn c sb ''SessionCheckpointDeleteFailed''; ret (Some (CoordRpcFailed msg))}
         | None \<Rightarrow> ret None
       }
   }"

end
