(* ===== verification/Coordinator_Props.thy ===== *)
theory Coordinator_Props
  imports Coordinator
begin

text \<open>
  What the coordinator promises, for every behaviour of the cluster: no state reaches a machine and no
  machine reaches a caller past the invariant gate, a Snapshot is Ready only when everything about it
  was recorded, a failed attempt tries to delete its Snapshot or to mark it Failed, and the search for
  the key of a tenant ends.
\<close>

section \<open>Helpers and their events\<close>

fun isRestore :: "Event \<Rightarrow> bool" where
  "isRestore (EvRestore _ _ _) = True"
| "isRestore _ = False"

fun isPause :: "Event \<Rightarrow> bool" where
  "isPause (EvPause _ _ _) = True"
| "isPause _ = False"

abbreviation quiet :: "Event \<Rightarrow> bool" where "quiet e \<equiv> \<not> isRestore e"

lemma emit_emits [emits]: "(\<And>k t r. P (EvRecord ''Sandbox'' k t r)) \<Longrightarrow> emits P (emit c sb t r)"
  by (simp add: emit_def recordEvent_def emits)

fun isRecord :: "Event \<Rightarrow> bool" where
  "isRecord (EvRecord _ _ _ _) = True"
| "isRecord _ = False"

lemma isRecord_quiet: "isRecord e \<Longrightarrow> quiet e"
  by (cases e) auto

lemma emit_wp:
  assumes "\<And>u. list_all isRecord u \<Longrightarrow> Q () (t @ u)"
  shows "wp (emit c sb ty r) Q h t"
  using assms by (intro wp_emits [where P = isRecord] emits) auto

lemma emitRestored_wp:
  assumes "\<And>u. list_all isRecord u \<Longrightarrow> Q () (t @ u)"
  shows "wp (emitRestored c sb started resp) Q h t"
  unfolding emitRestored_def using assms by (intro wp_emits [where P = isRecord] emits) auto

lemma TenantKEK_quiet: "emits quiet (TenantKEK c ns)"
proof -
  have "emits quiet (TenantKEK_rounds n c ns)" for n
    by (induction n) (auto intro!: emits simp: call_defs)
  then show ?thesis by (simp add: TenantKEK_def)
qed

definition classEvent :: "Sandbox \<Rightarrow> SandboxClass option \<Rightarrow> history \<Rightarrow> bool" where
  "classEvent sb cls t \<longleftrightarrow> (\<forall>x. cls = Some x \<longrightarrow> EvGet KClass ('''', sp_SandboxClassName (sb_Spec sb)) (Inr (OClass x)) \<in> set t)"

lemma decode_Inr: "decode f r = Inr y \<longleftrightarrow> (\<exists>x. r = Inr x \<and> f x = Some y)"
  by (auto simp: decode_def split: sum.splits option.splits)

lemma as_iff [simp]:
  "asSandbox x = Some a1 \<longleftrightarrow> x = OSandbox a1" "asClass x = Some a2 \<longleftrightarrow> x = OClass a2" "asSnapshot x = Some a3 \<longleftrightarrow> x = OSnapshot a3"
  "asPod x = Some a4 \<longleftrightarrow> x = OPod a4" "asNode x = Some a5 \<longleftrightarrow> x = ONode a5" "asNamespace x = Some a6 \<longleftrightarrow> x = ONamespace a6"
  "asSecret x = Some a7 \<longleftrightarrow> x = OSecret a7"
  by (auto simp: asSandbox_def asClass_def asSnapshot_def asPod_def asNode_def asNamespace_def asSecret_def split: Object.splits)

lemma classOf_wp:
  assumes "\<And>cls u. list_all quiet u \<Longrightarrow> classEvent sb cls u \<Longrightarrow> Q cls (t @ u)"
  shows "wp (classOf c sb) Q h t"
proof -
  have "Q None t" using assms [of "[]" None] by (simp add: classEvent_def)
  moreover have "Q cls (t @ [EvGet KClass k r])" if "classEvent sb cls [EvGet KClass k r]" for cls k r
    using assms [of "[EvGet KClass k r]" cls] that by simp
  ultimately show ?thesis
    unfolding classOf_def GetClass_def by (intro wp) (auto simp: classEvent_def decode_Inr split: sum.splits)
qed

lemma getPod_wp:
  assumes "\<And>r e. quiet e \<Longrightarrow> Q r (t @ [e])"
  shows "wp (getPod c sb) Q h t"
  unfolding getPod_def GetPod_def by (intro wp) (auto intro: assms)

section \<open>The gate\<close>

text \<open>The opt-out, as the operation saw it: the class was read with the annotation and the gate namespace with the label.\<close>

definition optOut :: "Coordinator \<Rightarrow> Sandbox \<Rightarrow> history \<Rightarrow> bool" where
  "optOut c sb t \<longleftrightarrow> (\<exists>cls. EvGet KClass ('''', sp_SandboxClassName (sb_Spec sb)) (Inr (OClass cls)) \<in> set t \<and> ClassOptsOut (Some cls)) \<and>
     clusterConsents (co_Gate c) t"

lemma optOut_append: "optOut c sb t \<Longrightarrow> optOut c sb (t @ u)" "optOut c sb u \<Longrightarrow> optOut c sb (t @ u)"
  by (auto simp: optOut_def clusterConsents_def)

lemma decided_optOut: "decided (co_Gate c) cls ev d u \<Longrightarrow> classEvent sb cls t \<Longrightarrow> dc_DevOptOut d \<Longrightarrow> optOut c sb (t @ u)"
  by (auto simp: decided_def optOut_def classEvent_def ClassOptsOut_def clusterConsents_def split: option.splits)

definition gated :: "Coordinator \<Rightarrow> Sandbox \<Rightarrow> bool \<Rightarrow> CoordError option \<Rightarrow> history \<Rightarrow> bool" where
  "gated c sb bound r t \<longleftrightarrow>
     (\<forall>node q a. EvRestore node q a \<in> set t \<longrightarrow> bound \<or> optOut c sb t) \<and>
     (r = None \<longrightarrow> (\<exists>node q resp. EvRestore node q (Inr resp) \<in> set t \<and> rsp_Success resp \<and> (verified (restoreEvidence bound resp) \<or> optOut c sb t))) \<and>
     (\<forall>node q resp. EvRestore node q (Inr resp) \<in> set t \<and> rsp_Success resp \<and> r \<noteq> None \<longrightarrow>
        isGateViolation (the r) \<and> (\<exists>q a. EvPause node q a \<in> set t))"

lemma gated_quiet: "list_all quiet t \<Longrightarrow> gated c sb bound (Some e) t"
  by (auto simp: gated_def list_all_iff)

lemma decided_quiet: "decided g cls ev d u \<Longrightarrow> list_all quiet u"
  by (auto simp: decided_def reads_namespace_def list_all_iff)

lemma isRecords_quiet: "list_all isRecord u \<Longrightarrow> list_all quiet u"
  by (auto simp: list_all_iff dest: isRecord_quiet)

text \<open>The three ends of a load, by the events after the call.\<close>

lemma quiet_no: "list_all quiet t \<Longrightarrow> EvRestore n q r \<notin> set t"
  by (auto simp: list_all_iff)

lemma load_failed:
  assumes "list_all quiet t" "list_all quiet u" "bound \<or> optOut c sb t" "rpcFailure r rsp_Success rsp_Error = Some msg"
  shows "gated c sb bound (Some e) (t @ EvRestore n q r # u)"
  using assms(3,4) optOut_append(1) quiet_no [OF assms(1)] quiet_no [OF assms(2)]
  by (auto simp: gated_def rpcFailure_def split: if_splits)

lemma load_refused:
  assumes "list_all quiet t" "list_all quiet u" "bound \<or> optOut c sb t" "isGateViolation e" "\<exists>pq a. EvPause n pq a \<in> set u"
  shows "gated c sb bound (Some e) (t @ EvRestore n q r # u)"
  using assms(3-) optOut_append(1) quiet_no [OF assms(1)] quiet_no [OF assms(2)] by (auto simp: gated_def)

lemma load_served:
  assumes "list_all quiet t" "list_all quiet u" "bound \<or> optOut c sb t" "rpcFailure r rsp_Success rsp_Error = None"
    and "verified (restoreEvidence bound (projr r)) \<or> optOut c sb (t @ EvRestore n q r # u)"
  shows "gated c sb bound None (t @ EvRestore n q r # u)"
proof -
  obtain resp where "r = Inr resp" "rsp_Success resp" using assms(4) by (auto simp: rpcFailure_def split: sum.splits if_splits)
  then show ?thesis using assms(3,5) optOut_append(1) quiet_no [OF assms(1)] quiet_no [OF assms(2)] by (auto simp: gated_def)
qed

lemma decided_serves:
  assumes "decided (co_Gate c) cls (restoreEvidence bound resp) d u" "dc_Allowed d" "classEvent sb cls t"
  shows "verified (restoreEvidence bound resp) \<or> optOut c sb (t @ x # u @ v)"
  using assms decided_optOut [OF assms(1), of sb "t @ [x]"] optOut_append(1) [of c sb "(t @ [x]) @ u" v]
  by (auto simp: decided_def classEvent_def)

lemma loadState_gated:
  assumes "list_all quiet t" "bound \<or> optOut c sb t" "classEvent sb cls t"
  shows "wp (loadState c sb cls bound pod failed started q) (gated c sb bound) h t"
  unfolding loadState_def rpcRestore_def rpcPause_def Let_def
  apply (intro wp emit_wp emitRestored_wp; simp)
  subgoal using assms(1,2) by (intro load_refused) (auto dest: decided_quiet isRecords_quiet simp: isGateViolation_def)
  subgoal using assms by (auto intro!: load_served dest: decided_quiet isRecords_quiet decided_serves)
  subgoal using assms by (auto intro!: load_served dest: decided_quiet isRecords_quiet decided_serves)
  subgoal using assms(1,2) by (auto intro: load_failed isRecords_quiet)
  done

lemma restoreTarget_wp:
  assumes "\<And>r e. quiet e \<Longrightarrow> (\<And>pod. r = Inr pod \<Longrightarrow> ns_StorageBackend (sn_Spec snap) \<in> {'''', ''local-disk''} \<Longrightarrow> pod_NodeName pod = ns_Node (sn_Spec snap)) \<Longrightarrow> Q r (t @ [e])"
  shows "wp (restoreTarget c sb snap) Q h t"
  unfolding restoreTarget_def
  by (intro wp getPod_wp) (auto intro!: assms simp: Let_def split: sum.splits if_splits)

lemma preflight_bound:
  assumes "decided (co_Gate c) cls (preflightEvidence bound) d u" "dc_Allowed d" "classEvent sb cls t"
  shows "bound \<or> optOut c sb (t @ u @ v)"
  using assms decided_optOut [OF assms(1)] optOut_append(1) [of c sb "t @ u" v]
  by (auto simp: decided_def verified_def preflightEvidence_def)

lemma classEvent_append: "classEvent sb cls t \<Longrightarrow> classEvent sb cls (t @ u)"
  by (auto simp: classEvent_def)

lemma quiet_append: "list_all quiet t \<Longrightarrow> list_all quiet u \<Longrightarrow> list_all quiet (t @ u)"
  by simp

lemma RestoreSandbox_gated: "wp (RestoreSandbox c sb snap) (gated c sb (restoreBound c sb snap)) h []"
  unfolding RestoreSandbox_def Dial_def Let_def
  apply (intro wp classOf_wp restoreTarget_wp emit_wp wp_emits [OF TenantKEK_quiet] loadState_gated; simp)
  apply (auto intro!: gated_quiet dest: decided_quiet isRecords_quiet preflight_bound simp: classEvent_append)
  done

lemma RestoreSessionCheckpoint_gated:
  "wp (RestoreSessionCheckpoint c sb ref backend kek takenAt) (gated c sb (str_HasPrefix ref (sessionCheckpointPrefix sb))) h []"
  unfolding RestoreSessionCheckpoint_def Dial_def Let_def
  by (intro wp classOf_wp getPod_wp emit_wp loadState_gated; simp)
     (auto intro!: gated_quiet dest: decided_quiet isRecords_quiet preflight_bound simp: classEvent_append)

text \<open>
  C33. No restore passes the invariant gate unverified, whatever the API server and the node agents
  answer. The state of a snapshot or of a checkpoint is sent to a machine only when it is bound to the
  Sandbox, or the class and the cluster were both read with the opt-out. The operation succeeds only
  when the node agent confirmed the reseed, the new identity and the encryption at rest of a bound
  state, or under the same opt-out. For a machine that was loaded and is
  not handed over, the node agent was asked to pause it (the code does not act on the answer), and the
  error is the gate violation that makes the caller destroy it.
\<close>
theorem restore_is_gated:
  "(\<exists>t. snd (run_state (RestoreSandbox c sb snap) h) = h @ t \<and>
      gated c sb (restoreBound c sb snap) (fst (run_state (RestoreSandbox c sb snap) h)) t) \<and>
   (\<exists>t. snd (run_state (RestoreSessionCheckpoint c sb ref backend kek takenAt) h) = h @ t \<and>
      gated c sb (str_HasPrefix ref (sessionCheckpointPrefix sb)) (fst (run_state (RestoreSessionCheckpoint c sb ref backend kek takenAt) h)) t)"
  using RestoreSandbox_gated [of c sb snap h] RestoreSessionCheckpoint_gated [of c sb ref backend kek takenAt h] by (simp add: wp_run)

section \<open>Ready means recorded\<close>

text \<open>\<open>ord P t u\<close>: after the events \<open>t\<close>, every event of \<open>u\<close> satisfies \<open>P\<close> together with the events before it.\<close>

primrec ord :: "(history \<Rightarrow> Event \<Rightarrow> bool) \<Rightarrow> history \<Rightarrow> history \<Rightarrow> bool" where
  "ord P t [] = True"
| "ord P t (e # u) = (P t e \<and> ord P (t @ [e]) u)"

lemma ord_append [simp]: "ord P t (u @ v) \<longleftrightarrow> ord P t u \<and> ord P (t @ u) v"
  by (induction u arbitrary: t) auto

lemma ord_split: "ord P s t \<Longrightarrow> t = t1 @ e # t2 \<Longrightarrow> P (s @ t1) e"
  by (induction t1 arbitrary: s t) auto

fun marks :: "SnapshotPhase \<Rightarrow> Event \<Rightarrow> bool" where
  "marks p (EvStatusPatch _ (OSnapshot s) _) \<longleftrightarrow> nst_Phase (sn_Status s) = p"
| "marks p _ \<longleftrightarrow> False"

abbreviation noReady :: "Event \<Rightarrow> bool" where "noReady e \<equiv> \<not> marks SnapshotPhaseReady e"

definition raised :: "Sandbox \<Rightarrow> int \<Rightarrow> history \<Rightarrow> bool" where
  "raised sb g t \<longleftrightarrow> (\<exists>live. EvGet KSandbox (sbKey sb) (Inr (OSandbox live)) \<in> set t \<and>
     (st_Identity (sb_Status live) = None \<or> (\<exists>i. st_Identity (sb_Status live) = Some i \<and> g \<le> sid_Generation i) \<or>
      (\<exists>x. EvStatusPatch (OSandbox live) (OSandbox (withGeneration live g)) (Inr (OSandbox x)) \<in> set t)))"

definition stored :: "Sandbox \<Rightarrow> history \<Rightarrow> bool" where
  "stored sb t \<longleftrightarrow> (\<exists>node q resp orig s x.
     EvCreateSnapshot node q (Inr resp) \<in> set t \<and> csr_IdentityGeneration q = nextIdentityGeneration sb \<and>
     (nextIdentityGeneration sb \<noteq> 0 \<longrightarrow> raised sb (nextIdentityGeneration sb) t) \<and>
     EvPatch orig (OSnapshot s) (Inr (OSnapshot x)) \<in> set t \<and> ns_StorageRef (sn_Spec s) = csp_StorageRef resp)"

definition readyOrder :: "Sandbox \<Rightarrow> history \<Rightarrow> Event \<Rightarrow> bool" where
  "readyOrder sb t e \<longleftrightarrow> (marks SnapshotPhaseReady e \<longrightarrow> stored sb t)"

lemma ord_noReady: "list_all noReady u \<Longrightarrow> ord (readyOrder sb) t u"
  by (induction u arbitrary: t) (auto simp: readyOrder_def)

text \<open>
  An attempt that failed after the mark Creating was settled: the Snapshot was deleted or marked Failed,
  or the API server refused the mark Failed.
\<close>

fun accepts :: "SnapshotPhase \<Rightarrow> Event \<Rightarrow> bool" where
  "accepts p (EvStatusPatch _ (OSnapshot s) (Inr (OSnapshot _))) \<longleftrightarrow> nst_Phase (sn_Status s) = p"
| "accepts p _ \<longleftrightarrow> False"

definition cleaned :: "history \<Rightarrow> bool" where
  "cleaned t \<longleftrightarrow> (\<exists>x a. EvDelete (OSnapshot x) a \<in> set t \<and> (a = None \<or> a = Some NotFound)) \<or> (\<exists>e\<in>set t. accepts SnapshotPhaseFailed e)"

definition settled :: "history \<Rightarrow> bool" where
  "settled t \<longleftrightarrow> (\<exists>x a. EvDelete (OSnapshot x) a \<in> set t \<and> (a = None \<or> a = Some NotFound)) \<or> (\<exists>e\<in>set t. marks SnapshotPhaseFailed e)"

lemma settled_cleaned: "settled t \<Longrightarrow> cleaned t \<or> (\<exists>e\<in>set t. marks SnapshotPhaseFailed e \<and> \<not> accepts SnapshotPhaseFailed e)"
  by (auto simp: settled_def cleaned_def)

definition inFlight :: "history \<Rightarrow> bool" where
  "inFlight t \<longleftrightarrow> (\<exists>s0 s x. EvStatusPatch s0 (OSnapshot s) (Inr (OSnapshot x)) \<in> set t \<and> nst_Phase (sn_Status s) = SnapshotPhaseCreating)"

definition taken :: "Sandbox \<Rightarrow> CoordError option \<times> Sandbox \<Rightarrow> history \<Rightarrow> bool" where
  "taken sb r t \<longleftrightarrow> ord (readyOrder sb) [] t \<and> (fst r \<noteq> None \<and> inFlight t \<longrightarrow> settled t) \<and>
     (fst r = None \<longrightarrow> (\<exists>e\<in>set t. marks SnapshotPhaseReady e))"

lemma markPhase_spec:
  "wp (markPhase c snap phase reason) (\<lambda>r u. \<exists>now s a. u = [EvNow now, EvStatusPatch (OSnapshot snap) (OSnapshot s) a] \<and>
     nst_Phase (sn_Status s) = phase \<and> (fst r = None \<longleftrightarrow> (\<exists>x. a = Inr (OSnapshot x)))) h []"
  unfolding markPhase_def timeNow_def StatusPatchSnapshot_def Let_def
  by (intro wp) (auto simp: decode_def asSnapshot_def split: sum.splits option.splits Object.splits)

lemma failSnapshot_spec:
  "wp (failSnapshot c snap reason) (\<lambda>_ u. list_all noReady u \<and> settled u) h []"
  unfolding failSnapshot_def by (intro wp wp_frame [OF markPhase_spec]) (auto simp: settled_def)

lemma abandonSnapshot_spec: "wp (abandonSnapshot c snap cause) (\<lambda>_ u. list_all noReady u \<and> settled u) h []"
  unfolding abandonSnapshot_def DeleteObj_def
  by (intro wp wp_frame [OF failSnapshot_spec]) (auto simp: settled_def)

lemma emit_spec: "wp (emit c sb ty r) (\<lambda>_ u. list_all noReady u) h []"
  by (intro wp_emits [where P = noReady] emits) auto

lemma failCreate_spec: "wp (failCreate c sb snap err) (\<lambda>_ u. list_all noReady u \<and> settled u) h []"
  unfolding failCreate_def Let_def
  by (intro wp wp_frame [OF emit_spec] wp_frame [OF abandonSnapshot_spec] wp_frame [OF failSnapshot_spec]) (auto simp: settled_def)

lemma recordIdentityGeneration_spec:
  "wp (recordIdentityGeneration c sb gen) (\<lambda>r u. list_all noReady u \<and> (fst r = None \<and> gen \<noteq> 0 \<longrightarrow> raised sb gen u)) h []"
  unfolding recordIdentityGeneration_def GetSandbox_def StatusPatchSandbox_def
  by (intro wp) (auto simp: decode_Inr raised_def)

lemmas coordinator_frames = wp_frame [OF markPhase_spec] wp_frame [OF failSnapshot_spec] wp_frame [OF abandonSnapshot_spec]
  wp_frame [OF emit_spec] wp_frame [OF failCreate_spec] wp_frame [OF recordIdentityGeneration_spec]

text \<open>The two ways an attempt ends: marked Ready at last, or never marked and settled up.\<close>

lemma settled_append: "settled u \<Longrightarrow> settled (t @ u)" "settled t \<Longrightarrow> settled (t @ u)" "settled u \<Longrightarrow> settled (e # u)"
  by (auto simp: settled_def)

lemma failed_taken: "list_all noReady t \<Longrightarrow> settled t \<or> \<not> inFlight t \<Longrightarrow> taken sb (Some e, sb') t"
  by (auto simp: taken_def ord_noReady)

lemma ready_taken:
  assumes "list_all noReady t" "stored sb t" "list_all noReady v" "nst_Phase (sn_Status s) = SnapshotPhaseReady"
  shows "taken sb (None, sb') (t @ EvNow now # EvStatusPatch s0 (OSnapshot s) a # v)"
proof -
  have "stored sb (t @ [EvNow now])" using assms(2) by (fastforce simp: stored_def raised_def)
  then show ?thesis using assms by (auto simp: taken_def ord_noReady readyOrder_def)
qed

lemma stored_intro:
  assumes "EvCreateSnapshot node q (Inr resp) \<in> set t" "csr_IdentityGeneration q = nextIdentityGeneration sb"
    and "nextIdentityGeneration sb \<noteq> 0 \<longrightarrow> raised sb (nextIdentityGeneration sb) u" "ns_StorageRef (sn_Spec s) = csp_StorageRef resp"
  shows "stored sb (t @ u @ [EvPatch orig (OSnapshot s) (Inr (OSnapshot x))])"
  unfolding stored_def using assms
  by (intro exI [of _ node] exI [of _ q] exI [of _ resp] exI [of _ orig] exI [of _ s] exI [of _ x]) (auto simp: raised_def)

lemma finishSnapshot_taken:
  assumes "list_all noReady t" "EvCreateSnapshot node q (Inr resp) \<in> set t" "csr_IdentityGeneration q = nextIdentityGeneration sb"
  shows "wp (finishSnapshot c sb snap resp) (taken sb) h t"
  unfolding finishSnapshot_def PatchSnapshot_def Let_def
  using assms
  by (intro wp coordinator_frames)
     (auto simp: decode_Inr settled_append intro!: failed_taken ready_taken [where t = "t @ u @ [x]" for u x, simplified] stored_intro)

lemma writeSnapshot_taken:
  assumes "list_all noReady t"
  shows "wp (writeSnapshot c sb pod snap parentRef backend kek) (taken sb) h t"
  unfolding writeSnapshot_def Dial_def rpcCreateSnapshot_def
  using assms by (intro wp coordinator_frames finishSnapshot_taken) (auto simp: settled_append intro!: failed_taken)

text \<open>An event that does not mark a Snapshot Ready or, with success, Creating.\<close>

fun calm :: "Event \<Rightarrow> bool" where
  "calm (EvStatusPatch _ (OSnapshot s) a) \<longleftrightarrow> nst_Phase (sn_Status s) \<noteq> SnapshotPhaseReady \<and>
     (nst_Phase (sn_Status s) = SnapshotPhaseCreating \<longrightarrow> (\<forall>x. a \<noteq> Inr (OSnapshot x)))"
| "calm _ \<longleftrightarrow> True"

lemma calm_noReady: "calm e \<Longrightarrow> noReady e"
  by (cases e rule: calm.cases) auto

lemma calm_failed: "list_all calm t \<Longrightarrow> taken sb (Some e, sb') t"
proof (intro failed_taken disjI2)
  assume t: "list_all calm t"
  then show "list_all noReady t" by (auto simp: list_all_iff calm_noReady)
  from t show "\<not> inFlight t" by (auto simp: list_all_iff inFlight_def)
qed

lemma TenantKEK_calm: "emits calm (TenantKEK c ns)"
proof -
  have "emits calm (TenantKEK_rounds n c ns)" for n
    by (induction n) (auto intro!: emits simp: call_defs)
  then show ?thesis by (simp add: TenantKEK_def)
qed

lemma calm_emits:
  "emits calm (checkNameFree c sb)" "emits calm (getPod c sb)" "emits calm (diffParent c sb uid)" "emits calm (newSnapshotCR c sb node)"
  "emits calm (applyKept c sb snap parent)" "emits calm (emit c sb ty r)"
  unfolding checkNameFree_def getPod_def diffParent_def newSnapshotCR_def applyKept_def instanceType_def call_defs Let_def
  by (auto intro!: emits TenantKEK_calm)

lemma CreateSnapshot_taken: "wp (CreateSnapshot c sb) (taken sb) h []"
  unfolding CreateSnapshot_def CreateSnapshotObj_def Let_def
  by (intro wp calm_emits [THEN wp_emits] wp_frame [OF markPhase_spec] writeSnapshot_taken)
     (auto intro!: calm_failed simp: list_all_iff calm_noReady)

text \<open>
  C36. A Snapshot is marked Ready only after everything about it is recorded, for every behaviour of
  the API server and the node agent: before the mark, the node agent stored the state, the identity
  generation of the live Sandbox was raised to the one that the request to the node carried, the next of
  the source (unless the source or the live Sandbox has no identity), and the storage reference of the answer was written to the Snapshot. A successful call
  asks for the mark. A call that fails after the Snapshot was marked Creating deleted it or marked it
  Failed, unless the API server refused the mark Failed, in which case the Snapshot stays Creating.
\<close>
theorem snapshot_ready_is_recorded:
  "\<exists>t. snd (run_state (CreateSnapshot c sb) h) = h @ t \<and>
     (\<forall>t1 e t2. t = t1 @ e # t2 \<and> marks SnapshotPhaseReady e \<longrightarrow> stored sb t1) \<and>
     (fst (fst (run_state (CreateSnapshot c sb) h)) = None \<longrightarrow> (\<exists>e\<in>set t. marks SnapshotPhaseReady e)) \<and>
     (fst (fst (run_state (CreateSnapshot c sb) h)) \<noteq> None \<and> inFlight t \<longrightarrow>
        cleaned t \<or> (\<exists>e\<in>set t. marks SnapshotPhaseFailed e \<and> \<not> accepts SnapshotPhaseFailed e))"
proof -
  obtain t where t: "snd (run_state (CreateSnapshot c sb) h) = h @ t" "taken sb (fst (run_state (CreateSnapshot c sb) h)) t"
    using CreateSnapshot_taken [of c sb h] by (auto simp: wp_run)
  then have "\<forall>t1 e t2. t = t1 @ e # t2 \<and> marks SnapshotPhaseReady e \<longrightarrow> stored sb t1"
    using ord_split [where s = "[]"] by (fastforce simp: taken_def readyOrder_def)
  then show ?thesis using t settled_cleaned [of t] by (auto simp: taken_def)
qed

section \<open>The key of a tenant\<close>

lemma run_bind: "run_state (State_Monad.bind m f) h = (case run_state m h of (a, h') \<Rightarrow> run_state (f a) h')"
  by (simp add: State_Monad.bind_def)

lemma run_call: "run_state (call ask ev) h = (ask h, h @ [ev (ask h)])"
  by (simp add: call_def Let_def)

text \<open>The key is the one of the Secret: it was read from it, or the Secret was created with it.\<close>

definition keyOf :: "string \<Rightarrow> bytes \<Rightarrow> history \<Rightarrow> bool" where
  "keyOf ns k t \<longleftrightarrow> (\<exists>s. sec_Data s tenantKEKKey = Some k \<and>
     (EvGet KSecret (ns, TenantKEKSecret) (Inr (OSecret s)) \<in> set t \<and> length k = KeySize \<or>
      om_Namespace (sec_Meta s) = ns \<and> om_Name (sec_Meta s) = TenantKEKSecret \<and> (\<exists>x. EvCreate (OSecret s) (Inr (OSecret x)) \<in> set t)))"

lemma keyOf_intros:
  "keyOf ns k u \<Longrightarrow> keyOf ns k (e # u)"
  "sec_Data s tenantKEKKey = Some k \<Longrightarrow> length k = KeySize \<Longrightarrow> keyOf ns k (EvGet KSecret (ns, TenantKEKSecret) (Inr (OSecret s)) # u)"
  "keyOf ns k (EvCreate (OSecret \<lparr>sec_Meta = zero_ObjectMeta\<lparr>om_Namespace := ns, om_Name := TenantKEKSecret\<rparr>, sec_Data = [tenantKEKKey \<mapsto> k]\<rparr>) (Inr (OSecret x)) # u)"
  unfolding keyOf_def
  by (auto intro: exI [of _ "\<lparr>sec_Meta = zero_ObjectMeta\<lparr>om_Namespace := ns, om_Name := TenantKEKSecret\<rparr>, sec_Data = [tenantKEKKey \<mapsto> k]\<rparr>"])

lemma TenantKEK_rounds_key:
  "wp (TenantKEK_rounds n c ns) (\<lambda>r t. \<forall>k. r = Inr k \<longrightarrow> keyOf ns k t) h []"
proof (induction n arbitrary: h)
  case (Suc n)
  show ?case
    unfolding TenantKEK_rounds.simps GetSecret_def randRead_def CreateSecret_def
    by (intro wp wp_frame [OF Suc.IH]) (auto simp: decode_Inr keyOf_intros)
qed simp

text \<open>
  How often the Secret of a tenant was deleted under the search: a create found it, and the read that
  follows does not.
\<close>

fun refusedCreate :: "Event \<Rightarrow> bool" where
  "refusedCreate (EvCreate (OSecret _) (Inl AlreadyExists)) = True"
| "refusedCreate _ = False"

fun missingRead :: "string \<Rightarrow> Event \<Rightarrow> bool" where
  "missingRead ns (EvGet KSecret k (Inl NotFound)) \<longleftrightarrow> k = (ns, TenantKEKSecret)"
| "missingRead ns _ \<longleftrightarrow> False"

fun deletions :: "string \<Rightarrow> bool \<Rightarrow> history \<Rightarrow> nat" where
  "deletions ns found [] = 0"
| "deletions ns found (e # t) = (if found \<and> missingRead ns e then 1 else 0) + deletions ns (refusedCreate e) t"

lemma deletions_first: "deletions ns True t \<le> Suc (deletions ns False t)"
  by (cases t) auto

lemma decode_Inl: "decode f r = Inl NotFound \<longleftrightarrow> r = Inl NotFound" "decode f r = Inl AlreadyExists \<longleftrightarrow> r = Inl AlreadyExists"
  by (auto simp: decode_def split: sum.splits option.splits)

lemma TenantKEK_rounds_lost:
  "wp (TenantKEK_rounds n c ns) (\<lambda>r t. r = Inl CoordNoAnswer \<longrightarrow> deletions ns True t = n) h []"
proof (induction n arbitrary: h)
  case (Suc n)
  show ?case
    unfolding TenantKEK_rounds.simps GetSecret_def randRead_def CreateSecret_def
    by (intro wp wp_frame [OF Suc.IH]) (auto simp: decode_Inl)
qed simp

text \<open>A round either ends the search, whatever number of rounds is left, or hands over to the next one.\<close>

lemma TenantKEK_round:
  "(\<exists>h'. \<forall>n. run_state (TenantKEK_rounds (Suc n) c ns) h = run_state (TenantKEK_rounds n c ns) h') \<or>
   (\<exists>x. fst x \<noteq> Inl CoordNoAnswer \<and> (\<forall>n. run_state (TenantKEK_rounds (Suc n) c ns) h = x))"
proof (cases "decode asSecret (e_Get (co_Env c) h KSecret (ns, TenantKEKSecret))")
  case (Inr s)
  then show ?thesis by (simp add: GetSecret_def run_bind run_call split: option.splits)
next
  case (Inl e)
  show ?thesis
  proof (cases "e = NotFound")
    case True
    let ?h = "h @ [EvGet KSecret (ns, TenantKEKSecret) (e_Get (co_Env c) h KSecret (ns, TenantKEKSecret))]"
    show ?thesis
    proof (cases "e_Rand (co_Env c) ?h KeySize")
      case None
      then show ?thesis using Inl True by (simp add: GetSecret_def randRead_def run_bind run_call)
    next
      case (Some k)
      let ?s = "OSecret \<lparr>sec_Meta = zero_ObjectMeta\<lparr>om_Namespace := ns, om_Name := TenantKEKSecret\<rparr>, sec_Data = [tenantKEKKey \<mapsto> k]\<rparr>"
      show ?thesis
        using Inl True Some
        by (cases "decode asSecret (e_Create (co_Env c) (?h @ [EvRand KeySize (Some k)]) ?s)")
           (auto simp: GetSecret_def randRead_def CreateSecret_def run_bind run_call)
    qed
  qed (use Inl in \<open>simp add: GetSecret_def run_bind run_call\<close>)
qed

lemma TenantKEK_rounds_mono:
  "fst (run_state (TenantKEK_rounds n c ns) h) \<noteq> Inl CoordNoAnswer \<Longrightarrow> n \<le> m \<Longrightarrow>
   run_state (TenantKEK_rounds m c ns) h = run_state (TenantKEK_rounds n c ns) h"
proof (induction n arbitrary: m h)
  case (Suc n)
  then obtain m' where m: "m = Suc m'" "n \<le> m'" by (cases m) auto
  show ?case
    using TenantKEK_round [of c ns h]
  proof
    assume "\<exists>h'. \<forall>n. run_state (TenantKEK_rounds (Suc n) c ns) h = run_state (TenantKEK_rounds n c ns) h'"
    then show ?thesis using Suc.prems(1) Suc.IH [OF _ m(2)] unfolding m(1) by metis
  qed (auto simp: m(1) simp del: TenantKEK_rounds.simps)
qed simp

text \<open>
  C37. The search for the key of a tenant ends unless the Secret is deleted under it again and again.
  Followed for \<open>n\<close> rounds, the search has its answer when the Secret was deleted at most
  \<open>n - 2\<close> times between a create that found it and the next read; from then on more rounds change
  nothing, neither the answer nor the calls. A key that it returns is the one that the Secret of the
  tenant was read with, of the right size, or created with.
\<close>
theorem tenant_key_rounds:
  "\<exists>t. snd (run_state (TenantKEK_rounds n c ns) h) = h @ t \<and>
     (deletions ns False t + 2 \<le> n \<longrightarrow> fst (run_state (TenantKEK_rounds n c ns) h) \<noteq> Inl CoordNoAnswer) \<and>
     (fst (run_state (TenantKEK_rounds n c ns) h) \<noteq> Inl CoordNoAnswer \<longrightarrow>
        (\<forall>m\<ge>n. run_state (TenantKEK_rounds m c ns) h = run_state (TenantKEK_rounds n c ns) h)) \<and>
     (\<forall>k. fst (run_state (TenantKEK_rounds n c ns) h) = Inr k \<longrightarrow> keyOf ns k t)"
proof -
  obtain t where t: "snd (run_state (TenantKEK_rounds n c ns) h) = h @ t"
    "\<forall>k. fst (run_state (TenantKEK_rounds n c ns) h) = Inr k \<longrightarrow> keyOf ns k t"
    "fst (run_state (TenantKEK_rounds n c ns) h) = Inl CoordNoAnswer \<longrightarrow> deletions ns True t = n"
    using TenantKEK_rounds_key [of n c ns h] TenantKEK_rounds_lost [of n c ns h] by (auto simp: wp_run)
  have "deletions ns False t + 2 \<le> n \<longrightarrow> fst (run_state (TenantKEK_rounds n c ns) h) \<noteq> Inl CoordNoAnswer"
    using t(3) deletions_first [of ns t] by linarith
  then show ?thesis using t(1,2) TenantKEK_rounds_mono [of n c ns h] by blast
qed

section \<open>Instances\<close>

text \<open>A cluster in which every call works: one Sandbox with an identity, its Pod on a node, and no Snapshot yet.\<close>

fun isCreate :: "Event \<Rightarrow> bool" where
  "isCreate (EvCreate _ _) = True"
| "isCreate _ = False"

definition ex_source :: Sandbox where
  "ex_source = zero_Sandbox\<lparr>sb_Meta := zero_ObjectMeta\<lparr>om_Name := ''box'', om_Namespace := ''ns''\<rparr>,
     sb_Spec := zero_SandboxSpec\<lparr>sp_Snapshot := Some \<lparr>sss_Create = True, sss_Name = ''snap'', sss_AfterCreate = SandboxSnapshotAfterCreateOther [],
       sss_TTL = None, sss_Kept = True, sss_Forkable = False, sss_Parent = []\<rparr>\<rparr>,
     sb_Status := zero_SandboxStatus\<lparr>st_Identity := Some \<lparr>sid_PublicKey = ''key'', sid_Generation = 4\<rparr>\<rparr>\<rparr>"

definition ex_cluster :: Env where
  "ex_cluster = \<lparr>
     e_Get = (\<lambda>h kind k. if kind = KPod then Inr (OPod (zero_Pod\<lparr>pod_NodeName := ''node''\<rparr>)) else if kind = KSandbox then Inr (OSandbox ex_source)
        else if kind = KSecret \<and> list_ex isCreate h then Inl (ApiOther [])
        else Inl NotFound),
     e_List = (\<lambda>_ _ _. Inr []), e_Create = (\<lambda>_ x. Inr x), e_Patch = (\<lambda>_ _ x. Inr x), e_StatusPatch = (\<lambda>_ _ x. Inr x), e_Update = (\<lambda>_ x. Inr x), e_Delete = (\<lambda>_ _. None),
     e_Dial = (\<lambda>_ _. None), e_CreateSnapshot = (\<lambda>_ _ _. Inr \<lparr>csp_StorageRef = ''ref'', csp_SizeBytes = 8, csp_CleanBaseVerified = False\<rparr>),
     e_Restore = (\<lambda>_ _ _. Inr \<lparr>rsp_Success = True, rsp_Error = [], rsp_EntropyReseeded = True, rsp_Uniquified = True, rsp_EncryptedAtRest = True\<rparr>),
     e_Pause = (\<lambda>_ _ _. Inr \<lparr>pr_Success = True, pr_Error = []\<rparr>), e_Resume = (\<lambda>_ _ _. Inr \<lparr>pr_Success = True, pr_Error = []\<rparr>),
     e_DeleteSnapshot = (\<lambda>_ _ _. Inr \<lparr>pr_Success = True, pr_Error = []\<rparr>), e_Now = (\<lambda>_. 7), e_Rand = (\<lambda>_ n. Some (replicate n 1))\<rparr>"

definition ex_coordinator :: Coordinator where
  "ex_coordinator = \<lparr>co_Env = ex_cluster, co_HasClient = True, co_Recorder = True, co_StorageBackendName = [], co_Gate = None,
     co_PoolNamespace = [], co_QuantityString = (\<lambda>_. ''1Gi''), co_Rounds = 2\<rparr>"

lemmas run_defs = run_bind run_call call_defs decode_def asSandbox_def asClass_def asSnapshot_def asPod_def asNode_def asNamespace_def asSecret_def

lemma ex_create_succeeds: "fst (fst (run_state (CreateSnapshot ex_coordinator ex_source) [])) = None"
  by (simp add: CreateSnapshot_def checkNameFree_def getPod_def diffParent_def newSnapshotCR_def instanceType_def applyKept_def TenantKEK_def
      writeSnapshot_def finishSnapshot_def recordIdentityGeneration_def nextIdentityGeneration_def markPhase_def emit_def run_defs
      ex_coordinator_def ex_cluster_def ex_source_def zero_defs numeral_2_eq_2 Let_def)

theorem snapshot_ready_is_recorded_witness:
  "\<exists>t. snd (run_state (CreateSnapshot ex_coordinator ex_source) []) = t \<and> (\<exists>e t1 t2. t = t1 @ e # t2 \<and> marks SnapshotPhaseReady e \<and> stored ex_source t1)"
proof -
  obtain t where t: "snd (run_state (CreateSnapshot ex_coordinator ex_source) []) = t"
    "\<forall>t1 e t2. t = t1 @ e # t2 \<and> marks SnapshotPhaseReady e \<longrightarrow> stored ex_source t1" "\<exists>e\<in>set t. marks SnapshotPhaseReady e"
    using snapshot_ready_is_recorded [of ex_coordinator ex_source "[]"] ex_create_succeeds by auto
  from t(3) obtain t1 e t2 where "t = t1 @ e # t2" "marks SnapshotPhaseReady e" by (auto dest: split_list)
  with t(1,2) show ?thesis by blast
qed

text \<open>A cluster in which another writer makes the Secret between the first read and the create.\<close>

definition ex_raced :: Env where
  "ex_raced = ex_cluster\<lparr>
     e_Get := (\<lambda>h kind k. if list_ex isCreate h
        then Inr (OSecret \<lparr>sec_Meta = zero_ObjectMeta, sec_Data = [tenantKEKKey \<mapsto> replicate 32 2]\<rparr>) else Inl NotFound),
     e_Create := (\<lambda>_ _. Inl AlreadyExists)\<rparr>"

theorem tenant_key_rounds_witness:
  "let c = ex_coordinator\<lparr>co_Env := ex_raced\<rparr>; run = (\<lambda>n. run_state (TenantKEK_rounds n c ''ns'') [])
   in fst (run 1) = Inl CoordNoAnswer \<and> fst (run 2) = Inr (replicate 32 2) \<and> keyOf ''ns'' (replicate 32 2) (snd (run 2)) \<and>
      run 5 = run 2"
proof -
  let ?c = "ex_coordinator\<lparr>co_Env := ex_raced\<rparr>"
  have runs: "fst (run_state (TenantKEK_rounds 1 ?c ''ns'') []) = Inl CoordNoAnswer"
    "fst (run_state (TenantKEK_rounds 2 ?c ''ns'') []) = Inr (replicate 32 2)"
    by (simp_all add: run_defs ex_coordinator_def ex_raced_def ex_cluster_def numeral_2_eq_2 KeySize_def del: replicate.simps)
  obtain t where t: "snd (run_state (TenantKEK_rounds 2 ?c ''ns'') []) = [] @ t"
    "fst (run_state (TenantKEK_rounds 2 ?c ''ns'') []) \<noteq> Inl CoordNoAnswer \<longrightarrow>
       (\<forall>m\<ge>2. run_state (TenantKEK_rounds m ?c ''ns'') [] = run_state (TenantKEK_rounds 2 ?c ''ns'') [])"
    "\<forall>k. fst (run_state (TenantKEK_rounds 2 ?c ''ns'') []) = Inr k \<longrightarrow> keyOf ''ns'' k t"
    using tenant_key_rounds [of 2 ?c "''ns''" "[]"] by blast
  have "keyOf ''ns'' (replicate 32 2) (snd (run_state (TenantKEK_rounds 2 ?c ''ns'') []))"
    using t(3) runs(2) unfolding t(1) append_Nil by blast
  moreover have "fst (run_state (TenantKEK_rounds 2 ?c ''ns'') []) \<noteq> Inl CoordNoAnswer"
    unfolding runs(2) by simp
  then have "run_state (TenantKEK_rounds 5 ?c ''ns'') [] = run_state (TenantKEK_rounds 2 ?c ''ns'') []"
    using t(2) by (elim impE allE [of _ 5]) simp_all
  ultimately show ?thesis using runs unfolding Let_def by blast
qed

text \<open>The gate lets a verified restore of an own snapshot through.\<close>

lemma ex_restore_succeeds:
  "fst (run_state (RestoreSandbox ex_coordinator ex_source (zero_Snapshot\<lparr>sn_Spec := zero_SnapshotSpec\<lparr>ns_SourceSandbox := ''box'', ns_Node := ''node''\<rparr>\<rparr>)) []) = None"
proof -
  have "Decide env g cls (preflightEvidence True) = ret (\<lparr>dc_Allowed = True, dc_Violations = [], dc_DevOptOut = False\<rparr>, None)" for env g cls
    by (intro Decide_verified) (simp add: verified_def preflightEvidence_def)
  moreover have "Decide env g cls (restoreEvidence True \<lparr>rsp_Success = True, rsp_Error = [], rsp_EntropyReseeded = True, rsp_Uniquified = True, rsp_EncryptedAtRest = True\<rparr>) =
      ret (\<lparr>dc_Allowed = True, dc_Violations = [], dc_DevOptOut = False\<rparr>, None)" for env g cls
    by (intro Decide_verified) (simp add: verified_def restoreEvidence_def)
  ultimately show ?thesis
    by (simp add: RestoreSandbox_def classOf_def restoreBound_def restoreTarget_def getPod_def loadState_def rpcFailure_def emitRestored_def emit_def run_defs
        ex_coordinator_def ex_cluster_def ex_source_def zero_defs Let_def)
qed

end
