(* ===== verification/Launcher_Disk.thy ===== *)
theory Launcher_Disk
  imports World
begin

text \<open>
  The disk of a launcher Pod (\<open>src/internal/controller/launcher_disk.go\<close>): the Job that makes it, the
  operator's signature between the build and the push, and the signing seed. The registry library, JSON
  and the signature scheme are the parameters \<open>DiskLib\<close>; the texts of errors are left out.
\<close>

section \<open>Text\<close>

definition str_of :: "bytes \<Rightarrow> string" where
  "str_of b = map (\<lambda>w. char_of (unat w)) b"

text \<open>\<open>strings.EqualFold\<close> on ASCII text, which a registry host is.\<close>

definition lowerChar :: "char \<Rightarrow> char" where
  "lowerChar c = (let n = (of_char c :: nat) in if 65 \<le> n \<and> n \<le> 90 then char_of (n + 32) else c)"

definition str_EqualFold :: "string \<Rightarrow> string \<Rightarrow> bool" where
  "str_EqualFold s t \<longleftrightarrow> map lowerChar s = map lowerChar t"

fun str_CutSep :: "string \<Rightarrow> string \<Rightarrow> (string \<times> string) option" where
  "str_CutSep sep [] = (if sep = [] then Some ([], []) else None)"
| "str_CutSep sep (c # cs) =
     (if str_HasPrefix (c # cs) sep then Some ([], drop (length sep) (c # cs))
      else map_option (\<lambda>(a, b). (c # a, b)) (str_CutSep sep cs))"

section \<open>Configuration and errors\<close>

record DiskBuilderConfig =
  db_Image :: string
  db_Namespace :: string
  db_SigningSecret :: string
  db_ImageRegistries :: "string list"
  db_RegistrySecret :: string
  db_Reader :: "Env option"

record DiskLib =
  dl_Names :: Names
  dl_RegistryStr :: "Digest \<Rightarrow> string" \<comment> \<open>the registry host of a reference\<close>
  dl_NewRegistry :: "string \<Rightarrow> string option" \<comment> \<open>the host of a registry name, or a parse error\<close>
  dl_Ed :: Ed25519
  dl_ReadCheck :: "string \<Rightarrow> bool option"
  dl_ReadBuild :: "string \<Rightarrow> string option"
  dl_Marshal :: "Signature \<Rightarrow> string option"

text \<open>\<open>DiskBuildFailed\<close> is the \<open>diskBuildError\<close> of the source: the disk cannot be made. Every other error is tried again.\<close>

datatype DiskStepError =
    DiskBuildFailed string
  | DiskNotConfigured
  | DiskSecretUnreadable ApiError
  | DiskBadSeed DiskError
  | DiskKeyNotTrusted string
  | DiskNoDigest string
  | DiskApi ApiError
  | DiskBadImage DiskError
  | DiskMarshalFailed

section \<open>Names and checks\<close>

definition diskJobName :: "string \<Rightarrow> string \<Rightarrow> DiskStepError + string" where
  "diskJobName img keyID = (case str_CutSep ''@sha256:'' img of
      None \<Rightarrow> Inl (DiskNoDigest img)
    | Some (_, digest) \<Rightarrow>
        if length digest < 20 then Inl (DiskNoDigest img)
        else Inr (''setec-disk-'' @ take 20 digest @ ''-'' @ keyID))"

definition checkImageRegistry :: "DiskLib \<Rightarrow> string list \<Rightarrow> string \<Rightarrow> bool" where
  "checkImageRegistry dl allowed img = (case ParseDigestRef (dl_Names dl) img of
      Inl _ \<Rightarrow> False
    | Inr d \<Rightarrow> list_ex (\<lambda>a. case dl_NewRegistry dl (str_TrimSpace a) of
          Some reg \<Rightarrow> str_EqualFold reg (dl_RegistryStr dl d) | None \<Rightarrow> False) allowed)"

definition signingKey :: "Env \<Rightarrow> DiskLib \<Rightarrow> DiskBuilderConfig \<Rightarrow> string list \<Rightarrow> (DiskStepError + (bytes \<times> string)) io" where
  "signingKey reader dl cfg diskKeys = do {
     r \<leftarrow> GetSecret reader (db_Namespace cfg, db_SigningSecret cfg);
     ret (case r of
            Inl e \<Rightarrow> Inl (DiskSecretUnreadable e)
          | Inr secret \<Rightarrow> (case ParsePrivateKey (dl_Ed dl) (case sec_Data secret ''seed'' of Some b \<Rightarrow> str_of b | None \<Rightarrow> '''') of
                Inl e \<Rightarrow> Inl (DiskBadSeed e)
              | Inr ky \<Rightarrow>
                  let pub = ed_Public (dl_Ed dl) ky
                  in if list_ex (\<lambda>k. str_TrimSpace k = EncodePublicKey pub) diskKeys then Inr (ky, DiskKeyID pub)
                     else Inl (DiskKeyNotTrusted (DiskKeyID pub))))
   }"

section \<open>The Job\<close>

definition builderJob :: "DiskBuilderConfig \<Rightarrow> string \<Rightarrow> string \<Rightarrow> string list \<Rightarrow> (string \<times> string) list \<Rightarrow> JobManifest" where
  "builderJob cfg jobName component args env =
     \<lparr>jm_Name = jobName, jm_Namespace = db_Namespace cfg, jm_Labels = [''app.kubernetes.io/component'' \<mapsto> component],
      jm_BackoffLimit = 2, jm_TTLSecondsAfterFinished = 600, jm_RestartPolicy = ''Never'', jm_AutomountServiceAccountToken = False,
      jm_RunAsNonRoot = True, jm_RunAsUser = 65532, jm_Seccomp = ''RuntimeDefault'', jm_NodeSelector = [''kubernetes.io/arch'' \<mapsto> ''amd64''],
      jm_InitContainers = [],
      jm_Containers = [\<lparr>jn_Name = ''disk-builder'', jn_Image = db_Image cfg, jn_Args = args, jn_Env = env,
        jn_Mounts = [\<lparr>vm_Name = ''work'', vm_MountPath = ''/work'', vm_ReadOnly = False\<rparr>]\<rparr>],
      jm_Volumes = [(''work'', JobEmptyDir (20 * gibibyte))]\<rparr>"

definition diskJob :: "DiskBuilderConfig \<Rightarrow> string \<Rightarrow> string \<Rightarrow> string \<Rightarrow> string \<Rightarrow> JobManifest" where
  "diskJob cfg diskRepo jobName img keyID =
     (let job = builderJob cfg jobName ''disk-builder'' [] [];
          push = db_RegistrySecret cfg \<noteq> '''';
          pushMounts = (if push then [\<lparr>vm_Name = ''registry'', vm_MountPath = ''/etc/setec/registry'', vm_ReadOnly = True\<rparr>] else []);
          pushEnv = (if push then [(''DOCKER_CONFIG'', ''/etc/setec/registry'')] else []);
          container = (\<lambda>name args mounts env. (hd (jm_Containers job))\<lparr>jn_Name := name, jn_Args := args, jn_Env := env,
             jn_Mounts := \<lparr>vm_Name = ''work'', vm_MountPath = ''/work'', vm_ReadOnly = False\<rparr> # mounts\<rparr>)
      in job\<lparr>
        jm_Volumes := jm_Volumes job @ (if push then [(''registry'', JobSecret (db_RegistrySecret cfg))] else [])
          @ [(''signature'', JobConfigMap (jobName @ ''-sig''))],
        jm_InitContainers := [
          container ''check'' [''--disk-repo'', diskRepo, ''--key-id'', keyID, ''check'', img] pushMounts pushEnv,
          container ''disk-builder'' [''--work'', ''/work'', ''build'', img] [] []],
        jm_Containers := [container ''publish''
          [''--disk-repo'', diskRepo, ''--key-id'', keyID, ''--work'', ''/work'', ''--signature-file'', ''/etc/setec/disk-signature/signature.json'',
           ''--temp-dir'', ''/work'', ''publish'', img]
          (pushMounts @ [\<lparr>vm_Name = ''signature'', vm_MountPath = ''/etc/setec/disk-signature'', vm_ReadOnly = True\<rparr>]) pushEnv]\<rparr>)"

text \<open>The first condition that is true and final: \<open>Some True\<close> for a complete Job, \<open>Some False\<close> for a failed one.\<close>

fun jobEnd :: "JobCondition list \<Rightarrow> bool option" where
  "jobEnd [] = None"
| "jobEnd (x # xs) =
     (if jc_Status x \<noteq> ''True'' then jobEnd xs
      else if jc_Type x = ''Complete'' then Some True
      else if jc_Type x = ''Failed'' then Some False
      else jobEnd xs)"

section \<open>The signature of a built disk\<close>

text \<open>The messages of the check and of the build container of one Pod, and whether the build ended with success.\<close>

definition initReport :: "ContainerStatus list \<Rightarrow> string \<times> string \<times> bool" where
  "initReport css = foldl (\<lambda>(c, b, built) cs. case cst_Terminated cs of
       None \<Rightarrow> (c, b, built)
     | Some t \<Rightarrow> if term_ExitCode t \<noteq> 0 then (c, b, built)
         else if cst_Name cs = ''check'' then (term_Message t, b, built)
         else if cst_Name cs = ''disk-builder'' then (c, term_Message t, True)
         else (c, b, built)) ('''', '''', False) css"

fun podReports :: "Pod list \<Rightarrow> string \<times> string" where
  "podReports [] = ('''', '''')"
| "podReports (p # ps) = (case initReport (pod_InitContainerStatuses p) of (c, b, built) \<Rightarrow> if built then (c, b) else podReports ps)"

definition initReports :: "Env \<Rightarrow> string \<Rightarrow> string \<Rightarrow> (ApiError + (string \<times> string)) io" where
  "initReports reader namespace jobName = do {
     r \<leftarrow> ListObjs reader KPod (MatchingLabels namespace [(''batch.kubernetes.io/job-name'', jobName)]) asPod;
     ret (case r of Inl e \<Rightarrow> Inl e | Inr pods \<Rightarrow> Inr (podReports pods))
   }"

text \<open>What to sign, once both reports are there: nothing when the check found the disk.\<close>

definition diskSignature :: "DiskLib \<Rightarrow> string \<Rightarrow> string \<Rightarrow> bytes \<Rightarrow> string \<Rightarrow> string \<Rightarrow> DiskStepError + string option" where
  "diskSignature dl jobName img ky checkMsg buildMsg =
     (case (if checkMsg \<noteq> '''' then ParseCheckResult (dl_ReadCheck dl) checkMsg else Inr False) of
        Inl _ \<Rightarrow> Inl (DiskBuildFailed jobName)
      | Inr True \<Rightarrow> Inr None
      | Inr False \<Rightarrow> (case ParseBuildResult (dl_ReadBuild dl) buildMsg of
            Inl _ \<Rightarrow> Inl (DiskBuildFailed jobName)
          | Inr dsum \<Rightarrow> (case ParseDigestRef (dl_Names dl) img of
                Inl e \<Rightarrow> Inl (DiskBadImage e)
              | Inr d \<Rightarrow> (case dl_Marshal dl (SignDigest (dl_Ed dl) ky (dg_DigestStr d) dsum) of
                    None \<Rightarrow> Inl DiskMarshalFailed
                  | Some sig \<Rightarrow> Inr (Some sig)))))"

definition signBuiltDisk ::
  "Env \<Rightarrow> Env \<Rightarrow> DiskLib \<Rightarrow> DiskBuilderConfig \<Rightarrow> Job \<Rightarrow> string \<Rightarrow> bytes \<Rightarrow> DiskStepError option io" where
  "signBuiltDisk env reader dl cfg job img ky = do {
     let name = om_Name (job_Meta job);
     g \<leftarrow> GetConfigMap reader (db_Namespace cfg, name @ ''-sig'');
     case g of
       Inr _ \<Rightarrow> ret None
     | Inl e \<Rightarrow>
         if e \<noteq> NotFound then ret (Some (DiskApi e))
         else do {
           rep \<leftarrow> initReports reader (db_Namespace cfg) name;
           case rep of
             Inl e \<Rightarrow> ret (Some (DiskApi e))
           | Inr (checkMsg, buildMsg) \<Rightarrow>
               if buildMsg = '''' then ret None
               else (case diskSignature dl name img ky checkMsg buildMsg of
                   Inl e \<Rightarrow> ret (Some e)
                 | Inr None \<Rightarrow> ret None
                 | Inr (Some sig) \<Rightarrow> do {
                     w \<leftarrow> CreateObj env (OConfigMap \<lparr>cm_Meta = zero_ObjectMeta\<lparr>om_Name := name @ ''-sig'', om_Namespace := db_Namespace cfg,
                         om_Labels := [''app.kubernetes.io/component'' \<mapsto> ''disk-builder''], om_Controller := om_UID (job_Meta job)\<rparr>,
                       cm_Data = [''signature.json'' \<mapsto> sig]\<rparr>);
                     ret (case w of Inl e \<Rightarrow> if e = AlreadyExists then None else Some (DiskApi e) | Inr _ \<Rightarrow> None)
                   })
         }
   }"

section \<open>The disk step\<close>

definition ensureDisk ::
  "Env \<Rightarrow> DiskLib \<Rightarrow> DiskBuilderConfig \<Rightarrow> string \<Rightarrow> string list \<Rightarrow> string \<Rightarrow> (DiskStepError + (string \<times> bool)) io" where
  "ensureDisk env dl cfg diskRepo diskKeys img =
     (if db_Image cfg = '''' \<or> db_Namespace cfg = '''' \<or> db_SigningSecret cfg = '''' then ret (Inl DiskNotConfigured)
      else if \<not> checkImageRegistry dl (db_ImageRegistries cfg) img then ret (Inl (DiskBuildFailed ''''))
      else do {
        let reader = (case db_Reader cfg of Some e \<Rightarrow> e | None \<Rightarrow> env);
        k \<leftarrow> signingKey reader dl cfg diskKeys;
        case k of
          Inl e \<Rightarrow> ret (Inl e)
        | Inr (ky, keyID) \<Rightarrow>
            (case diskJobName img keyID of
               Inl e \<Rightarrow> ret (Inl e)
             | Inr jobName \<Rightarrow> do {
                 j \<leftarrow> GetJob reader (db_Namespace cfg, jobName);
                 case j of
                   Inl e \<Rightarrow>
                     if e = NotFound then do {
                       w \<leftarrow> CreateObj env (OJobManifest (diskJob cfg diskRepo jobName img keyID));
                       ret (case w of Inl x \<Rightarrow> if x = AlreadyExists then Inr (keyID, False) else Inl (DiskApi x) | Inr _ \<Rightarrow> Inr (keyID, False))
                     }
                     else ret (Inl (DiskApi e))
                 | Inr job \<Rightarrow>
                     (case jobEnd (job_Conditions job) of
                        Some True \<Rightarrow> ret (Inr (keyID, True))
                      | Some False \<Rightarrow> ret (Inl (DiskBuildFailed jobName))
                      | None \<Rightarrow> do {
                          s \<leftarrow> signBuiltDisk env reader dl cfg job img ky;
                          ret (case s of Some e \<Rightarrow> Inl e | None \<Rightarrow> Inr (keyID, False))
                        })
               })
      })"

end
