(* ===== verification/Sandbox_Reconciler.thy ===== *)
theory Sandbox_Reconciler
  imports Coordinator Launcher_Disk Snapshot_Validator Status
begin

text \<open>
  The reconciler of a Sandbox, first part: its state, the writes of the status
  (\<open>src/internal/controller/sandbox_controller.go\<close>), the identity of a Sandbox (\<open>identity.go\<close>) and the
  restore of a launcher Sandbox (\<open>launcher_restore.go\<close>). An operation that writes to its Sandbox returns it:
  after a successful write it is the object of the answer, after a failed one the object that was sent.
  Metrics, spans, logs and the texts of messages are left out, and the recorder is always there. A nil and
  an empty map are one value here.
\<close>

section \<open>State\<close>

record SandboxReconciler =
  sr_Env :: Env \<comment> \<open>the client, the clock and the random source\<close>
  sr_APIReader :: "Env option"
  sr_Scheme :: bool \<comment> \<open>whether the scheme knows the Sandbox kind\<close>
  sr_LauncherImage :: string
  sr_DiskRepo :: string
  sr_DiskKeys :: "string list"
  sr_WarmPoolNamespace :: string
  sr_DiskBuilder :: DiskBuilderConfig
  sr_ClassResolver :: bool
  sr_MultiTenancyEnabled :: bool
  sr_TenantLabelKey :: string
  sr_ClassNotFoundGrace :: duration
  sr_OrphanRetention :: duration
  sr_EphemeralRetention :: duration
  sr_Coordinator :: "Coordinator option"
  sr_NetPol :: Config
  sr_NamespaceBaselineDeny :: bool
  sr_Lib :: DiskLib
  sr_QuantityString :: "quantity \<Rightarrow> string"
  sr_ParseTime :: "string \<Rightarrow> gotime option" \<comment> \<open>\<open>time.Parse (time.RFC3339, _)\<close>\<close>
  sr_IsLabel :: "string \<Rightarrow> bool" \<comment> \<open>\<open>validation.IsDNS1123Label\<close>\<close>
  sr_RetrySteps :: nat \<comment> \<open>the steps of \<open>retry.DefaultRetry\<close>\<close>

datatype RecError =
    RecApi ApiError
  | RecCoord CoordError
  | RecClass ClassError
  | RecTenant TenancyError
  | RecNetpol NetpolError
  | RecDisk DiskStepError
  | RecPodspec PodspecError
  | RecSeed SignError
  | RecOwner \<comment> \<open>\<open>SetControllerReference\<close> failed\<close>
  | RecTerminating string \<comment> \<open>a claim or a key of an earlier session is going away\<close>
  | RecKEKSize nat
  | RecRand
  | RecCoordinatorOff

text \<open>The result of a reconcile is the time after which it comes back; zero is no such time.\<close>

type_synonym result = duration

abbreviation rsb :: "SandboxReconciler \<Rightarrow> Sandbox \<Rightarrow> string \<Rightarrow> string \<Rightarrow> unit io" where
  "rsb r sb ty reason \<equiv> recordEvent ''Sandbox'' (sbKey sb) ty reason"

definition recordAndReturnErr :: "Sandbox \<Rightarrow> string \<Rightarrow> RecError \<Rightarrow> (result \<times> RecError option) io" where
  "recordAndReturnErr sb reason err = do {_ \<leftarrow> recordEvent ''Sandbox'' (sbKey sb) ''Warning'' reason; ret (0, Some err)}"

section \<open>Writes\<close>

definition statusPatch :: "SandboxReconciler \<Rightarrow> Sandbox \<Rightarrow> Sandbox \<Rightarrow> (RecError option \<times> Sandbox) io" where
  "statusPatch r original sb = do {
     p \<leftarrow> StatusPatchSandbox (sr_Env r) original sb;
     ret (case p of Inl e \<Rightarrow> (Some (RecApi e), sb) | Inr s \<Rightarrow> (None, s))
   }"

definition metaPatch :: "SandboxReconciler \<Rightarrow> Sandbox \<Rightarrow> Sandbox \<Rightarrow> (RecError option \<times> Sandbox) io" where
  "metaPatch r original sb = do {
     p \<leftarrow> PatchSandbox (sr_Env r) original sb;
     ret (case p of Inl e \<Rightarrow> (Some (RecApi e), sb) | Inr s \<Rightarrow> (None, s))
   }"

text \<open>A delete; an object that is already gone is fine.\<close>

definition deleteIgnoreNotFound :: "Env \<Rightarrow> Object \<Rightarrow> RecError option io" where
  "deleteIgnoreNotFound env x = do {
     e \<leftarrow> DeleteObj env x;
     ret (case e of None \<Rightarrow> None | Some err \<Rightarrow> if err = NotFound then None else Some (RecApi err))
   }"

abbreviation (input) with_status :: "Sandbox \<Rightarrow> (SandboxStatus \<Rightarrow> SandboxStatus) \<Rightarrow> Sandbox" where
  "with_status sb f \<equiv> sb\<lparr>sb_Status := f (sb_Status sb)\<rparr>"

definition patchPhase :: "SandboxReconciler \<Rightarrow> Sandbox \<Rightarrow> SandboxPhase \<Rightarrow> string \<Rightarrow> bool \<Rightarrow> (RecError option \<times> Sandbox) io" where
  "patchPhase r sb phase reason setPausedAt = do {
     now \<leftarrow> timeNow (sr_Env r);
     statusPatch r sb (with_status sb (\<lambda>st. st\<lparr>st_Phase := phase, st_Reason := reason, st_LastTransitionTime := Some now,
       st_PausedAt := (if setPausedAt then Some now else None)\<rparr>))
   }"

text \<open>\<open>patchFailedStatus\<close> and \<open>patchPendingStatus\<close> differ in the phase only.\<close>

definition patchReason :: "SandboxReconciler \<Rightarrow> Sandbox \<Rightarrow> SandboxPhase \<Rightarrow> string \<Rightarrow> (RecError option \<times> Sandbox) io" where
  "patchReason r sb phase reason =
     (if st_Phase (sb_Status sb) = phase \<and> st_Reason (sb_Status sb) = reason then ret (None, sb)
      else do {
        now \<leftarrow> timeNow (sr_Env r);
        statusPatch r sb (with_status sb (\<lambda>st. st\<lparr>st_Phase := phase, st_Reason := reason, st_LastTransitionTime := Some now\<rparr>))
      })"

definition patchFailedStatus :: "SandboxReconciler \<Rightarrow> Sandbox \<Rightarrow> string \<Rightarrow> (RecError option \<times> Sandbox) io" where
  "patchFailedStatus r sb reason = patchReason r sb SandboxPhaseFailed reason"

definition patchPendingStatus :: "SandboxReconciler \<Rightarrow> Sandbox \<Rightarrow> string \<Rightarrow> (RecError option \<times> Sandbox) io" where
  "patchPendingStatus r sb reason = patchReason r sb SandboxPhasePending reason"

section \<open>Identity\<close>

definition sandboxID :: "Sandbox \<Rightarrow> string" where
  "sandboxID sb = sb_Namespace sb @ ''/'' @ sb_Name sb @ ''/'' @ om_UID (sb_Meta sb)"

definition createIdentitySecret :: "SandboxReconciler \<Rightarrow> Sandbox \<Rightarrow> key \<Rightarrow> (RecError + Secret) io" where
  "createIdentitySecret r sb ky = do {
     seed \<leftarrow> randRead (sr_Env r) SeedSize;
     case seed of
       None \<Rightarrow> ret (Inl RecRand)
     | Some b \<Rightarrow>
         if \<not> sr_Scheme r then ret (Inl RecOwner)
         else do {
           w \<leftarrow> CreateSecret (sr_Env r) \<lparr>sec_Meta = zero_ObjectMeta\<lparr>om_Namespace := fst ky, om_Name := snd ky,
               om_Labels := [SandboxLabelKey \<mapsto> sb_Name sb], om_Controller := om_UID (sb_Meta sb)\<rparr>,
             sec_Data = [''seed'' \<mapsto> bytes_of (b64_Encode StdEncoding b)]\<rparr>;
           ret (case w of Inl e \<Rightarrow> Inl (RecApi e) | Inr sec \<Rightarrow> Inr sec)
         }
   }"

text \<open>The Secret of the key: read, replaced when another Sandbox controls it, or made.\<close>

definition identitySecret :: "SandboxReconciler \<Rightarrow> Sandbox \<Rightarrow> (RecError + Secret) io" where
  "identitySecret r sb = do {
     let ky = (sb_Namespace sb, IdentitySecretName (sb_Name sb));
     g \<leftarrow> GetSecret (sr_Env r) ky;
     case g of
       Inr sec \<Rightarrow>
         if om_Controller (sec_Meta sec) \<noteq> '''' \<and> om_Controller (sec_Meta sec) = om_UID (sb_Meta sb) then ret (Inr sec)
         else do {
           d \<leftarrow> deleteIgnoreNotFound (sr_Env r) (OSecret sec);
           case d of Some e \<Rightarrow> ret (Inl e) | None \<Rightarrow> createIdentitySecret r sb ky
         }
     | Inl e \<Rightarrow> if e = NotFound then createIdentitySecret r sb ky else ret (Inl (RecApi e))
   }"

definition recordIdentity :: "SandboxReconciler \<Rightarrow> Sandbox \<Rightarrow> string \<Rightarrow> (RecError option \<times> Sandbox) io" where
  "recordIdentity r sb pub =
     (if (case st_Identity (sb_Status sb) of Some i \<Rightarrow> sid_PublicKey i = pub | None \<Rightarrow> False) then ret (None, sb)
      else statusPatch r sb (with_status sb (\<lambda>st. st\<lparr>st_Identity := Some \<lparr>sid_PublicKey = pub,
        sid_Generation = (case st_Identity st of Some i \<Rightarrow> if sid_Generation i > 1 then sid_Generation i else 1 | None \<Rightarrow> 1)\<rparr>\<rparr>)))"

definition ensureIdentity :: "SandboxReconciler \<Rightarrow> Sandbox \<Rightarrow> ((RecError + LauncherIdentity) \<times> Sandbox) io" where
  "ensureIdentity r sb = do {
     s \<leftarrow> identitySecret r sb;
     case s of
       Inl e \<Rightarrow> ret (Inl e, sb)
     | Inr sec \<Rightarrow>
         (case KeyFromSeed (dl_Ed (sr_Lib r)) (case sec_Data sec ''seed'' of Some b \<Rightarrow> str_of b | None \<Rightarrow> '''') of
            Inl e \<Rightarrow> ret (Inl (RecSeed e), sb)
          | Inr priv \<Rightarrow> do {
              (err, sb') \<leftarrow> recordIdentity r sb (b64_Encode StdEncoding (ed_Public (dl_Ed (sr_Lib r)) priv));
              case err of
                Some e \<Rightarrow> ret (Inl e, sb')
              | None \<Rightarrow> do {
                  n \<leftarrow> GetNamespace (sr_Env r) (sb_Namespace sb');
                  ret (case n of
                         Inl e \<Rightarrow> (Inl (RecApi e), sb')
                       | Inr ns \<Rightarrow> (Inr \<lparr>li_SandboxID = sandboxID sb', li_Client = map_get (om_Labels (nsp_Meta ns)) ClientLabelKey,
                           li_Tenant = map_get (om_Labels (nsp_Meta ns)) TenantLabelKey,
                           li_Generation = (case st_Identity (sb_Status sb') of Some i \<Rightarrow> sid_Generation i | None \<Rightarrow> 0)\<rparr>, sb'))
                }
            })
   }"

section \<open>The restore of a launcher Sandbox\<close>

abbreviation RestoredAnnotation :: string where "RestoredAnnotation \<equiv> ''setec.zeroroot.ai/restored-from''"
abbreviation WarmBaseAnnotation :: string where "WarmBaseAnnotation \<equiv> ''setec.zeroroot.ai/warm-base''"

definition isLocalSnapshot :: "Snapshot \<Rightarrow> bool" where
  "isLocalSnapshot snap \<longleftrightarrow> ns_StorageBackend (sn_Spec snap) = '''' \<or> ns_StorageBackend (sn_Spec snap) = ''local-disk''"

abbreviation hasSnapshotRef :: "Sandbox \<Rightarrow> bool" where
  "hasSnapshotRef sb \<equiv> (case sp_SnapshotRef (sb_Spec sb) of None \<Rightarrow> False | Some x \<Rightarrow> ssr_Name x \<noteq> '''')"

definition restoreSource :: "Sandbox \<Rightarrow> key" where
  "restoreSource sb =
     (if hasSnapshotRef sb then (sb_Namespace sb, ssr_Name (the (sp_SnapshotRef (sb_Spec sb))))
      else case str_Cut CHR ''/'' (map_get (om_Annotations (sb_Meta sb)) WarmBaseAnnotation) of
             Some (ns, name) \<Rightarrow> (ns, name)
           | None \<Rightarrow> ('''', ''''))"

abbreviation keyString :: "key \<Rightarrow> string" where "keyString k \<equiv> fst k @ ''/'' @ snd k"

definition restoredValue :: "Sandbox \<Rightarrow> key \<Rightarrow> string" where
  "restoredValue sb src = (if fst src = sb_Namespace sb then snd src else keyString src)"

definition isLauncherSandbox :: "Sandbox \<Rightarrow> bool" where
  "isLauncherSandbox sb = (case st_Runtime (sb_Status sb) of None \<Rightarrow> False | Some x \<Rightarrow> srt_Chosen x = BackendLauncher)"

definition needsLauncherRestore :: "Sandbox \<Rightarrow> bool" where
  "needsLauncherRestore sb \<longleftrightarrow> snd (restoreSource sb) \<noteq> '''' \<and> isLauncherSandbox sb \<and>
     map_get (om_Annotations (sb_Meta sb)) RestoredAnnotation \<noteq> restoredValue sb (restoreSource sb)"

abbreviation (input) annotate :: "Sandbox \<Rightarrow> string \<Rightarrow> string option \<Rightarrow> Sandbox" where
  "annotate sb k v \<equiv> sb\<lparr>sb_Meta := (sb_Meta sb)\<lparr>om_Annotations := (om_Annotations (sb_Meta sb))(k := v)\<rparr>\<rparr>"

definition markWarmBase :: "SandboxReconciler \<Rightarrow> Sandbox \<Rightarrow> Snapshot option \<Rightarrow> (RecError option \<times> Sandbox) io" where
  "markWarmBase r sb base =
     (let want = (case base of None \<Rightarrow> '''' | Some b \<Rightarrow> sn_Namespace b @ ''/'' @ sn_Name b)
      in if map_get (om_Annotations (sb_Meta sb)) WarmBaseAnnotation = want then ret (None, sb)
         else metaPatch r sb (annotate sb WarmBaseAnnotation (if want = '''' then None else Some want)))"

text \<open>
  The failure of a restore: an event, and a Failed status. A warm start also records the base that it
  could not use (\<open>failWarm\<close>); the class that the source reads there only labels a metric, but the read
  happens.
\<close>

definition classOrNil :: "SandboxReconciler \<Rightarrow> Sandbox \<Rightarrow> SandboxClass option io" where
  "classOrNil r sb =
     (if sp_SandboxClassName (sb_Spec sb) = '''' then ret None
      else do {g \<leftarrow> GetClass (sr_Env r) (sp_SandboxClassName (sb_Spec sb)); ret (case g of Inl _ \<Rightarrow> None | Inr cls \<Rightarrow> Some cls)})"

definition failRestore :: "SandboxReconciler \<Rightarrow> Sandbox \<Rightarrow> SandboxStatus \<Rightarrow> bool \<Rightarrow> string \<Rightarrow> SandboxStatus io" where
  "failRestore r sb desired warm reason = do {
     _ \<leftarrow> (if warm then classOrNil r sb else ret None);
     _ \<leftarrow> rsb r sb ''Warning'' reason;
     let failed = desired\<lparr>st_Phase := SandboxPhaseFailed, st_Reason := reason\<rparr>;
     ret (if warm then failed\<lparr>st_WarmStart := Some \<lparr>wst_Outcome = SandboxWarmStartRejected, wst_EntryID = keyString (restoreSource sb),
            wst_Reason = reason\<rparr>\<rparr> else failed)
   }"

definition maybeRestoreLauncher :: "SandboxReconciler \<Rightarrow> Sandbox \<Rightarrow> Pod \<Rightarrow> SandboxStatus \<Rightarrow> (SandboxStatus \<times> Sandbox) io" where
  "maybeRestoreLauncher r sb pod desired =
     (if \<not> needsLauncherRestore sb \<or> pod_Phase pod \<noteq> PodRunning \<or> st_Phase desired = SandboxPhaseFailed then ret (desired, sb)
      else case sr_Coordinator r of
        None \<Rightarrow> do {f \<leftarrow> failRestore r sb desired False ''RestoreFailed''; ret (f, sb)}
      | Some c \<Rightarrow> do {
          let src = restoreSource sb;
          let warm = (fst src \<noteq> sb_Namespace sb);
          g \<leftarrow> GetSnapshot (sr_Env r) src;
          case g of
            Inl _ \<Rightarrow> do {f \<leftarrow> failRestore r sb desired warm ''RestoreFailed''; ret (f, sb)}
          | Inr snap \<Rightarrow> do {
              err \<leftarrow> RestoreSandbox c sb snap;
              case err of
                Some e \<Rightarrow> do {
                  f \<leftarrow> failRestore r sb desired warm (if isGateViolation e then ReasonInvariantGateViolation else ''RestoreFailed'');
                  ret (f, sb)
                }
              | None \<Rightarrow> do {
                  _ \<leftarrow> (if warm then classOrNil r sb else ret None);
                  let restored = (if warm then desired\<lparr>st_WarmStart := Some \<lparr>wst_Outcome = SandboxWarmStartPoolRestored, wst_EntryID = keyString src,
                      wst_Reason = ''''\<rparr>\<rparr> else desired);
                  (perr, sb') \<leftarrow> metaPatch r sb (annotate sb RestoredAnnotation (Some (restoredValue sb src)));
                  case perr of
                    None \<Rightarrow> ret (restored, sb')
                  | Some _ \<Rightarrow> do {f \<leftarrow> failRestore r sb' restored warm ''RestoreFailed''; ret (f, sb')}
                }
            }
        })"

definition holdUntilRestored :: "Sandbox \<Rightarrow> SandboxStatus \<Rightarrow> SandboxStatus" where
  "holdUntilRestored sb desired =
     (if needsLauncherRestore sb \<and> st_Phase desired = SandboxPhasePending \<and> st_Reason desired = ''''
      then desired\<lparr>st_Reason := ''Restoring''\<rparr> else desired)"

definition classCPUTemplate :: "SandboxClass option \<Rightarrow> string" where
  "classCPUTemplate cls = (case cls of None \<Rightarrow> '''' | Some c \<Rightarrow> cs_CPUTemplate (cl_Spec c))"

definition restoreInstanceType :: "SandboxReconciler \<Rightarrow> Sandbox \<Rightarrow> SandboxClass option \<Rightarrow> string io" where
  "restoreInstanceType r sb cls =
     (if \<not> hasSnapshotRef sb \<or> classCPUTemplate cls \<noteq> '''' then ret ''''
      else do {
        g \<leftarrow> GetSnapshot (sr_Env r) (sb_Namespace sb, ssr_Name (the (sp_SnapshotRef (sb_Spec sb))));
        ret (case g of Inl _ \<Rightarrow> '''' | Inr snap \<Rightarrow> ns_InstanceType (sn_Spec snap))
      })"

end
