(* ===== verification/Session_Checkpoint.thy ===== *)
theory Session_Checkpoint
  imports Sandbox_Reconciler
begin

text \<open>
  The checkpoints of a session (\<open>src/internal/controller/session_checkpoint.go\<close>): the key of a session,
  the periodic checkpoint, the suspend and the resume of a session, the move after a lost node and the
  teardown. The caller has checked that there is a coordinator, which is an argument here. The reasons of
  a suspend and of the events are written out where they are used.
\<close>

section \<open>The policy and the key of a session\<close>

abbreviation deleting :: "ObjectMeta \<Rightarrow> bool" where
  "deleting m \<equiv> (case om_DeletionTimestamp m of None \<Rightarrow> False | Some t \<Rightarrow> \<not> time_IsZero t)"

abbreviation annotationSuspendedPod :: string where "annotationSuspendedPod \<equiv> ''setec.zeroroot.ai/suspended''"
abbreviation sessionKEKName :: "Sandbox \<Rightarrow> string" where "sessionKEKName sb \<equiv> sb_Name sb @ ''-session-kek''"
abbreviation suspendWaitRequeue :: duration where "suspendWaitRequeue \<equiv> 2 * second"
abbreviation nodeLossGrace :: duration where "nodeLossGrace \<equiv> 90 * second"

definition sessionCheckpointPolicy :: "Sandbox \<Rightarrow> SandboxClass option \<Rightarrow> SessionCheckpointSpec option" where
  "sessionCheckpointPolicy sb cls = (case cls of
      None \<Rightarrow> None
    | Some c \<Rightarrow> if IsSession (sb_Spec sb) then cs_SessionCheckpoint (cl_Spec c) else None)"

definition ensureSessionKEK :: "SandboxReconciler \<Rightarrow> Sandbox \<Rightarrow> RecError option io" where
  "ensureSessionKEK r sb = do {
     g \<leftarrow> GetSecret (sr_Env r) (sb_Namespace sb, sessionKEKName sb);
     case g of
       Inr existing \<Rightarrow> ret (if deleting (sec_Meta existing) then Some (RecTerminating (sessionKEKName sb)) else None)
     | Inl e \<Rightarrow>
         if e \<noteq> NotFound then ret (Some (RecApi e))
         else do {
           rnd \<leftarrow> randRead (sr_Env r) KeySize;
           case rnd of
             None \<Rightarrow> ret (Some RecRand)
           | Some kek \<Rightarrow>
               if \<not> sr_Scheme r then ret (Some RecOwner)
               else do {
                 w \<leftarrow> CreateSecret (sr_Env r) \<lparr>sec_Meta = zero_ObjectMeta\<lparr>om_Name := sessionKEKName sb, om_Namespace := sb_Namespace sb,
                     om_Labels := [SandboxLabelKey \<mapsto> sb_Name sb], om_Controller := om_UID (sb_Meta sb)\<rparr>, sec_Data = [''kek'' \<mapsto> kek]\<rparr>;
                 case w of
                   Inl x \<Rightarrow>
                     if x \<noteq> AlreadyExists then ret (Some (RecApi x))
                     else do {_ \<leftarrow> rsb r sb ''Normal'' ''SessionKEKCreated''; ret None}
                 | Inr _ \<Rightarrow> do {_ \<leftarrow> rsb r sb ''Normal'' ''SessionKEKCreated''; ret None}
               }
         }
   }"

definition readSessionKEK :: "SandboxReconciler \<Rightarrow> Sandbox \<Rightarrow> (RecError + bytes) io" where
  "readSessionKEK r sb = do {
     g \<leftarrow> GetSecret (sr_Env r) (sb_Namespace sb, sessionKEKName sb);
     ret (case g of
            Inl e \<Rightarrow> Inl (RecApi e)
          | Inr secret \<Rightarrow>
              let kek = (case sec_Data secret ''kek'' of Some b \<Rightarrow> b | None \<Rightarrow> [])
              in if length kek \<noteq> KeySize then Inl (RecKEKSize (length kek)) else Inr kek)
   }"

section \<open>Small steps\<close>

definition pendingCheckpoint :: "Sandbox \<Rightarrow> bool" where
  "pendingCheckpoint sb = (case st_Checkpoint (sb_Status sb) of None \<Rightarrow> False | Some ck \<Rightarrow> ck_PendingRestore ck \<and> ck_Ref ck \<noteq> '''')"

abbreviation sessionPodKey :: "Sandbox \<Rightarrow> key" where
  "sessionPodKey sb \<equiv> (sb_Namespace sb, if st_PodName (sb_Status sb) = '''' then sb_Name sb @ ''-vm'' else st_PodName (sb_Status sb))"

definition deleteSessionPod :: "SandboxReconciler \<Rightarrow> Sandbox \<Rightarrow> RecError option io" where
  "deleteSessionPod r sb = do {
     g \<leftarrow> GetPod (sr_Env r) (sessionPodKey sb);
     case g of
       Inl _ \<Rightarrow> ret None
     | Inr pod \<Rightarrow> if deleting (pod_Meta pod) then ret None else deleteIgnoreNotFound (sr_Env r) (OPod pod)
   }"

definition sessionPodUID :: "SandboxReconciler \<Rightarrow> Sandbox \<Rightarrow> string io" where
  "sessionPodUID r sb = do {
     g \<leftarrow> GetPod (sr_Env r) (sessionPodKey sb);
     ret (case g of Inl _ \<Rightarrow> '''' | Inr pod \<Rightarrow> om_UID (pod_Meta pod))
   }"

fun deleteRefs :: "Coordinator \<Rightarrow> Sandbox \<Rightarrow> string \<Rightarrow> string list \<Rightarrow> unit io" where
  "deleteRefs c sb backend [] = ret ()"
| "deleteRefs c sb backend (ref # refs) =
     (if ref = '''' then deleteRefs c sb backend refs
      else do {_ \<leftarrow> DeleteSessionCheckpoint c sb ref backend; deleteRefs c sb backend refs})"

definition deleteCheckpointChain :: "Coordinator \<Rightarrow> Sandbox \<Rightarrow> SandboxCheckpointStatus \<Rightarrow> unit io" where
  "deleteCheckpointChain c sb ck = deleteRefs c sb (ck_Backend ck) (ck_Parents ck @ [ck_Ref ck])"

definition restoreStillPending :: "SandboxReconciler \<Rightarrow> Sandbox \<Rightarrow> string \<Rightarrow> (RecError + bool) io" where
  "restoreStillPending r sb ref = do {
     g \<leftarrow> GetSandbox (case sr_APIReader r of Some e \<Rightarrow> e | None \<Rightarrow> sr_Env r) (sbKey sb);
     ret (case g of
            Inl e \<Rightarrow> Inl (RecApi e)
          | Inr live \<Rightarrow> Inr (case st_Checkpoint (sb_Status live) of None \<Rightarrow> False | Some lc \<Rightarrow> ck_PendingRestore lc \<and> ck_Ref lc = ref))
   }"

definition restoreDue :: "Sandbox \<Rightarrow> Pod \<Rightarrow> SandboxStatus \<Rightarrow> bool" where
  "restoreDue sb pod desired = (case st_Checkpoint (sb_Status sb) of
      None \<Rightarrow> False
    | Some ck \<Rightarrow> ck_PendingRestore ck \<and> (st_Phase desired = SandboxPhaseRunning \<or> isLauncherSandbox sb) \<and>
        pod_Phase pod = PodRunning \<and> \<not> deleting (pod_Meta pod) \<and> (ck_PodUID ck = '''' \<or> om_UID (pod_Meta pod) \<noteq> ck_PodUID ck))"

definition nextCheckpointDue :: "SandboxReconciler \<Rightarrow> Sandbox \<Rightarrow> SessionCheckpointSpec \<Rightarrow> gotime io" where
  "nextCheckpointDue r sb policy = do {
     now \<leftarrow> timeNow (sr_Env r);
     let base = (case Option.bind (st_Checkpoint (sb_Status sb)) ck_TakenAt of
         Some t \<Rightarrow> t
       | None \<Rightarrow> (case st_StartedAt (sb_Status sb) of Some t \<Rightarrow> t | None \<Rightarrow> now));
     ret (time_Add base (EffectiveInterval (Some policy)))
   }"

section \<open>Taking a checkpoint\<close>

text \<open>The parent of a diff and its chain, when the same machine wrote the last checkpoint and the chain is short enough.\<close>

definition diffChain :: "Sandbox \<Rightarrow> SessionCheckpointSpec \<Rightarrow> string \<Rightarrow> string \<times> string list" where
  "diffChain sb policy podUID = (case st_Checkpoint (sb_Status sb) of
      None \<Rightarrow> ('''', [])
    | Some prev \<Rightarrow>
        if scs_Durable policy \<and> isLauncherSandbox sb \<and> ck_Ref prev \<noteq> '''' \<and> podUID \<noteq> '''' \<and> ck_PodUID prev = podUID \<and> length (ck_Parents prev) < 8
        then (ck_Ref prev, ck_Parents prev @ [ck_Ref prev]) else ('''', []))"

definition takeCheckpoint :: "SandboxReconciler \<Rightarrow> Coordinator \<Rightarrow> Sandbox \<Rightarrow> SessionCheckpointSpec \<Rightarrow> bool \<Rightarrow> (RecError option \<times> Sandbox) io" where
  "takeCheckpoint r c sb policy leavePaused = do {
     kerr \<leftarrow> ensureSessionKEK r sb;
     case kerr of
       Some e \<Rightarrow> ret (Some e, sb)
     | None \<Rightarrow> do {
         k \<leftarrow> readSessionKEK r sb;
         case k of
           Inl e \<Rightarrow> ret (Some e, sb)
         | Inr kek \<Rightarrow> do {
             let prev = st_Checkpoint (sb_Status sb);
             let sequence = (case prev of None \<Rightarrow> 1 | Some p \<Rightarrow> ck_Sequence p + 1);
             let backend = CheckpointBackend (Some policy);
             podUID \<leftarrow> sessionPodUID r sb;
             let (parent, parents) = diffChain sb policy podUID;
             (res, sb1) \<leftarrow> CheckpointSession c sb backend sequence kek leavePaused parent;
             case res of
               Inl e \<Rightarrow> ret (Some (RecCoord e), sb1)
             | Inr (ref, sz) \<Rightarrow> do {
                 _ \<leftarrow> (case prev of
                     Some p \<Rightarrow> if ck_Ref p \<noteq> '''' \<and> parent = '''' then deleteCheckpointChain c sb1 p else ret ()
                   | None \<Rightarrow> ret ());
                 now \<leftarrow> timeNow (sr_Env r);
                 let ck = CopyRecovery (zero_SandboxCheckpointStatus\<lparr>ck_Ref := ref, ck_Backend := backend, ck_Sequence := sequence,
                     ck_TakenAt := Some now, ck_SizeBytes := sint sz, ck_PodUID := podUID, ck_Parents := parents\<rparr>) prev;
                 (perr, sb2) \<leftarrow> statusPatch r sb1 (with_status sb1 (\<lambda>st. st\<lparr>st_Checkpoint := Some ck\<rparr>));
                 case perr of
                   Some e \<Rightarrow> ret (Some e, sb2)
                 | None \<Rightarrow> do {_ \<leftarrow> rsb r sb2 ''Normal'' ''SessionCheckpointTaken''; ret (None, sb2)}
               }
           }
       }
   }"

definition periodicCheckpoint ::
  "SandboxReconciler \<Rightarrow> Coordinator \<Rightarrow> Sandbox \<Rightarrow> SessionCheckpointSpec \<Rightarrow> (result \<times> bool \<times> RecError option \<times> Sandbox) io" where
  "periodicCheckpoint r c sb policy = do {
     let interval = EffectiveInterval (Some policy);
     due \<leftarrow> (case Option.bind (st_Checkpoint (sb_Status sb)) ck_TakenAt of
         Some t \<Rightarrow> do {now \<leftarrow> timeNow (sr_Env r); ret (time_Sub now t \<ge> interval)}
       | None \<Rightarrow> (case st_StartedAt (sb_Status sb) of
             Some t \<Rightarrow> do {now \<leftarrow> timeNow (sr_Env r); ret (time_Sub now t \<ge> interval)}
           | None \<Rightarrow> ret True));
     if due then do {
       (_, sb') \<leftarrow> takeCheckpoint r c sb policy False;
       ret (interval, True, None, sb')
     }
     else do {
       t \<leftarrow> nextCheckpointDue r sb policy;
       now \<leftarrow> timeNow (sr_Env r);
       ret (max (time_Sub t now) second, False, None, sb)
     }
   }"

section \<open>Suspending a session\<close>

definition suspendReason :: "SandboxReconciler \<Rightarrow> Sandbox \<Rightarrow> SandboxClass option \<Rightarrow> SandboxStatus \<Rightarrow> string io" where
  "suspendReason r sb cls desired =
     (let past = (\<lambda>deadline reason. case deadline of
            None \<Rightarrow> ret ''''
          | Some d \<Rightarrow> do {now \<leftarrow> timeNow (sr_Env r); ret (if time_Before now d then '''' else reason)})
      in if sp_DesiredState (sb_Spec sb) = SandboxDesiredStateSuspended \<and>
            (st_Phase desired = SandboxPhaseRunning \<or> st_Phase desired = SandboxPhasePaused) then ret ''UserSuspended''
         else if st_Phase desired = SandboxPhasePaused then past (PauseDeadline desired cls) ''SuspendedPauseTimeout''
         else if st_Phase desired = SandboxPhaseRunning then past (SessionIdleDeadline (sr_ParseTime r) sb cls) ''SuspendedIdle''
         else ret '''')"

text \<open>The Pod is marked before it is deleted, so that its end is not taken for a drain.\<close>

definition condemnPod :: "SandboxReconciler \<Rightarrow> Pod \<Rightarrow> RecError option io" where
  "condemnPod r pod = do {
     let pod' = pod\<lparr>pod_Meta := (pod_Meta pod)\<lparr>om_Annotations := (om_Annotations (pod_Meta pod))(annotationSuspendedPod \<mapsto> ''true'')\<rparr>\<rparr>;
     p \<leftarrow> PatchPod (sr_Env r) pod pod';
     case p of
       Inl e \<Rightarrow> if e \<noteq> NotFound then ret (Some (RecApi e)) else deleteIgnoreNotFound (sr_Env r) (OPod pod')
     | Inr pod2 \<Rightarrow> deleteIgnoreNotFound (sr_Env r) (OPod pod2)
   }"

definition suspendSession ::
  "SandboxReconciler \<Rightarrow> Coordinator \<Rightarrow> Sandbox \<Rightarrow> SessionCheckpointSpec \<Rightarrow> Pod \<Rightarrow> string \<Rightarrow> (result \<times> RecError option \<times> Sandbox) io" where
  "suspendSession r c sb policy pod reason = do {
     (ckErr, sb1) \<leftarrow> takeCheckpoint r c sb policy (isLauncherSandbox sb);
     if ckErr \<noteq> None \<and> reason \<noteq> ''CheckpointOnDrain''
     then do {(res, err) \<leftarrow> recordAndReturnErr sb1 ''ReconcileError'' (the ckErr); ret (res, err, sb1)}
     else do {
       perr \<leftarrow> (if deleting (pod_Meta pod) then ret None else condemnPod r pod);
       case perr of
         Some e \<Rightarrow> do {(res, err) \<leftarrow> recordAndReturnErr sb1 ''ReconcileError'' e; ret (res, err, sb1)}
       | None \<Rightarrow> do {
           let ck = (case st_Checkpoint (sb_Status sb1) of Some x \<Rightarrow> x
               | None \<Rightarrow> zero_SandboxCheckpointStatus\<lparr>ck_Backend := CheckpointBackend (Some policy)\<rparr>);
           now \<leftarrow> timeNow (sr_Env r);
           (serr, sb2) \<leftarrow> statusPatch r sb1 (with_status sb1 (\<lambda>st. st\<lparr>
             st_Checkpoint := Some (ck\<lparr>ck_PendingRestore := ck_Ref ck \<noteq> '''' \<and> (ckErr = None \<or> scs_Durable policy)\<rparr>),
             st_Phase := SandboxPhaseSuspended, st_Reason := reason, st_PausedAt := None, st_LastTransitionTime := Some now\<rparr>));
           case serr of
             Some e \<Rightarrow> ret (0, Some e, sb2)
           | None \<Rightarrow> do {_ \<leftarrow> rsb r sb2 ''Normal'' ''SessionSuspended''; ret (suspendWaitRequeue, None, sb2)}
         }
     }
   }"

section \<open>Resuming a session\<close>

definition suspendedSandboxAction :: "(string \<Rightarrow> gotime option) \<Rightarrow> Sandbox \<Rightarrow> bool" where
  "suspendedSandboxAction parse sb =
     (let want = sp_DesiredState (sb_Spec sb); reason = st_Reason (sb_Status sb)
      in if want = SandboxDesiredStateSuspended then False
         else if reason = ''CheckpointOnDrain'' \<or> reason = ''UserSuspended'' then True
         else if reason = ''SuspendedPauseTimeout'' then want = SandboxDesiredStateOther '''' \<or> want = SandboxDesiredStateRunning
         else if reason = ''SuspendedIdle''
         then \<not> time_Before (LastSessionActivity parse sb) (case st_LastTransitionTime (sb_Status sb) of Some t \<Rightarrow> t | None \<Rightarrow> 0)
         else True)"

definition recycleIfExpired :: "SandboxReconciler \<Rightarrow> Sandbox \<Rightarrow> SandboxClass option \<Rightarrow> (result \<times> RecError option) io" where
  "recycleIfExpired r sb cls = do {
     let since = (case st_LastTransitionTime (sb_Status sb) of Some t \<Rightarrow> t | None \<Rightarrow> om_CreationTimestamp (sb_Meta sb));
     let deadline = time_Add since (RecycleAfter (sessionCheckpointPolicy sb cls));
     now \<leftarrow> timeNow (sr_Env r);
     if time_Sub deadline now > 0 then ret (time_Sub deadline now, None)
     else do {
       _ \<leftarrow> rsb r sb ''Normal'' ''SessionRecycled'';
       err \<leftarrow> deleteIgnoreNotFound (sr_Env r) (OSandbox sb);
       ret (0, err)
     }
   }"

text \<open>The attempt to load the checkpoint: the key, then the coordinator.\<close>

definition tryRestore :: "SandboxReconciler \<Rightarrow> Coordinator \<Rightarrow> Sandbox \<Rightarrow> SandboxCheckpointStatus \<Rightarrow> RecError option io" where
  "tryRestore r c sb ck = do {
     k \<leftarrow> readSessionKEK r sb;
     case k of
       Inl e \<Rightarrow> ret (Some e)
     | Inr kek \<Rightarrow> do {
         e \<leftarrow> RestoreSessionCheckpoint c sb (ck_Ref ck) (ck_Backend ck) kek (case ck_TakenAt ck of Some t \<Rightarrow> t | None \<Rightarrow> 0);
         ret (map_option RecCoord e)
       }
   }"

text \<open>After the attempt: the machine of a refused restore goes, and so does a launcher Pod that waits for a checkpoint that will not come.\<close>

definition afterRestore :: "SandboxReconciler \<Rightarrow> Sandbox \<Rightarrow> RecError option \<Rightarrow> (RecError option \<times> SessionRecoveryKind) io" where
  "afterRestore r sb restoreErr = (case restoreErr of
      None \<Rightarrow> do {_ \<leftarrow> rsb r sb ''Normal'' ''SessionResumedFromCheckpoint''; ret (None, SessionRecoveryResumedFromCheckpoint)}
    | Some e \<Rightarrow>
        if (case e of RecCoord x \<Rightarrow> isGateViolation x | _ \<Rightarrow> False) then do {
          _ \<leftarrow> rsb r sb ''Warning'' ''InvariantGateViolation'';
          d \<leftarrow> deleteSessionPod r sb;
          ret (d, SessionRecoveryRestartedFromWorkspace)
        }
        else do {
          d \<leftarrow> (if isLauncherSandbox sb then deleteSessionPod r sb else ret None);
          case d of
            Some x \<Rightarrow> ret (Some x, SessionRecoveryRestartedFromWorkspace)
          | None \<Rightarrow> do {_ \<leftarrow> rsb r sb ''Warning'' ''SessionRestartedFromWorkspace''; ret (None, SessionRecoveryRestartedFromWorkspace)}
        })"

definition restorePendingCheckpoint ::
  "SandboxReconciler \<Rightarrow> Coordinator \<Rightarrow> Sandbox \<Rightarrow> SandboxCheckpointStatus \<Rightarrow> SessionCheckpointSpec \<Rightarrow> (result \<times> RecError option \<times> Sandbox) io" where
  "restorePendingCheckpoint r c sb ck policy = do {
     p \<leftarrow> restoreStillPending r sb (ck_Ref ck);
     case p of
       Inl e \<Rightarrow> ret (0, Some e, sb)
     | Inr False \<Rightarrow> ret (0, None, sb)
     | Inr True \<Rightarrow> do {
         restoreErr \<leftarrow> tryRestore r c sb ck;
         (derr, recovery) \<leftarrow> afterRestore r sb restoreErr;
         case derr of
           Some e \<Rightarrow> ret (0, Some e, sb)
         | None \<Rightarrow> do {
             _ \<leftarrow> deleteCheckpointChain c sb ck;
             now \<leftarrow> timeNow (sr_Env r);
             let next = RecordRecovery (CopyRecovery (zero_SandboxCheckpointStatus\<lparr>ck_Backend := ck_Backend ck, ck_Sequence := ck_Sequence ck\<rparr>) (Some ck))
                 recovery now (ck_TakenAt ck);
             (serr, sb') \<leftarrow> statusPatch r sb (with_status sb (\<lambda>st. st\<lparr>st_Checkpoint := Some next\<rparr>));
             case serr of
               Some e \<Rightarrow> ret (0, Some e, sb')
             | None \<Rightarrow> ret (if EffectiveInterval (Some policy) > 0 then EffectiveInterval (Some policy) else 0, None, sb')
           }
       }
   }"

section \<open>Lost nodes and drains\<close>

definition nodeLostFor :: "SandboxReconciler \<Rightarrow> string \<Rightarrow> duration option io" where
  "nodeLostFor r name = do {
     g \<leftarrow> GetNode (sr_Env r) name;
     case g of
       Inl e \<Rightarrow> ret (if e = NotFound then Some nodeLossGrace else None)
     | Inr node \<Rightarrow> (case List.find (\<lambda>x. nc_Type x = ''Ready'') (node_Conditions node) of
           None \<Rightarrow> ret None
         | Some x \<Rightarrow> if nc_Status x = ''True'' then ret None
             else do {now \<leftarrow> timeNow (sr_Env r); ret (Some (time_Sub now (nc_LastTransitionTime x)))})
   }"

definition resumeAfterNodeLoss :: "SandboxReconciler \<Rightarrow> Sandbox \<Rightarrow> Pod \<Rightarrow> (result \<times> RecError option \<times> Sandbox) io" where
  "resumeAfterNodeLoss r sb pod = do {
     _ \<leftarrow> rsb r sb ''Warning'' ''SessionNodeLost'';
     (perr, sb') \<leftarrow> (case st_Checkpoint (sb_Status sb) of
         Some ck \<Rightarrow> if ck_Ref ck \<noteq> '''' \<and> \<not> ck_PendingRestore ck
             then statusPatch r sb (with_status sb (\<lambda>st. st\<lparr>st_Checkpoint := Some (ck\<lparr>ck_PendingRestore := True\<rparr>)\<rparr>)) else ret (None, sb)
       | None \<Rightarrow> ret (None, sb));
     case perr of
       Some e \<Rightarrow> ret (0, Some e, sb')
     | None \<Rightarrow> do {
         derr \<leftarrow> deleteIgnoreNotFound (sr_Env r) (OPod pod);
         ret (case derr of Some e \<Rightarrow> (0, Some e, sb') | None \<Rightarrow> (suspendWaitRequeue, None, sb'))
       }
   }"

definition handleNodeLoss :: "SandboxReconciler \<Rightarrow> Sandbox \<Rightarrow> Pod \<Rightarrow> (result \<times> bool \<times> RecError option \<times> Sandbox) io" where
  "handleNodeLoss r sb pod = do {
     l \<leftarrow> nodeLostFor r (pod_NodeName pod);
     case l of
       None \<Rightarrow> ret (0, False, None, sb)
     | Some lostFor \<Rightarrow>
         if lostFor < nodeLossGrace then ret (nodeLossGrace - lostFor, True, None, sb)
         else do {(res, err, sb') \<leftarrow> resumeAfterNodeLoss r sb pod; ret (res, True, err, sb')}
   }"

definition draining :: "SandboxReconciler \<Rightarrow> Pod \<Rightarrow> bool io" where
  "draining r pod =
     (if deleting (pod_Meta pod) then ret True
      else if pod_NodeName pod = '''' then ret False
      else do {g \<leftarrow> GetNode (sr_Env r) (pod_NodeName pod); ret (case g of Inl _ \<Rightarrow> False | Inr node \<Rightarrow> node_Unschedulable node)})"

section \<open>The step of a session\<close>

definition checkpointWhileLive ::
  "SandboxReconciler \<Rightarrow> Coordinator \<Rightarrow> Sandbox \<Rightarrow> SandboxClass option \<Rightarrow> SessionCheckpointSpec \<Rightarrow> Pod \<Rightarrow> SandboxStatus
   \<Rightarrow> (result \<times> bool \<times> RecError option \<times> Sandbox) io" where
  "checkpointWhileLive r c sb cls policy pod desired = do {
     drain \<leftarrow> (if st_Phase desired = SandboxPhaseRunning \<or> st_Phase desired = SandboxPhasePaused then draining r pod else ret False);
     if drain then do {(res, err, sb') \<leftarrow> suspendSession r c sb policy pod ''CheckpointOnDrain''; ret (res, True, err, sb')}
     else do {
       reason \<leftarrow> suspendReason r sb cls desired;
       if reason \<noteq> '''' then do {(res, err, sb') \<leftarrow> suspendSession r c sb policy pod reason; ret (res, True, err, sb')}
       else if st_Phase desired = SandboxPhaseRunning \<and> EffectiveInterval (Some policy) > 0 then periodicCheckpoint r c sb policy
       else ret (0, False, None, sb)
     }
   }"

definition reconcileSessionCheckpoint ::
  "SandboxReconciler \<Rightarrow> Sandbox \<Rightarrow> SandboxClass option \<Rightarrow> Pod \<Rightarrow> SandboxStatus \<Rightarrow> (result \<times> bool \<times> RecError option \<times> Sandbox) io" where
  "reconcileSessionCheckpoint r sb cls pod desired = (case (sessionCheckpointPolicy sb cls, sr_Coordinator r) of
      (Some policy, Some c) \<Rightarrow>
        if map_get (om_Annotations (pod_Meta pod)) annotationSuspendedPod \<noteq> '''' then ret (suspendWaitRequeue, True, None, sb)
        else if restoreDue sb pod desired then do {
          (res, err, sb') \<leftarrow> restorePendingCheckpoint r c sb (the (st_Checkpoint (sb_Status sb))) policy;
          ret (res, True, err, sb')
        }
        else do {
          (res, handled, err, sb') \<leftarrow> (if scs_Durable policy \<and> pod_NodeName pod \<noteq> '''' then handleNodeLoss r sb pod else ret (0, False, None, sb));
          if handled then ret (res, True, err, sb') else checkpointWhileLive r c sb cls policy pod desired
        }
    | _ \<Rightarrow> ret (0, False, None, sb))"

section \<open>Teardown\<close>

definition teardownSessionCheckpoint :: "SandboxReconciler \<Rightarrow> Sandbox \<Rightarrow> unit io" where
  "teardownSessionCheckpoint r sb = do {
     g \<leftarrow> GetSecret (sr_Env r) (sb_Namespace sb, sessionKEKName sb);
     _ \<leftarrow> (case g of
         Inl _ \<Rightarrow> ret ()
       | Inr secret \<Rightarrow>
           if deleting (sec_Meta secret) then ret ()
           else do {
             e \<leftarrow> deleteIgnoreNotFound (sr_Env r) (OSecret secret);
             case e of None \<Rightarrow> rsb r sb ''Normal'' ''SessionKEKDeleted'' | Some _ \<Rightarrow> ret ()
           });
     case (st_Checkpoint (sb_Status sb), sr_Coordinator r) of
       (Some ck, Some c) \<Rightarrow> if ck_Ref ck \<noteq> '''' then deleteCheckpointChain c sb ck else ret ()
     | _ \<Rightarrow> ret ()
   }"

end
