(* ===== verification/Warm_Pool.thy ===== *)
theory Warm_Pool
  imports Sandbox_Reconciler
begin

text \<open>
  The warm pool (\<open>src/internal/controller/warm_pool.go\<close>, \<open>pool_verify.go\<close>): which images a pool keeps,
  the signature check of each image, the bases that are made, counted and removed, and the choice of a base
  for a Sandbox. A sort by a name that is unique has one result, which the stable sort of the library gives.
  The table from a key to a count is a function that is zero outside the table, the table of the nodes of a
  key a function to a list without repetition.
\<close>

section \<open>Retries\<close>

text \<open>\<open>retry.RetryOnConflict\<close>: the step runs again while it returns a conflict, as often as the backoff has steps.\<close>

fun retryOnConflict :: "nat \<Rightarrow> RecError option io \<Rightarrow> RecError option io" where
  "retryOnConflict 0 m = ret None"
| "retryOnConflict (Suc n) m = do {
     e \<leftarrow> m;
     if e = Some (RecApi Conflict) \<and> n > 0 then retryOnConflict n m else ret e
   }"

section \<open>Images and keys\<close>

abbreviation warmPoolIdle :: duration where "warmPoolIdle \<equiv> 7 * 24 * hour"
abbreviation maxPoolImages :: nat where "maxPoolImages \<equiv> 32"

definition poolActive :: "SandboxClass option \<Rightarrow> bool" where
  "poolActive cls = (case cls of
      None \<Rightarrow> False
    | Some c \<Rightarrow> cs_PreWarmPoolSize (cl_Spec c) > 0 \<and> cs_DefaultResources (cl_Spec c) \<noteq> None \<and>
        (case cs_Runtime (cl_Spec c) of None \<Rightarrow> False | Some rt \<Rightarrow> scr_Backend rt = BackendLauncher))"

definition sameResources :: "Resources \<Rightarrow> Resources \<Rightarrow> bool" where
  "sameResources a b \<longleftrightarrow> res_VCPU a = res_VCPU b \<and> res_Memory a = res_Memory b"

abbreviation poolResources :: "SandboxClass \<Rightarrow> Resources" where "poolResources cls \<equiv> the (cs_DefaultResources (cl_Spec cls))"

definition poolEligible :: "Sandbox \<Rightarrow> SandboxClass option \<Rightarrow> bool" where
  "poolEligible sb cls \<longleftrightarrow> poolActive cls \<and> str_Contains (sp_Image (sb_Spec sb)) ''@sha256:'' \<and> \<not> hasSnapshotRef sb \<and> \<not> IsSession (sb_Spec sb) \<and>
     sameResources (sp_Resources (sb_Spec sb)) (poolResources (the cls))"

definition baseKeyOf :: "(quantity \<Rightarrow> string) \<Rightarrow> SandboxClass \<Rightarrow> string \<Rightarrow> string \<Rightarrow> string" where
  "baseKeyOf quantityString cls img launcherImage = BaseKey quantityString img launcherImage (cs_CPUTemplate (cl_Spec cls)) (poolResources cls)"

section \<open>The Sandbox side\<close>

definition selectBase :: "SandboxReconciler \<Rightarrow> Sandbox \<Rightarrow> SandboxClass option \<Rightarrow> (RecError + Snapshot option) io" where
  "selectBase r sb clsOpt =
     (if sr_WarmPoolNamespace r = '''' \<or> \<not> poolEligible sb clsOpt then ret (Inr None)
      else do {
        let cls = the clsOpt;
        let ky = baseKeyOf (sr_QuantityString r) cls (sp_Image (sb_Spec sb)) (sr_LauncherImage r);
        l \<leftarrow> ListObjs (sr_Env r) KSnapshot (MatchingLabels (sr_WarmPoolNamespace r) [(BaseLabel, BaseLabelValue), (BaseClassLabel, cl_Name cls)]) asSnapshot;
        ret (case l of
               Inl e \<Rightarrow> Inl (RecApi e)
             | Inr bases \<Rightarrow> Inr (List.find (\<lambda>b. nst_Phase (sn_Status b) = SnapshotPhaseReady \<and>
                   map_get (om_Annotations (sn_Meta b)) BaseKeyAnnotation = ky \<and>
                   map_get (om_Annotations (sn_Meta b)) CleanBaseAnnotation = BaseLabelValue \<and>
                   (case om_DeletionTimestamp (sn_Meta b) of None \<Rightarrow> True | Some t \<Rightarrow> time_IsZero t)) (sort_key sn_Name bases)))
      })"

fun oldestIndex :: "nat \<Rightarrow> nat \<Rightarrow> gotime \<Rightarrow> SandboxClassWarmPoolImage list \<Rightarrow> nat" where
  "oldestIndex i oldest t [] = oldest"
| "oldestIndex i oldest t (x # xs) =
     (if time_Before (wpi_LastUsed x) t then oldestIndex (Suc i) i (wpi_LastUsed x) xs else oldestIndex (Suc i) oldest t xs)"

fun touchImage :: "string \<Rightarrow> gotime \<Rightarrow> SandboxClassWarmPoolImage list \<Rightarrow> SandboxClassWarmPoolImage list" where
  "touchImage img now [] = []"
| "touchImage img now (x # xs) = (if wpi_Image x = img then x\<lparr>wpi_LastUsed := now\<rparr> # xs else x # touchImage img now xs)"

definition stampImage :: "SandboxClassWarmPoolImage list \<Rightarrow> string \<Rightarrow> gotime \<Rightarrow> SandboxClassWarmPoolImage list" where
  "stampImage images img now =
     (if img \<in> wpi_Image ` set images then touchImage img now images
      else
        let images = images @ [\<lparr>wpi_Image = img, wpi_LastUsed = now, wpi_Key = '''', wpi_Ready = 0\<rparr>];
            o' = oldestIndex 0 0 (wpi_LastUsed (hd images)) images;
            images = (if length images > maxPoolImages then take o' images @ drop (Suc o') images else images)
        in sort_key wpi_Image images)"

definition markPoolUsed :: "SandboxReconciler \<Rightarrow> Sandbox \<Rightarrow> SandboxClass option \<Rightarrow> RecError option io" where
  "markPoolUsed r sb clsOpt =
     (if \<not> poolEligible sb clsOpt then ret None
      else do {
        let cls = the clsOpt;
        let img = sp_Image (sb_Spec sb);
        now \<leftarrow> timeNow (sr_Env r);
        if (case cst_WarmPool (cl_Status cls) of
              None \<Rightarrow> False
            | Some ws \<Rightarrow> list_ex (\<lambda>im. wpi_Image im = img \<and> time_Sub now (wpi_LastUsed im) < hour) (wps_Images ws))
        then ret None
        else retryOnConflict (sr_RetrySteps r) (do {
          g \<leftarrow> GetClass (sr_Env r) (cl_Name cls);
          case g of
            Inl e \<Rightarrow> ret (Some (RecApi e))
          | Inr fresh \<Rightarrow> do {
              let images = (case cst_WarmPool (cl_Status fresh) of None \<Rightarrow> [] | Some ws \<Rightarrow> wps_Images ws);
              p \<leftarrow> StatusPatchClass (sr_Env r) fresh (fresh\<lparr>cl_Status := (cl_Status fresh)\<lparr>cst_WarmPool := Some \<lparr>wps_Images = stampImage images img now\<rparr>\<rparr>\<rparr>);
              ret (case p of Inl e \<Rightarrow> Some (RecApi e) | Inr _ \<Rightarrow> None)
            }
        })
      })"

definition recordColdBoot :: "SandboxReconciler \<Rightarrow> Sandbox \<Rightarrow> Sandbox io" where
  "recordColdBoot r sb =
     (if st_WarmStart (sb_Status sb) \<noteq> None then ret sb
      else do {
        (_, sb') \<leftarrow> statusPatch r sb (with_status sb (\<lambda>st. st\<lparr>st_WarmStart := Some \<lparr>wst_Outcome = SandboxWarmStartColdBoot, wst_EntryID = '''',
          wst_Reason = ''miss''\<rparr>\<rparr>));
        ret sb'
      })"

section \<open>The state of a pool\<close>

record WarmPoolReconciler =
  wr_Env :: Env
  wr_Coordinator :: "Coordinator option"
  wr_Namespace :: string
  wr_LauncherImage :: string
  wr_DiskRepo :: string
  wr_DiskKeys :: "string list"
  wr_DiskBuilder :: DiskBuilderConfig
  wr_Lib :: DiskLib
  wr_QuantityString :: "quantity \<Rightarrow> string"
  wr_RetrySteps :: nat
  wr_SetStatusCondition :: "Condition list \<Rightarrow> Condition \<Rightarrow> Condition list \<times> bool" \<comment> \<open>\<open>meta.SetStatusCondition\<close>: the new list, and whether it changed\<close>

fun poolLoop :: "(string \<Rightarrow> string) \<Rightarrow> gotime \<Rightarrow> (string \<times> gotime) list \<Rightarrow> string list \<Rightarrow> SandboxClassWarmPoolImage list" where
  "poolLoop keyOf now [] seen = []"
| "poolLoop keyOf now ((img, lastUsed) # rest) seen =
     (if img \<in> set seen \<or> time_Sub now lastUsed > warmPoolIdle then poolLoop keyOf now rest seen
      else \<lparr>wpi_Image = img, wpi_LastUsed = lastUsed, wpi_Key = keyOf img, wpi_Ready = 0\<rparr> # poolLoop keyOf now rest (img # seen))"

definition poolImages :: "WarmPoolReconciler \<Rightarrow> SandboxClass \<Rightarrow> gotime \<Rightarrow> SandboxClassWarmPoolImage list" where
  "poolImages r cls now = poolLoop (\<lambda>img. baseKeyOf (wr_QuantityString r) cls img (wr_LauncherImage r)) now
     ((case cst_WarmPool (cl_Status cls) of None \<Rightarrow> [] | Some ws \<Rightarrow> map (\<lambda>im. (wpi_Image im, wpi_LastUsed im)) (wps_Images ws))
      @ (if str_Contains (cs_PreWarmImage (cl_Spec cls)) ''@sha256:'' then [(cs_PreWarmImage (cl_Spec cls), om_CreationTimestamp (cl_Meta cls))] else [])) []"

fun updateLive :: "gotime \<Rightarrow> SandboxClassWarmPoolImage list \<Rightarrow> SandboxClassWarmPoolImage list \<Rightarrow> SandboxClassWarmPoolImage list" where
  "updateLive now [] out = out"
| "updateLive now (l # ls) out = updateLive now ls
     (if wpi_Image l \<in> wpi_Image ` set out
      then (case List.find (\<lambda>c. wpi_Image c = wpi_Image l) out of
              Some c \<Rightarrow> if time_After (wpi_LastUsed l) (wpi_LastUsed c) then touchImage (wpi_Image l) (wpi_LastUsed l) out else out
            | None \<Rightarrow> out)
      else if time_Sub now (wpi_LastUsed l) \<le> warmPoolIdle then out @ [l] else out)"

definition mergePoolImages :: "SandboxClassWarmPoolStatus option \<Rightarrow> SandboxClassWarmPoolImage list \<Rightarrow> gotime \<Rightarrow> SandboxClassWarmPoolImage list" where
  "mergePoolImages live computed now =
     sort_key wpi_Image (updateLive now (case live of None \<Rightarrow> [] | Some ws \<Rightarrow> wps_Images ws) computed)"

text \<open>No images, the nil slice of the source, clears the pool.\<close>

definition patchStatus :: "WarmPoolReconciler \<Rightarrow> SandboxClass \<Rightarrow> SandboxClassWarmPoolImage list \<Rightarrow> RecError option io" where
  "patchStatus r cls images = retryOnConflict (wr_RetrySteps r) (do {
     g \<leftarrow> GetClass (wr_Env r) (cl_Name cls);
     case g of
       Inl e \<Rightarrow> ret (Some (RecApi e))
     | Inr fresh \<Rightarrow> do {
         ws \<leftarrow> (if images = [] then ret None
           else do {now \<leftarrow> timeNow (wr_Env r); ret (Some \<lparr>wps_Images = mergePoolImages (cst_WarmPool (cl_Status fresh)) images now\<rparr>)});
         if cst_WarmPool (cl_Status fresh) = ws then ret None
         else do {
           p \<leftarrow> StatusPatchClass (wr_Env r) fresh (fresh\<lparr>cl_Status := (cl_Status fresh)\<lparr>cst_WarmPool := ws\<rparr>\<rparr>);
           ret (case p of Inl e \<Rightarrow> Some (RecApi e) | Inr _ \<Rightarrow> None)
         }
       }
   })"

definition poolList :: "WarmPoolReconciler \<Rightarrow> string \<Rightarrow> (RecError + (Snapshot list \<times> Pod list)) io" where
  "poolList r class = do {
     let sel = MatchingLabels (wr_Namespace r) [(BaseLabel, BaseLabelValue), (BaseClassLabel, class)];
     b \<leftarrow> ListObjs (wr_Env r) KSnapshot sel asSnapshot;
     case b of
       Inl e \<Rightarrow> ret (Inl (RecApi e))
     | Inr bases \<Rightarrow> do {
         p \<leftarrow> ListObjs (wr_Env r) KPod sel asPod;
         ret (case p of Inl e \<Rightarrow> Inl (RecApi e) | Inr pods \<Rightarrow> Inr (bases, pods))
       }
   }"

fun deleteEach :: "Env \<Rightarrow> Object list \<Rightarrow> RecError option io" where
  "deleteEach env [] = ret None"
| "deleteEach env (x # xs) = do {
     e \<leftarrow> deleteIgnoreNotFound env x;
     case e of Some err \<Rightarrow> ret (Some err) | None \<Rightarrow> deleteEach env xs
   }"

text \<open>\<open>None\<close> stands for the two nil slices of a class that is gone.\<close>

definition deleteAll :: "WarmPoolReconciler \<Rightarrow> string \<Rightarrow> (Snapshot list \<times> Pod list) option \<Rightarrow> RecError option io" where
  "deleteAll r class known = do {
     l \<leftarrow> (case known of
         Some x \<Rightarrow> ret (Inr x)
       | None \<Rightarrow> if wr_Namespace r = '''' then ret (Inr ([], [])) else poolList r class);
     case l of
       Inl e \<Rightarrow> ret (Some e)
     | Inr (bases, pods) \<Rightarrow> deleteEach (wr_Env r) (map OSnapshot bases @ map OPod pods)
   }"

definition countReady :: "Snapshot list \<Rightarrow> string \<Rightarrow> int" where
  "countReady bases k = int (length (filter (\<lambda>b. nst_Phase (sn_Status b) = SnapshotPhaseReady \<and> map_get (om_Annotations (sn_Meta b)) BaseKeyAnnotation = k) bases))"

definition readyBases :: "WarmPoolReconciler \<Rightarrow> string \<Rightarrow> (RecError + (string \<Rightarrow> int)) io" where
  "readyBases r class = do {
     l \<leftarrow> poolList r class;
     ret (case l of Inl e \<Rightarrow> Inl e | Inr (bases, _) \<Rightarrow> Inr (countReady bases))
   }"

section \<open>The signature of a pool image\<close>

datatype verifyState = verifyPending | verifyPassed | verifyFailed

definition verifyJobName :: "SandboxClass \<Rightarrow> ImageSignature \<Rightarrow> string \<Rightarrow> string" where
  "verifyJobName cls sig img = ''setec-verify-'' @ take 20 (hex_Encode (sha256 (concat (map (\<lambda>part. bytes_of part @ [0])
     [cl_Name cls, img, is_Issuer sig, is_Identity sig, is_PublicKey sig]))))"

definition verifyJob :: "DiskBuilderConfig \<Rightarrow> string \<Rightarrow> ImageSignature \<Rightarrow> string \<Rightarrow> JobManifest" where
  "verifyJob cfg name sig img =
     (let keyed = is_PublicKey sig \<noteq> ''''
      in builderJob cfg name ''image-verify''
           ([''--temp-dir'', ''/work''] @ (if keyed then [] else [''--issuer'', is_Issuer sig, ''--identity'', is_Identity sig]) @ [''verify'', img])
           (if keyed then [(''SETEC_VERIFY_PUBLIC_KEY'', is_PublicKey sig)] else []))"

definition ensureImageVerified :: "WarmPoolReconciler \<Rightarrow> SandboxClass \<Rightarrow> string \<Rightarrow> (RecError + (verifyState \<times> string)) io" where
  "ensureImageVerified r cls img = (case cs_PreWarmImageSignature (cl_Spec cls) of
      None \<Rightarrow> ret (Inr (verifyFailed, ''the class names no signer of its pool image (spec.preWarmImageSignature)''))
    | Some sig \<Rightarrow> do {
        let cfg = wr_DiskBuilder r;
        let name = verifyJobName cls sig img;
        g \<leftarrow> GetJob (case db_Reader cfg of Some e \<Rightarrow> e | None \<Rightarrow> wr_Env r) (db_Namespace cfg, name);
        case g of
          Inl e \<Rightarrow>
            if e = NotFound then do {
              w \<leftarrow> CreateObj (wr_Env r) (OJobManifest (verifyJob cfg name sig img));
              ret (case w of Inl x \<Rightarrow> if x = AlreadyExists then Inr (verifyPending, '''') else Inl (RecApi x) | Inr _ \<Rightarrow> Inr (verifyPending, ''''))
            }
            else ret (Inl (RecApi e))
        | Inr job \<Rightarrow> ret (Inr (case jobEnd (job_Conditions job) of
              None \<Rightarrow> (verifyPending, '''') | Some True \<Rightarrow> (verifyPassed, '''') | Some False \<Rightarrow> (verifyFailed, name)))
      })"

definition setImageCondition :: "WarmPoolReconciler \<Rightarrow> SandboxClass \<Rightarrow> bool \<Rightarrow> string \<Rightarrow> string \<Rightarrow> (RecError option \<times> SandboxClass) io" where
  "setImageCondition r cls notVerified reason msg =
     (let (conds, changed) = wr_SetStatusCondition r (cst_Conditions (cl_Status cls))
            \<lparr>co_Type = ''ImageNotVerified'', co_Status = (if notVerified then ''True'' else ''False''), co_Reason = reason, co_Message = msg\<rparr>;
          cls' = cls\<lparr>cl_Status := (cl_Status cls)\<lparr>cst_Conditions := conds\<rparr>\<rparr>
      in if \<not> changed then ret (None, cls')
         else do {
           p \<leftarrow> StatusPatchClass (wr_Env r) cls cls';
           ret (case p of Inl e \<Rightarrow> (Some (RecApi e), cls') | Inr x \<Rightarrow> (None, x))
         })"

fun verifyEach :: "WarmPoolReconciler \<Rightarrow> SandboxClass \<Rightarrow> SandboxClassWarmPoolImage list \<Rightarrow> (RecError + (string \<times> verifyState \<times> string) list) io" where
  "verifyEach r cls [] = ret (Inr [])"
| "verifyEach r cls (im # ims) = do {
     v \<leftarrow> ensureImageVerified r cls (wpi_Image im);
     case v of
       Inl e \<Rightarrow> ret (Inl e)
     | Inr x \<Rightarrow> do {
         rest \<leftarrow> verifyEach r cls ims;
         ret (case rest of Inl e \<Rightarrow> Inl e | Inr xs \<Rightarrow> Inr ((wpi_Image im, x) # xs))
       }
   }"

text \<open>The state of each image, as a function that is \<open>verifyPending\<close>, the zero value, for every other one.\<close>

definition checkImages ::
  "WarmPoolReconciler \<Rightarrow> SandboxClass \<Rightarrow> SandboxClassWarmPoolImage list \<Rightarrow> ((RecError + (string \<Rightarrow> verifyState)) \<times> SandboxClass) io" where
  "checkImages r cls images = do {
     v \<leftarrow> verifyEach r cls images;
     case v of
       Inl e \<Rightarrow> ret (Inl e, cls)
     | Inr vs \<Rightarrow> do {
         let states = (\<lambda>img. case map_of (rev vs) img of Some (s, _) \<Rightarrow> s | None \<Rightarrow> verifyPending);
         let failed = map (snd \<circ> snd) (filter (\<lambda>(_, s, _). s = verifyFailed) vs);
         (err, cls') \<leftarrow>
           (if failed \<noteq> []
            then setImageCondition r cls True (if cs_PreWarmImageSignature (cl_Spec cls) = None then ''NoSigner'' else ''SignatureNotVerified'') (str_Join failed ''; '')
            else if (\<forall>(_, s, _)\<in>set vs. s \<noteq> verifyPending) \<and> images \<noteq> []
            then setImageCondition r cls False ''Verified'' ''each pool image has a signature of the named signer''
            else ret (None, cls));
         ret (case err of Some e \<Rightarrow> Inl e | None \<Rightarrow> Inr states, cls')
       }
   }"

section \<open>Keeping the pool\<close>

type_synonym nodeTable = "string \<Rightarrow> string list"

definition addNode :: "nodeTable \<Rightarrow> string \<Rightarrow> string \<Rightarrow> nodeTable" where
  "addNode nodes k node = (if node = '''' then nodes else nodes(k := List.insert node (nodes k)))"

fun pruneBases ::
  "WarmPoolReconciler \<Rightarrow> Pod list \<Rightarrow> strmap \<Rightarrow> int \<Rightarrow> Snapshot list \<Rightarrow> (string \<Rightarrow> int) \<Rightarrow> nodeTable \<Rightarrow> (RecError + ((string \<Rightarrow> int) \<times> nodeTable)) io" where
  "pruneBases r pods keys want [] ready nodes = ret (Inr (ready, nodes))"
| "pruneBases r pods keys want (b # bs) ready nodes =
     (let k = map_get (om_Annotations (sn_Meta b)) BaseKeyAnnotation; phase = nst_Phase (sn_Status b);
          drop = do {
            e \<leftarrow> deleteIgnoreNotFound (wr_Env r) (OSnapshot b);
            case e of Some err \<Rightarrow> ret (Inl err) | None \<Rightarrow> pruneBases r pods keys want bs ready nodes
          }
      in if keys k = None \<or> phase = SnapshotPhaseFailed \<or> phase = SnapshotPhaseReady \<and> ready k \<ge> want then drop
         else if phase = SnapshotPhaseReady
         then pruneBases r pods keys want bs (ready(k := ready k + 1)) (addNode nodes k (ns_Node (sn_Spec b)))
         else do {
           stuck \<leftarrow> (if list_ex (\<lambda>p. om_Name (pod_Meta p) = sn_Name b) pods then ret False
             else do {now \<leftarrow> timeNow (wr_Env r); ret (time_Sub now (om_CreationTimestamp (sn_Meta b)) > 15 * minute)});
           if stuck then drop else pruneBases r pods keys want bs ready (addNode nodes k (ns_Node (sn_Spec b)))
         })"

definition isPodReady :: "Pod \<Rightarrow> bool" where
  "isPodReady p = (case List.find (\<lambda>x. pc_Type x = ''Ready'') (pod_Conditions p) of Some x \<Rightarrow> pc_Status x = ''True'' | None \<Rightarrow> False)"

definition stepBasePod ::
  "WarmPoolReconciler \<Rightarrow> Coordinator \<Rightarrow> SandboxClass \<Rightarrow> strmap \<Rightarrow> Snapshot list \<Rightarrow> Pod \<Rightarrow> (bool \<times> RecError option) io" where
  "stepBasePod r c cls keys bases p =
     (let k = map_get (om_Annotations (pod_Meta p)) BaseKeyAnnotation;
          gone = do {e \<leftarrow> deleteIgnoreNotFound (wr_Env r) (OPod p); ret (True, e)}
      in if pod_Phase p = PodFailed \<or> pod_Phase p = PodSucceeded \<or> keys k = None \<or>
            (case om_DeletionTimestamp (pod_Meta p) of None \<Rightarrow> False | Some t \<Rightarrow> \<not> time_IsZero t) then gone
         else if \<not> isPodReady p then ret (False, None)
         else if list_ex (\<lambda>b. sn_Name b = om_Name (pod_Meta p)) bases then gone
         else do {
           err \<leftarrow> CreateBase c p cls (map_get keys k) k;
           derr \<leftarrow> deleteIgnoreNotFound (wr_Env r) (OPod p);
           ret (True, case err of Some e \<Rightarrow> Some (RecCoord e) | None \<Rightarrow> derr)
         })"

fun stepBasePods ::
  "WarmPoolReconciler \<Rightarrow> Coordinator \<Rightarrow> SandboxClass \<Rightarrow> strmap \<Rightarrow> Snapshot list \<Rightarrow> Pod list \<Rightarrow> (string \<Rightarrow> int) \<Rightarrow> nodeTable \<Rightarrow> ((string \<Rightarrow> int) \<times> nodeTable) io" where
  "stepBasePods r c cls keys bases [] building nodes = ret (building, nodes)"
| "stepBasePods r c cls keys bases (p # ps) building nodes = do {
     (done, _) \<leftarrow> stepBasePod r c cls keys bases p;
     let k = map_get (om_Annotations (pod_Meta p)) BaseKeyAnnotation;
     stepBasePods r c cls keys bases ps (if done then building else building(k := building k + 1)) (addNode nodes k (pod_NodeName p))
   }"

abbreviation baseOptions :: "WarmPoolReconciler \<Rightarrow> SandboxClass \<Rightarrow> string \<Rightarrow> LauncherOptions" where
  "baseOptions r cls diskKeyID \<equiv> \<lparr>lo_Identity = None, lo_Image = wr_LauncherImage r, lo_Scratch = 0, lo_Requests = None, lo_DiskRepo = wr_DiskRepo r,
     lo_DiskKeys = wr_DiskKeys r, lo_DiskKeyID = diskKeyID, lo_ResolverIPs = [], lo_Restore = False, lo_Base = False, lo_FromBase = False,
     lo_NodeName = '''', lo_InstanceType = '''', lo_CPUTemplate = cs_CPUTemplate (cl_Spec cls)\<rparr>"

definition startBase :: "WarmPoolReconciler \<Rightarrow> SandboxClass \<Rightarrow> string \<Rightarrow> string \<Rightarrow> string list \<Rightarrow> RecError option io" where
  "startBase r cls img ky nodes = do {
     d \<leftarrow> ensureDisk (wr_Env r) (wr_Lib r) (wr_DiskBuilder r) (wr_DiskRepo r) (wr_DiskKeys r) img;
     case d of
       Inl e \<Rightarrow> ret (Some (RecDisk e))
     | Inr (diskKeyID, done) \<Rightarrow>
         if \<not> done then ret None
         else do {
           rnd \<leftarrow> randRead (wr_Env r) 3;
           let suffix = hex_Encode (case rnd of Some b \<Rightarrow> b | None \<Rightarrow> [0, 0, 0]);
           let long = ''base-'' @ cl_Name cls @ ''-'' @ take 8 ky @ ''-'' @ suffix;
           let name = (if length long > 63 then ''base-'' @ take 12 ky @ ''-'' @ suffix else long);
           case BuildLauncherBase (dl_Names (wr_Lib r)) name (wr_Namespace r) img (poolResources cls) (baseOptions r cls diskKeyID) of
             Inl e \<Rightarrow> ret (Some (RecPodspec e))
           | Inr pod \<Rightarrow> do {
               w \<leftarrow> CreateObj (wr_Env r) (OManifest (pod\<lparr>
                 pm_Labels := (pm_Labels pod)(BaseClassLabel \<mapsto> cl_Name cls), pm_Annotations := [BaseKeyAnnotation \<mapsto> ky],
                 pm_NodeFields := pm_NodeFields pod @ (if nodes \<noteq> [] then [(''metadata.name'', ''NotIn'', sort nodes)] else []),
                 pm_NodeSelector := map_of (cs_NodeSelector (cl_Spec cls)), pm_Tolerations := cs_Tolerations (cl_Spec cls)\<rparr>));
               ret (case w of Inl e \<Rightarrow> if e = AlreadyExists then None else Some (RecApi e) | Inr _ \<Rightarrow> None)
             }
         }
   }"

fun startBases ::
  "WarmPoolReconciler \<Rightarrow> SandboxClass \<Rightarrow> (string \<Rightarrow> verifyState) \<Rightarrow> (string \<Rightarrow> int) \<Rightarrow> nodeTable \<Rightarrow> SandboxClassWarmPoolImage list \<Rightarrow> unit io" where
  "startBases r cls states have nodes [] = ret ()"
| "startBases r cls states have nodes (im # ims) = do {
     _ \<leftarrow> (if states (wpi_Image im) = verifyPassed \<and> have (wpi_Key im) < cs_PreWarmPoolSize (cl_Spec cls)
           then startBase r cls (wpi_Image im) (wpi_Key im) (nodes (wpi_Key im)) else ret None);
     startBases r cls states have nodes ims
   }"

text \<open>The pass over an active pool: check, prune, step, start, count and record.\<close>

definition keepPool :: "WarmPoolReconciler \<Rightarrow> Coordinator \<Rightarrow> SandboxClass \<Rightarrow> Snapshot list \<Rightarrow> Pod list \<Rightarrow> (result \<times> RecError option) io" where
  "keepPool r c cls0 bases pods = do {
     now \<leftarrow> timeNow (wr_Env r);
     let images = poolImages r cls0 now;
     (st, cls) \<leftarrow> checkImages r cls0 images;
     case st of
       Inl e \<Rightarrow> ret (0, Some e)
     | Inr states \<Rightarrow> do {
         let keys = map_of (rev (map (\<lambda>im. (wpi_Key im, wpi_Image im)) (filter (\<lambda>im. states (wpi_Image im) \<noteq> verifyFailed) images)));
         let want = cs_PreWarmPoolSize (cl_Spec cls);
         p \<leftarrow> pruneBases r pods keys want bases (\<lambda>_. 0) (\<lambda>_. []);
         case p of
           Inl e \<Rightarrow> ret (0, Some e)
         | Inr (ready, nodes) \<Rightarrow> do {
             (building, nodes') \<leftarrow> stepBasePods r c cls keys bases pods (\<lambda>_. 0) nodes;
             _ \<leftarrow> startBases r cls states (\<lambda>k. ready k + building k) nodes' images;
             n \<leftarrow> readyBases r (cl_Name cls);
             case n of
               Inl e \<Rightarrow> ret (0, Some e)
             | Inr counts \<Rightarrow> do {
                 e \<leftarrow> patchStatus r cls (map (\<lambda>im. im\<lparr>wpi_Ready := min (counts (wpi_Key im)) want\<rparr>) images);
                 ret (case e of Some err \<Rightarrow> (0, Some err) | None \<Rightarrow> (30 * second, None))
               }
           }
       }
   }"

definition ReconcilePool :: "WarmPoolReconciler \<Rightarrow> string \<Rightarrow> (result \<times> RecError option) io" where
  "ReconcilePool r name = do {
     g \<leftarrow> GetClass (wr_Env r) name;
     case g of
       Inl e \<Rightarrow> if e = NotFound then do {d \<leftarrow> deleteAll r name None; ret (0, d)} else ret (0, Some (RecApi e))
     | Inr cls \<Rightarrow> do {
         l \<leftarrow> poolList r (cl_Name cls);
         case l of
           Inl e \<Rightarrow> ret (0, Some e)
         | Inr (bases, pods) \<Rightarrow>
             (case wr_Coordinator r of
                Some c \<Rightarrow>
                  if poolActive (Some cls) \<and> wr_Namespace r \<noteq> '''' then keepPool r c cls bases pods
                  else do {
                    d \<leftarrow> deleteAll r (cl_Name cls) (Some (bases, pods));
                    case d of Some e \<Rightarrow> ret (0, Some e) | None \<Rightarrow> do {s \<leftarrow> patchStatus r cls []; ret (0, s)}
                  }
              | None \<Rightarrow> do {
                  d \<leftarrow> deleteAll r (cl_Name cls) (Some (bases, pods));
                  case d of Some e \<Rightarrow> ret (0, Some e) | None \<Rightarrow> do {s \<leftarrow> patchStatus r cls []; ret (0, s)}
                })
       }
   }"

end
