(* ===== verification/Reconcile.thy ===== *)
theory Reconcile
  imports Session_Checkpoint Warm_Pool "HOL-Library.AList"
begin

text \<open>
  The reconciler of a Sandbox, second part (\<open>src/internal/controller/sandbox_controller.go\<close>): the whole of
  one pass, from the read of the Sandbox to the result. The network policies, the claim of a session, the
  Pod and the teardown are made and removed in the order of the source.
\<close>

section \<open>The workspace of a session\<close>

abbreviation workspaceFinalizer :: string where "workspaceFinalizer \<equiv> ''setec.zeroroot.ai/workspace-teardown''"

definition newWorkspacePVC :: "Sandbox \<Rightarrow> PersistentVolumeClaim" where
  "newWorkspacePVC sb =
     (let ws = Option.bind (sp_Lifecycle (sb_Spec sb)) lc_Workspace
      in \<lparr>pvc_Meta = zero_ObjectMeta\<lparr>om_Name := WorkspacePVCName (sb_Name sb), om_Namespace := sb_Namespace sb,
            om_Labels := [SandboxLabelKey \<mapsto> sb_Name sb]\<rparr>,
          pvc_AccessModes = [''ReadWriteOnce''],
          pvc_Storage = (case Option.bind ws ws_Size of Some q \<Rightarrow> q | None \<Rightarrow> 10 * gibibyte),
          pvc_StorageClassName = Option.bind ws ws_StorageClassName, pvc_VolumeMode = ''Block''\<rparr>)"

definition ensureWorkspacePVC :: "SandboxReconciler \<Rightarrow> Sandbox \<Rightarrow> RecError option io" where
  "ensureWorkspacePVC r sb = do {
     let name = WorkspacePVCName (sb_Name sb);
     g \<leftarrow> GetClaim (sr_Env r) (sb_Namespace sb, name);
     case g of
       Inr existing \<Rightarrow> ret (if deleting (pvc_Meta existing) then Some (RecTerminating name) else None)
     | Inl e \<Rightarrow>
         if e \<noteq> NotFound then ret (Some (RecApi e))
         else if \<not> sr_Scheme r then ret (Some RecOwner)
         else do {
           let pvc = newWorkspacePVC sb;
           w \<leftarrow> CreateObj (sr_Env r) (OClaim (pvc\<lparr>pvc_Meta := (pvc_Meta pvc)\<lparr>om_Controller := om_UID (sb_Meta sb)\<rparr>\<rparr>));
           if (case w of Inl x \<Rightarrow> x \<noteq> AlreadyExists | Inr _ \<Rightarrow> False) then ret (Some (RecApi (projl w)))
           else do {_ \<leftarrow> rsb r sb ''Normal'' ''WorkspaceCreated''; ret None}
         }
   }"

definition removeFinalizer :: "SandboxReconciler \<Rightarrow> Sandbox \<Rightarrow> (result \<times> RecError option) io" where
  "removeFinalizer r sb = do {
     (err, _) \<leftarrow> metaPatch r sb (sb\<lparr>sb_Meta := (sb_Meta sb)\<lparr>om_Finalizers := filter (\<lambda>f. f \<noteq> workspaceFinalizer) (om_Finalizers (sb_Meta sb))\<rparr>\<rparr>);
     ret (0, err)
   }"

text \<open>The claim of a session that ends: deleted first, and the finalizer goes only when it is gone or going.\<close>

definition teardownClaim :: "SandboxReconciler \<Rightarrow> Sandbox \<Rightarrow> (result \<times> RecError option) io" where
  "teardownClaim r sb = do {
     g \<leftarrow> GetClaim (sr_Env r) (sb_Namespace sb, WorkspacePVCName (sb_Name sb));
     case g of
       Inl e \<Rightarrow> if e = NotFound then removeFinalizer r sb else ret (0, Some (RecApi e))
     | Inr pvc \<Rightarrow>
         if deleting (pvc_Meta pvc) then removeFinalizer r sb
         else do {
           d \<leftarrow> deleteIgnoreNotFound (sr_Env r) (OClaim pvc);
           case d of
             Some e \<Rightarrow> ret (0, Some e)
           | None \<Rightarrow> do {_ \<leftarrow> rsb r sb ''Normal'' ''WorkspaceDeleted''; ret (2 * second, None)}
         }
   }"

definition teardownWorkspace :: "SandboxReconciler \<Rightarrow> Sandbox \<Rightarrow> (result \<times> RecError option) io" where
  "teardownWorkspace r sb = do {
     _ \<leftarrow> teardownSessionCheckpoint r sb;
     g \<leftarrow> GetPod (sr_Env r) (sb_Namespace sb, sb_Name sb @ ''-vm'');
     perr \<leftarrow> (case g of
         Inr pod \<Rightarrow> if deleting (pod_Meta pod) then ret None else deleteIgnoreNotFound (sr_Env r) (OPod pod)
       | Inl e \<Rightarrow> ret (if e = NotFound then None else Some (RecApi e)));
     case perr of Some e \<Rightarrow> ret (0, Some e) | None \<Rightarrow> teardownClaim r sb
   }"

text \<open>\<open>Inl\<close> ends the reconcile; \<open>Inr\<close> goes on with the Sandbox.\<close>

definition handleWorkspaceFinalizer :: "SandboxReconciler \<Rightarrow> Sandbox \<Rightarrow> ((result \<times> RecError option) + Sandbox) io" where
  "handleWorkspaceFinalizer r sb =
     (let has = workspaceFinalizer \<in> set (om_Finalizers (sb_Meta sb))
      in if deleting (sb_Meta sb)
         then (if has then do {x \<leftarrow> teardownWorkspace r sb; ret (Inl x)} else ret (Inl (0, None)))
         else if IsSession (sb_Spec sb) \<and> \<not> has
         then do {
           (err, sb') \<leftarrow> metaPatch r sb (sb\<lparr>sb_Meta := (sb_Meta sb)\<lparr>om_Finalizers := om_Finalizers (sb_Meta sb) @ [workspaceFinalizer]\<rparr>\<rparr>);
           ret (case err of Some e \<Rightarrow> Inl (0, Some e) | None \<Rightarrow> Inr sb')
         }
         else ret (Inr sb))"

section \<open>Reaping\<close>

definition classNotFoundGraceOrDefault :: "SandboxReconciler \<Rightarrow> duration" where
  "classNotFoundGraceOrDefault r = (if sr_ClassNotFoundGrace r > 0 then sr_ClassNotFoundGrace r else 5 * minute)"

definition orphanRetentionOrDefault :: "SandboxReconciler \<Rightarrow> duration" where
  "orphanRetentionOrDefault r = (if sr_OrphanRetention r > 0 then sr_OrphanRetention r else hour)"

definition ephemeralRetentionOrDefault :: "SandboxReconciler \<Rightarrow> duration" where
  "ephemeralRetentionOrDefault r = (if sr_EphemeralRetention r > 0 then sr_EphemeralRetention r else 10 * minute)"

definition classNotFoundExpired :: "Sandbox \<Rightarrow> gotime \<Rightarrow> duration \<Rightarrow> bool" where
  "classNotFoundExpired sb now grace =
     (let grace = (if grace \<le> 0 then 5 * minute else grace); created = om_CreationTimestamp (sb_Meta sb)
      in if time_IsZero created then False else time_Sub now created \<ge> grace)"

definition orphanReapDue :: "Sandbox \<Rightarrow> gotime \<Rightarrow> duration \<Rightarrow> duration \<Rightarrow> bool \<times> duration" where
  "orphanReapDue sb now grace retention =
     (let created = om_CreationTimestamp (sb_Meta sb)
      in if time_IsZero created then (False, retention)
         else let remaining = time_Sub (time_Add created (grace + retention)) now in (remaining \<le> 0, remaining))"

definition ephemeralReapDue :: "Sandbox \<Rightarrow> gotime \<Rightarrow> duration \<Rightarrow> bool \<times> duration" where
  "ephemeralReapDue sb now retention = (case st_LastTransitionTime (sb_Status sb) of
      None \<Rightarrow> (False, retention)
    | Some fin \<Rightarrow>
        if time_IsZero fin then (False, retention)
        else let remaining = time_Sub (time_Add fin retention) now in (remaining \<le> 0, remaining))"

text \<open>\<open>None\<close>: the Sandbox is live or a session, and the reconcile goes on.\<close>

definition reapExpiredEphemeral :: "SandboxReconciler \<Rightarrow> Sandbox \<Rightarrow> (result \<times> RecError option) option io" where
  "reapExpiredEphemeral r sb =
     (if \<not> IsEphemeral (sb_Spec sb) \<or> \<not> isTerminal (st_Phase (sb_Status sb)) then ret None
      else do {
        now \<leftarrow> timeNow (sr_Env r);
        let (due, remaining) = ephemeralReapDue sb now (ephemeralRetentionOrDefault r);
        if \<not> due then ret (Some (remaining, None))
        else do {
          _ \<leftarrow> rsb r sb ''Normal'' ''EphemeralSandboxReaped'';
          e \<leftarrow> deleteIgnoreNotFound (sr_Env r) (OSandbox sb);
          ret (Some (0, e))
        }
      })"

definition handleUnresolvableClass :: "SandboxReconciler \<Rightarrow> Sandbox \<Rightarrow> (result \<times> RecError option) io" where
  "handleUnresolvableClass r sb =
     (if isTerminal (st_Phase (sb_Status sb)) \<and> st_Reason (sb_Status sb) \<noteq> ''ClassNotFound'' then ret (0, None)
      else do {
        _ \<leftarrow> rsb r sb ''Warning'' ''ClassNotFound'';
        now \<leftarrow> timeNow (sr_Env r);
        let grace = classNotFoundGraceOrDefault r;
        if \<not> classNotFoundExpired sb now grace then do {
          (e, _) \<leftarrow> patchPendingStatus r sb ''ClassNotFound'';
          ret (case e of Some err \<Rightarrow> (0, Some err) | None \<Rightarrow> (30 * second, None))
        }
        else do {
          let (due, remaining) = orphanReapDue sb now grace (orphanRetentionOrDefault r);
          if due then do {
            _ \<leftarrow> rsb r sb ''Warning'' ''OrphanedSandboxReaped'';
            e \<leftarrow> deleteIgnoreNotFound (sr_Env r) (OSandbox sb);
            ret (0, e)
          }
          else do {
            _ \<leftarrow> (if isTerminal (st_Phase (sb_Status sb)) then ret () else rsb r sb ''Warning'' ''ClassNotFound'');
            (e, _) \<leftarrow> patchFailedStatus r sb ''ClassNotFound'';
            ret (case e of Some err \<Rightarrow> (0, Some err) | None \<Rightarrow> (remaining, None))
          }
        }
      })"

section \<open>Tenant, class, snapshot and backend\<close>

definition resolveTenant :: "SandboxReconciler \<Rightarrow> Sandbox \<Rightarrow> (RecError + bool) io" where
  "resolveTenant r sb =
     (if \<not> sr_MultiTenancyEnabled r \<or> sr_TenantLabelKey r = '''' then ret (Inr True)
      else do {
        g \<leftarrow> GetNamespace (sr_Env r) (sb_Namespace sb);
        ret (case g of
               Inl e \<Rightarrow> if e = NotFound then Inr False else Inl (RecApi e)
             | Inr ns \<Rightarrow> (case FromNamespace (sr_IsLabel r) (Some (nsp_Meta ns)) (sr_TenantLabelKey r) of
                   Inr _ \<Rightarrow> Inr True
                 | Inl (ErrTenantLabelMissing _ _) \<Rightarrow> Inr False
                 | Inl (ErrTenantInvalid _ _) \<Rightarrow> Inr False
                 | Inl e \<Rightarrow> Inl (RecTenant e)))
      })"

text \<open>The resolver reads the class by its name, or lists all classes.\<close>

definition resolveClass :: "SandboxReconciler \<Rightarrow> Sandbox \<Rightarrow> (ClassError + SandboxClass option) io" where
  "resolveClass r sb =
     (if \<not> sr_ClassResolver r then ret (Inr None)
      else do {
        x \<leftarrow> (if sp_SandboxClassName (sb_Spec sb) \<noteq> ''''
          then do {
            g \<leftarrow> GetClass (sr_Env r) (sp_SandboxClassName (sb_Spec sb));
            ret (ResolveClass (Some \<lparr>cc_Get = (\<lambda>_. g), cc_List = Inr []\<rparr>) (Some sb))
          }
          else do {
            l \<leftarrow> ListObjs (sr_Env r) KClass AllObjects asClass;
            ret (ResolveClass (Some \<lparr>cc_Get = (\<lambda>_. Inl NotFound), cc_List = l\<rparr>) (Some sb))
          });
        ret (case x of
               Inr cls \<Rightarrow> Inr (Some cls)
             | Inl e \<Rightarrow>
                 if e = ErrNoDefaultClass \<and> sp_SandboxClassName (sb_Spec sb) = '''' \<and> \<not> sr_MultiTenancyEnabled r then Inr None else Inl e)
      })"

text \<open>
  \<open>Inl\<close> ends the reconcile; \<open>Inr\<close> carries the node that the Pod is pinned to and the Sandbox. Every
  refusal of the source comes back with a positive time or an error.
\<close>

definition resolveSnapshotRef :: "SandboxReconciler \<Rightarrow> Sandbox \<Rightarrow> SandboxClass option \<Rightarrow> ((result \<times> RecError option) + string) io" where
  "resolveSnapshotRef r sb cls =
     (if \<not> hasSnapshotRef sb then ret (Inr '''')
      else do {
        let pend = (\<lambda>reason. do {(e, _) \<leftarrow> patchPendingStatus r sb reason; ret (Inl (case e of Some err \<Rightarrow> (0, Some err) | None \<Rightarrow> (60 * second, None)))});
        g \<leftarrow> GetSnapshot (sr_Env r) (sb_Namespace sb, ssr_Name (the (sp_SnapshotRef (sb_Spec sb))));
        case g of
          Inl e \<Rightarrow>
            if e = NotFound then do {_ \<leftarrow> rsb r sb ''Warning'' ''SnapshotUnavailable''; pend ''SnapshotUnavailable''}
            else do {x \<leftarrow> recordAndReturnErr sb ''ReconcileError'' (RecApi e); ret (Inl x)}
        | Inr snap \<Rightarrow>
            if nst_Phase (sn_Status snap) \<noteq> SnapshotPhaseReady then pend ''SnapshotUnavailable''
            else if SnapshotValidate (Some sb) (Some snap) cls \<noteq> []
            then do {_ \<leftarrow> rsb r sb ''Warning'' ''SnapshotIncompatible''; pend ''SnapshotIncompatible''}
            else ret (Inr (if isLocalSnapshot snap then ns_Node (sn_Spec snap) else ''''))
      })"

text \<open>\<open>Inl\<close> ends the reconcile with its error.\<close>

definition checkBackend :: "SandboxReconciler \<Rightarrow> Sandbox \<Rightarrow> SandboxClass option \<Rightarrow> (RecError option + Sandbox) io" where
  "checkBackend r sb cls =
     (if (case Option.bind cls (\<lambda>c. cs_Runtime (cl_Spec c)) of None \<Rightarrow> False | Some rt \<Rightarrow> ValidateBackend (scr_Backend rt) \<noteq> None)
      then do {
        _ \<leftarrow> rsb r sb ''Warning'' ''UnsupportedBackend'';
        (e, _) \<leftarrow> statusPatch r sb (with_status sb (\<lambda>st. st\<lparr>st_Phase := SandboxPhaseFailed, st_Reason := ''UnsupportedBackend''\<rparr>));
        ret (Inl e)
      }
      else if isLauncherSandbox sb then ret (Inr sb)
      else do {
        (_, sb') \<leftarrow> statusPatch r sb (with_status sb (\<lambda>st. st\<lparr>st_Runtime := Some \<lparr>srt_Chosen = BackendLauncher\<rparr>\<rparr>));
        ret (Inr sb')
      })"

section \<open>Network policies\<close>

definition ensureNamespaceBaseline :: "SandboxReconciler \<Rightarrow> Sandbox \<Rightarrow> RecError option io" where
  "ensureNamespaceBaseline r sb =
     (if \<not> sr_NamespaceBaselineDeny r then ret None
      else do {
        let desired = NamespaceBaseline (sb_Namespace sb);
        g \<leftarrow> GetNetworkPolicy (sr_Env r) (np_Namespace desired, np_Name desired);
        case g of
          Inl e \<Rightarrow>
            if e = NotFound then do {
              w \<leftarrow> CreateObj (sr_Env r) (ONetworkPolicy desired);
              if (case w of Inl x \<Rightarrow> x \<noteq> AlreadyExists | Inr _ \<Rightarrow> False) then ret (Some (RecApi (projl w)))
              else do {_ \<leftarrow> rsb r sb ''Normal'' ''NamespaceBaselineApplied''; ret None}
            }
            else ret (Some (RecApi e))
        | Inr existing \<Rightarrow>
            if BaselineIsIntact (Some existing) then ret None
            else do {
              p \<leftarrow> PatchNetworkPolicy (sr_Env r) existing (existing\<lparr>np_PodSelector := np_PodSelector desired, np_PolicyTypes := np_PolicyTypes desired,
                np_Ingress := np_Ingress desired, np_Egress := np_Egress desired,
                np_Labels := foldl (\<lambda>m (k, v). AList.update k v m) (np_Labels existing) (np_Labels desired)\<rparr>);
              ret (case p of Inl e \<Rightarrow> Some (RecApi e) | Inr _ \<Rightarrow> None)
            }
      })"

text \<open>The spec, the labels and the annotations; \<open>reflect.DeepEqual\<close> of the source on these three.\<close>

definition samePolicy :: "NetworkPolicy \<Rightarrow> NetworkPolicy \<Rightarrow> bool" where
  "samePolicy a b \<longleftrightarrow> np_PodSelector a = np_PodSelector b \<and> np_PolicyTypes a = np_PolicyTypes b \<and> np_Ingress a = np_Ingress b \<and> np_Egress a = np_Egress b \<and>
     np_Annotations a = np_Annotations b \<and> np_Labels a = np_Labels b"

definition createPolicy :: "SandboxReconciler \<Rightarrow> Sandbox \<Rightarrow> NetworkPolicy \<Rightarrow> (result \<times> RecError option) io" where
  "createPolicy r sb desired = do {
     w \<leftarrow> CreateObj (sr_Env r) (ONetworkPolicy desired);
     case w of
       Inl e \<Rightarrow> if e = AlreadyExists then ret (2 * second, None) else recordAndReturnErr sb ''ReconcileError'' (RecApi e)
     | Inr _ \<Rightarrow> do {
         b \<leftarrow> GetNetworkPolicy (sr_Env r) (np_Namespace desired, np_Name desired);
         case b of
           Inl _ \<Rightarrow> ret (2 * second, None)
         | Inr _ \<Rightarrow> do {_ \<leftarrow> rsb r sb ''Normal'' ''NetworkPolicyApplied''; ret (0, None)}
       }
   }"

text \<open>The owner reference of a policy is not part of its model; setting it can fail.\<close>

definition applyNetworkPolicy :: "SandboxReconciler \<Rightarrow> Sandbox \<Rightarrow> SandboxClass option \<Rightarrow> (result \<times> RecError option) io" where
  "applyNetworkPolicy r sb cls = (case generate (sr_NetPol r) sb cls of
      Inl e \<Rightarrow> recordAndReturnErr sb ''ReconcileError'' (RecNetpol e)
    | Inr desired \<Rightarrow>
        if \<not> sr_Scheme r then recordAndReturnErr sb ''ReconcileError'' RecOwner
        else do {
          g \<leftarrow> GetNetworkPolicy (sr_Env r) (np_Namespace desired, np_Name desired);
          case g of
            Inl e \<Rightarrow> if e = NotFound then createPolicy r sb desired else recordAndReturnErr sb ''ReconcileError'' (RecApi e)
          | Inr existing \<Rightarrow>
              if samePolicy existing desired then ret (0, None)
              else do {
                p \<leftarrow> PatchNetworkPolicy (sr_Env r) existing (existing\<lparr>np_PodSelector := np_PodSelector desired, np_PolicyTypes := np_PolicyTypes desired,
                  np_Ingress := np_Ingress desired, np_Egress := np_Egress desired, np_Labels := np_Labels desired, np_Annotations := np_Annotations desired\<rparr>);
                case p of Inl e \<Rightarrow> recordAndReturnErr sb ''ReconcileError'' (RecApi e) | Inr _ \<Rightarrow> ret (0, None)
              }
        })"

definition ensurePolicies :: "SandboxReconciler \<Rightarrow> Sandbox \<Rightarrow> SandboxClass option \<Rightarrow> RecError option io" where
  "ensurePolicies r sb cls = do {
     e \<leftarrow> ensureNamespaceBaseline r sb;
     case e of Some err \<Rightarrow> ret (Some err) | None \<Rightarrow> do {(_, err) \<leftarrow> applyNetworkPolicy r sb cls; ret err}
   }"

section \<open>Making the Pod\<close>

definition applyClassScheduling :: "PodManifest \<Rightarrow> SandboxClass option \<Rightarrow> PodManifest" where
  "applyClassScheduling pod cls = (case cls of
      None \<Rightarrow> pod
    | Some c \<Rightarrow> pod\<lparr>pm_NodeSelector := map_of (cs_NodeSelector (cl_Spec c)) ++ pm_NodeSelector pod,
        pm_Tolerations := pm_Tolerations pod @ cs_Tolerations (cl_Spec c)\<rparr>)"

text \<open>\<open>Inl\<close> ends the reconcile; \<open>Inr\<close> is the key id of the disk.\<close>

definition waitForLauncherDisk :: "SandboxReconciler \<Rightarrow> Sandbox \<Rightarrow> ((result \<times> RecError option) + string) io" where
  "waitForLauncherDisk r sb = do {
     d \<leftarrow> ensureDisk (sr_Env r) (sr_Lib r) (sr_DiskBuilder r) (sr_DiskRepo r) (sr_DiskKeys r) (sp_Image (sb_Spec sb));
     case d of
       Inl e \<Rightarrow>
         (case e of
            DiskBuildFailed _ \<Rightarrow> do {
              _ \<leftarrow> rsb r sb ''Warning'' ''DiskBuildFailed'';
              (err, _) \<leftarrow> patchFailedStatus r sb ''DiskBuildFailed'';
              ret (Inl (0, err))
            }
          | _ \<Rightarrow> do {x \<leftarrow> recordAndReturnErr sb ''PodCreateFailed'' (RecDisk e); ret (Inl x)})
     | Inr (keyID, done) \<Rightarrow>
         if \<not> done then do {
           (err, _) \<leftarrow> patchPendingStatus r sb ''DiskBuilding'';
           ret (Inl (case err of Some e \<Rightarrow> (0, Some e) | None \<Rightarrow> (5 * second, None)))
         }
         else ret (Inr keyID)
   }"

text \<open>The base of a warm start: chosen, recorded, and its node taken; a pool miss is recorded as a cold boot.\<close>

definition chooseStart :: "SandboxReconciler \<Rightarrow> Sandbox \<Rightarrow> SandboxClass option \<Rightarrow> string \<Rightarrow> ((result \<times> RecError option) + (string \<times> Sandbox)) io" where
  "chooseStart r sb cls nodeName = do {
     _ \<leftarrow> markPoolUsed r sb cls;
     b \<leftarrow> selectBase r sb cls;
     case b of
       Inl e \<Rightarrow> do {x \<leftarrow> recordAndReturnErr sb ''PodCreateFailed'' e; ret (Inl x)}
     | Inr base \<Rightarrow> do {
         (merr, sb1) \<leftarrow> markWarmBase r sb base;
         case merr of
           Some e \<Rightarrow> ret (Inl (0, Some e))
         | None \<Rightarrow> (case base of
               Some snap \<Rightarrow> ret (Inr (ns_Node (sn_Spec snap), sb1))
             | None \<Rightarrow>
                 if poolEligible sb1 cls then do {sb2 \<leftarrow> recordColdBoot r sb1; ret (Inr (nodeName, sb2))}
                 else ret (Inr (nodeName, sb1)))
       }
   }"

definition launcherOptions ::
  "SandboxReconciler \<Rightarrow> Sandbox \<Rightarrow> SandboxClass option \<Rightarrow> LauncherIdentity \<Rightarrow> string \<Rightarrow> string list \<Rightarrow> string \<Rightarrow> string \<Rightarrow> LauncherOptions" where
  "launcherOptions r sb cls identity diskKeyID resolvers nodeName inst =
     \<lparr>lo_Identity = Some identity, lo_Image = sr_LauncherImage r, lo_Scratch = EffectiveScratch (Some sb) cls,
      lo_Requests = Option.bind cls (\<lambda>c. cs_Requests (cl_Spec c)), lo_DiskRepo = sr_DiskRepo r, lo_DiskKeys = sr_DiskKeys r, lo_DiskKeyID = diskKeyID,
      lo_ResolverIPs = resolvers, lo_Restore = (hasSnapshotRef sb \<or> pendingCheckpoint sb), lo_Base = False,
      lo_FromBase = (map_get (om_Annotations (sb_Meta sb)) WarmBaseAnnotation \<noteq> ''''), lo_NodeName = nodeName,
      lo_InstanceType = inst, lo_CPUTemplate = classCPUTemplate cls\<rparr>"

definition submitPod :: "SandboxReconciler \<Rightarrow> Sandbox \<Rightarrow> SandboxClass option \<Rightarrow> LauncherOptions \<Rightarrow> (result \<times> RecError option) io" where
  "submitPod r sb cls opts = (case BuildLauncher (dl_Names (sr_Lib r)) (Some sb) opts of
      Inl e \<Rightarrow> recordAndReturnErr sb ''PodCreateFailed'' (RecPodspec e)
    | Inr pod \<Rightarrow>
        if \<not> sr_Scheme r then recordAndReturnErr sb ''PodCreateFailed'' RecOwner
        else do {
          w \<leftarrow> CreateObj (sr_Env r) (OManifest ((applyClassScheduling pod cls)\<lparr>pm_Owner := Some (sb_Name sb, om_UID (sb_Meta sb))\<rparr>));
          case w of
            Inl e \<Rightarrow> if e = AlreadyExists then ret (0, None) else recordAndReturnErr sb ''PodCreateFailed'' (RecApi e)
          | Inr _ \<Rightarrow> do {_ \<leftarrow> rsb r sb ''Normal'' ''PodCreated''; ret (0, None)}
        })"

definition createPod :: "SandboxReconciler \<Rightarrow> Sandbox \<Rightarrow> SandboxClass option \<Rightarrow> string \<Rightarrow> (result \<times> RecError option) io" where
  "createPod r sb cls nodeName = (case ResolversFor (sr_NetPol r) cls of
      Inl e \<Rightarrow> recordAndReturnErr sb ''PodCreateFailed'' (RecNetpol e)
    | Inr resolvers \<Rightarrow> do {
        d \<leftarrow> waitForLauncherDisk r sb;
        case d of
          Inl x \<Rightarrow> ret x
        | Inr diskKeyID \<Rightarrow> do {
            s \<leftarrow> chooseStart r sb cls nodeName;
            case s of
              Inl x \<Rightarrow> ret x
            | Inr (node, sb1) \<Rightarrow> do {
                (i, sb2) \<leftarrow> ensureIdentity r sb1;
                case i of
                  Inl e \<Rightarrow> recordAndReturnErr sb2 ''PodCreateFailed'' e
                | Inr identity \<Rightarrow> do {
                    inst \<leftarrow> restoreInstanceType r sb2 cls;
                    submitPod r sb2 cls (launcherOptions r sb2 cls identity diskKeyID resolvers node inst)
                  }
              }
          }
      })"

section \<open>A Sandbox without a Pod\<close>

text \<open>The key of a session and its pending checkpoint, before the Pod; \<open>Inl\<close> ends the reconcile.\<close>

definition prepareSession :: "SandboxReconciler \<Rightarrow> Sandbox \<Rightarrow> SandboxClass option \<Rightarrow> ((result \<times> RecError option) + Sandbox) io" where
  "prepareSession r sb cls = (case sessionCheckpointPolicy sb cls of
      None \<Rightarrow> ret (Inr sb)
    | Some _ \<Rightarrow> do {
        k \<leftarrow> ensureSessionKEK r sb;
        case k of
          Some e \<Rightarrow> do {x \<leftarrow> recordAndReturnErr sb ''ReconcileError'' e; ret (Inl x)}
        | None \<Rightarrow> (case st_Checkpoint (sb_Status sb) of
              None \<Rightarrow> ret (Inr sb)
            | Some ck \<Rightarrow>
                if ck_Ref ck \<noteq> '''' \<and> \<not> ck_PendingRestore ck then do {
                  (e, sb') \<leftarrow> statusPatch r sb (with_status sb (\<lambda>st. st\<lparr>st_Checkpoint := Some (ck\<lparr>ck_PendingRestore := True\<rparr>)\<rparr>));
                  ret (case e of Some err \<Rightarrow> Inl (0, Some err) | None \<Rightarrow> Inr sb')
                }
                else ret (Inr sb))
      })"

text \<open>From the network policies to the Pod.\<close>

definition launchPod :: "SandboxReconciler \<Rightarrow> Sandbox \<Rightarrow> SandboxClass option \<Rightarrow> string \<Rightarrow> (result \<times> RecError option) io" where
  "launchPod r sb cls pinnedNode = do {
     b \<leftarrow> ensureNamespaceBaseline r sb;
     case b of
       Some e \<Rightarrow> recordAndReturnErr sb ''ReconcileError'' e
     | None \<Rightarrow> do {
         (res, err) \<leftarrow> applyNetworkPolicy r sb cls;
         case err of
           Some e \<Rightarrow> do {_ \<leftarrow> rsb r sb ''Warning'' ''NetworkPolicyPending''; ret (res, Some e)}
         | None \<Rightarrow>
             if res > 0 then ret (res, None)
             else do {
               w \<leftarrow> (if IsSession (sb_Spec sb) then ensureWorkspacePVC r sb else ret None);
               case w of
                 Some e \<Rightarrow> recordAndReturnErr sb ''ReconcileError'' e
               | None \<Rightarrow> createPod r sb cls pinnedNode
             }
       }
   }"

definition handleMissingPod :: "SandboxReconciler \<Rightarrow> Sandbox \<Rightarrow> SandboxClass option \<Rightarrow> string \<Rightarrow> (result \<times> RecError option) io" where
  "handleMissingPod r sb cls pinnedNode =
     (if isTerminal (st_Phase (sb_Status sb)) then ret (0, None)
      else if IsSession (sb_Spec sb) \<and> st_Phase (sb_Status sb) = SandboxPhaseSuspended \<and> \<not> suspendedSandboxAction (sr_ParseTime r) sb
      then recycleIfExpired r sb cls
      else do {
        s \<leftarrow> prepareSession r sb cls;
        case s of
          Inl x \<Rightarrow> ret x
        | Inr sb1 \<Rightarrow> do {
            k \<leftarrow> checkBackend r sb1 cls;
            case k of
              Inl e \<Rightarrow> ret (0, e)
            | Inr sb2 \<Rightarrow> launchPod r sb2 cls pinnedNode
          }
      })"

section \<open>Pause, resume and snapshots on request\<close>

definition applyAfterCreate :: "SandboxReconciler \<Rightarrow> Sandbox \<Rightarrow> (result \<times> RecError option \<times> Sandbox) io" where
  "applyAfterCreate r sb = (case sss_AfterCreate (snapSpec sb) of
      SandboxSnapshotAfterCreatePaused \<Rightarrow> do {x \<leftarrow> patchPhase r sb SandboxPhasePaused ''UserPaused'' True; ret (0, x)}
    | SandboxSnapshotAfterCreateTerminated \<Rightarrow> do {e \<leftarrow> deleteIgnoreNotFound (sr_Env r) (OSandbox sb); ret (0, e, sb)}
    | _ \<Rightarrow> do {x \<leftarrow> patchPhase r sb SandboxPhaseRunning '''' False; ret (0, x)})"

definition failWith :: "Sandbox \<Rightarrow> RecError \<Rightarrow> (result \<times> RecError option \<times> Sandbox) io" where
  "failWith sb e = do {x \<leftarrow> recordAndReturnErr sb ''ReconcileError'' e; ret (fst x, snd x, sb)}"

text \<open>The two ways back to Running of a failed attempt; their own failure is dropped.\<close>

definition requestSnapshot :: "SandboxReconciler \<Rightarrow> Coordinator \<Rightarrow> Sandbox \<Rightarrow> (result \<times> RecError option \<times> Sandbox) io" where
  "requestSnapshot r c sb = do {
     g \<leftarrow> GetSnapshot (sr_Env r) (sb_Namespace sb, sss_Name (snapSpec sb));
     case g of
       Inr existing \<Rightarrow>
         if deleting (sn_Meta existing) \<and> ns_StorageRef (sn_Spec existing) = '''' then ret (5 * second, None, sb)
         else (case nst_Phase (sn_Status existing) of
             SnapshotPhaseCreating \<Rightarrow> ret (5 * second, None, sb)
           | SnapshotPhaseFailed \<Rightarrow> do {
               _ \<leftarrow> rsb r sb ''Warning'' ''SnapshotCreateFailed'';
               x \<leftarrow> patchPhase r sb SandboxPhaseRunning ''SnapshotCreateFailed'' False;
               ret (0, x)
             }
           | _ \<Rightarrow> ret (0, None, sb))
     | Inl e \<Rightarrow>
         if e \<noteq> NotFound then failWith sb (RecApi e)
         else do {
           (perr, sb1) \<leftarrow> patchPhase r sb SandboxPhaseSnapshotting ''SnapshotInProgress'' True;
           case perr of
             Some x \<Rightarrow> ret (0, Some x, sb1)
           | None \<Rightarrow> do {
               _ \<leftarrow> rsb r sb1 ''Normal'' ''SnapshotCreateStarted'';
               (cerr, sb2) \<leftarrow> CreateSnapshot c sb1;
               case cerr of
                 None \<Rightarrow> applyAfterCreate r sb2
               | Some x \<Rightarrow>
                   if isUnavailable x then do {
                     (_, sb3) \<leftarrow> patchPhase r sb2 SandboxPhaseRunning ''NodeAgentUnreachable'' False;
                     ret (0, Some (RecCoord x), sb3)
                   }
                   else do {
                     (_, sb3) \<leftarrow> patchPhase r sb2 SandboxPhaseRunning ''SnapshotCreateFailed'' False;
                     failWith sb3 (RecCoord x)
                   }
             }
         }
   }"

definition reconcilePhase3Lifecycle :: "SandboxReconciler \<Rightarrow> Coordinator \<Rightarrow> Sandbox \<Rightarrow> SandboxStatus \<Rightarrow> (result \<times> RecError option \<times> Sandbox) io" where
  "reconcilePhase3Lifecycle r c sb desired =
     (let want = sp_DesiredState (sb_Spec sb); phase = st_Phase desired
      in if want = SandboxDesiredStatePaused \<and> phase = SandboxPhaseRunning then do {
           e \<leftarrow> PauseSandbox c sb;
           case e of
             Some x \<Rightarrow> failWith sb (RecCoord x)
           | None \<Rightarrow> do {
               (p, sb') \<leftarrow> patchPhase r sb SandboxPhasePaused ''UserPaused'' True;
               case p of Some x \<Rightarrow> ret (0, Some x, sb') | None \<Rightarrow> do {_ \<leftarrow> rsb r sb' ''Normal'' ''Paused''; ret (0, None, sb')}
             }
         }
         else if (want = SandboxDesiredStateOther '''' \<or> want = SandboxDesiredStateRunning) \<and> phase = SandboxPhasePaused then do {
           e \<leftarrow> ResumeSandbox c sb;
           case e of
             Some x \<Rightarrow> failWith sb (RecCoord x)
           | None \<Rightarrow> do {
               (p, sb') \<leftarrow> patchPhase r sb SandboxPhaseRunning '''' False;
               case p of Some x \<Rightarrow> ret (0, Some x, sb') | None \<Rightarrow> do {_ \<leftarrow> rsb r sb' ''Normal'' ''Resumed''; ret (0, None, sb')}
             }
         }
         else if (case sp_Snapshot (sb_Spec sb) of None \<Rightarrow> False | Some s \<Rightarrow> sss_Create s \<and> sss_Name s \<noteq> '''') \<and>
                 (phase = SandboxPhaseRunning \<or> phase = SandboxPhasePaused)
         then requestSnapshot r c sb
         else ret (0, None, sb))"

section \<open>A Sandbox with a Pod\<close>

definition holdingSuspend :: "Sandbox \<Rightarrow> Pod \<Rightarrow> bool" where
  "holdingSuspend sb pod \<longleftrightarrow> IsSession (sb_Spec sb) \<and> st_Phase (sb_Status sb) = SandboxPhaseSuspended \<and>
     (deleting (pod_Meta pod) \<or> map_get (om_Annotations (pod_Meta pod)) annotationSuspendedPod \<noteq> '''')"

definition sessionPodEnded :: "Sandbox \<Rightarrow> SandboxStatus \<Rightarrow> Pod \<Rightarrow> bool" where
  "sessionPodEnded sb desired pod \<longleftrightarrow> IsSession (sb_Spec sb) \<and> \<not> isTerminal (st_Phase desired) \<and>
     (pod_Phase pod = PodSucceeded \<or> pod_Phase pod = PodFailed) \<and> \<not> deleting (pod_Meta pod)"

definition deriveStatus :: "SandboxReconciler \<Rightarrow> Sandbox \<Rightarrow> SandboxClass option \<Rightarrow> Pod \<Rightarrow> ((result \<times> RecError option) option \<times> SandboxStatus \<times> Sandbox) io" where
  "deriveStatus r sb cls pod = do {
     now \<leftarrow> timeNow (sr_Env r);
     (restored, sb1) \<leftarrow> maybeRestoreLauncher r sb pod (Derive sb (Some pod) now);
     let desired = ApplyPausePolicy sb1 cls (ApplySessionIdlePolicy (sr_ParseTime r) sb1 cls (holdUntilRestored sb1 restored) now) now;
     if sb_Status sb1 = desired then ret (None, desired, sb1)
     else do {
       (e, sb2) \<leftarrow> statusPatch r sb1 (sb1\<lparr>sb_Status := desired\<rparr>);
       case e of
         Some err \<Rightarrow> do {x \<leftarrow> recordAndReturnErr sb2 ''ReconcileError'' err; ret (Some x, desired, sb2)}
       | None \<Rightarrow> ret (None, desired, sb2)
     }
   }"

definition restartExitedSession :: "SandboxReconciler \<Rightarrow> Sandbox \<Rightarrow> SandboxClass option \<Rightarrow> Pod \<Rightarrow> (result \<times> RecError option) io" where
  "restartExitedSession r sb cls pod = do {
     _ \<leftarrow> rsb r sb ''Normal'' ''SessionVMRestart'';
     (err, sb1) \<leftarrow> (case sessionCheckpointPolicy sb cls of
         None \<Rightarrow> ret (None, sb)
       | Some policy \<Rightarrow>
           if (case st_Checkpoint (sb_Status sb) of None \<Rightarrow> True | Some ck \<Rightarrow> ck_Ref ck = '''') then do {
             _ \<leftarrow> rsb r sb ''Warning'' ''SessionRestartedFromWorkspace'';
             now \<leftarrow> timeNow (sr_Env r);
             let ck = (case st_Checkpoint (sb_Status sb) of Some x \<Rightarrow> x
                 | None \<Rightarrow> zero_SandboxCheckpointStatus\<lparr>ck_Backend := CheckpointBackend (Some policy)\<rparr>);
             statusPatch r sb (with_status sb (\<lambda>st. st\<lparr>st_Checkpoint := Some (RecordRecovery ck SessionRecoveryRestartedFromWorkspace now None)\<rparr>))
           }
           else ret (None, sb));
     case err of
       Some e \<Rightarrow> ret (0, Some e)
     | None \<Rightarrow> do {
         d \<leftarrow> deleteIgnoreNotFound (sr_Env r) (OPod pod);
         case d of Some e \<Rightarrow> recordAndReturnErr sb1 ''ReconcileError'' e | None \<Rightarrow> ret (0, None)
       }
   }"

text \<open>The event of the Pod deletion that follows a failure by a policy or the gate (\<open>failedPodDeletes\<close>).\<close>

definition failedPodDelete :: "string \<Rightarrow> string option" where
  "failedPodDelete reason = map_of [(ReasonTimeout, ''TimeoutExceeded''), (ReasonIdleTimeout, ''IdleTimeoutExceeded''),
     (ReasonPauseTimeout, ''PauseTimeoutExceeded''), (ReasonInvariantGateViolation, ''InvariantGateViolation'')] reason"

definition deleteFailedPod :: "SandboxReconciler \<Rightarrow> Sandbox \<Rightarrow> Pod \<Rightarrow> string \<Rightarrow> (result \<times> RecError option) io" where
  "deleteFailedPod r sb pod reason = (case failedPodDelete reason of
      None \<Rightarrow> ret (0, None)
    | Some event \<Rightarrow> do {
        _ \<leftarrow> rsb r sb ''Warning'' event;
        d \<leftarrow> deleteIgnoreNotFound (sr_Env r) (OPod pod);
        case d of Some e \<Rightarrow> recordAndReturnErr sb ''ReconcileError'' e | None \<Rightarrow> ret (0, None)
      })"

definition nextLifecycleDeadline :: "(string \<Rightarrow> gotime option) \<Rightarrow> Sandbox \<Rightarrow> SandboxClass option \<Rightarrow> SandboxStatus \<Rightarrow> gotime \<Rightarrow> duration option" where
  "nextLifecycleDeadline parse sb cls st now =
     (let earliest =
        (case st_Phase st of
           SandboxPhaseRunning \<Rightarrow>
             (let e = (case (st_StartedAt st, Option.bind (sp_Lifecycle (sb_Spec sb)) lc_Timeout) of
                  (Some t, Some d) \<Rightarrow> if d > 0 then time_Add t d else 0 | _ \<Rightarrow> 0)
              in case SessionIdleDeadline parse sb cls of Some d \<Rightarrow> if time_IsZero e \<or> time_Before d e then d else e | None \<Rightarrow> e)
         | SandboxPhasePaused \<Rightarrow> (case PauseDeadline st cls of Some d \<Rightarrow> d | None \<Rightarrow> 0)
         | _ \<Rightarrow> 0)
      in if time_IsZero earliest then None else Some (max (time_Sub earliest now) second))"

definition requeueAfter :: "SandboxReconciler \<Rightarrow> Sandbox \<Rightarrow> SandboxClass option \<Rightarrow> SandboxStatus \<Rightarrow> duration \<Rightarrow> result io" where
  "requeueAfter r sb cls desired checkpointRequeue = do {
     let a = (if DependsOnDNS sb cls then EffectiveRefreshInterval (sr_NetPol r) else 0);
     let b = (if checkpointRequeue > 0 \<and> (a = 0 \<or> checkpointRequeue < a) then checkpointRequeue else a);
     now \<leftarrow> timeNow (sr_Env r);
     ret (case nextLifecycleDeadline (sr_ParseTime r) sb cls desired now of
            Some after \<Rightarrow> if b = 0 \<or> after < b then after else b
          | None \<Rightarrow> b)
   }"

text \<open>From the session checkpoints to the end of the pass.\<close>

definition finishPass :: "SandboxReconciler \<Rightarrow> Sandbox \<Rightarrow> SandboxClass option \<Rightarrow> Pod \<Rightarrow> SandboxStatus \<Rightarrow> (result \<times> RecError option) io" where
  "finishPass r sb cls pod desired = do {
     (res, handled, err, sb1) \<leftarrow> (if IsSession (sb_Spec sb) then reconcileSessionCheckpoint r sb cls pod desired else ret (0, False, None, sb));
     if err \<noteq> None \<or> handled then ret (res, err)
     else if sessionPodEnded sb1 desired pod then restartExitedSession r sb1 cls pod
     else do {
       (res3, err3, sb2) \<leftarrow> (case sr_Coordinator r of Some c \<Rightarrow> reconcilePhase3Lifecycle r c sb1 desired | None \<Rightarrow> ret (0, None, sb1));
       if err3 \<noteq> None \<or> res3 > 0 then ret (res3, err3)
       else do {
         (resd, errd) \<leftarrow> (if st_Phase desired = SandboxPhaseFailed \<and> \<not> deleting (pod_Meta pod)
             then deleteFailedPod r sb2 pod (st_Reason desired) else ret (0, None));
         if errd \<noteq> None then ret (resd, errd)
         else do {after \<leftarrow> requeueAfter r sb2 cls desired res; ret (after, None)}
       }
     }
   }"

definition reconcileExistingPod :: "SandboxReconciler \<Rightarrow> Sandbox \<Rightarrow> SandboxClass option \<Rightarrow> Pod \<Rightarrow> (result \<times> RecError option) io" where
  "reconcileExistingPod r sb cls pod = do {
     e \<leftarrow> ensurePolicies r sb cls;
     case e of
       Some err \<Rightarrow> ret (0, Some err)
     | None \<Rightarrow>
         if holdingSuspend sb pod then ret (suspendWaitRequeue, None)
         else do {
           (stop, desired, sb1) \<leftarrow> deriveStatus r sb cls pod;
           case stop of Some x \<Rightarrow> ret x | None \<Rightarrow> finishPass r sb1 cls pod desired
         }
   }"

section \<open>Cordoned nodes\<close>

text \<open>An update of a node counts when it becomes unschedulable; the other events of \<open>nodeCordonPredicate\<close> when it is.\<close>

definition cordonUpdate :: "Node \<Rightarrow> Node \<Rightarrow> bool" where
  "cordonUpdate old new \<longleftrightarrow> node_Unschedulable new \<and> \<not> node_Unschedulable old"

definition sandboxesOnCordonedNode :: "SandboxReconciler \<Rightarrow> Node \<Rightarrow> key list io" where
  "sandboxesOnCordonedNode r node = do {
     l \<leftarrow> ListObjs (sr_Env r) KPod (HasLabel SandboxLabelKey) asPod;
     ret (case l of
            Inl _ \<Rightarrow> []
          | Inr pods \<Rightarrow> map (\<lambda>p. (om_Namespace (pod_Meta p), map_get (om_Labels (pod_Meta p)) SandboxLabelKey))
              (filter (\<lambda>p. pod_NodeName p = om_Name (node_Meta node) \<and> map_get (om_Labels (pod_Meta p)) SandboxLabelKey \<noteq> '''') pods))
   }"

section \<open>One pass\<close>

text \<open>From the resolved class to the Pod.\<close>

definition reconcilePod :: "SandboxReconciler \<Rightarrow> Sandbox \<Rightarrow> SandboxClass option \<Rightarrow> (result \<times> RecError option) io" where
  "reconcilePod r sb cls = do {
     s \<leftarrow> resolveSnapshotRef r sb cls;
     case s of
       Inl x \<Rightarrow> ret x
     | Inr pinnedNode \<Rightarrow> do {
         g \<leftarrow> GetPod (sr_Env r) (sb_Namespace sb, sb_Name sb @ ''-vm'');
         case g of
           Inl e \<Rightarrow> if e = NotFound then handleMissingPod r sb cls pinnedNode else recordAndReturnErr sb ''ReconcileError'' (RecApi e)
         | Inr pod \<Rightarrow> reconcileExistingPod r sb cls pod
       }
   }"

definition reconcileLive :: "SandboxReconciler \<Rightarrow> Sandbox \<Rightarrow> (result \<times> RecError option) io" where
  "reconcileLive r sb = do {
     t \<leftarrow> resolveTenant r sb;
     case t of
       Inl e \<Rightarrow> recordAndReturnErr sb ''ReconcileError'' e
     | Inr tenantOK \<Rightarrow>
         if sr_MultiTenancyEnabled r \<and> \<not> tenantOK then do {
           _ \<leftarrow> rsb r sb ''Warning'' ''TenantLabelMissing'';
           (e, _) \<leftarrow> patchPendingStatus r sb ''TenantLabelMissing'';
           ret (case e of Some err \<Rightarrow> (0, Some err) | None \<Rightarrow> (60 * second, None))
         }
         else do {
           c \<leftarrow> resolveClass r sb;
           case c of
             Inl _ \<Rightarrow> handleUnresolvableClass r sb
           | Inr cls \<Rightarrow>
               if cls \<noteq> None \<and> ClassValidate (Some sb) cls \<noteq> [] then do {
                 _ \<leftarrow> rsb r sb ''Warning'' ''ConstraintViolated'';
                 (e, _) \<leftarrow> patchPendingStatus r sb ''ConstraintViolated'';
                 ret (case e of Some err \<Rightarrow> (0, Some err) | None \<Rightarrow> (60 * second, None))
               }
               else reconcilePod r sb cls
         }
   }"

definition ReconcileSandbox :: "SandboxReconciler \<Rightarrow> key \<Rightarrow> (result \<times> RecError option) io" where
  "ReconcileSandbox r k = do {
     g \<leftarrow> GetSandbox (sr_Env r) k;
     case g of
       Inl e \<Rightarrow> ret (0, if e = NotFound then None else Some (RecApi e))
     | Inr sb \<Rightarrow> do {
         f \<leftarrow> handleWorkspaceFinalizer r sb;
         case f of
           Inl x \<Rightarrow> ret x
         | Inr sb1 \<Rightarrow> do {
             e \<leftarrow> reapExpiredEphemeral r sb1;
             case e of Some x \<Rightarrow> ret x | None \<Rightarrow> reconcileLive r sb1
           }
       }
   }"

end
