(* ===== verification/Effects.thy ===== *)
theory Effects
  imports Coordinator_Props Reconcile
begin

text \<open>
  The effects of the operations of the reconciler. Every event of an operation has one of a few effects,
  and every operation is shown to have only some of them; the properties of a pass then look at the few
  places where an effect can arise. The second half has the rules for a condition on the events before an
  effect.
\<close>

section \<open>Effects\<close>

datatype Effect =
    EffOther
  | EffPod \<comment> \<open>a launcher Pod is created\<close>
  | EffRelease \<comment> \<open>the finalizer of a session is dropped\<close>
  | EffRestore \<comment> \<open>state is loaded into a machine\<close>
  | EffForget \<comment> \<open>a Sandbox is deleted\<close>

definition releases :: "Sandbox \<Rightarrow> Sandbox \<Rightarrow> bool" where
  "releases a b \<longleftrightarrow> workspaceFinalizer \<in> set (om_Finalizers (sb_Meta a)) \<and> workspaceFinalizer \<notin> set (om_Finalizers (sb_Meta b))"

definition effect :: "Event \<Rightarrow> Effect" where
  "effect e = (case e of
      EvCreate x _ \<Rightarrow> (case x of OManifest _ \<Rightarrow> EffPod | _ \<Rightarrow> EffOther)
    | EvPatch x y _ \<Rightarrow> (case (x, y) of (OSandbox a, OSandbox b) \<Rightarrow> if releases a b then EffRelease else EffOther | _ \<Rightarrow> EffOther)
    | EvRestore _ _ _ \<Rightarrow> EffRestore
    | EvDelete x _ \<Rightarrow> (case x of OSandbox _ \<Rightarrow> EffForget | _ \<Rightarrow> EffOther)
    | _ \<Rightarrow> EffOther)"

lemma effect_simps [simp]:
  "effect (EvGet kd k a1) = EffOther" "effect (EvList kd sel a2) = EffOther" "effect (EvStatusPatch x y a1) = EffOther"
  "effect (EvUpdate x a1) = EffOther" "effect (EvDial n a3) = EffOther" "effect (EvCreateSnapshot n q a4) = EffOther"
  "effect (EvPause n tq a5) = EffOther" "effect (EvResume n tq a5) = EffOther" "effect (EvDeleteSnapshot n dq a5) = EffOther"
  "effect (EvRecord s k ty rs) = EffOther" "effect (EvNow now) = EffOther" "effect (EvRand m a6) = EffOther"
  "effect (EvRestore n rq a7) = EffRestore" "effect (EvCreate (OManifest pm) a1) = EffPod"
  "effect (EvCreate (OSnapshot sn) a1) = EffOther" "effect (EvCreate (OSecret sec) a1) = EffOther" "effect (EvCreate (OClaim pvc) a1) = EffOther"
  "effect (EvCreate (OJobManifest jm) a1) = EffOther" "effect (EvCreate (OConfigMap cm) a1) = EffOther"
  "effect (EvCreate (ONetworkPolicy np) a1) = EffOther"
  "effect (EvPatch (OSnapshot sn) y a1) = EffOther" "effect (EvPatch (OPod p) y a1) = EffOther" "effect (EvPatch (ONetworkPolicy np) y a1) = EffOther"
  "effect (EvPatch (OSandbox sa) (OSandbox sb) a1) = (if releases sa sb then EffRelease else EffOther)"
  "effect (EvDelete (OSandbox sb) a8) = EffForget" "effect (EvDelete (OPod p) a8) = EffOther" "effect (EvDelete (OSecret sec) a8) = EffOther"
  "effect (EvDelete (OSnapshot sn) a8) = EffOther" "effect (EvDelete (OClaim pvc) a8) = EffOther"
  by (simp_all add: effect_def)

abbreviation does :: "Effect set \<Rightarrow> 'a io \<Rightarrow> bool" where
  "does S m \<equiv> emits (\<lambda>e. effect e \<in> S) m"

lemma emits_bool [emits]: "(b \<Longrightarrow> emits P m) \<Longrightarrow> (\<not> b \<Longrightarrow> emits P m') \<Longrightarrow> emits P (case b of True \<Rightarrow> m | False \<Rightarrow> m')"
  by (cases b) simp_all

section \<open>The effects of the coordinator\<close>

lemma rsb_does [emits]: "EffOther \<in> S \<Longrightarrow> does S (recordEvent kd k ty reason)"
  by (simp add: recordEvent_def emits)

lemma emit_does [emits]: "EffOther \<in> S \<Longrightarrow> does S (emit c sb ty reason)"
  by (simp add: emit_def emits)

lemma getPod_does [emits]: "EffOther \<in> S \<Longrightarrow> does S (getPod c sb)"
  unfolding getPod_def GetPod_def by (intro emits) simp_all

lemma TenantKEK_does [emits]: "EffOther \<in> S \<Longrightarrow> does S (TenantKEK c ns)"
proof -
  assume "EffOther \<in> S"
  then have "does S (TenantKEK_rounds n c ns)" for n by (induction n) (auto intro!: emits simp: call_defs)
  then show ?thesis by (simp add: TenantKEK_def)
qed

lemma recordIdentityGeneration_does [emits]: "EffOther \<in> S \<Longrightarrow> does S (recordIdentityGeneration c sb gen)"
  unfolding recordIdentityGeneration_def call_defs by (intro emits) simp_all

lemma markPhase_does [emits]: "EffOther \<in> S \<Longrightarrow> does S (markPhase c snap phase reason)"
  unfolding markPhase_def call_defs Let_def by (intro emits) simp_all

lemma failSnapshot_does [emits]: "EffOther \<in> S \<Longrightarrow> does S (failSnapshot c snap reason)"
  unfolding failSnapshot_def by (intro emits)

lemma abandonSnapshot_does [emits]: "EffOther \<in> S \<Longrightarrow> does S (abandonSnapshot c snap cause)"
  unfolding abandonSnapshot_def DeleteObj_def by (intro emits) simp_all

lemma failCreate_does [emits]: "EffOther \<in> S \<Longrightarrow> does S (failCreate c sb snap err)"
  unfolding failCreate_def Let_def by (intro emits) simp_all

lemma finishSnapshot_does [emits]: "EffOther \<in> S \<Longrightarrow> does S (finishSnapshot c sb snap resp)"
  unfolding finishSnapshot_def PatchSnapshot_def Let_def by (intro emits) simp_all

lemma writeSnapshot_does [emits]: "EffOther \<in> S \<Longrightarrow> does S (writeSnapshot c sb pod snap parentRef backend kek)"
  unfolding writeSnapshot_def Dial_def rpcCreateSnapshot_def by (intro emits) simp_all

lemma newSnapshotCR_does [emits]: "EffOther \<in> S \<Longrightarrow> does S (newSnapshotCR c sb node)"
  unfolding newSnapshotCR_def instanceType_def call_defs Let_def by (intro emits) simp_all

lemma applyKept_does [emits]: "EffOther \<in> S \<Longrightarrow> does S (applyKept c sb snap parentRef)"
  unfolding applyKept_def by (intro emits)

lemma diffParent_does [emits]: "EffOther \<in> S \<Longrightarrow> does S (diffParent c sb uid)"
  unfolding diffParent_def GetSnapshot_def Let_def by (intro emits) simp_all

lemma checkNameFree_does [emits]: "EffOther \<in> S \<Longrightarrow> does S (checkNameFree c sb)"
  unfolding checkNameFree_def GetSnapshot_def by (intro emits) simp_all

lemma CreateSnapshot_does [emits]: "EffOther \<in> S \<Longrightarrow> does S (CreateSnapshot c sb)"
  unfolding CreateSnapshot_def CreateSnapshotObj_def Let_def by (intro emits) simp_all

lemma Decide_does [emits]: "EffOther \<in> S \<Longrightarrow> does S (Decide env g cls ev)"
  unfolding Decide_def DevModeActive_def GetNamespace_def Let_def by (intro emits) simp_all

lemma classOf_does [emits]: "EffOther \<in> S \<Longrightarrow> does S (classOf c sb)"
  unfolding classOf_def GetClass_def by (intro emits) simp_all

lemma loadState_does [emits]: "EffOther \<in> S \<Longrightarrow> EffRestore \<in> S \<Longrightarrow> does S (loadState c sb cls bound pod failed started q)"
  unfolding loadState_def rpcRestore_def rpcPause_def emitRestored_def Let_def by (intro emits) simp_all

lemma RestoreSandbox_does [emits]: "EffOther \<in> S \<Longrightarrow> EffRestore \<in> S \<Longrightarrow> does S (RestoreSandbox c sb snap)"
  unfolding RestoreSandbox_def restoreTarget_def Dial_def Let_def by (intro emits) simp_all

lemma RestoreSessionCheckpoint_does [emits]:
  "EffOther \<in> S \<Longrightarrow> EffRestore \<in> S \<Longrightarrow> does S (RestoreSessionCheckpoint c sb ref backend kek takenAt)"
  unfolding RestoreSessionCheckpoint_def Dial_def Let_def by (intro emits) simp_all

lemma PauseSandbox_does [emits]: "EffOther \<in> S \<Longrightarrow> does S (PauseSandbox c sb)"
  unfolding PauseSandbox_def targetCall_def Dial_def rpcPause_def by (intro emits) simp_all

lemma ResumeSandbox_does [emits]: "EffOther \<in> S \<Longrightarrow> does S (ResumeSandbox c sb)"
  unfolding ResumeSandbox_def targetCall_def Dial_def rpcResume_def by (intro emits) simp_all

lemma CheckpointSession_does [emits]: "EffOther \<in> S \<Longrightarrow> does S (CheckpointSession c sb backend sequence kek leavePaused parentRef)"
  unfolding CheckpointSession_def Dial_def rpcCreateSnapshot_def by (intro emits) simp_all

lemma DeleteSessionCheckpoint_does [emits]: "EffOther \<in> S \<Longrightarrow> does S (DeleteSessionCheckpoint c sb ref backend)"
proof -
  assume S: "EffOther \<in> S"
  have "does S (dialFirst c nodes errs)" for nodes errs
    by (induction nodes arbitrary: errs) (use S in \<open>auto intro!: emits simp: Dial_def\<close>)
  with S show ?thesis
    unfolding DeleteSessionCheckpoint_def dialSessionAgent_def ListObjs_def Dial_def rpcDeleteSnapshot_def by (intro emits) simp_all
qed


section \<open>The effects of the disk step\<close>

lemma ensureDisk_does [emits]: "EffOther \<in> S \<Longrightarrow> does S (ensureDisk env dl cfg repo keys img)"
  unfolding ensureDisk_def signingKey_def signBuiltDisk_def initReports_def call_defs Let_def by (intro emits) simp_all

section \<open>The effects of the reconciler\<close>

lemma recordAndReturnErr_does [emits]: "EffOther \<in> S \<Longrightarrow> does S (recordAndReturnErr sb reason err)"
  unfolding recordAndReturnErr_def by (intro emits)

lemma failWith_does [emits]: "EffOther \<in> S \<Longrightarrow> does S (failWith sb err)"
  unfolding failWith_def by (intro emits)

lemma statusPatch_does [emits]: "EffOther \<in> S \<Longrightarrow> does S (statusPatch r a b)"
  unfolding statusPatch_def StatusPatchSandbox_def by (intro emits) simp_all

lemma metaPatch_does [emits]: "EffOther \<in> S \<Longrightarrow> \<not> releases a b \<Longrightarrow> does S (metaPatch r a b)"
  unfolding metaPatch_def PatchSandbox_def by (intro emits) simp_all

lemma deleteIgnoreNotFound_does [emits]: "(\<And>a. effect (EvDelete x a) \<in> S) \<Longrightarrow> does S (deleteIgnoreNotFound env x)"
  unfolding deleteIgnoreNotFound_def DeleteObj_def by (intro emits) simp_all

lemma patchPhase_does [emits]: "EffOther \<in> S \<Longrightarrow> does S (patchPhase r sb phase reason b)"
  unfolding patchPhase_def timeNow_def by (intro emits) simp_all

lemma patchFailedStatus_does [emits]: "EffOther \<in> S \<Longrightarrow> does S (patchFailedStatus r sb reason)"
  unfolding patchFailedStatus_def patchReason_def timeNow_def by (intro emits) simp_all

lemma patchPendingStatus_does [emits]: "EffOther \<in> S \<Longrightarrow> does S (patchPendingStatus r sb reason)"
  unfolding patchPendingStatus_def patchReason_def timeNow_def by (intro emits) simp_all

lemma ensureIdentity_does [emits]: "EffOther \<in> S \<Longrightarrow> does S (ensureIdentity r sb)"
  unfolding ensureIdentity_def identitySecret_def createIdentitySecret_def recordIdentity_def call_defs Let_def by (intro emits) simp_all

lemma releases_same_meta [simp]:
  "om_Finalizers (sb_Meta b) = om_Finalizers (sb_Meta a) \<Longrightarrow> \<not> releases a b"
  by (simp add: releases_def)

lemma markWarmBase_does [emits]: "EffOther \<in> S \<Longrightarrow> does S (markWarmBase r sb base)"
  unfolding markWarmBase_def Let_def by (intro emits) simp_all

lemma classOrNil_does [emits]: "EffOther \<in> S \<Longrightarrow> does S (classOrNil r sb)"
  unfolding classOrNil_def GetClass_def by (intro emits) simp_all

lemma failRestore_does [emits]: "EffOther \<in> S \<Longrightarrow> does S (failRestore r sb desired warm reason)"
  unfolding failRestore_def Let_def by (intro emits)

lemma maybeRestoreLauncher_does [emits]: "EffOther \<in> S \<Longrightarrow> EffRestore \<in> S \<Longrightarrow> does S (maybeRestoreLauncher r sb pod desired)"
  unfolding maybeRestoreLauncher_def GetSnapshot_def Let_def by (intro emits) simp_all

lemma restoreInstanceType_does [emits]: "EffOther \<in> S \<Longrightarrow> does S (restoreInstanceType r sb cls)"
  unfolding restoreInstanceType_def GetSnapshot_def by (intro emits) simp_all

lemma ensureSessionKEK_does [emits]: "EffOther \<in> S \<Longrightarrow> does S (ensureSessionKEK r sb)"
  unfolding ensureSessionKEK_def GetSecret_def randRead_def CreateSecret_def by (intro emits) simp_all

lemma readSessionKEK_does [emits]: "EffOther \<in> S \<Longrightarrow> does S (readSessionKEK r sb)"
  unfolding readSessionKEK_def GetSecret_def by (intro emits) simp_all

lemma deleteSessionPod_does [emits]: "EffOther \<in> S \<Longrightarrow> does S (deleteSessionPod r sb)"
  unfolding deleteSessionPod_def GetPod_def by (intro emits) simp_all

lemma deleteCheckpointChain_does [emits]: "EffOther \<in> S \<Longrightarrow> does S (deleteCheckpointChain c sb ck)"
proof -
  assume S: "EffOther \<in> S"
  have "does S (deleteRefs c sb backend refs)" for backend refs
    by (induction refs) (use S in \<open>auto intro!: emits\<close>)
  then show ?thesis by (simp add: deleteCheckpointChain_def)
qed

lemma takeCheckpoint_does [emits]: "EffOther \<in> S \<Longrightarrow> does S (takeCheckpoint r c sb policy b)"
  unfolding takeCheckpoint_def sessionPodUID_def GetPod_def timeNow_def Let_def by (intro emits) simp_all

lemma periodicCheckpoint_does [emits]: "EffOther \<in> S \<Longrightarrow> does S (periodicCheckpoint r c sb policy)"
  unfolding periodicCheckpoint_def nextCheckpointDue_def timeNow_def Let_def by (intro emits) simp_all

lemma suspendReason_does [emits]: "EffOther \<in> S \<Longrightarrow> does S (suspendReason r sb cls desired)"
  unfolding suspendReason_def timeNow_def Let_def by (intro emits) simp_all

lemma suspendSession_does [emits]: "EffOther \<in> S \<Longrightarrow> does S (suspendSession r c sb policy pod reason)"
  unfolding suspendSession_def condemnPod_def PatchPod_def timeNow_def Let_def by (intro emits) simp_all

lemma recycleIfExpired_does [emits]: "EffOther \<in> S \<Longrightarrow> EffForget \<in> S \<Longrightarrow> does S (recycleIfExpired r sb cls)"
  unfolding recycleIfExpired_def timeNow_def Let_def by (intro emits) simp_all

lemma restorePendingCheckpoint_does [emits]: "EffOther \<in> S \<Longrightarrow> EffRestore \<in> S \<Longrightarrow> does S (restorePendingCheckpoint r c sb ck policy)"
  unfolding restorePendingCheckpoint_def restoreStillPending_def tryRestore_def afterRestore_def GetSandbox_def timeNow_def Let_def
  by (intro emits) simp_all

lemma handleNodeLoss_does [emits]: "EffOther \<in> S \<Longrightarrow> does S (handleNodeLoss r sb pod)"
  unfolding handleNodeLoss_def nodeLostFor_def resumeAfterNodeLoss_def GetNode_def timeNow_def by (intro emits) simp_all

lemma checkpointWhileLive_does [emits]: "EffOther \<in> S \<Longrightarrow> does S (checkpointWhileLive r c sb cls policy pod desired)"
  unfolding checkpointWhileLive_def draining_def GetNode_def by (intro emits) simp_all

lemma reconcileSessionCheckpoint_does [emits]: "EffOther \<in> S \<Longrightarrow> EffRestore \<in> S \<Longrightarrow> does S (reconcileSessionCheckpoint r sb cls pod desired)"
  unfolding reconcileSessionCheckpoint_def by (intro emits) simp_all

lemma teardownSessionCheckpoint_does [emits]: "EffOther \<in> S \<Longrightarrow> does S (teardownSessionCheckpoint r sb)"
  unfolding teardownSessionCheckpoint_def GetSecret_def by (intro emits) simp_all

lemma retryOnConflict_emits [emits]: "emits P m \<Longrightarrow> emits P (retryOnConflict n m)"
  by (induction n) (auto intro!: emits)

lemma markPoolUsed_does [emits]: "EffOther \<in> S \<Longrightarrow> does S (markPoolUsed r sb cls)"
  unfolding markPoolUsed_def GetClass_def StatusPatchClass_def timeNow_def Let_def by (intro emits) simp_all

lemma selectBase_does [emits]: "EffOther \<in> S \<Longrightarrow> does S (selectBase r sb cls)"
  unfolding selectBase_def ListObjs_def Let_def by (intro emits) simp_all

lemma recordColdBoot_does [emits]: "EffOther \<in> S \<Longrightarrow> does S (recordColdBoot r sb)"
  unfolding recordColdBoot_def by (intro emits) simp_all

section \<open>The effects of the steps of a pass\<close>

lemma ensureWorkspacePVC_does [emits]: "EffOther \<in> S \<Longrightarrow> does S (ensureWorkspacePVC r sb)"
  unfolding ensureWorkspacePVC_def GetClaim_def CreateObj_def Let_def by (intro emits) simp_all

lemma reapExpiredEphemeral_does [emits]: "EffOther \<in> S \<Longrightarrow> EffForget \<in> S \<Longrightarrow> does S (reapExpiredEphemeral r sb)"
  unfolding reapExpiredEphemeral_def timeNow_def Let_def by (intro emits) simp_all

lemma handleUnresolvableClass_does [emits]: "EffOther \<in> S \<Longrightarrow> EffForget \<in> S \<Longrightarrow> does S (handleUnresolvableClass r sb)"
  unfolding handleUnresolvableClass_def timeNow_def Let_def by (intro emits) simp_all

lemma resolveTenant_does [emits]: "EffOther \<in> S \<Longrightarrow> does S (resolveTenant r sb)"
  unfolding resolveTenant_def GetNamespace_def by (intro emits) simp_all

lemma resolveClass_does [emits]: "EffOther \<in> S \<Longrightarrow> does S (resolveClass r sb)"
  unfolding resolveClass_def GetClass_def ListObjs_def by (intro emits) simp_all

lemma resolveSnapshotRef_does [emits]: "EffOther \<in> S \<Longrightarrow> does S (resolveSnapshotRef r sb cls)"
  unfolding resolveSnapshotRef_def GetSnapshot_def Let_def by (intro emits) simp_all

lemma checkBackend_does [emits]: "EffOther \<in> S \<Longrightarrow> does S (checkBackend r sb cls)"
  unfolding checkBackend_def by (intro emits) simp_all

lemma ensureNamespaceBaseline_does [emits]: "EffOther \<in> S \<Longrightarrow> does S (ensureNamespaceBaseline r sb)"
  unfolding ensureNamespaceBaseline_def GetNetworkPolicy_def CreateObj_def PatchNetworkPolicy_def Let_def by (intro emits) simp_all

lemma applyNetworkPolicy_does [emits]: "EffOther \<in> S \<Longrightarrow> does S (applyNetworkPolicy r sb cls)"
  unfolding applyNetworkPolicy_def createPolicy_def GetNetworkPolicy_def CreateObj_def PatchNetworkPolicy_def by (intro emits) simp_all

lemma waitForLauncherDisk_does [emits]: "EffOther \<in> S \<Longrightarrow> does S (waitForLauncherDisk r sb)"
  unfolding waitForLauncherDisk_def by (auto intro!: emits split: DiskStepError.split)

lemma chooseStart_does [emits]: "EffOther \<in> S \<Longrightarrow> does S (chooseStart r sb cls node)"
  unfolding chooseStart_def by (intro emits) simp_all

lemma prepareSession_does [emits]: "EffOther \<in> S \<Longrightarrow> does S (prepareSession r sb cls)"
  unfolding prepareSession_def by (intro emits) simp_all

lemma applyAfterCreate_does [emits]: "EffOther \<in> S \<Longrightarrow> EffForget \<in> S \<Longrightarrow> does S (applyAfterCreate r sb)"
  unfolding applyAfterCreate_def by (auto intro!: emits split: SandboxSnapshotAfterCreate.split)

lemma emits_SnapshotPhase [emits]:
  "emits P creating \<Longrightarrow> emits P failed \<Longrightarrow> emits P m \<Longrightarrow>
   emits P (case p of SnapshotPhaseCreating \<Rightarrow> creating | SnapshotPhaseFailed \<Rightarrow> failed | _ \<Rightarrow> m)"
  by (cases p) simp_all

lemma requestSnapshot_does [emits]: "EffOther \<in> S \<Longrightarrow> EffForget \<in> S \<Longrightarrow> does S (requestSnapshot r c sb)"
  unfolding requestSnapshot_def GetSnapshot_def by (intro emits) simp_all

lemma reconcilePhase3Lifecycle_does [emits]: "EffOther \<in> S \<Longrightarrow> EffForget \<in> S \<Longrightarrow> does S (reconcilePhase3Lifecycle r c sb desired)"
  unfolding reconcilePhase3Lifecycle_def Let_def by (intro emits) simp_all

lemma deriveStatus_does [emits]: "EffOther \<in> S \<Longrightarrow> EffRestore \<in> S \<Longrightarrow> does S (deriveStatus r sb cls pod)"
  unfolding deriveStatus_def timeNow_def Let_def by (intro emits) simp_all

lemma restartExitedSession_does [emits]: "EffOther \<in> S \<Longrightarrow> does S (restartExitedSession r sb cls pod)"
  unfolding restartExitedSession_def timeNow_def Let_def by (intro emits) simp_all

lemma deleteFailedPod_does [emits]: "EffOther \<in> S \<Longrightarrow> does S (deleteFailedPod r sb pod reason)"
  unfolding deleteFailedPod_def by (intro emits) simp_all

lemma finishPass_does [emits]: "EffOther \<in> S \<Longrightarrow> EffRestore \<in> S \<Longrightarrow> EffForget \<in> S \<Longrightarrow> does S (finishPass r sb cls pod desired)"
  unfolding finishPass_def requeueAfter_def timeNow_def Let_def by (intro emits) simp_all

lemma reconcileExistingPod_does [emits]: "EffOther \<in> S \<Longrightarrow> EffRestore \<in> S \<Longrightarrow> EffForget \<in> S \<Longrightarrow> does S (reconcileExistingPod r sb cls pod)"
  unfolding reconcileExistingPod_def ensurePolicies_def by (intro emits) simp_all


section \<open>What an operation returns\<close>

text \<open>\<open>yields Q m\<close>: every result of \<open>m\<close> satisfies \<open>Q\<close>, whatever the environment answers.\<close>

definition yields :: "('a \<Rightarrow> bool) \<Rightarrow> 'a io \<Rightarrow> bool" where
  "yields Q m \<longleftrightarrow> (\<forall>h. Q (fst (run_state m h)))"

named_theorems yields

lemma yields_ret [yields]: "Q a \<Longrightarrow> yields Q (ret a)"
  by (simp add: yields_def)

lemma yields_call: "(\<And>h. Q (ask h)) \<Longrightarrow> yields Q (call ask ev)"
  by (simp add: yields_def call_def Let_def)

lemma yields_any: "yields (\<lambda>_. True) m"
  by (simp add: yields_def)

lemma yields_bind: "yields R m \<Longrightarrow> (\<And>a. R a \<Longrightarrow> yields Q (f a)) \<Longrightarrow> yields Q (State_Monad.bind m f)"
  by (auto simp: yields_def State_Monad.bind_def split: prod.split) (metis fst_conv)

lemma yields_then [yields]: "(\<And>a. yields Q (f a)) \<Longrightarrow> yields Q (State_Monad.bind m f)"
  by (rule yields_bind [OF yields_any])

lemma yields_if [yields]: "(b \<Longrightarrow> yields Q m) \<Longrightarrow> (\<not> b \<Longrightarrow> yields Q m') \<Longrightarrow> yields Q (if b then m else m')"
  by simp

lemma yields_sum [yields]:
  "(\<And>x. r = Inl x \<Longrightarrow> yields Q (f x)) \<Longrightarrow> (\<And>y. r = Inr y \<Longrightarrow> yields Q (g y)) \<Longrightarrow> yields Q (case r of Inl x \<Rightarrow> f x | Inr y \<Rightarrow> g y)"
  by (cases r) auto

lemma yields_option [yields]:
  "(r = None \<Longrightarrow> yields Q m) \<Longrightarrow> (\<And>y. r = Some y \<Longrightarrow> yields Q (g y)) \<Longrightarrow> yields Q (case r of None \<Rightarrow> m | Some y \<Rightarrow> g y)"
  by (cases r) auto

lemma yields_prod [yields]: "(\<And>x y. r = (x, y) \<Longrightarrow> yields Q (f x y)) \<Longrightarrow> yields Q (case r of (x, y) \<Rightarrow> f x y)"
  by (cases r) auto

lemma yields_mono: "yields R m \<Longrightarrow> (\<And>a. R a \<Longrightarrow> Q a) \<Longrightarrow> yields Q m"
  by (simp add: yields_def)

lemma wp_yields: "wp m R h t \<Longrightarrow> yields Q m \<Longrightarrow> wp m (\<lambda>a t'. R a t' \<and> Q a) h t"
  by (auto simp: wp_def yields_def split: prod.splits) (metis fst_conv)

lemma emits_then:
  assumes "emits P m" "yields Q m" "\<And>a. Q a \<Longrightarrow> emits P (f a)"
  shows "emits P (State_Monad.bind m f)"
  unfolding emits_def
proof (intro allI wp_bind)
  fix h t
  have "wp m (\<lambda>a t'. (\<exists>u. t' = t @ u \<and> list_all P u) \<and> Q a) h t"
    using assms(1,2) by (intro wp_yields) (simp_all add: emits_def)
  then show "wp m (\<lambda>a t'. wp (f a) (\<lambda>_ t'. \<exists>u. t' = t @ u \<and> list_all P u) h t') h t"
  proof (rule wp_mono)
    fix a t'
    assume "(\<exists>u. t' = t @ u \<and> list_all P u) \<and> Q a"
    then obtain u where u: "t' = t @ u" "list_all P u" "Q a" by blast
    have "wp (f a) (\<lambda>_ t''. \<exists>v. t'' = t' @ v \<and> list_all P v) h t'" using assms(3) [OF u(3)] by (simp add: emits_def)
    then show "wp (f a) (\<lambda>_ t'. \<exists>u. t' = t @ u \<and> list_all P u) h t'" by (rule wp_mono) (use u in auto)
  qed
qed

section \<open>What comes before an effect\<close>

text \<open>
  \<open>keeps P m\<close>: every event of \<open>m\<close> satisfies \<open>P\<close> together with the events of \<open>m\<close> before it. A condition that
  earlier events cannot break (\<open>stays P\<close>) is carried through a sequence.
\<close>

definition keeps :: "(history \<Rightarrow> Event \<Rightarrow> bool) \<Rightarrow> 'a io \<Rightarrow> bool" where
  "keeps P m \<longleftrightarrow> (\<forall>h. wp m (\<lambda>_ t. ord P [] t) h [])"

definition stays :: "(history \<Rightarrow> Event \<Rightarrow> bool) \<Rightarrow> bool" where
  "stays P \<longleftrightarrow> (\<forall>s t e. P t e \<longrightarrow> P (s @ t) e)"

lemma ord_shift: "stays P \<Longrightarrow> ord P t u \<Longrightarrow> ord P (s @ t) u"
  by (induction u arbitrary: t) (auto simp: stays_def)

lemma ord_shift': "stays P \<Longrightarrow> ord P [] u \<Longrightarrow> ord P s u"
  using ord_shift [of P "[]" u s] by simp

lemma ord_all: "(\<And>t. list_all (P t) u) \<Longrightarrow> ord P s u"
  by (induction u arbitrary: s) auto

named_theorems keeps

lemma keeps_emits: "emits (\<lambda>e. \<forall>t. P t e) m \<Longrightarrow> keeps P m"
  unfolding keeps_def by (auto intro!: wp_emits ord_all simp: list_all_iff)

lemma keeps_bind:
  assumes "stays P" "keeps P m" "\<And>a. keeps P (f a)"
  shows "keeps P (State_Monad.bind m f)"
  unfolding keeps_def
proof (intro allI wp_bind)
  fix h
  have "wp m (\<lambda>_ t. ord P [] t) h []" using assms(2) by (simp add: keeps_def)
  then show "wp m (\<lambda>a t. wp (f a) (\<lambda>_ t. ord P [] t) h t) h []"
  proof (rule wp_mono)
    fix a t
    assume t: "ord P [] t"
    show "wp (f a) (\<lambda>_ t. ord P [] t) h t"
      by (rule wp_frame [where R = "\<lambda>_ u. ord P [] u"])
        (use assms(1,3) t in \<open>auto simp: keeps_def ord_shift'\<close>)
  qed
qed

lemma keeps_ret [keeps]: "keeps P (ret a)"
  by (simp add: keeps_def)

lemma keeps_if [keeps]: "(b \<Longrightarrow> keeps P m) \<Longrightarrow> (\<not> b \<Longrightarrow> keeps P m') \<Longrightarrow> keeps P (if b then m else m')"
  by simp

lemma keeps_sum [keeps]:
  "(\<And>x. r = Inl x \<Longrightarrow> keeps P (f x)) \<Longrightarrow> (\<And>y. r = Inr y \<Longrightarrow> keeps P (g y)) \<Longrightarrow> keeps P (case r of Inl x \<Rightarrow> f x | Inr y \<Rightarrow> g y)"
  by (cases r) auto

lemma keeps_option [keeps]:
  "(r = None \<Longrightarrow> keeps P m) \<Longrightarrow> (\<And>y. r = Some y \<Longrightarrow> keeps P (g y)) \<Longrightarrow> keeps P (case r of None \<Rightarrow> m | Some y \<Rightarrow> g y)"
  by (cases r) auto

lemma keeps_prod [keeps]: "(\<And>x y. r = (x, y) \<Longrightarrow> keeps P (f x y)) \<Longrightarrow> keeps P (case r of (x, y) \<Rightarrow> f x y)"
  by (cases r) auto

text \<open>The condition at an event of a run.\<close>

lemma keeps_run: "keeps P m \<Longrightarrow> snd (run_state m h) = h @ t1 @ e # t2 \<Longrightarrow> P t1 e"
  unfolding keeps_def wp_run by (metis append.left_neutral append_same_eq ord_split same_append_eq)

end
