(* ===== verification/Example_Cluster.thy ===== *)
theory Example_Cluster
  imports Effects Netpol_Policy
begin

text \<open>
  A concrete cluster: one Sandbox without a network posture, whose disk is built, and whose policies are in
  the cluster. A pass of the reconciler over it makes the Pod. The properties of a pass are applied to it.
\<close>

section \<open>The cluster and the reconciler\<close>

definition ex_image :: string where "ex_image = ''r/app@sha256:00000000000000000000''"

definition ex_box :: Sandbox where
  "ex_box = zero_Sandbox\<lparr>sb_Meta := zero_ObjectMeta\<lparr>om_Name := ''box'', om_Namespace := ''ns'', om_UID := ''u''\<rparr>,
     sb_Spec := zero_SandboxSpec\<lparr>sp_Image := ex_image, sp_Resources := \<lparr>res_VCPU = 2, res_Memory = whole 64, res_Scratch = None\<rparr>\<rparr>,
     sb_Status := zero_SandboxStatus\<lparr>st_Identity := Some \<lparr>sid_PublicKey = [], sid_Generation = 1\<rparr>, st_Runtime := Some \<lparr>srt_Chosen = BackendLauncher\<rparr>\<rparr>\<rparr>"

definition ex_seed :: bytes where "ex_seed = bytes_of (b64_Encode StdEncoding (replicate 32 0))"

definition ex_lib :: DiskLib where
  "ex_lib = \<lparr>dl_Names = ex_names, dl_RegistryStr = (\<lambda>_. ''r''), dl_NewRegistry = Some,
     dl_Ed = \<lparr>ed_NewKeyFromSeed = id, ed_Public = (\<lambda>_. []), ed_Sign = (\<lambda>_ m. m), ed_Verify = (\<lambda>_ _ _. True)\<rparr>,
     dl_ReadCheck = (\<lambda>_. None), dl_ReadBuild = (\<lambda>_. None), dl_Marshal = (\<lambda>_. None)\<rparr>"

definition ex_reads :: "Sandbox \<Rightarrow> Kind \<Rightarrow> key \<Rightarrow> ApiError + Object" where
  "ex_reads sb kind k =
     (if kind = KSandbox \<and> k = sbKey sb then Inr (OSandbox sb)
      else if kind = KNetworkPolicy then Inr (ONetworkPolicy (if snd k = BaselineName then NamespaceBaseline (fst k) else denyAll sb))
      else if kind = KSecret then Inr (OSecret \<lparr>sec_Meta = zero_ObjectMeta\<lparr>om_Controller := ''u''\<rparr>, sec_Data = [''seed'' \<mapsto> ex_seed]\<rparr>)
      else if kind = KJob then Inr (OJob \<lparr>job_Meta = zero_ObjectMeta, job_Conditions = [\<lparr>jc_Type = ''Complete'', jc_Status = ''True'', jc_Message = []\<rparr>]\<rparr>)
      else if kind = KNamespace then Inr (ONamespace \<lparr>nsp_Meta = zero_ObjectMeta\<rparr>)
      else Inl NotFound)"

definition ex_world :: "Sandbox \<Rightarrow> Env" where
  "ex_world sb = ex_cluster\<lparr>e_Get := (\<lambda>_. ex_reads sb)\<rparr>"

definition ex_reconciler :: "Sandbox \<Rightarrow> SandboxReconciler" where
  "ex_reconciler sb = \<lparr>sr_Env = ex_world sb, sr_APIReader = None, sr_Scheme = True, sr_LauncherImage = ''launcher'', sr_DiskRepo = ''disks'', sr_DiskKeys = [''''],
     sr_WarmPoolNamespace = '''', sr_DiskBuilder = \<lparr>db_Image = ''b'', db_Namespace = ''setec'', db_SigningSecret = ''s'', db_ImageRegistries = [''r''],
       db_RegistrySecret = '''', db_Reader = None\<rparr>,
     sr_ClassResolver = False, sr_MultiTenancyEnabled = False, sr_TenantLabelKey = '''', sr_ClassNotFoundGrace = 0, sr_OrphanRetention = 0,
     sr_EphemeralRetention = 0, sr_Coordinator = None, sr_NetPol = \<lparr>cfg_ReservedCIDRs = [], cfg_ResolverIPs = [], cfg_Resolver = None, cfg_RefreshInterval = 0\<rparr>,
     sr_NamespaceBaselineDeny = True, sr_Lib = ex_lib, sr_QuantityString = (\<lambda>_. ''''), sr_ParseTime = (\<lambda>_. None), sr_IsLabel = (\<lambda>_. True), sr_RetrySteps = 5\<rparr>"

lemma ex_reconciler_env [simp]: "sr_Env (ex_reconciler sb) = ex_world sb"
  by (simp add: ex_reconciler_def)

lemma ex_world_get [simp]: "e_Get (ex_world sb) h = ex_reads sb"
  by (simp add: ex_world_def)

lemma ex_world_calls [simp]:
  "e_Create (ex_world sb) h x = Inr x" "e_Patch (ex_world sb) h a b = Inr b" "e_StatusPatch (ex_world sb) h a b = Inr b"
  "e_Delete (ex_world sb) h x = None" "e_Now (ex_world sb) h = 7"
  by (simp_all add: ex_world_def ex_cluster_def)

section \<open>The steps of a pass\<close>

lemma str_of_bytes: "str_of (bytes_of s) = s"
proof -
  have "unat (of_char c :: 8 word) = of_char c" for c
    by (simp add: unsigned_of_nat of_char_def take_bit_nat_eq_self flip: of_nat_of_char)
  then show ?thesis by (simp add: str_of_def bytes_of_def comp_def)
qed

lemma TrimSpace_plain:
  assumes "\<And>r. r \<in> set spaceRunes \<Longrightarrow> set r \<inter> set s = {}"
  shows "str_TrimSpace s = s"
proof -
  have "dropRune rs t = None" if "\<And>r. r \<in> set rs \<Longrightarrow> set r \<inter> set t = {}" for rs t
    using that by (auto simp: dropRune_def find_None_iff str_HasPrefix_iff neq_Nil_conv) (metis list.set_intros(1))
  then have "trimRunes rs t = t" if "\<And>r. r \<in> set rs \<Longrightarrow> set r \<inter> set t = {}" for rs t
    using that by (subst trimRunes.simps) simp
  note trim = this
  have "trimRunes spaceRunes s = s" "trimRunes (map rev spaceRunes) (rev s) = rev s"
    by (rule trim, use assms in fastforce)+
  then show ?thesis by (simp add: str_TrimSpace_def)
qed

lemma b64_std_plain: "list_all (\<lambda>r. list_all (\<lambda>c. c \<notin> set (CHR ''='' # b64_std)) r) spaceRunes"
  by code_simp

lemma TrimSpace_b64: "str_TrimSpace (b64_Encode StdEncoding bs) = b64_Encode StdEncoding bs"
proof (rule TrimSpace_plain)
  fix r
  assume "r \<in> set spaceRunes"
  moreover have "c \<in> set (CHR ''='' # b64_std)" if "c \<in> set (b64_Encode StdEncoding bs)" for c
    using b64_Encode_no_newline [OF b64_valid_std that] by (auto simp: StdEncoding_def)
  ultimately show "set r \<inter> set (b64_Encode StdEncoding bs) = {}"
    using b64_std_plain unfolding list_all_iff by blast
qed

lemma ex_seed_decoded: "b64_Decode StdEncoding (str_TrimSpace (str_of ex_seed)) = Some (replicate 32 0)"
  by (simp only: ex_seed_def str_of_bytes TrimSpace_b64 b64_roundtrip b64_valid_std)

lemma ex_seed_key: "KeyFromSeed (dl_Ed ex_lib) (str_of ex_seed) = Inr (replicate 32 0)" "ParsePrivateKey (dl_Ed ex_lib) (str_of ex_seed) = Inr (replicate 32 0)"
  by (simp_all only: KeyFromSeed_def ParsePrivateKey_def ex_seed_decoded) (simp_all add: SeedSize_def ex_lib_def)

lemma ex_no_key: "b64_Encode StdEncoding [] = []" "str_TrimSpace [] = []"
  by code_simp+

lemma ex_image_name: "diskJobName ex_image keyID = Inr (''setec-disk-00000000000000000000-'' @ keyID)"
  by (simp add: diskJobName_def ex_image_def str_HasPrefix_def)

lemma ex_image_parse: "ParseDigestRef ex_names ex_image = Inr \<lparr>dg_Name = ex_image, dg_DigestStr = ''sha256:00''\<rparr>"
  by (simp add: ParseDigestRef_def ex_names_def ex_image_def str_Cut_def lastPart_def str_HasPrefix_def)

lemma ex_image_allowed: "checkImageRegistry ex_lib [''r''] ex_image"
  by (simp add: checkImageRegistry_def ex_lib_def ex_image_parse) code_simp

lemma DiskKeyID_valid: "validKeyID (DiskKeyID pub)"
  by (auto simp: validKeyID_def DiskKeyID_def list_all_iff dest!: in_set_takeD intro: hex_Encode_lower)


text \<open>\<open>runs m x\<close>: \<open>m\<close> only adds events and returns \<open>x\<close>; \<open>makes m C\<close>: one of its events satisfies \<open>C\<close>.\<close>

definition runs :: "'a io \<Rightarrow> 'a \<Rightarrow> bool" where
  "runs m x \<longleftrightarrow> (\<forall>h. \<exists>t. run_state m h = (x, h @ t))"

definition makes :: "'a io \<Rightarrow> (Event \<Rightarrow> bool) \<Rightarrow> bool" where
  "makes m C \<longleftrightarrow> (\<forall>h. \<exists>t1 e t2. snd (run_state m h) = h @ t1 @ e # t2 \<and> C e)"

lemma runs_ret: "runs (ret x) x"
  by (simp add: runs_def)

lemma runs_call: "(\<And>h. ask h = x) \<Longrightarrow> runs (call ask ev) x"
  by (auto simp: runs_def run_call)

lemma runs_bind: "runs m x \<Longrightarrow> runs (f x) y \<Longrightarrow> runs (State_Monad.bind m f) y"
  unfolding runs_def by (auto simp: run_bind split: prod.split) (metis append.assoc prod.inject)

lemma makes_bind:
  assumes "runs m x" "makes (f x) C"
  shows "makes (State_Monad.bind m f) C"
  unfolding makes_def
proof
  fix h
  obtain t where t: "run_state m h = (x, h @ t)" using assms(1) by (auto simp: runs_def)
  obtain t1 e t2 where "snd (run_state (f x) (h @ t)) = (h @ t) @ t1 @ e # t2" "C e" using assms(2) unfolding makes_def by blast
  then show "\<exists>t1 e t2. snd (run_state (State_Monad.bind m f) h) = h @ t1 @ e # t2 \<and> C e"
    by (intro exI [of _ "t @ t1"] exI [of _ e] exI [of _ t2]) (simp add: run_bind t)
qed

lemma makes_call:
  assumes "\<And>r. C (ev r)" "\<And>x. emits (\<lambda>_. True) (f x)"
  shows "makes (State_Monad.bind (call ask ev) f) C"
  unfolding makes_def
proof
  fix h
  obtain t where "snd (run_state (f (ask h)) (h @ [ev (ask h)])) = (h @ [ev (ask h)]) @ t"
    using assms(2) [of "ask h", unfolded emits_def, rule_format, of "[]" "h @ [ev (ask h)]"] unfolding wp_run by blast
  then show "\<exists>t1 e t2. snd (run_state (State_Monad.bind (call ask ev) f) h) = h @ t1 @ e # t2 \<and> C e"
    by (intro exI [of _ "[]"] exI [of _ "ev (ask h)"] exI [of _ t]) (simp add: run_bind run_call assms(1))
qed

lemma ex_get: "runs (GetSandbox (ex_world sb) k) (decode asSandbox (ex_reads sb KSandbox k))"
  "runs (GetSecret (ex_world sb) k) (decode asSecret (ex_reads sb KSecret k))"
  "runs (GetJob (ex_world sb) k) (decode asJob (ex_reads sb KJob k))"
  "runs (GetPod (ex_world sb) k) (decode asPod (ex_reads sb KPod k))"
  "runs (GetNamespace (ex_world sb) n) (decode asNamespace (ex_reads sb KNamespace ('''', n)))"
  "runs (GetNetworkPolicy (ex_world sb) k) (decode asNetworkPolicy (ex_reads sb KNetworkPolicy k))"
  by (simp_all add: runs_def call_defs run_bind run_call)

lemma ex_fields [simp]:
  "sr_Lib (ex_reconciler sb) = ex_lib" "sr_DiskRepo (ex_reconciler sb) = ''disks''" "sr_DiskKeys (ex_reconciler sb) = ['''']"
  "sr_LauncherImage (ex_reconciler sb) = ''launcher''" "sr_Scheme (ex_reconciler sb)" "sr_WarmPoolNamespace (ex_reconciler sb) = ''''"
  "sr_NamespaceBaselineDeny (ex_reconciler sb)" "\<not> sr_ClassResolver (ex_reconciler sb)" "\<not> sr_MultiTenancyEnabled (ex_reconciler sb)"
  "sr_NetPol (ex_reconciler sb) = \<lparr>cfg_ReservedCIDRs = [], cfg_ResolverIPs = [], cfg_Resolver = None, cfg_RefreshInterval = 0\<rparr>"
  "db_Image (sr_DiskBuilder (ex_reconciler sb)) \<noteq> []" "db_Namespace (sr_DiskBuilder (ex_reconciler sb)) \<noteq> []"
  "db_SigningSecret (sr_DiskBuilder (ex_reconciler sb)) \<noteq> []" "db_ImageRegistries (sr_DiskBuilder (ex_reconciler sb)) = [''r'']"
  "db_Reader (sr_DiskBuilder (ex_reconciler sb)) = None"
  by (simp_all add: ex_reconciler_def)

lemma ex_signing: "runs (signingKey (ex_world sb) ex_lib (sr_DiskBuilder (ex_reconciler sb)) ['''']) (Inr (replicate 32 0, DiskKeyID []))"
proof -
  have "ed_Public (dl_Ed ex_lib) k = []" for k by (simp add: ex_lib_def)
  then show ?thesis unfolding signingKey_def
    by (intro runs_bind [OF ex_get(2)])
       (simp add: decode_def ex_reads_def asSecret_def ex_seed_key EncodePublicKey_def ex_no_key Let_def runs_ret del: replicate.simps)
qed

lemma ex_job:
  "runs (GetJob (ex_world sb) k) (Inr \<lparr>job_Meta = zero_ObjectMeta, job_Conditions = [\<lparr>jc_Type = ''Complete'', jc_Status = ''True'', jc_Message = []\<rparr>]\<rparr>)"
  using ex_get(3) [of sb k] by (simp add: decode_def ex_reads_def asJob_def)


lemma ex_disk_step:
  "runs (ensureDisk (ex_world sb) ex_lib (sr_DiskBuilder (ex_reconciler sb)) ''disks'' [''''] ex_image) (Inr (DiskKeyID [], True))"
  unfolding ensureDisk_def
  apply (simp add: ex_image_allowed Let_def)
  apply (rule runs_bind [OF ex_signing])
  apply (simp add: ex_image_name)
  apply (rule runs_bind [OF ex_job])
  apply (simp add: runs_ret)
  done

lemma ex_disk_wait: "sp_Image (sb_Spec sb) = ex_image \<Longrightarrow> runs (waitForLauncherDisk (ex_reconciler sb) sb) (Inr (DiskKeyID []))"
  unfolding waitForLauncherDisk_def by (rule runs_bind [where x = "Inr (DiskKeyID [], True)"]) (simp_all add: ex_disk_step runs_ret)

lemma ex_box_parts [simp]:
  "sb_Name ex_box = ''box''" "sb_Namespace ex_box = ''ns''" "om_UID (sb_Meta ex_box) = ''u''" "sp_Image (sb_Spec ex_box) = ex_image"
  "sp_Network (sb_Spec ex_box) = None" "sp_SnapshotRef (sb_Spec ex_box) = None" "sp_Lifecycle (sb_Spec ex_box) = None"
  "st_Identity (sb_Status ex_box) = Some \<lparr>sid_PublicKey = [], sid_Generation = 1\<rparr>" "st_Phase (sb_Status ex_box) = SandboxPhaseOther ''''"
  "om_Annotations (sb_Meta ex_box) = Map.empty" "om_Finalizers (sb_Meta ex_box) = []" "om_DeletionTimestamp (sb_Meta ex_box) = None"
  "st_Checkpoint (sb_Status ex_box) = None" "st_WarmStart (sb_Status ex_box) = None" "isLauncherSandbox ex_box" "\<not> IsSession (sb_Spec ex_box)" "sbKey ex_box = (''ns'', ''box'')"
  by (simp_all add: ex_box_def zero_defs isLauncherSandbox_def sbKey_def IsSession_def EffectiveLifecycleMode_def)

definition ex_launcher_identity :: LauncherIdentity where
  "ex_launcher_identity = \<lparr>li_SandboxID = sandboxID ex_box, li_Client = '''', li_Tenant = '''', li_Generation = 1\<rparr>"

lemma ex_identity_secret:
  "runs (identitySecret (ex_reconciler ex_box) ex_box) (Inr \<lparr>sec_Meta = zero_ObjectMeta\<lparr>om_Controller := ''u''\<rparr>, sec_Data = [''seed'' \<mapsto> ex_seed]\<rparr>)"
  unfolding identitySecret_def Let_def ex_reconciler_env
  by (rule runs_bind [OF ex_get(2)]) (simp add: decode_def ex_reads_def asSecret_def zero_defs runs_ret)

lemma ex_namespace: "runs (GetNamespace (ex_world sb) n) (Inr \<lparr>nsp_Meta = zero_ObjectMeta\<rparr>)"
  using ex_get(5) [of sb n] by (simp add: decode_def ex_reads_def asNamespace_def)

lemma ex_identity_step: "runs (ensureIdentity (ex_reconciler ex_box) ex_box) (Inr ex_launcher_identity, ex_box)"
proof -
  have pub: "ed_Public (dl_Ed ex_lib) k = []" for k by (simp add: ex_lib_def)
  show ?thesis unfolding ensureIdentity_def
    apply (rule runs_bind [OF ex_identity_secret])
    apply (simp add: ex_seed_key pub ex_no_key recordIdentity_def)
    apply (rule runs_bind [OF ex_namespace])
    by (simp add: runs_ret ex_launcher_identity_def zero_defs)
qed

lemma ex_submit:
  "makes (submitPod (ex_reconciler ex_box) ex_box None (launcherOptions (ex_reconciler ex_box) ex_box None ex_launcher_identity (DiskKeyID []) [] '''' ''''))
     (\<lambda>e. \<exists>pod a. e = EvCreate (OManifest pod) a)"
proof -
  have "DiskKeyID [] \<noteq> []" using DiskKeyID_valid [of "[]"] by (auto simp: validKeyID_def)
  moreover have "str_Contains ex_image ''@sha256:''" by (simp add: ex_image_def str_HasPrefix_def)
  moreover have "DiskRef ex_names ''disks'' ex_image (DiskKeyID []) = Inr (''disks:00-'' @ DiskKeyID [])"
    by (simp add: DiskRef_def ex_image_parse diskTag_def DiskKeyID_valid str_TrimPrefix_def str_HasPrefix_def) (simp add: ex_names_def)
  ultimately have "\<exists>pod. BuildLauncher (dl_Names ex_lib) (Some ex_box) (launcherOptions (ex_reconciler ex_box) ex_box None ex_launcher_identity (DiskKeyID []) [] '''' '''') = Inr pod"
    by (simp add: BuildLauncher_def checkLauncherInputs_def launcherOptions_def ex_lib_def Let_def) (simp add: ex_box_def zero_defs)
  then show ?thesis unfolding submitPod_def CreateObj_def by (auto intro!: makes_call emits simp: recordAndReturnErr_def recordEvent_def)
qed

lemma ex_start: "chooseStart (ex_reconciler ex_box) ex_box None '''' = ret (Inr ('''', ex_box))"
  by (simp add: chooseStart_def markPoolUsed_def selectBase_def markWarmBase_def poolEligible_def poolActive_def)

lemma ex_create: "makes (createPod (ex_reconciler ex_box) ex_box None '''') (\<lambda>e. \<exists>pod a. e = EvCreate (OManifest pod) a)"
proof -
  have "ResolversFor (sr_NetPol (ex_reconciler ex_box)) None = Inr []"
    by (simp add: ResolversFor_def subtractExempt_def exemptOf_def resolverSplit_def)
  then show ?thesis unfolding createPod_def
    apply simp
    apply (rule makes_bind [OF ex_disk_wait], simp)
    apply (simp add: ex_start)
    apply (rule makes_bind [OF ex_identity_step])
    by (simp add: restoreInstanceType_def ex_submit)
qed

lemma NamespaceBaseline_parts [simp]:
  "np_Namespace (NamespaceBaseline ns) = ns" "np_Name (NamespaceBaseline ns) = BaselineName"
  by (simp_all add: NamespaceBaseline_def)

lemma ex_policies:
  "runs (ensureNamespaceBaseline (ex_reconciler ex_box) ex_box) None" "runs (applyNetworkPolicy (ex_reconciler ex_box) ex_box None) (0, None)"
proof -
  have "BaselineIsIntact (Some (NamespaceBaseline ns))" for ns
    by (simp add: BaselineIsIntact_def NamespaceBaseline_def)
  then show "runs (ensureNamespaceBaseline (ex_reconciler ex_box) ex_box) None" unfolding ensureNamespaceBaseline_def Let_def
    by simp (rule runs_bind [OF ex_get(6)], simp add: decode_def ex_reads_def asNetworkPolicy_def runs_ret)
  have g: "generate (sr_NetPol (ex_reconciler ex_box)) ex_box None = Inr (denyAll ex_box)"
    by (simp add: generate_def effectivePosture_def subtractExempt_def exemptOf_def)
  show "runs (applyNetworkPolicy (ex_reconciler ex_box) ex_box None) (0, None)" unfolding applyNetworkPolicy_def g
    by simp (rule runs_bind [OF ex_get(6)], simp add: decode_def ex_reads_def asNetworkPolicy_def runs_ret denyAll_def policyFor_def samePolicy_def)
qed

lemma ex_pass: "makes (ReconcileSandbox (ex_reconciler ex_box) (''ns'', ''box'')) (\<lambda>e. \<exists>pod a. e = EvCreate (OManifest pod) a)"
proof -
  let ?C = "\<lambda>e. \<exists>pod a. e = EvCreate (OManifest pod) a"
  have launch: "makes (launchPod (ex_reconciler ex_box) ex_box None '''') ?C" unfolding launchPod_def
    apply (rule makes_bind [OF ex_policies(1)])
    apply simp
    apply (rule makes_bind [OF ex_policies(2)])
    by (simp add: ex_create)
  have "makes (reconcilePod (ex_reconciler ex_box) ex_box None) ?C"
    unfolding reconcilePod_def resolveSnapshotRef_def
    apply simp
    apply (rule makes_bind [OF ex_get(4)])
    by (simp add: decode_def ex_reads_def handleMissingPod_def isTerminal_def prepareSession_def sessionCheckpointPolicy_def checkBackend_def launch)
  then show ?thesis unfolding ReconcileSandbox_def
    apply simp
    apply (rule makes_bind [OF ex_get(1)])
    by (simp add: decode_def ex_reads_def asSandbox_def handleWorkspaceFinalizer_def reapExpiredEphemeral_def isTerminal_def
        reconcileLive_def resolveTenant_def resolveClass_def)
qed

end
