(* ===== verification/Snapshot_Reconciler.thy ===== *)
theory Snapshot_Reconciler
  imports Sandbox_Reconciler
begin

text \<open>
  The reconcilers of a Snapshot (\<open>src/internal/controller/snapshot_controller.go\<close>) and of a SandboxClass
  (\<open>sandboxclass_controller.go\<close>): reference counts, the finalizer, the expiry and the erasure of a Snapshot,
  and the condition that shows an opt-out of the invariant gate.
\<close>

section \<open>Snapshots\<close>

record SnapshotReconciler =
  nr_Env :: Env
  nr_Recorder :: bool
  nr_Coordinator :: "Coordinator option"

text \<open>The two lists ask the field indexes of the manager: the Sandboxes that name the Snapshot, and the diffs on it.\<close>

definition referenceCount :: "SnapshotReconciler \<Rightarrow> Snapshot \<Rightarrow> (ApiError + int) io" where
  "referenceCount r snap = do {
     l \<leftarrow> ListObjs (nr_Env r) KSandbox (MatchingField (sn_Namespace snap) ''spec.snapshotRef.name'' (sn_Name snap)) asSandbox;
     case l of
       Inl e \<Rightarrow> ret (Inl e)
     | Inr sbs \<Rightarrow> do {
         d \<leftarrow> ListObjs (nr_Env r) KSnapshot (MatchingField (sn_Namespace snap) ''spec.parent'' (sn_Name snap)) asSnapshot;
         ret (case d of
                Inl e \<Rightarrow> Inl e
              | Inr diffs \<Rightarrow> Inr (int (length (filter (\<lambda>sb. map_get (om_Annotations (sb_Meta sb)) RestoredAnnotation \<noteq> sn_Name snap) sbs) + length diffs)))
       }
   }"

definition markSnapshot :: "SnapshotReconciler \<Rightarrow> Snapshot \<Rightarrow> (SnapshotStatus \<Rightarrow> SnapshotStatus) \<Rightarrow> (ApiError option \<times> Snapshot) io" where
  "markSnapshot r snap f = do {
     now \<leftarrow> timeNow (nr_Env r);
     let snap' = snap\<lparr>sn_Status := (f (sn_Status snap))\<lparr>nst_LastTransitionTime := Some now\<rparr>\<rparr>;
     p \<leftarrow> StatusPatchSnapshot (nr_Env r) snap snap';
     ret (case p of Inl e \<Rightarrow> (Some e, snap') | Inr s \<Rightarrow> (None, s))
   }"

definition eraseSnapshot :: "SnapshotReconciler \<Rightarrow> Snapshot \<Rightarrow> (result \<times> ApiError option) io" where
  "eraseSnapshot r snap = do {
     e \<leftarrow> (case nr_Coordinator r of None \<Rightarrow> ret None | Some c \<Rightarrow> DeleteSnapshot c snap);
     case e of
       Some _ \<Rightarrow> do {
         _ \<leftarrow> (if nr_Recorder r then recordEvent ''Snapshot'' (sn_Namespace snap, sn_Name snap) ''Warning'' ''SnapshotDeleted'' else ret ());
         ret (30 * second, None)
       }
     | None \<Rightarrow>
         if SnapshotInUseFinalizer \<in> set (om_Finalizers (sn_Meta snap)) then do {
           u \<leftarrow> UpdateSnapshot (nr_Env r) (snap\<lparr>sn_Meta := (sn_Meta snap)\<lparr>om_Finalizers := filter (\<lambda>f. f \<noteq> SnapshotInUseFinalizer) (om_Finalizers (sn_Meta snap))\<rparr>\<rparr>);
           ret (0, case u of Inl x \<Rightarrow> Some x | Inr _ \<Rightarrow> None)
         }
         else ret (0, None)
   }"

definition finalizeSnapshot :: "SnapshotReconciler \<Rightarrow> Snapshot \<Rightarrow> int \<Rightarrow> (result \<times> ApiError option) io" where
  "finalizeSnapshot r snap count = do {
     (e, snap') \<leftarrow> (if nst_Phase (sn_Status snap) \<noteq> SnapshotPhaseTerminating
         then markSnapshot r snap (\<lambda>st. st\<lparr>nst_Phase := SnapshotPhaseTerminating, nst_Reason := ''DeletionInProgress''\<rparr>) else ret (None, snap));
     case e of
       Some err \<Rightarrow> ret (0, Some err)
     | None \<Rightarrow> if count > 0 then ret (30 * second, None) else eraseSnapshot r snap'
   }"

text \<open>A live Snapshot: its finalizer, then its expiry.\<close>

definition keepSnapshot :: "SnapshotReconciler \<Rightarrow> Snapshot \<Rightarrow> int \<Rightarrow> (result \<times> ApiError option) io" where
  "keepSnapshot r snap count = do {
     u \<leftarrow> (if SnapshotInUseFinalizer \<in> set (om_Finalizers (sn_Meta snap)) then ret (Inr snap)
       else UpdateSnapshot (nr_Env r) (snap\<lparr>sn_Meta := (sn_Meta snap)\<lparr>om_Finalizers := om_Finalizers (sn_Meta snap) @ [SnapshotInUseFinalizer]\<rparr>\<rparr>));
     case u of
       Inl e \<Rightarrow> ret (0, Some e)
     | Inr snap1 \<Rightarrow>
         (case ns_TTL (sn_Spec snap1) of
            Some ttl \<Rightarrow>
              if ttl > 0 \<and> count = 0 \<and> \<not> ns_Pinned (sn_Spec snap1) then do {
                now \<leftarrow> timeNow (nr_Env r);
                let age = time_Sub now (om_CreationTimestamp (sn_Meta snap1));
                if age \<ge> ttl then do {
                  d \<leftarrow> DeleteObj (nr_Env r) (OSnapshot snap1);
                  ret (0, if d = Some NotFound then None else d)
                }
                else ret (ttl - age, None)
              }
              else ret (60 * second, None)
          | None \<Rightarrow> ret (60 * second, None))
   }"

definition ReconcileSnapshot :: "SnapshotReconciler \<Rightarrow> key \<Rightarrow> (result \<times> ApiError option) io" where
  "ReconcileSnapshot r k = do {
     g \<leftarrow> GetSnapshot (nr_Env r) k;
     case g of
       Inl e \<Rightarrow> ret (0, if e = NotFound then None else Some e)
     | Inr snap \<Rightarrow> do {
         n \<leftarrow> referenceCount r snap;
         case n of
           Inl e \<Rightarrow> ret (0, Some e)
         | Inr count \<Rightarrow> do {
             let refs = min count 2147483647;
             (e, snap1) \<leftarrow> (if nst_ReferenceCount (sn_Status snap) \<noteq> refs
                 then markSnapshot r snap (\<lambda>st. st\<lparr>nst_ReferenceCount := refs\<rparr>) else ret (None, snap));
             case e of
               Some err \<Rightarrow> ret (0, Some err)
             | None \<Rightarrow>
                 if (case om_DeletionTimestamp (sn_Meta snap1) of None \<Rightarrow> False | Some t \<Rightarrow> \<not> time_IsZero t)
                 then finalizeSnapshot r snap1 count else keepSnapshot r snap1 count
           }
       }
   }"

section \<open>Classes\<close>

record SandboxClassReconciler =
  kr_Env :: Env
  kr_Gate :: "Gate option"
  kr_SetStatusCondition :: "Condition list \<Rightarrow> Condition \<Rightarrow> Condition list \<times> bool" \<comment> \<open>\<open>meta.SetStatusCondition\<close>\<close>

definition optOutCondition :: "SandboxClassReconciler \<Rightarrow> SandboxClass \<Rightarrow> Condition io" where
  "optOutCondition r cls = do {
     let cond = \<lparr>co_Type = ''UnverifiedRestoresAllowed'', co_Status = ''False'', co_Reason = ''Enforced'', co_Message = ''''\<rparr>;
     if ClassOptsOut (Some cls) then do {
       dev \<leftarrow> DevModeActive (kr_Env r) (kr_Gate r);
       ret (case dev of
              Inr True \<Rightarrow> cond\<lparr>co_Status := ''True'', co_Reason := ''DevModeOptOut''\<rparr>
            | _ \<Rightarrow> cond\<lparr>co_Reason := ''DevGateNamespaceUnlabelled''\<rparr>)
     }
     else ret cond
   }"

definition ReconcileClass :: "SandboxClassReconciler \<Rightarrow> string \<Rightarrow> (result \<times> ApiError option) io" where
  "ReconcileClass r name = do {
     g \<leftarrow> GetClass (kr_Env r) name;
     case g of
       Inl e \<Rightarrow> ret (0, if e = NotFound then None else Some e)
     | Inr cls \<Rightarrow> do {
         cond \<leftarrow> optOutCondition r cls;
         let (conds, changed) = kr_SetStatusCondition r (cst_Conditions (cl_Status cls)) cond;
         if \<not> changed then ret (0, None)
         else do {
           p \<leftarrow> StatusPatchClass (kr_Env r) cls (cls\<lparr>cl_Status := (cl_Status cls)\<lparr>cst_Conditions := conds\<rparr>\<rparr>);
           ret (0, case p of Inl e \<Rightarrow> if e = NotFound then None else Some e | Inr _ \<Rightarrow> None)
         }
       }
   }"

end
