(* ===== verification/Reconcile_Props.thy ===== *)
theory Reconcile_Props
  imports Example_Cluster Snapshot_Reconciler
begin

text \<open>
  What has happened, in a whole pass of the reconciler of Sandboxes, before a Pod is made: the network policy of
  its Sandbox and the baseline of its namespace.
\<close>

section \<open>A network policy is in place before a Pod is made\<close>

text \<open>
  \<open>S\<close> holds the specs that the Sandbox of a name has had. The server answers a read of that name, and a
  patch of such an object, with an object of that name and such a spec.
\<close>

definition isOf :: "key \<Rightarrow> SandboxSpec set \<Rightarrow> Sandbox \<Rightarrow> bool" where
  "isOf k S sb \<longleftrightarrow> sbKey sb = k \<and> sb_Spec sb \<in> S"

definition answers :: "Env \<Rightarrow> key \<Rightarrow> SandboxSpec set \<Rightarrow> bool" where
  "answers env k S \<longleftrightarrow>
     (\<forall>h x. e_Get env h KSandbox k = Inr (OSandbox x) \<longrightarrow> isOf k S x) \<and>
     (\<forall>h a b x. isOf k S b \<and> (e_Patch env h (OSandbox a) (OSandbox b) = Inr (OSandbox x) \<or>
        e_StatusPatch env h (OSandbox a) (OSandbox b) = Inr (OSandbox x)) \<longrightarrow> isOf k S x)"

declare decode_Inr [simp]

lemma asNetworkPolicy_Some [simp]: "asNetworkPolicy x = Some s \<longleftrightarrow> x = ONetworkPolicy s"
  by (cases x) (auto simp: asNetworkPolicy_def)

lemma sbKey_upd [simp]:
  "sbKey (sb\<lparr>sb_Status := st\<rparr>) = sbKey sb" "sbKey (sb\<lparr>sb_Meta := (sb_Meta sb)\<lparr>om_Annotations := a\<rparr>\<rparr>) = sbKey sb"
  "sbKey (sb\<lparr>sb_Meta := (sb_Meta sb)\<lparr>om_Finalizers := f\<rparr>\<rparr>) = sbKey sb"
  by (simp_all add: sbKey_def)

lemma isOf_upd [simp]:
  "isOf k S (sb\<lparr>sb_Status := st\<rparr>) = isOf k S sb" "isOf k S (sb\<lparr>sb_Meta := (sb_Meta sb)\<lparr>om_Annotations := a\<rparr>\<rparr>) = isOf k S sb"
  "isOf k S (sb\<lparr>sb_Meta := (sb_Meta sb)\<lparr>om_Finalizers := f\<rparr>\<rparr>) = isOf k S sb"
  by (simp_all add: isOf_def)

lemma answersD:
  assumes "answers env k S" "isOf k S b"
  shows "e_Patch env h (OSandbox a) (OSandbox b) = Inr (OSandbox x) \<Longrightarrow> isOf k S x"
    "e_StatusPatch env h (OSandbox a) (OSandbox b) = Inr (OSandbox x) \<Longrightarrow> isOf k S x"
  using assms(1) [unfolded answers_def, THEN conjunct2, rule_format, of b h a x] assms(2) by simp_all

lemma patch_key:
  "(\<And>h x. ask h = Inr (OSandbox x) \<Longrightarrow> P x) \<Longrightarrow> P b \<Longrightarrow>
   yields (\<lambda>x. P (snd x)) (do {
     p \<leftarrow> do {q \<leftarrow> call ask ev; ret (decode asSandbox q)};
     ret (case p of Inl e \<Rightarrow> (Some (RecApi e), b) | Inr s \<Rightarrow> (None, s))})"
  by (auto simp: yields_def State_Monad.bind_def call_def Let_def split: sum.split)

lemma statusPatch_key [yields]:
  "answers (sr_Env r) k S \<Longrightarrow> isOf k S b \<Longrightarrow> yields (\<lambda>x. isOf k S (snd x)) (statusPatch r a b)"
  unfolding statusPatch_def StatusPatchSandbox_def by (rule patch_key [where P = "isOf k S"]) (auto dest: answersD)

lemma metaPatch_key [yields]:
  "answers (sr_Env r) k S \<Longrightarrow> isOf k S b \<Longrightarrow> yields (\<lambda>x. isOf k S (snd x)) (metaPatch r a b)"
  unfolding metaPatch_def PatchSandbox_def by (rule patch_key [where P = "isOf k S"]) (auto dest: answersD)

lemma markWarmBase_key: "answers (sr_Env r) k S \<Longrightarrow> isOf k S sb \<Longrightarrow> yields (\<lambda>x. isOf k S (snd x)) (markWarmBase r sb base)"
  unfolding markWarmBase_def Let_def by (auto intro!: yields)

lemma recordColdBoot_key: "answers (sr_Env r) k S \<Longrightarrow> isOf k S sb \<Longrightarrow> yields (\<lambda>x. isOf k S x) (recordColdBoot r sb)"
  unfolding recordColdBoot_def
  by (intro yields_if yields_ret yields_bind [OF statusPatch_key [where k = k and S = S]] yields_prod) simp_all

lemma chooseStart_key:
  "answers (sr_Env r) k S \<Longrightarrow> isOf k S sb \<Longrightarrow> yields (\<lambda>x. \<forall>n s. x = Inr (n, s) \<longrightarrow> isOf k S s) (chooseStart r sb cls node)"
  unfolding chooseStart_def
  by (intro yields_sum yields_then yields_bind [OF markWarmBase_key [of r k S sb]] yields_prod yields_option yields_if
        yields_bind [OF recordColdBoot_key [of r k S]] yields_ret) auto

lemma recordIdentity_key: "answers (sr_Env r) k S \<Longrightarrow> isOf k S sb \<Longrightarrow> yields (\<lambda>x. isOf k S (snd x)) (recordIdentity r sb pub)"
  unfolding recordIdentity_def by (auto intro!: yields)

lemma ensureIdentity_key: "answers (sr_Env r) k S \<Longrightarrow> isOf k S sb \<Longrightarrow> yields (\<lambda>x. isOf k S (snd x)) (ensureIdentity r sb)"
  unfolding ensureIdentity_def
  by (intro yields_sum yields_bind [OF recordIdentity_key [of r k S]] yields_prod yields_option yields_ret yields_then) (auto split: sum.split)


text \<open>The Pods of a Sandbox: the key of their Sandbox is in their namespace and their label.\<close>

definition podOf :: "key \<Rightarrow> PodManifest \<Rightarrow> bool" where
  "podOf k pod \<longleftrightarrow> pm_Namespace pod = fst k \<and> pm_Name pod = snd k @ ''-vm'' \<and> pm_Labels pod SandboxLabelKey = Some (snd k)"

definition podsOf :: "key \<Rightarrow> Event \<Rightarrow> bool" where
  "podsOf k e \<longleftrightarrow> effect e = EffOther \<or> (\<exists>pod a. e = EvCreate (OManifest pod) a \<and> podOf k pod)"

lemma other_podsOf: "does {EffOther} m \<Longrightarrow> emits (podsOf k) m"
  by (erule emits_mono) (simp add: podsOf_def)

lemma built_podOf:
  "BuildLauncher nm (Some sb) opts = Inr pod \<Longrightarrow> podOf (sbKey sb) ((applyClassScheduling pod cls)\<lparr>pm_Owner := owner\<rparr>)"
  by (auto simp: podOf_def sbKey_def BuildLauncher_def launcherPod_def applyClassScheduling_def Let_def split: sum.splits option.split)

lemma submitPod_podsOf: "sbKey sb = k \<Longrightarrow> emits (podsOf k) (submitPod r sb cls opts)"
  unfolding submitPod_def CreateObj_def
  apply (intro emits_sum emits_if emits_bind emits_call emits_ret)
  by (intro other_podsOf emits; simp; fail | force simp: podsOf_def dest: built_podOf)+

lemma createPod_podsOf:
  assumes "answers (sr_Env r) k S" "isOf k S sb"
  shows "emits (podsOf k) (createPod r sb cls node)"
proof -
  show ?thesis unfolding createPod_def
    apply (intro emits_sum)
     apply (intro other_podsOf emits, simp)
    apply (rule emits_bind)
     apply (intro other_podsOf emits, simp)
    apply (intro emits_sum emits_ret)
    apply (rule emits_then [OF _ chooseStart_key [OF assms]])
     apply (intro other_podsOf emits, simp)
    apply (intro emits_sum emits_prod emits_ret)
    apply (rule emits_then [OF _ ensureIdentity_key [OF assms(1)]])
      apply (intro other_podsOf emits, simp)
     apply blast
    apply (intro emits_sum emits_prod emits_bind submitPod_podsOf)
      apply (intro other_podsOf emits, simp)
     apply (intro other_podsOf emits, simp)
    apply (simp add: isOf_def)
    done
qed


text \<open>
  The evidence that a policy is in the cluster: it was read as it should be, it was read and patched to what
  it should be, or it was created and found again. The baseline of a namespace was read intact or patched,
  or the create says that there is one.
\<close>

definition policyInPlace :: "NetworkPolicy \<Rightarrow> history \<Rightarrow> bool" where
  "policyInPlace np t \<longleftrightarrow> (\<exists>p. EvGet KNetworkPolicy (np_Namespace np, np_Name np) (Inr (ONetworkPolicy p)) \<in> set t \<and>
     (samePolicy p np \<or> (\<exists>q x. EvPatch (ONetworkPolicy p) (ONetworkPolicy q) (Inr (ONetworkPolicy x)) \<in> set t \<and> samePolicy q np) \<or>
      (\<exists>x. EvCreate (ONetworkPolicy np) (Inr x) \<in> set t)))"

definition baselineInPlace :: "string \<Rightarrow> history \<Rightarrow> bool" where
  "baselineInPlace ns t \<longleftrightarrow>
     (\<exists>p. EvGet KNetworkPolicy (ns, BaselineName) (Inr (ONetworkPolicy p)) \<in> set t \<and>
        (BaselineIsIntact (Some p) \<or> (\<exists>q x. EvPatch (ONetworkPolicy p) (ONetworkPolicy q) (Inr (ONetworkPolicy x)) \<in> set t \<and> BaselineIsIntact (Some q)))) \<or>
     (\<exists>x. EvCreate (ONetworkPolicy (NamespaceBaseline ns)) x \<in> set t \<and> (x = Inl AlreadyExists \<or> (\<exists>y. x = Inr y)))"

lemma policyInPlace_mono: "policyInPlace np t \<Longrightarrow> set t \<subseteq> set u \<Longrightarrow> policyInPlace np u"
  unfolding policyInPlace_def by blast

lemma baselineInPlace_mono: "baselineInPlace ns t \<Longrightarrow> set t \<subseteq> set u \<Longrightarrow> baselineInPlace ns u"
  unfolding baselineInPlace_def by blast

lemma baseline_patched_intact:
  "BaselineIsIntact (Some (np\<lparr>np_PodSelector := np_PodSelector (NamespaceBaseline ns), np_PolicyTypes := np_PolicyTypes (NamespaceBaseline ns),
     np_Ingress := np_Ingress (NamespaceBaseline ns), np_Egress := np_Egress (NamespaceBaseline ns), np_Labels := l\<rparr>))"
  by (simp add: BaselineIsIntact_def NamespaceBaseline_def)

lemma ensureNamespaceBaseline_placed:
  "wp (ensureNamespaceBaseline r sb) (\<lambda>e t. e = None \<and> sr_NamespaceBaselineDeny r \<longrightarrow> baselineInPlace (sb_Namespace sb) t) h []"
  unfolding ensureNamespaceBaseline_def GetNetworkPolicy_def CreateObj_def PatchNetworkPolicy_def recordEvent_def Let_def
  by (intro wp) (auto simp: baselineInPlace_def baseline_patched_intact split: sum.splits)

lemma samePolicy_patched:
  "samePolicy (p\<lparr>np_PodSelector := np_PodSelector np, np_PolicyTypes := np_PolicyTypes np, np_Ingress := np_Ingress np,
     np_Egress := np_Egress np, np_Labels := np_Labels np, np_Annotations := np_Annotations np\<rparr>) np"
  by (simp add: samePolicy_def)

lemma applyNetworkPolicy_placed:
  "wp (applyNetworkPolicy r sb cls)
     (\<lambda>(res, err) t. err = None \<and> res \<le> 0 \<longrightarrow> (\<exists>np. generate (sr_NetPol r) sb cls = Inr np \<and> policyInPlace np t)) h []"
  unfolding applyNetworkPolicy_def createPolicy_def GetNetworkPolicy_def CreateObj_def PatchNetworkPolicy_def recordEvent_def recordAndReturnErr_def
  by (intro wp) (auto simp: policyInPlace_def samePolicy_patched)


text \<open>The condition on the events before a Pod; \<open>C\<close> says what is known of the class.\<close>

definition podOrder :: "SandboxReconciler \<Rightarrow> key \<Rightarrow> SandboxSpec set \<Rightarrow> (SandboxClass option \<Rightarrow> bool) \<Rightarrow> history \<Rightarrow> Event \<Rightarrow> bool" where
  "podOrder r k S C t e \<longleftrightarrow> effect e \<noteq> EffPod \<or> (\<exists>pod a. e = EvCreate (OManifest pod) a \<and> podOf k pod \<and>
     (sr_NamespaceBaselineDeny r \<longrightarrow> baselineInPlace (fst k) t) \<and>
     (\<exists>sb cls np. isOf k S sb \<and> C cls \<and> generate (sr_NetPol r) sb cls = Inr np \<and> policyInPlace np t))"

lemma podOrder_stays: "stays (podOrder r k S C)"
  unfolding stays_def podOrder_def
  by (metis (no_types, lifting) baselineInPlace_mono policyInPlace_mono set_append sup_ge2)

lemma noPod_order: "does (UNIV - {EffPod}) m \<Longrightarrow> keeps (podOrder r k S C) m"
  by (rule keeps_emits, erule emits_mono) (simp add: podOrder_def)

lemma ord_noPod: "list_all (\<lambda>e. effect e \<noteq> EffPod) u \<Longrightarrow> ord (podOrder r k S C) t u"
  by (rule ord_all) (auto simp: podOrder_def list_all_iff)

lemma ord_podsOf:
  assumes "list_all (podsOf k) u" "isOf k S sb" "C cls" "generate (sr_NetPol r) sb cls = Inr np" "policyInPlace np t"
    "sr_NamespaceBaselineDeny r \<longrightarrow> baselineInPlace (fst k) t"
  shows "ord (podOrder r k S C) t u"
  using assms
proof (induction u arbitrary: t)
  case (Cons e u)
  have "policyInPlace np (t @ [e])" "sr_NamespaceBaselineDeny r \<longrightarrow> baselineInPlace (fst k) (t @ [e])"
    using Cons.prems by (auto elim!: policyInPlace_mono baselineInPlace_mono)
  with Cons show ?case by (auto simp: podOrder_def podsOf_def)
qed simp

lemma wp_does:
  assumes "does (UNIV - {EffPod}) m" "wp m R h []"
  shows "wp m (\<lambda>a t. R a t \<and> list_all (\<lambda>e. effect e \<noteq> EffPod) t) h []"
proof -
  have "wp m (\<lambda>_ t. list_all (\<lambda>e. effect e \<noteq> EffPod) t) h []"
    by (rule wp_emits [OF assms(1)]) simp
  with assms(2) show ?thesis by (auto simp: wp_def split: prod.splits)
qed

lemma wp_spec:
  assumes "\<And>h. wp m R h []" "\<And>a u. R a u \<Longrightarrow> wp (f a) Q h (t @ u)"
  shows "wp (State_Monad.bind m f) Q h t"
  by (rule wp_bind, rule wp_frame [OF assms(1)], rule assms(2))

lemma noPod_wp:
  "does {EffOther} m \<Longrightarrow> list_all (\<lambda>e. effect e \<noteq> EffPod) t \<Longrightarrow> wp m (\<lambda>_ t. ord (podOrder r k S C) [] t) h t"
  by (erule wp_emits) (auto intro!: ord_noPod simp: list_all_iff)

lemma createPod_wp:
  assumes "answers (sr_Env r) k S" "isOf k S sb" "C cls" "generate (sr_NetPol r) sb cls = Inr np" "policyInPlace np t"
    "sr_NamespaceBaselineDeny r \<longrightarrow> baselineInPlace (fst k) t" "list_all (\<lambda>e. effect e \<noteq> EffPod) t"
  shows "wp (createPod r sb cls node) (\<lambda>_ t. ord (podOrder r k S C) [] t) h t"
  by (rule wp_emits [OF createPod_podsOf [OF assms(1,2)]])
     (use assms in \<open>auto intro: ord_noPod ord_podsOf\<close>)

lemma launchPod_order:
  assumes "answers (sr_Env r) k S" "isOf k S sb" "C cls"
  shows "keeps (podOrder r k S C) (launchPod r sb cls node)"
proof -
  have k: "fst k = sb_Namespace sb" using assms(2) by (auto simp: isOf_def sbKey_def)
  show ?thesis unfolding keeps_def launchPod_def
    apply (intro allI)
    apply (rule wp_spec [OF wp_does [OF _ ensureNamespaceBaseline_placed]])
     apply (intro emits, simp)
    apply (elim conjE, intro wp_option)
     apply (rule wp_spec [OF wp_does [OF _ applyNetworkPolicy_placed [of r sb cls]]])
      apply (intro emits, simp)
     apply (intro wp_prod wp_option wp_if)
       apply (rule noPod_wp, intro emits, simp)
      apply (rule wp_spec [where R = "\<lambda>_. list_all (\<lambda>e. effect e \<in> {EffOther})"])
       apply (rule wp_emits [where P = "\<lambda>e. effect e \<in> {EffOther}"], intro emits, simp, simp)
      apply (intro wp_option)
       apply clarsimp
       apply (rule createPod_wp [where C = C, OF assms])
          apply assumption
    subgoal by (erule policyInPlace_mono) auto
    subgoal by (auto simp: k elim: baselineInPlace_mono)
    subgoal by (auto simp: list_all_iff)
    by (rule noPod_wp, intro emits, simp, auto simp: list_all_iff)+
qed

lemma keeps_then:
  assumes "stays P" "keeps P m" "yields Q m" "\<And>a. Q a \<Longrightarrow> keeps P (f a)"
  shows "keeps P (State_Monad.bind m f)"
  unfolding keeps_def
proof (intro allI wp_bind)
  fix h
  have "wp m (\<lambda>a t. ord P [] t \<and> Q a) h []" using assms(2,3) by (intro wp_yields) (simp_all add: keeps_def)
  then show "wp m (\<lambda>a t. wp (f a) (\<lambda>_ t. ord P [] t) h t) h []"
  proof (rule wp_mono)
    fix a t
    assume t: "ord P [] t \<and> Q a"
    show "wp (f a) (\<lambda>_ t. ord P [] t) h t"
      by (rule wp_frame [where R = "\<lambda>_ u. ord P [] u"])
        (use assms(1,4) t in \<open>auto simp: keeps_def ord_shift'\<close>)
  qed
qed

lemma prepareSession_key:
  "answers (sr_Env r) k S \<Longrightarrow> isOf k S sb \<Longrightarrow> yields (\<lambda>x. \<forall>s. x = Inr s \<longrightarrow> isOf k S s) (prepareSession r sb cls)"
  unfolding prepareSession_def
  by (intro yields_option yields_ret yields_if yields_bind [OF statusPatch_key [where k = k and S = S]] yields_prod yields_then)
     (auto split: option.split)

lemma checkBackend_key:
  "answers (sr_Env r) k S \<Longrightarrow> isOf k S sb \<Longrightarrow> yields (\<lambda>x. \<forall>s. x = Inr s \<longrightarrow> isOf k S s) (checkBackend r sb cls)"
  unfolding checkBackend_def
  by (intro yields_ret yields_if yields_bind [OF statusPatch_key [where k = k and S = S]] yields_prod yields_then) auto

lemma handleMissingPod_order:
  assumes "answers (sr_Env r) k S" "isOf k S sb" "C cls"
  shows "keeps (podOrder r k S C) (handleMissingPod r sb cls node)"
  unfolding handleMissingPod_def
  apply (intro keeps_if keeps_ret)
   apply (intro noPod_order emits; simp)
  apply (rule keeps_then [OF podOrder_stays _ prepareSession_key [OF assms(1,2)]])
   apply (intro noPod_order emits, simp)
  apply (intro keeps_sum keeps_ret)
  apply (rule keeps_then [OF podOrder_stays _ checkBackend_key [OF assms(1)]])
    apply (intro noPod_order emits, simp)
   apply blast
  apply (intro keeps_sum keeps_ret launchPod_order assms)
  by auto

lemma reconcilePod_order:
  assumes "answers (sr_Env r) k S" "isOf k S sb" "C cls"
  shows "keeps (podOrder r k S C) (reconcilePod r sb cls)"
  unfolding reconcilePod_def
  apply (rule keeps_bind [OF podOrder_stays])
   apply (intro noPod_order emits, simp)
  apply (intro keeps_sum keeps_ret)
  apply (rule keeps_bind [OF podOrder_stays])
   apply (simp add: GetPod_def, intro noPod_order emits, simp)
  apply (intro keeps_sum keeps_if handleMissingPod_order assms)
  by (intro noPod_order emits; simp)+


text \<open>A class that a pass goes on with admits its Sandbox.\<close>

definition admitted :: "key \<Rightarrow> SandboxSpec set \<Rightarrow> SandboxClass option \<Rightarrow> bool" where
  "admitted k S cls \<longleftrightarrow> cls = None \<or> (\<exists>sb. isOf k S sb \<and> ClassValidate (Some sb) cls = [])"

lemma reconcileLive_order:
  assumes "answers (sr_Env r) k S" "isOf k S sb"
  shows "keeps (podOrder r k S (admitted k S)) (reconcileLive r sb)"
  unfolding reconcileLive_def
  apply (rule keeps_bind [OF podOrder_stays])
   apply (intro noPod_order emits, simp)
  apply (intro keeps_sum keeps_if)
    apply (intro noPod_order emits, simp)
   apply (intro noPod_order emits; simp)
  apply (rule keeps_bind [OF podOrder_stays])
   apply (intro noPod_order emits, simp)
  apply (intro keeps_sum keeps_if)
    apply (intro noPod_order emits; simp)
   apply (intro noPod_order emits; simp)
  apply (rule reconcilePod_order [OF assms])
  using assms(2) by (auto simp: admitted_def)

lemma metaPatch_noPod [emits]: "does (UNIV - {EffPod}) (metaPatch r a b)"
  unfolding metaPatch_def PatchSandbox_def by (intro emits) auto

lemma handleWorkspaceFinalizer_noPod [emits]: "does (UNIV - {EffPod}) (handleWorkspaceFinalizer r sb)"
  unfolding handleWorkspaceFinalizer_def teardownWorkspace_def teardownClaim_def removeFinalizer_def GetClaim_def GetPod_def Let_def
  by (intro emits_if emits_bind emits_ret emits_sum emits_option emits_prod emits_call metaPatch_noPod teardownSessionCheckpoint_does
      deleteIgnoreNotFound_does rsb_does) simp_all

lemma handleWorkspaceFinalizer_key:
  "answers (sr_Env r) k S \<Longrightarrow> isOf k S sb \<Longrightarrow> yields (\<lambda>x. \<forall>s. x = Inr s \<longrightarrow> isOf k S s) (handleWorkspaceFinalizer r sb)"
  unfolding handleWorkspaceFinalizer_def Let_def
  by (intro yields_ret yields_if yields_bind [OF metaPatch_key [where k = k and S = S]] yields_prod yields_then) (auto split: option.split)

lemma GetSandbox_key: "answers env k S \<Longrightarrow> yields (\<lambda>x. \<forall>s. x = Inr s \<longrightarrow> isOf k S s) (GetSandbox env k)"
  unfolding GetSandbox_def
  by (rule yields_bind [OF yields_call [where Q = "\<lambda>x. \<forall>s. x = Inr (OSandbox s) \<longrightarrow> isOf k S s"]])
     (cases k, auto intro!: yields_ret simp: answers_def)

lemma ReconcileSandbox_order:
  assumes "answers (sr_Env r) k S"
  shows "keeps (podOrder r k S (admitted k S)) (ReconcileSandbox r k)"
  unfolding ReconcileSandbox_def
  apply (rule keeps_then [OF podOrder_stays _ GetSandbox_key [OF assms]])
   apply (simp add: GetSandbox_def, intro noPod_order emits, simp)
  apply (intro keeps_sum keeps_ret)
  apply (rule keeps_then [OF podOrder_stays _ handleWorkspaceFinalizer_key [OF assms]])
    apply (intro noPod_order emits)
   apply blast
  apply (intro keeps_sum keeps_ret)
  apply (rule keeps_bind [OF podOrder_stays])
   apply (intro noPod_order emits; simp)
  apply (intro keeps_option keeps_ret reconcileLive_order assms)
  by auto

text \<open>
  C38. No Pod before its policy. In a pass of the reconciler, every create of a launcher Pod comes after the
  network policy of its Sandbox is in place: the policy was read as the generator makes it, or patched to that, or
  created and then found by a read. It is generated from a spec that the Sandbox of the pass has had (\<open>S\<close>) and
  for a class that admits such a Sandbox, or for no class; it stands in the namespace of the Pod and selects the Pod
  by its label. When the baseline is on, the baseline of the namespace was read intact, patched to be intact or
  created, or its create was refused because the name is taken.
\<close>

theorem policy_before_pod:
  assumes "answers (sr_Env r) k S"
    and "snd (run_state (ReconcileSandbox r k) h) = h @ t1 @ EvCreate (OManifest pod) a # t2"
  shows "(\<exists>sb cls np. sbKey sb = k \<and> sb_Spec sb \<in> S \<and> admitted k S cls \<and> generate (sr_NetPol r) sb cls = Inr np \<and> policyInPlace np t1 \<and>
      np_Namespace np = pm_Namespace pod \<and> ls_MatchExpressions (np_PodSelector np) = [] \<and>
      (\<forall>(l, v)\<in>set (ls_MatchLabels (np_PodSelector np)). pm_Labels pod l = Some v)) \<and>
    (sr_NamespaceBaselineDeny r \<longrightarrow> baselineInPlace (pm_Namespace pod) t1)"
proof -
  have "podOrder r k S (admitted k S) t1 (EvCreate (OManifest pod) a)"
    by (rule keeps_run [OF ReconcileSandbox_order [OF assms(1)] assms(2)])
  then obtain sb cls np where p: "podOf k pod" "isOf k S sb" "admitted k S cls" "generate (sr_NetPol r) sb cls = Inr np" "policyInPlace np t1"
    and b: "sr_NamespaceBaselineDeny r \<longrightarrow> baselineInPlace (fst k) t1"
    by (auto simp: podOrder_def)
  have np: "np_Namespace np = sb_Namespace sb" "np_PodSelector np = \<lparr>ls_MatchLabels = [(SandboxLabelKey, sb_Name sb)], ls_MatchExpressions = []\<rparr>"
    using generate_types [OF p(4)] by auto
  show ?thesis using p np b by (auto simp: podOf_def isOf_def sbKey_def intro!: exI [of _ sb])
qed

lemma ex_world_answers: "sbKey sb = k \<Longrightarrow> answers (ex_world sb) k {sb_Spec sb}"
  by (auto simp: answers_def isOf_def ex_world_def ex_cluster_def ex_reads_def)

theorem policy_before_pod_witness:
  "\<exists>t1 pod a t2 np. snd (run_state (ReconcileSandbox (ex_reconciler ex_box) (''ns'', ''box'')) []) = t1 @ EvCreate (OManifest pod) a # t2 \<and>
     (\<exists>sb cls. sb_Spec sb = sb_Spec ex_box \<and> generate (sr_NetPol (ex_reconciler ex_box)) sb cls = Inr np) \<and>
     policyInPlace np t1 \<and> np_Namespace np = pm_Namespace pod \<and> baselineInPlace (pm_Namespace pod) t1"
proof -
  obtain t1 pod a t2 where run: "snd (run_state (ReconcileSandbox (ex_reconciler ex_box) (''ns'', ''box'')) []) = [] @ t1 @ EvCreate (OManifest pod) a # t2"
    using ex_pass unfolding makes_def by blast
  have names: "answers (sr_Env (ex_reconciler ex_box)) (''ns'', ''box'') {sb_Spec ex_box}" by (simp add: ex_world_answers)
  from policy_before_pod [OF names run] obtain sb cls np where "sb_Spec sb = sb_Spec ex_box"
      "generate (sr_NetPol (ex_reconciler ex_box)) sb cls = Inr np" "policyInPlace np t1" "np_Namespace np = pm_Namespace pod"
    and "sr_NamespaceBaselineDeny (ex_reconciler ex_box) \<longrightarrow> baselineInPlace (pm_Namespace pod) t1"
    by blast
  moreover have "sr_NamespaceBaselineDeny (ex_reconciler ex_box)" by (simp only: ex_fields)
  ultimately have "\<exists>np. (\<exists>sb cls. sb_Spec sb = sb_Spec ex_box \<and> generate (sr_NetPol (ex_reconciler ex_box)) sb cls = Inr np) \<and>
      policyInPlace np t1 \<and> np_Namespace np = pm_Namespace pod \<and> baselineInPlace (pm_Namespace pod) t1" by blast
  with run show ?thesis unfolding append.left_neutral by blast
qed

end
