(* ===== verification/Teardown_Props.thy ===== *)
theory Teardown_Props
  imports Reconcile_Props
begin

text \<open>
  What is gone before the finalizer of a session is dropped.
\<close>

section \<open>The effects of a live pass\<close>

lemma submitPod_does [emits]: "EffOther \<in> S \<Longrightarrow> EffPod \<in> S \<Longrightarrow> does S (submitPod r sb cls opts)"
  unfolding submitPod_def CreateObj_def by (intro emits) simp_all

lemma createPod_does [emits]: "EffOther \<in> S \<Longrightarrow> EffPod \<in> S \<Longrightarrow> does S (createPod r sb cls node)"
  unfolding createPod_def by (intro emits) simp_all

lemma launchPod_does [emits]: "EffOther \<in> S \<Longrightarrow> EffPod \<in> S \<Longrightarrow> does S (launchPod r sb cls node)"
  unfolding launchPod_def by (intro emits) simp_all

lemma handleMissingPod_does [emits]: "EffOther \<in> S \<Longrightarrow> EffPod \<in> S \<Longrightarrow> EffForget \<in> S \<Longrightarrow> does S (handleMissingPod r sb cls node)"
  unfolding handleMissingPod_def by (intro emits) simp_all

lemma reconcileLive_does [emits]:
  "EffOther \<in> S \<Longrightarrow> EffPod \<in> S \<Longrightarrow> EffForget \<in> S \<Longrightarrow> EffRestore \<in> S \<Longrightarrow> does S (reconcileLive r sb)"
  unfolding reconcileLive_def reconcilePod_def GetPod_def by (intro emits) simp_all

section \<open>The finalizer of a session\<close>

text \<open>
  What the events show: the Pod of the session is gone, on its way out, or was deleted; its claim is gone or
  on its way out; and the Secret of its key was looked up, and its deletion asked for when it was there.
\<close>

definition podGone :: "key \<Rightarrow> history \<Rightarrow> bool" where
  "podGone k t \<longleftrightarrow> (\<exists>g. EvGet KPod (fst k, snd k @ ''-vm'') g \<in> set t \<and> (decode asPod g = Inl NotFound \<or>
     (\<exists>p. g = Inr (OPod p) \<and> (deleting (pod_Meta p) \<or> EvDelete (OPod p) None \<in> set t \<or> EvDelete (OPod p) (Some NotFound) \<in> set t))))"

definition claimGoing :: "key \<Rightarrow> history \<Rightarrow> bool" where
  "claimGoing k t \<longleftrightarrow> (\<exists>g. EvGet KClaim (fst k, WorkspacePVCName (snd k)) g \<in> set t \<and>
     (decode asClaim g = Inl NotFound \<or> (\<exists>c. g = Inr (OClaim c) \<and> deleting (pvc_Meta c))))"

definition keyAsked :: "key \<Rightarrow> history \<Rightarrow> bool" where
  "keyAsked k t \<longleftrightarrow> (\<exists>g. EvGet KSecret (fst k, snd k @ ''-session-kek'') g \<in> set t \<and>
     (\<forall>s. g = Inr (OSecret s) \<and> \<not> deleting (sec_Meta s) \<longrightarrow> (\<exists>e. EvDelete (OSecret s) e \<in> set t)))"

lemma gone_mono:
  "podGone k t \<Longrightarrow> set t \<subseteq> set u \<Longrightarrow> podGone k u" "claimGoing k t \<Longrightarrow> set t \<subseteq> set u \<Longrightarrow> claimGoing k u"
  "keyAsked k t \<Longrightarrow> set t \<subseteq> set u \<Longrightarrow> keyAsked k u"
  unfolding podGone_def claimGoing_def keyAsked_def by blast+

definition releaseOrder :: "key \<Rightarrow> history \<Rightarrow> Event \<Rightarrow> bool" where
  "releaseOrder k t e \<longleftrightarrow> effect e \<noteq> EffRelease \<or> (\<exists>a b x. e = EvPatch (OSandbox a) (OSandbox b) x \<and> sbKey a = k \<and> deleting (sb_Meta a) \<and>
     podGone k t \<and> claimGoing k t \<and> keyAsked k t)"

lemma releaseOrder_stays: "stays (releaseOrder k)"
  unfolding stays_def releaseOrder_def by (metis (no_types, lifting) gone_mono set_append sup_ge2)

lemma noRelease_order: "does (UNIV - {EffRelease}) m \<Longrightarrow> keeps (releaseOrder k) m"
  by (rule keeps_emits, erule emits_mono) (simp add: releaseOrder_def)

lemma ord_noRelease: "list_all (\<lambda>e. effect e \<noteq> EffRelease) u \<Longrightarrow> ord (releaseOrder k) t u"
  by (rule ord_all) (auto simp: releaseOrder_def list_all_iff)

lemma asks [simp]: "asSecret x = Some s \<longleftrightarrow> x = OSecret s" "asClaim x = Some c \<longleftrightarrow> x = OClaim c"
  by (cases x; simp add: asSecret_def asClaim_def)+

lemma decode_objects [simp]:
  "decode asSecret (Inr (OSecret s)) = Inr s" "decode asClaim (Inr (OClaim c)) = Inr c" "decode asPod (Inr (OPod p)) = Inr p"
  by (simp_all add: decode_def asSecret_def asClaim_def asPod_def)

lemma teardownSessionCheckpoint_asks:
  "wp (teardownSessionCheckpoint r sb) (\<lambda>_ t. keyAsked (sbKey sb) t \<and> list_all (\<lambda>e. effect e \<noteq> EffRelease) t) h []"
proof -
  define chain where "chain = (case (st_Checkpoint (sb_Status sb), sr_Coordinator r) of
       (Some ck, Some c) \<Rightarrow> if ck_Ref ck \<noteq> '''' then deleteCheckpointChain c sb ck else ret () | _ \<Rightarrow> ret ())"
  have "does S chain" if "EffOther \<in> S" for S
    using that by (auto simp: chain_def intro!: emits split: option.split)
  from this [of "UNIV - {EffRelease}"] have quiet: "does (UNIV - {EffRelease}) chain" by simp
  show ?thesis unfolding teardownSessionCheckpoint_def chain_def [symmetric] GetSecret_def deleteIgnoreNotFound_def DeleteObj_def recordEvent_def
    by (intro wp wp_emits [OF quiet]) (auto simp: keyAsked_def sbKey_def list_all_iff)
qed

lemma deleted_iff [simp]:
  "(case e of None \<Rightarrow> None | Some err \<Rightarrow> if err = NotFound then None else Some (RecApi err)) = None \<longleftrightarrow> e = None \<or> e = Some NotFound"
  by (auto split: option.split)

lemma ord_release:
  assumes "list_all (\<lambda>e. effect e \<noteq> EffRelease) t" "sbKey a = k" "deleting (sb_Meta a)" "podGone k t" "claimGoing k t" "keyAsked k t"
  shows "ord (releaseOrder k) [] (t @ [EvPatch (OSandbox a) (OSandbox b) x])"
  using assms by (simp add: ord_noRelease) (simp add: releaseOrder_def)

lemma teardownWorkspace_order:
  assumes "deleting (sb_Meta sb)" "sbKey sb = k"
  shows "keeps (releaseOrder k) (teardownWorkspace r sb)"
proof -
  have k: "k = (sb_Namespace sb, sb_Name sb)" using assms(2) by (simp add: sbKey_def)
  note release = ord_release [OF _ assms(2,1)]
  show ?thesis unfolding keeps_def teardownWorkspace_def teardownClaim_def removeFinalizer_def metaPatch_def
    GetPod_def GetClaim_def deleteIgnoreNotFound_def DeleteObj_def PatchSandbox_def recordEvent_def
    apply (intro allI)
    apply (rule wp_spec [OF teardownSessionCheckpoint_asks])
    apply (intro wp)
    apply (rule release ord_noRelease; auto simp: k podGone_def claimGoing_def sbKey_def list_all_iff split: if_splits elim: gone_mono; fail)+
    done
qed

lemma GetSandbox_name:
  "\<forall>h x. e_Get env h KSandbox k = Inr (OSandbox x) \<longrightarrow> sbKey x = k \<Longrightarrow> yields (\<lambda>x. \<forall>s. x = Inr s \<longrightarrow> sbKey s = k) (GetSandbox env k)"
  unfolding GetSandbox_def
  by (rule yields_bind [OF yields_call [where Q = "\<lambda>x. \<forall>s. x = Inr (OSandbox s) \<longrightarrow> sbKey s = k"]])
     (cases k, auto intro!: yields_ret)

lemma handleWorkspaceFinalizer_order:
  assumes "sbKey sb = k"
  shows "keeps (releaseOrder k) (handleWorkspaceFinalizer r sb)"
proof -
  let ?b = "sb\<lparr>sb_Meta := (sb_Meta sb)\<lparr>om_Finalizers := om_Finalizers (sb_Meta sb) @ [workspaceFinalizer]\<rparr>\<rparr>"
  have "does (UNIV - {EffRelease}) (metaPatch r sb ?b)" by (intro emits) (simp_all add: releases_def)
  then have add: "keeps (releaseOrder k) (metaPatch r sb ?b)" by (rule noRelease_order)
  show ?thesis unfolding handleWorkspaceFinalizer_def Let_def
    by (intro keeps_if keeps_ret keeps_bind [OF releaseOrder_stays] keeps_prod teardownWorkspace_order add assms)
qed

lemma ReconcileSandbox_release:
  assumes "\<forall>h x. e_Get (sr_Env r) h KSandbox k = Inr (OSandbox x) \<longrightarrow> sbKey x = k"
  shows "keeps (releaseOrder k) (ReconcileSandbox r k)"
  unfolding ReconcileSandbox_def
  apply (rule keeps_then [OF releaseOrder_stays _ GetSandbox_name [OF assms]])
   apply (simp add: GetSandbox_def, intro noRelease_order emits, simp)
  apply (intro keeps_sum keeps_ret)
  apply (rule keeps_bind [OF releaseOrder_stays], simp add: handleWorkspaceFinalizer_order)
  apply (intro keeps_sum keeps_ret)
  apply (rule keeps_bind [OF releaseOrder_stays])
   apply (intro noRelease_order emits; simp)
  apply (intro keeps_option keeps_ret)
  by (intro noRelease_order emits; simp)

text \<open>
  C39. The end of a session. When the API server answers a read of a Sandbox with the Sandbox of that name, a pass
  drops the workspace finalizer only of the Sandbox that it was called for, when that Sandbox is being deleted, and
  after its Pod was not found, found going or deleted, its claim was not found or found going, and the Secret of its
  key was looked up and, when it was there, its deletion was asked for. So a Sandbox does not disappear while its
  machine or its workspace has no end in sight.
\<close>

theorem finalizer_after_teardown:
  assumes "\<forall>h x. e_Get (sr_Env r) h KSandbox k = Inr (OSandbox x) \<longrightarrow> sbKey x = k"
    and "snd (run_state (ReconcileSandbox r k) h) = h @ t1 @ EvPatch (OSandbox a) (OSandbox b) x # t2"
    and "workspaceFinalizer \<in> set (om_Finalizers (sb_Meta a))" "workspaceFinalizer \<notin> set (om_Finalizers (sb_Meta b))"
  shows "sbKey a = k \<and> deleting (sb_Meta a) \<and> podGone k t1 \<and> claimGoing k t1 \<and> keyAsked k t1"
  using keeps_run [OF ReconcileSandbox_release [OF assms(1)] assms(2)] assms(3,4)
  by (auto simp: releaseOrder_def releases_def)

text \<open>The Sandbox of the example cluster at its end, in a cluster where the deletion of a Secret answers \<open>e\<close>.\<close>

definition ex_ending :: Sandbox where
  "ex_ending = ex_box\<lparr>sb_Meta := (sb_Meta ex_box)\<lparr>om_Finalizers := [workspaceFinalizer], om_DeletionTimestamp := Some 5\<rparr>\<rparr>"

definition ex_ending_secret :: Secret where
  "ex_ending_secret = \<lparr>sec_Meta = zero_ObjectMeta\<lparr>om_Controller := ''u''\<rparr>, sec_Data = [''seed'' \<mapsto> ex_seed]\<rparr>"

definition ex_ending_rec :: "ApiError option \<Rightarrow> SandboxReconciler" where
  "ex_ending_rec e = (ex_reconciler ex_ending)\<lparr>sr_Env := (ex_world ex_ending)\<lparr>e_Delete := (\<lambda>_ x. case x of OSecret _ \<Rightarrow> e | _ \<Rightarrow> None)\<rparr>\<rparr>"

definition ex_ending_trace :: "ApiError option \<Rightarrow> history" where
  "ex_ending_trace e = [EvGet KSandbox (''ns'', ''box'') (Inr (OSandbox ex_ending)), EvGet KSecret (''ns'', ''box-session-kek'') (Inr (OSecret ex_ending_secret)),
     EvDelete (OSecret ex_ending_secret) e] @ (if e = None then [EvRecord ''Sandbox'' (''ns'', ''box'') ''Normal'' ''SessionKEKDeleted''] else [])
     @ [EvGet KPod (''ns'', ''box-vm'') (Inl NotFound), EvGet KClaim (''ns'', ''box-workspace'') (Inl NotFound)]"

lemma ex_ending_parts [simp]:
  "sb_Meta ex_ending = (sb_Meta ex_box)\<lparr>om_Finalizers := [workspaceFinalizer], om_DeletionTimestamp := Some 5\<rparr>" "sb_Status ex_ending = sb_Status ex_box"
  "sbKey ex_ending = (''ns'', ''box'')"
  by (simp_all add: ex_ending_def sbKey_def)

lemma ex_ending_env [simp]:
  "e_Get (sr_Env (ex_ending_rec e)) h = ex_reads ex_ending" "e_Patch (sr_Env (ex_ending_rec e)) h a b = Inr b"
  "e_Delete (sr_Env (ex_ending_rec e)) h (OSecret s) = e" "sr_Coordinator (ex_ending_rec e) = None"
  by (simp_all add: ex_ending_rec_def) (simp add: ex_reconciler_def)

lemma ex_ending_run:
  assumes "e = None \<or> e = Some (ApiOther ''forbidden'')"
  shows "\<exists>b. run_state (ReconcileSandbox (ex_ending_rec e) (''ns'', ''box'')) [] =
    ((0, None), ex_ending_trace e @ [EvPatch (OSandbox ex_ending) (OSandbox b) (Inr (OSandbox b))]) \<and> workspaceFinalizer \<notin> set (om_Finalizers (sb_Meta b))"
proof -
  have reads: "ex_reads ex_ending KSandbox (''ns'', ''box'') = Inr (OSandbox ex_ending)" "ex_reads ex_ending KSecret k = Inr (OSecret ex_ending_secret)"
    "ex_reads ex_ending KPod k = Inl NotFound" "ex_reads ex_ending KClaim k = Inl NotFound" for k
    by (simp_all add: ex_reads_def ex_ending_secret_def)
  have "\<not> deleting (sec_Meta ex_ending_secret)" by (simp add: ex_ending_secret_def zero_defs)
  then show ?thesis using assms
    by (auto simp: ReconcileSandbox_def handleWorkspaceFinalizer_def teardownWorkspace_def teardownSessionCheckpoint_def teardownClaim_def removeFinalizer_def
        metaPatch_def deleteIgnoreNotFound_def run_bind run_call call_defs reads ex_ending_trace_def WorkspacePVCName_def time_IsZero_def Let_def
        decode_def asSandbox_def asSecret_def)
qed

lemma ex_ending_names: "\<forall>h x. e_Get (sr_Env (ex_ending_rec e)) h KSandbox k = Inr (OSandbox x) \<longrightarrow> sbKey x = k"
  by (simp add: ex_ending_rec_def ex_world_def ex_cluster_def ex_reads_def split: if_splits)

theorem finalizer_after_teardown_witness:
  "\<exists>b. snd (run_state (ReconcileSandbox (ex_ending_rec None) (''ns'', ''box'')) []) =
      ex_ending_trace None @ [EvPatch (OSandbox ex_ending) (OSandbox b) (Inr (OSandbox b))] \<and>
    deleting (sb_Meta ex_ending) \<and> podGone (''ns'', ''box'') (ex_ending_trace None) \<and> claimGoing (''ns'', ''box'') (ex_ending_trace None) \<and>
    keyAsked (''ns'', ''box'') (ex_ending_trace None)"
proof -
  obtain b where b: "run_state (ReconcileSandbox (ex_ending_rec None) (''ns'', ''box'')) [] =
      ((0, None), ex_ending_trace None @ [EvPatch (OSandbox ex_ending) (OSandbox b) (Inr (OSandbox b))])"
    "workspaceFinalizer \<notin> set (om_Finalizers (sb_Meta b))"
    using ex_ending_run [of None] by auto
  then have "snd (run_state (ReconcileSandbox (ex_ending_rec None) (''ns'', ''box'')) []) =
      [] @ ex_ending_trace None @ EvPatch (OSandbox ex_ending) (OSandbox b) (Inr (OSandbox b)) # []" by simp
  from finalizer_after_teardown [OF ex_ending_names this _ b(2)] b(1) show ?thesis by auto
qed

text \<open>
  The key of a session can outlive its finalizer. The deletion of the Secret of the key may fail, and the
  pass still drops the finalizer and reports no error, although the comments say that the teardown deletes
  the key before it releases the finalizer. No later pass tries again; only the owner reference of the Secret
  is left to remove it.
\<close>

lemma key_outlives_session:
  "\<exists>r k t a b x s e. run_state (ReconcileSandbox r k) [] = ((0, None), t @ [EvPatch (OSandbox a) (OSandbox b) x]) \<and> sbKey a = k \<and>
     workspaceFinalizer \<in> set (om_Finalizers (sb_Meta a)) \<and> workspaceFinalizer \<notin> set (om_Finalizers (sb_Meta b)) \<and>
     EvGet KSecret (fst k, snd k @ ''-session-kek'') (Inr (OSecret s)) \<in> set t \<and> EvDelete (OSecret s) (Some e) \<in> set t \<and> e \<noteq> NotFound \<and>
     EvDelete (OSecret s) None \<notin> set t"
proof -
  let ?e = "Some (ApiOther ''forbidden'')"
  obtain b where b: "run_state (ReconcileSandbox (ex_ending_rec ?e) (''ns'', ''box'')) [] =
      ((0, None), ex_ending_trace ?e @ [EvPatch (OSandbox ex_ending) (OSandbox b) (Inr (OSandbox b))])"
    "workspaceFinalizer \<notin> set (om_Finalizers (sb_Meta b))"
    using ex_ending_run [of ?e] by auto
  then show ?thesis
    by (intro exI [of _ "ex_ending_rec ?e"] exI [of _ "(''ns'', ''box'')"] exI [of _ "ex_ending_trace ?e"] exI [of _ ex_ending] exI [of _ b]
        exI [of _ "Inr (OSandbox b)"] exI [of _ ex_ending_secret] exI [of _ "ApiOther ''forbidden''"]) (simp add: ex_ending_trace_def)
qed

text \<open>
  A Sandbox can leave a terminal phase. When the Snapshot that it was opened from is gone, a pass over the Sandbox
  patches its status to Pending, whatever its phase is, also after it completed or failed.
\<close>

lemma missing_snapshot_resets_phase:
  assumes "hasSnapshotRef sb" "e_Get (sr_Env r) h KSnapshot (sb_Namespace sb, ssr_Name (the (sp_SnapshotRef (sb_Spec sb)))) = Inl NotFound"
    and "st_Phase (sb_Status sb) \<noteq> SandboxPhasePending"
  shows "\<exists>t b a. snd (run_state (reconcilePod r sb cls) h) = h @ t \<and> EvStatusPatch (OSandbox sb) (OSandbox b) a \<in> set t \<and>
    st_Phase (sb_Status b) = SandboxPhasePending \<and> st_Reason (sb_Status b) = ''SnapshotUnavailable''"
  using assms
  by (simp add: reconcilePod_def resolveSnapshotRef_def patchPendingStatus_def patchReason_def statusPatch_def call_defs run_bind run_call
      decode_def Let_def split: sum.splits option.splits)

end
