(* ===== verification/Snapshot_Props.thy ===== *)
theory Snapshot_Props
  imports Teardown_Props
begin

text \<open>
  When a Snapshot ends: its data is erased, its finalizer is dropped and it expires only while nothing refers
  to it.
\<close>

abbreviation being_deleted :: "ObjectMeta \<Rightarrow> bool" where
  "being_deleted m \<equiv> (case om_DeletionTimestamp m of None \<Rightarrow> False | Some t \<Rightarrow> \<not> time_IsZero t)"

text \<open>
  The events that end a Snapshot: the call that erases its data, the update without its finalizer, and its
  deletion.
\<close>

abbreviation unprotected :: "Snapshot \<Rightarrow> bool" where
  "unprotected s \<equiv> SnapshotInUseFinalizer \<notin> set (om_Finalizers (sn_Meta s))"

fun ends :: "Event \<Rightarrow> bool" where
  "ends (EvDeleteSnapshot _ _ _) \<longleftrightarrow> True"
| "ends (EvUpdate (OSnapshot s) _) \<longleftrightarrow> unprotected s"
| "ends (EvDelete (OSnapshot s) _) \<longleftrightarrow> True"
| "ends _ \<longleftrightarrow> False"

text \<open>
  Nothing refers to the Snapshot: the two lists came back, every Sandbox that names the Snapshot has already
  loaded it, and there is no diff on it.
\<close>

definition unreferenced :: "key \<Rightarrow> history \<Rightarrow> bool" where
  "unreferenced k t \<longleftrightarrow> (\<exists>snap sbs diffs. EvGet KSnapshot k (Inr (OSnapshot snap)) \<in> set t \<and>
     EvList KSandbox (MatchingField (sn_Namespace snap) ''spec.snapshotRef.name'' (sn_Name snap)) (Inr sbs) \<in> set t \<and>
     (\<forall>sb. OSandbox sb \<in> set sbs \<longrightarrow> map_get (om_Annotations (sb_Meta sb)) RestoredAnnotation = sn_Name snap) \<and>
     EvList KSnapshot (MatchingField (sn_Namespace snap) ''spec.parent'' (sn_Name snap)) (Inr diffs) \<in> set t \<and> (\<forall>s. OSnapshot s \<notin> set diffs))"

text \<open>The Snapshot is being deleted: the server answered the read, or the patch of the reference count, with a deletion time.\<close>

definition dying :: "key \<Rightarrow> history \<Rightarrow> bool" where
  "dying k t \<longleftrightarrow> (\<exists>x. being_deleted (sn_Meta x) \<and>
     (EvGet KSnapshot k (Inr (OSnapshot x)) \<in> set t \<or> (\<exists>a b. EvStatusPatch a b (Inr (OSnapshot x)) \<in> set t)))"

text \<open>The data of a Snapshot is gone: there is none, its node is gone, or the node agent has erased it.\<close>

definition erased :: "Snapshot \<Rightarrow> history \<Rightarrow> bool" where
  "erased s t \<longleftrightarrow> ns_StorageRef (sn_Spec s) = '''' \<or> EvGet KNode ('''', ns_Node (sn_Spec s)) (Inl NotFound) \<in> set t \<or>
     (\<exists>q a. EvDeleteSnapshot (ns_Node (sn_Spec s)) q (Inr a) \<in> set t \<and> dsr_StorageRef q = ns_StorageRef (sn_Spec s) \<and> pr_Success a)"

text \<open>The age of a Snapshot that is not pinned has reached its time to live.\<close>

definition expired :: "Snapshot \<Rightarrow> history \<Rightarrow> bool" where
  "expired s t \<longleftrightarrow> \<not> ns_Pinned (sn_Spec s) \<and>
     (\<exists>ttl now. ns_TTL (sn_Spec s) = Some ttl \<and> 0 < ttl \<and> EvNow now \<in> set t \<and> ttl \<le> time_Sub now (om_CreationTimestamp (sn_Meta s)))"

fun endReason :: "SnapshotReconciler \<Rightarrow> key \<Rightarrow> history \<Rightarrow> Event \<Rightarrow> bool" where
  "endReason r k t (EvDeleteSnapshot _ _ _) \<longleftrightarrow> dying k t"
| "endReason r k t (EvUpdate (OSnapshot s) _) \<longleftrightarrow> dying k t \<and> (nr_Coordinator r \<noteq> None \<longrightarrow> erased s t)"
| "endReason r k t (EvDelete (OSnapshot s) _) \<longleftrightarrow> expired s t"
| "endReason r k t _ \<longleftrightarrow> True"

definition endOrder :: "SnapshotReconciler \<Rightarrow> key \<Rightarrow> history \<Rightarrow> Event \<Rightarrow> bool" where
  "endOrder r k t e \<longleftrightarrow> (ends e \<longrightarrow> unreferenced k t \<and> endReason r k t e)"

lemma unreferenced_mono: "unreferenced k t \<Longrightarrow> set t \<subseteq> set u \<Longrightarrow> unreferenced k u"
  unfolding unreferenced_def by blast

lemma dying_mono: "dying k t \<Longrightarrow> set t \<subseteq> set u \<Longrightarrow> dying k u"
  unfolding dying_def by blast

lemma unreferenced_append [simp]: "unreferenced k u \<Longrightarrow> unreferenced k (u @ v)"
  by (erule unreferenced_mono) simp

lemma unreferenced_later [simp]: "unreferenced k (e # u) \<Longrightarrow> unreferenced k (e # u @ v)"
  by (erule unreferenced_mono) auto

lemma dying_append [simp]: "dying k u \<Longrightarrow> dying k (u @ v)"
  by (erule dying_mono) simp

lemma endOrder_quiet: "list_all (\<lambda>e. \<not> ends e) u \<Longrightarrow> ord (endOrder r k) t u"
  by (induction u arbitrary: t) (auto simp: endOrder_def)

lemma map_filter_member: "x \<in> set (List.map_filter f xs) \<longleftrightarrow> (\<exists>y\<in>set xs. f y = Some x)"
  by (force simp: List.map_filter_def)

lemma unreferenced_intro:
  assumes "int (length (filter (\<lambda>sb. map_get (om_Annotations (sb_Meta sb)) RestoredAnnotation \<noteq> sn_Name snap) (List.map_filter asSandbox xs))) +
    int (length (List.map_filter asSnapshot ys)) = 0"
  shows "unreferenced k [EvGet KSnapshot k (Inr (OSnapshot snap)),
    EvList KSandbox (MatchingField (sn_Namespace snap) ''spec.snapshotRef.name'' (sn_Name snap)) (Inr xs),
    EvList KSnapshot (MatchingField (sn_Namespace snap) ''spec.parent'' (sn_Name snap)) (Inr ys)]"
proof -
  have "length (filter (\<lambda>sb. map_get (om_Annotations (sb_Meta sb)) RestoredAnnotation \<noteq> sn_Name snap) (List.map_filter asSandbox xs)) = 0"
    "length (List.map_filter asSnapshot ys) = 0"
    using assms by linarith+
  then have "\<forall>sb. OSandbox sb \<in> set xs \<longrightarrow> map_get (om_Annotations (sb_Meta sb)) RestoredAnnotation = sn_Name snap"
    "\<forall>s. OSnapshot s \<notin> set ys"
    using map_filter_member [of _ asSandbox xs] map_filter_member [of _ asSnapshot ys] by (fastforce simp: filter_empty_conv)+
  then show ?thesis by (fastforce simp: unreferenced_def)
qed

lemma referenceCount_zero:
  "wp (referenceCount r snap) (\<lambda>x t. (\<forall>n. x = Inr n \<longrightarrow> 0 \<le> n \<and> (n = 0 \<longrightarrow> unreferenced k (EvGet KSnapshot k (Inr (OSnapshot snap)) # t))) \<and>
     list_all (\<lambda>e. \<not> ends e) t) h []"
  unfolding referenceCount_def ListObjs_def
  by (intro wp) (auto simp: unreferenced_intro split: sum.splits)

lemma markSnapshot_spec:
  "wp (markSnapshot r snap f) (\<lambda>x t. (fst x = None \<longrightarrow> (\<exists>a b. EvStatusPatch a b (Inr (OSnapshot (snd x))) \<in> set t)) \<and> list_all (\<lambda>e. \<not> ends e) t) h []"
  unfolding markSnapshot_def timeNow_def StatusPatchSnapshot_def Let_def
  by (intro wp) (auto split: sum.splits)

text \<open>Erasing: every answer of the coordinator, then the update without the finalizer.\<close>

lemma DeleteSnapshot_spec:
  "unreferenced k u \<Longrightarrow> dying k u \<Longrightarrow>
   wp (DeleteSnapshot c snap) (\<lambda>x t. (x = None \<longrightarrow> erased snap t) \<and> ord (endOrder r k) u t) h []"
  unfolding DeleteSnapshot_def nodeGone_def GetNode_def Dial_def rpcDeleteSnapshot_def recordEvent_def Let_def
  by (intro wp) (auto simp: erased_def endOrder_def decode_Inl rpcFailure_def split: sum.splits ApiError.splits if_splits)

lemma erased_more [simp]: "erased s t \<Longrightarrow> erased s (u @ t)"
  by (auto simp: erased_def)

lemma erased_finalizers [simp]: "erased (s\<lparr>sn_Meta := m\<rparr>) t = erased s t"
  by (simp add: erased_def)

lemma eraseSnapshot_order:
  assumes "unreferenced k u" "dying k u" "ord (endOrder r k) [] u"
  shows "wp (eraseSnapshot r snap) (\<lambda>_ t. ord (endOrder r k) [] t) h u"
  unfolding eraseSnapshot_def UpdateSnapshot_def recordEvent_def
  using assms by (intro wp wp_frame [OF DeleteSnapshot_spec [where r = r]]) (auto simp: endOrder_def)

lemma finalizeSnapshot_order:
  assumes "n = 0 \<Longrightarrow> unreferenced k u" "0 \<le> n" "dying k u" "list_all (\<lambda>e. \<not> ends e) u"
  shows "wp (finalizeSnapshot r snap n) (\<lambda>_ t. ord (endOrder r k) [] t) h u"
  unfolding finalizeSnapshot_def
  using assms by (intro wp wp_frame [OF markSnapshot_spec] eraseSnapshot_order) (auto intro: endOrder_quiet)

lemma keepSnapshot_order:
  assumes "n = 0 \<Longrightarrow> unreferenced k u" "list_all (\<lambda>e. \<not> ends e) u"
  shows "wp (keepSnapshot r snap n) (\<lambda>_ t. ord (endOrder r k) [] t) h u"
  unfolding keepSnapshot_def UpdateSnapshot_def timeNow_def DeleteObj_def Let_def
  using assms by (intro wp) (auto intro: endOrder_quiet simp: endOrder_def expired_def)

lemma ReconcileSnapshot_order: "wp (ReconcileSnapshot r k) (\<lambda>_ t. ord (endOrder r k) [] t) h []"
  unfolding ReconcileSnapshot_def GetSnapshot_def Let_def
  by (intro wp wp_frame [OF referenceCount_zero [where k = k]] wp_frame [OF markSnapshot_spec] finalizeSnapshot_order keepSnapshot_order)
     (auto intro!: endOrder_quiet simp: dying_def endOrder_def [of r k "[]" "EvGet _ _ _"])

text \<open>
  C40. A Snapshot ends only while nothing refers to it. In every pass of its reconciler, for every behaviour of
  the API server and the node agent, the call that erases its data, the update that drops its finalizer and its
  deletion come after the two lists that show it unreferenced: every Sandbox that names it has loaded it, and no
  Snapshot is a diff on it. Erasing and dropping the finalizer come after an answer of the server that shows the
  Snapshot being deleted; with a coordinator the finalizer is dropped only after the data is gone: there is
  none, its node is gone, or the node agent has erased it. The reconciler deletes a Snapshot only when it is not
  pinned and its time to live has passed.
\<close>

theorem snapshot_ends_unreferenced:
  assumes "snd (run_state (ReconcileSnapshot r k) h) = h @ t1 @ e # t2" and "ends e"
  shows "unreferenced k t1 \<and> endReason r k t1 e"
proof -
  have "ord (endOrder r k) [] (t1 @ e # t2)"
    using ReconcileSnapshot_order [of r k h] assms(1) by (auto simp: wp_run)
  then show ?thesis using assms(2) by (simp add: endOrder_def)
qed

text \<open>A Snapshot that is being deleted and that nothing refers to: its data is erased on its node, then its finalizer goes.\<close>

definition ex_dying :: Snapshot where
  "ex_dying = zero_Snapshot\<lparr>sn_Meta := zero_ObjectMeta\<lparr>om_Name := ''snap'', om_Namespace := ''ns'', om_DeletionTimestamp := Some 5,
       om_Finalizers := [SnapshotInUseFinalizer]\<rparr>,
     sn_Spec := zero_SnapshotSpec\<lparr>ns_StorageRef := ''ref'', ns_Node := ''node''\<rparr>,
     sn_Status := (sn_Status zero_Snapshot)\<lparr>nst_Phase := SnapshotPhaseTerminating\<rparr>\<rparr>"

definition ex_eraser :: SnapshotReconciler where
  "ex_eraser = \<lparr>nr_Env = ex_cluster\<lparr>e_Get := (\<lambda>_ _ _. Inr (OSnapshot ex_dying))\<rparr>,
     nr_Recorder = False, nr_Coordinator = Some (ex_coordinator\<lparr>co_HasClient := False\<rparr>)\<rparr>"

lemma ex_eraser_run:
  "\<exists>t1 a. snd (run_state (ReconcileSnapshot ex_eraser (''ns'', ''snap'')) []) =
     [] @ t1 @ EvUpdate (OSnapshot (ex_dying\<lparr>sn_Meta := (sn_Meta ex_dying)\<lparr>om_Finalizers := []\<rparr>\<rparr>)) a # [] \<and> length t1 = 5"
  by (simp add: ReconcileSnapshot_def referenceCount_def finalizeSnapshot_def eraseSnapshot_def DeleteSnapshot_def nodeGone_def rpcFailure_def
      run_defs ex_eraser_def ex_dying_def ex_coordinator_def ex_cluster_def zero_defs time_IsZero_def Let_def)

theorem snapshot_ends_unreferenced_witness:
  "\<exists>t1 a. snd (run_state (ReconcileSnapshot ex_eraser (''ns'', ''snap'')) []) =
     t1 @ [EvUpdate (OSnapshot (ex_dying\<lparr>sn_Meta := (sn_Meta ex_dying)\<lparr>om_Finalizers := []\<rparr>\<rparr>)) a] \<and>
     unreferenced (''ns'', ''snap'') t1 \<and> dying (''ns'', ''snap'') t1 \<and> erased ex_dying t1"
proof -
  obtain t1 a where run: "snd (run_state (ReconcileSnapshot ex_eraser (''ns'', ''snap'')) []) =
     [] @ t1 @ EvUpdate (OSnapshot (ex_dying\<lparr>sn_Meta := (sn_Meta ex_dying)\<lparr>om_Finalizers := []\<rparr>\<rparr>)) a # []"
    using ex_eraser_run by blast
  from snapshot_ends_unreferenced [OF this]
  have "unreferenced (''ns'', ''snap'') t1 \<and> dying (''ns'', ''snap'') t1 \<and> erased ex_dying t1"
    by (simp add: ex_eraser_def)
  with run show ?thesis by (intro exI [of _ t1] exI [of _ a]) simp
qed

end
