(* ===== verification/Spec2Isabelle.thy ===== *)
theory Spec2Isabelle
  imports Status Netpol_Resolver Netpol_Policy Webhook Guest_Channel Encrypted_Store Sandbox_Token Diskbuilder Podspec Snapshot_Props
begin

text \<open>
  A verification development of setec, a Kubernetes operator that runs untrusted workloads in
  Firecracker microVMs.

  \<^bold>\<open>The program.\<close> A user creates a Sandbox, which names an image, its resources, its network and
  its lifecycle, and may name a SandboxClass with the limits of the platform. Admission webhooks check
  both. The operator reconciles each Sandbox: it binds the class, writes a network policy for the
  namespace and the Sandbox, has the disk of the image built and signed by a Job, and creates a launcher
  Pod that runs one machine. From the Pod it derives the status. A coordinator asks the node agent of
  the Pod to pause, to resume, to store the state of the machine and to load it again; the invariant
  gate decides whether a loaded machine may be handed over. A session is a long-lived Sandbox with a
  workspace claim, a key and checkpoints; a warm pool keeps base snapshots of the images of a class. The
  node agent stores states encrypted, reseeds the entropy of a loaded machine and gives it a new
  identity over two channels to the guest. The launcher signs identity tokens for its Sandbox.

  \<^bold>\<open>How code becomes definitions.\<close> Each Go function is one HOL function with the name that it has in
  the source; a method is a function of its receiver; a struct is a record, with a short prefix for its
  fields; a pointer or an optional value is an \<open>option\<close>; an error return is a sum or an \<open>option\<close>
  over an error datatype, so that every early return is a branch. A loop is a recursive function, named
  after its function (\<open>exceptLoop\<close> is the loop of \<open>exceptFor\<close>). Code that is not in the repository
  (the API server, the node agents, cryptography, JSON, DNS) is an argument. The Go standard library that
  decides something is modelled: \<open>net/netip\<close> with its text forms, \<open>io\<close> and \<open>bufio\<close>, SHA-256,
  hexadecimal and decimal text, path cleaning.

  \<^bold>\<open>Pure components.\<close>
  \<^item> \<open>Prelude\<close>, \<open>Go_IO\<close>, \<open>Go_Text\<close>, \<open>Sha256\<close>: the Go values, readers and writers, strings.
  \<^item> \<open>Api_Types\<close> (\<open>api/v1alpha1\<close>), \<open>Kube_Types\<close>: the custom resources, and the part of
    Pods and Nodes that the code reads.
  \<^item> \<open>Status\<close> (\<open>internal/status\<close>): \<open>Derive\<close>, \<open>ApplySessionIdlePolicy\<close>,
    \<open>ApplyPausePolicy\<close>. Shown: a terminal status never changes under them, a session ends only by a
    policy, the transition time moves with the phase, and the timeout is enforced outside three named
    states.
  \<^item> \<open>Netip\<close>, \<open>Netip_Text\<close>: addresses and prefixes of \<open>net/netip\<close>, with the round trip of
    printing and parsing prefixes (locale \<open>text_codec\<close>).
  \<^item> \<open>Netpol\<close>, \<open>Netpol_Policy\<close> (\<open>internal/netpol/generator.go\<close>, \<open>baseline.go\<close>):
    \<open>generate\<close> and all that it calls. \<open>policy_permits\<close> gives a policy its meaning. Shown: what each
    mode permits, that exemption is set difference, and two spellings of addresses that escape the
    reserved ranges. \<open>dns_reach\<close> is the reach of the DNS rule, \<open>resolvers_plain\<close> says that no
    configured resolver uses one of these spellings, \<open>entry_rule\<close> what a declared entry allows: these
    three are specifications.
  \<^item> \<open>Netpol_Resolver\<close> (\<open>internal/netpol/resolver.go\<close>): the cache with its freshness and grace
    windows, a \<open>host_resolver\<close> for the generator.
  \<^item> \<open>Sandbox_Class\<close>, \<open>Snapshot_Validator\<close>, \<open>Webhook\<close> (\<open>internal/class\<close>,
    \<open>limits\<close>, \<open>tenancy\<close>, \<open>runtime\<close>, \<open>snapshot/validator.go\<close>, \<open>webhook\<close>): the three
    validators. Shown: what is admitted, exactly; that the pin limit is exact below the overflow and lost
    above it; and when the policy of an admitted class can still not be generated.
  \<^item> \<open>Guest_Channel\<close> (\<open>internal/entropy\<close>, \<open>uniquify\<close>, \<open>guestagent/protocol.go\<close>): the
    frames (locale \<open>frame_codec\<close>, five interpretations) and both ends of the two channels.
  \<^item> \<open>Atrest\<close>, \<open>Storage\<close>, \<open>Storage_Props\<close>, \<open>Encrypted_Store\<close>
    (\<open>internal/snapshot/atrest\<close>, \<open>storage\<close>): the chunked cipher stream, a file system with faults,
    the local disk, the directory of sealed keys and the encrypting backend. The locales
    \<open>blob_store\<close>, \<open>key_store\<close> and \<open>encrypted_store\<close> hold the contracts; the local disk and the
    key directory are their interpretations, and the local disk refines a map from ids to contents.
  \<^item> \<open>Sandbox_Token\<close>, \<open>Diskbuilder\<close>, \<open>Podspec\<close> (\<open>internal/sandboxid\<close>,
    \<open>launcher/identity.go\<close>, \<open>diskbuilder\<close>, \<open>podspec\<close>, \<open>launcher/spec.go\<close>): tokens, signed
    disks, the launcher Pod and the spec of its machine.

  \<^bold>\<open>Components that call the cluster.\<close>
  \<^item> \<open>World\<close>: an \<open>Env\<close> answers every call, from the whole history of calls; so a theorem for all
    \<open>Env\<close> holds for every interleaving with other actors. An operation is a program of the state
    monad over the history, and each call appends one event. The rules \<open>wp\<close> follow a program.
  \<^item> \<open>Gate\<close>, \<open>Coordinator\<close>, \<open>Coordinator_Props\<close> (\<open>internal/snapshot/gate\<close>,
    \<open>coordinator.go\<close>, \<open>base.go\<close>, \<open>session.go\<close>, \<open>kept.go\<close>). Shown: no restore passes the gate
    unverified, Ready means recorded, and when the search for the key of a tenant ends.
  \<^item> \<open>Launcher_Disk\<close>, \<open>Sandbox_Reconciler\<close>, \<open>Session_Checkpoint\<close>, \<open>Warm_Pool\<close>,
    \<open>Reconcile\<close>, \<open>Snapshot_Reconciler\<close> (\<open>internal/controller\<close>): one whole pass of each
    reconciler (\<open>ReconcileSandbox\<close>, \<open>ReconcileSnapshot\<close>, \<open>ReconcilePool\<close>,
    \<open>ReconcileClass\<close>), in the order of the source.
  \<^item> \<open>Effects\<close>, \<open>Example_Cluster\<close>, \<open>Reconcile_Props\<close>, \<open>Teardown_Props\<close>,
    \<open>Snapshot_Props\<close>: which events an operation can cause, and what happened before three of them: no
    Pod before its policy, no release of a session before its teardown, no end of a Snapshot that is
    referred to.

  \<^bold>\<open>Bounds.\<close> All functions but one are total by structural recursion or a measure. \<open>TenantKEK\<close> calls
    itself again when another writer was first, with no limit; the model follows it for \<open>co_Rounds\<close>
    rounds and then returns \<open>CoordNoAnswer\<close>, which the code never does. \<open>tenant_key_rounds\<close> shows
    for every number of rounds when that is not reached. \<open>sr_RetrySteps\<close> and \<open>wr_RetrySteps\<close> are
    the steps of \<open>retry.DefaultRetry\<close>, a constant of client-go; the theorems hold for every value.

  \<^bold>\<open>Idealisations.\<close>
  \<^item> A quantity is an integer of nano units without a bound; \<open>quantity_Value\<close> rounds up and does not
    cut off at the end of \<open>int64\<close>.
  \<^item> Times are integers of nanoseconds; the difference of two times saturates as in Go.
  \<^item> The fill threshold of the local disk is compared with rational numbers, not floating point.
  \<^item> The file system is a list of nodes with a list of faults: a call takes the next entry and fails
    when it is a fault; a failed \<open>RemoveAll\<close> leaves any part of the files. Crashes between calls and the cache
    of the disk are not modelled.
  \<^item> \<open>json.Marshal\<close> and \<open>json.Unmarshal\<close> are parameters; the hypothesis \<open>json_reads_back\<close> says
    that what is written reads back, which holds of \<open>encoding/json\<close> for strings of valid UTF-8.
  \<^item> \<open>loadState\<close> models the load step that the two restore functions share in shape.
  \<^item> Message texts, log lines, metrics and traces are left out where no decision reads them.
  \<^item> Each operation is one sequence of calls; goroutines and locks inside a process are not modelled.

  \<^bold>\<open>Not modelled.\<close> The frontend service, the server of the node agent and its dialer, the S3
  backend, the secret scan, the run loop of the launcher and the guest agent (processes, sockets, mounts,
  Firecracker), the transport credentials, the device plugin, the check of image signatures (a library),
  metrics and tracing, and generated code.
\<close>

end
